(* ===== verification/GoStrings.thy ===== *)
theory GoStrings
  imports Prelude
begin

text \<open>
  The functions of Go's packages \<open>strings\<close>, \<open>strconv\<close> and \<open>unicode/utf8\<close> the program calls.
  A Go string is a sequence of bytes, and so is an Isabelle \<^typ>\<open>string\<close>; text beyond ASCII is
  its UTF-8 encoding. \<open>TrimSpace\<close>, \<open>Split\<close>, \<open>Join\<close>, \<open>TrimRight\<close>, \<open>TrimPrefix\<close>, \<open>Atoi\<close> and \<open>Itoa\<close>
  are exact on every byte sequence, and so is the conversion to runes. \<open>ToLower\<close> is exact up to
  letters outside ASCII whose lower case is outside ASCII too, which it leaves as they are: the
  code compares its result with ASCII names and searches it for ASCII patterns only.
\<close>

section \<open>White space\<close>

text \<open>\<open>unicode.IsSpace\<close>, as the UTF-8 encodings of the runes it accepts. A rune is decoded at the
  front (or the back) of a string exactly when the bytes there are its encoding.\<close>

definition space_encodings :: "string list" where
  "space_encodings =
     [[CHR 0x20], [CHR 0x09], [CHR 0x0A], [CHR 0x0B], [CHR 0x0C], [CHR 0x0D],
      [CHR 0xC2, CHR 0x85], [CHR 0xC2, CHR 0xA0], [CHR 0xE1, CHR 0x9A, CHR 0x80],
      [CHR 0xE2, CHR 0x80, CHR 0x80], [CHR 0xE2, CHR 0x80, CHR 0x81], [CHR 0xE2, CHR 0x80, CHR 0x82],
      [CHR 0xE2, CHR 0x80, CHR 0x83], [CHR 0xE2, CHR 0x80, CHR 0x84], [CHR 0xE2, CHR 0x80, CHR 0x85],
      [CHR 0xE2, CHR 0x80, CHR 0x86], [CHR 0xE2, CHR 0x80, CHR 0x87], [CHR 0xE2, CHR 0x80, CHR 0x88],
      [CHR 0xE2, CHR 0x80, CHR 0x89], [CHR 0xE2, CHR 0x80, CHR 0x8A], [CHR 0xE2, CHR 0x80, CHR 0xA8],
      [CHR 0xE2, CHR 0x80, CHR 0xA9], [CHR 0xE2, CHR 0x80, CHR 0xAF], [CHR 0xE2, CHR 0x81, CHR 0x9F],
      [CHR 0xE3, CHR 0x80, CHR 0x80]]"

definition front_match :: "string list \<Rightarrow> string \<Rightarrow> string option" where
  "front_match encs s = find (\<lambda>e. e \<noteq> [] \<and> prefix e s) encs"

lemma front_match_Some: "front_match encs s = Some e \<Longrightarrow> e \<in> set encs \<and> e \<noteq> [] \<and> prefix e s"
  by (auto simp: front_match_def dest: find_Some_in)

lemma front_match_None: "front_match encs s = None \<longleftrightarrow> (\<forall>e \<in> set encs. e = [] \<or> \<not> prefix e s)"
  by (auto simp: front_match_def find_None_iff)

function trim_front :: "string list \<Rightarrow> string \<Rightarrow> string" where
  "trim_front encs s =
     (case front_match encs s of None \<Rightarrow> s | Some e \<Rightarrow> trim_front encs (drop (length e) s))"
  by pat_completeness auto
termination
  by (relation "measure (\<lambda>(encs, s). length s)")
     (auto dest!: front_match_Some simp: prefix_def)

declare trim_front.simps [simp del]

definition TrimSpace :: "string \<Rightarrow> string" where
  "TrimSpace s = rev (trim_front (map rev space_encodings) (rev (trim_front space_encodings s)))"

abbreviation blank :: "string \<Rightarrow> bool" where
  "blank s \<equiv> TrimSpace s = []"

lemma trim_front_stable: "front_match encs (trim_front encs s) = None"
  by (induction encs s rule: trim_front.induct)
     (subst trim_front.simps, auto split: option.splits)

lemma trim_front_id: "front_match encs s = None \<Longrightarrow> trim_front encs s = s"
  by (subst trim_front.simps) simp

lemma trim_front_suffix: "suffix (trim_front encs s) s"
proof (induction encs s rule: trim_front.induct)
  case (1 encs s)
  show ?case
    by (subst trim_front.simps)
       (auto split: option.splits intro: suffix_order.trans [OF "1.IH"] suffix_drop)
qed

lemma TrimSpace_sublist: "sublist (TrimSpace s) s"
proof -
  have "suffix (rev (TrimSpace s)) (rev (trim_front space_encodings s))"
    unfolding TrimSpace_def rev_rev_ident by (rule trim_front_suffix)
  then have "prefix (TrimSpace s) (trim_front space_encodings s)"
    by (simp add: suffix_to_prefix)
  then have "sublist (TrimSpace s) (trim_front space_encodings s)" by blast
  also have "sublist \<dots> s" using trim_front_suffix by blast
  finally show ?thesis .
qed

lemma TrimSpace_subset: "set (TrimSpace s) \<subseteq> set s"
  using TrimSpace_sublist [of s] by (rule set_mono_sublist)

lemma TrimSpace_Nil [simp, go_string]: "TrimSpace [] = []"
  using TrimSpace_sublist [of "[]"] by simp

theorem TrimSpace_idem [simp, go_string]: "TrimSpace (TrimSpace s) = TrimSpace s"
proof -
  let ?t = "trim_front space_encodings s"
  have "prefix (TrimSpace s) ?t"
    using trim_front_suffix [of "map rev space_encodings" "rev ?t"]
    by (simp add: TrimSpace_def suffix_to_prefix)
  then have "front_match space_encodings (TrimSpace s) = None"
    using trim_front_stable [of space_encodings s] prefix_order.trans
    by (fastforce simp: front_match_None)
  then have front: "trim_front space_encodings (TrimSpace s) = TrimSpace s"
    by (rule trim_front_id)
  have "front_match (map rev space_encodings) (rev (TrimSpace s)) = None"
    by (simp add: TrimSpace_def trim_front_stable)
  then show ?thesis
    unfolding TrimSpace_def [of "TrimSpace s"] front by (simp add: trim_front_id)
qed

section \<open>Splitting and joining\<close>

text \<open>\<open>strings.Split(s, c)\<close> for a one-byte separator: an empty string splits into one empty part.\<close>

fun Split :: "char \<Rightarrow> string \<Rightarrow> string list" where
  "Split c [] = [[]]"
| "Split c (x # xs) =
     (if x = c then [] # Split c xs
      else (case Split c xs of [] \<Rightarrow> [[x]] | p # ps \<Rightarrow> (x # p) # ps))"

fun Join :: "string list \<Rightarrow> string \<Rightarrow> string" where
  "Join [] sep = []"
| "Join [x] sep = x"
| "Join (x # y # ys) sep = x @ sep @ Join (y # ys) sep"

lemma Split_nonempty [simp]: "Split c s \<noteq> []"
  by (induction s) (auto split: list.splits)

lemma Split_no_sep: "c \<notin> set s \<Longrightarrow> Split c s = [s]"
  by (induction s) auto

lemma Split_parts: "p \<in> set (Split c s) \<Longrightarrow> c \<notin> set p"
proof (induction s arbitrary: p)
  case Nil
  then show ?case by simp
next
  case (Cons x s)
  then show ?case by (cases "Split c s") (auto split: if_splits)
qed

lemma Split_append_sep: "Split c (a @ c # b) = Split c a @ Split c b"
proof (induction a)
  case Nil
  then show ?case by simp
next
  case (Cons x a)
  then show ?case by (cases "Split c a") auto
qed

lemma Split_Join: "ps \<noteq> [] \<Longrightarrow> Split c (Join ps [c]) = concat (map (Split c) ps)"
proof (induction ps "[c]" rule: Join.induct)
  case (3 x y ys)
  then show ?case using Split_append_sep [of c x "Join (y # ys) [c]"] by simp
qed auto

section \<open>Prefixes, suffixes, case\<close>

definition TrimPrefix :: "string \<Rightarrow> string \<Rightarrow> string" where
  "TrimPrefix s p = (if prefix p s then drop (length p) s else s)"

definition TrimRight :: "string \<Rightarrow> char \<Rightarrow> string" where
  "TrimRight s c = rev (dropWhile (\<lambda>x. x = c) (rev s))"

lemma TrimRight_last: "TrimRight s c \<noteq> [] \<Longrightarrow> last (TrimRight s c) \<noteq> c"
  using hd_dropWhile [of "\<lambda>x. x = c" "rev s"] by (auto simp: TrimRight_def last_rev)

definition ascii_lower :: "char \<Rightarrow> char" where
  "ascii_lower c = (if 65 \<le> (of_char c :: nat) \<and> (of_char c :: nat) \<le> 90 then char_of (of_char c + 32 :: nat) else c)"

text \<open>The two letters outside ASCII with a lower case in ASCII are the Kelvin sign (\<open>E2 84 AA\<close>,
  lower case \<open>k\<close>) and the dotted capital I (\<open>C4 B0\<close>, which \<open>unicode.ToLower\<close> maps to \<open>i\<close>).\<close>

function ToLower :: "string \<Rightarrow> string" where
  "ToLower s =
     (if s = [] then []
      else if prefix [CHR 0xE2, CHR 0x84, CHR 0xAA] s then CHR ''k'' # ToLower (drop 3 s)
      else if prefix [CHR 0xC4, CHR 0xB0] s then CHR ''i'' # ToLower (drop 2 s)
      else ascii_lower (hd s) # ToLower (tl s))"
  by pat_completeness auto
termination
  by (relation "measure length") auto

declare ToLower.simps [simp del]

section \<open>Decimal numbers\<close>

definition digit_char :: "nat \<Rightarrow> char" where
  "digit_char d = char_of (48 + d)"

fun Utoa :: "nat \<Rightarrow> string" where
  "Utoa n = (if n < 10 then [digit_char n] else Utoa (n div 10) @ [digit_char (n mod 10)])"

declare Utoa.simps [simp del]

text \<open>\<open>strconv.Itoa\<close>, \<open>strconv.FormatInt(_, 10)\<close> and \<open>%d\<close>.\<close>

definition Itoa :: "int \<Rightarrow> string" where
  "Itoa i = (if i < 0 then CHR ''-'' # Utoa (nat (- i)) else Utoa (nat i))"

definition is_digit :: "char \<Rightarrow> bool" where
  "is_digit c \<longleftrightarrow> 48 \<le> (of_char c :: nat) \<and> (of_char c :: nat) \<le> 57"

definition digits_value :: "string \<Rightarrow> nat" where
  "digits_value s = foldl (\<lambda>n c. 10 * n + (of_char c - 48)) 0 s"

text \<open>\<open>strconv.Atoi\<close> and \<open>strconv.ParseInt(_, 10, 64)\<close>: \<open>None\<close> for a syntax or a range error.\<close>

definition Atoi :: "string \<Rightarrow> int option" where
  "Atoi s =
     (let neg = prefix ''-'' s; ds = (if neg \<or> prefix ''+'' s then tl s else s)
      in if ds = [] \<or> \<not> list_all is_digit ds then None
         else (let v = (if neg then - int (digits_value ds) else int (digits_value ds))
               in if int64_range v then Some v else None))"

lemma digit_char_simps: "d < 10 \<Longrightarrow> of_char (digit_char d) = 48 + d" for d :: nat
  by (simp add: digit_char_def)

lemma is_digit_digit_char [simp]: "d < 10 \<Longrightarrow> is_digit (digit_char d)"
  by (simp add: is_digit_def digit_char_simps)

lemma Utoa_digits: "Utoa n \<noteq> [] \<and> list_all is_digit (Utoa n)"
  by (induction n rule: Utoa.induct) (subst Utoa.simps, auto)+

lemma digits_value_Utoa: "digits_value (Utoa n) = n"
proof (induction n rule: Utoa.induct)
  case (1 n)
  then show ?case
    by (subst Utoa.simps) (auto simp: digits_value_def digit_char_simps)
qed

lemma Utoa_first: "prefix [c] (Utoa n) \<Longrightarrow> is_digit c"
  using Utoa_digits [of n] by (cases "Utoa n") auto

lemma Utoa_unsigned [simp]: "\<not> prefix ''-'' (Utoa n)" "\<not> prefix ''+'' (Utoa n)"
  by (auto dest!: Utoa_first simp: is_digit_def)

theorem Atoi_Itoa [simp, go_string]: "int64_range i \<Longrightarrow> Atoi (Itoa i) = Some i"
  using Utoa_digits [of "nat i"] Utoa_digits [of "nat (- i)"]
  by (auto simp: Atoi_def Itoa_def digits_value_Utoa Let_def)

lemma Itoa_inject: "Itoa i = Itoa j \<longleftrightarrow> i = j"
proof
  assume eq: "Itoa i = Itoa j"
  have minus: "CHR ''-'' # xs \<noteq> Utoa n" for xs n
    using Utoa_unsigned(1) [of n] by (metis Cons_prefix_Cons Nil_prefix)
  from eq show "i = j"
    using minus digits_value_Utoa by (auto simp: Itoa_def split: if_splits) (metis eq_nat_nat_iff
      linorder_not_le less_imp_le neg_0_le_iff_le neg_equal_iff_equal not_less)+
qed simp

section \<open>Runes\<close>

definition continuation :: "nat \<Rightarrow> bool" where
  "continuation b \<longleftrightarrow> 128 \<le> b \<and> b \<le> 191"

text \<open>Width of the rune encoded at the front of a string, 0 when no valid encoding starts there
  (\<open>utf8.DecodeRune\<close> then yields U+FFFD and moves on by one byte).\<close>

definition rune1 :: "string \<Rightarrow> bool" where
  "rune1 s \<longleftrightarrow> 1 \<le> length s \<and> of_char (s ! 0) < (128 :: nat)"

definition rune2 :: "string \<Rightarrow> bool" where
  "rune2 s \<longleftrightarrow> 2 \<le> length s \<and> 194 \<le> (of_char (s ! 0) :: nat) \<and> of_char (s ! 0) \<le> (223 :: nat)
     \<and> continuation (of_char (s ! 1))"

definition rune3 :: "string \<Rightarrow> bool" where
  "rune3 s \<longleftrightarrow> 3 \<le> length s
     \<and> (let b0 = of_char (s ! 0) :: nat; b1 = of_char (s ! 1) :: nat
        in 224 \<le> b0 \<and> b0 \<le> 239 \<and> (if b0 = 224 then 160 else 128) \<le> b1
           \<and> b1 \<le> (if b0 = 237 then 159 else 191))
     \<and> continuation (of_char (s ! 2))"

definition rune4 :: "string \<Rightarrow> bool" where
  "rune4 s \<longleftrightarrow> 4 \<le> length s
     \<and> (let b0 = of_char (s ! 0) :: nat; b1 = of_char (s ! 1) :: nat
        in 240 \<le> b0 \<and> b0 \<le> 244 \<and> (if b0 = 240 then 144 else 128) \<le> b1
           \<and> b1 \<le> (if b0 = 244 then 143 else 191))
     \<and> continuation (of_char (s ! 2)) \<and> continuation (of_char (s ! 3))"

definition rune_width :: "string \<Rightarrow> nat" where
  "rune_width s =
     (if rune1 s then 1 else if rune2 s then 2 else if rune3 s then 3 else if rune4 s then 4 else 0)"

definition replacement_char :: string where
  "replacement_char = [CHR 0xEF, CHR 0xBF, CHR 0xBD]"

text \<open>\<open>[]rune(s)\<close>, each rune as the UTF-8 bytes it is written back with.\<close>

function runes :: "string \<Rightarrow> string list" where
  "runes s =
     (if s = [] then []
      else if rune_width s = 0 then replacement_char # runes (tl s)
      else take (rune_width s) s # runes (drop (rune_width s) s))"
  by pat_completeness auto
termination
  by (relation "measure length") auto

declare runes.simps [simp del]

definition valid_utf8 :: "string \<Rightarrow> bool" where
  "valid_utf8 s \<longleftrightarrow> concat (runes s) = s"

lemma rune_width_le: "rune_width s \<le> length s"
  by (auto simp: rune_width_def rune1_def rune2_def rune3_def rune4_def)

lemma rune_local:
  assumes "w \<le> length s"
  shows "1 \<le> w \<Longrightarrow> rune1 (take w s @ t) = rune1 s"
    and "2 \<le> w \<Longrightarrow> rune2 (take w s @ t) = rune2 s"
    and "3 \<le> w \<Longrightarrow> rune3 (take w s @ t) = rune3 s"
    and "4 \<le> w \<Longrightarrow> rune4 (take w s @ t) = rune4 s"
  using assms by (simp_all add: rune1_def rune2_def rune3_def rune4_def nth_append)

lemma rune_width_take:
  assumes "rune_width s = w" "w \<noteq> 0"
  shows "rune_width (take w s @ t) = w"
proof -
  have "w \<le> length s" using assms(1) rune_width_le by blast
  then show ?thesis
    using assms by (auto simp: rune_width_def rune_local split: if_splits)
qed

lemma rune_width_replacement: "rune_width (replacement_char @ t) = 3"
  by (simp add: rune_width_def replacement_char_def continuation_def rune1_def rune2_def rune3_def)

lemma runes_Nil [simp]: "runes [] = []"
  by (simp add: runes.simps)

lemma runes_front: "rune_width (r @ t) = length r \<Longrightarrow> r \<noteq> [] \<Longrightarrow> runes (r @ t) = r # runes t"
  by (subst runes.simps) auto

lemma runes_elem: "r \<in> set (runes s) \<Longrightarrow> r \<noteq> [] \<and> (\<forall>t. rune_width (r @ t) = length r)"
proof (induction s rule: runes.induct)
  case (1 s)
  show ?case
  proof (cases "s = [] \<or> rune_width s = 0")
    case True
    then have "r = replacement_char \<or> s \<noteq> [] \<and> rune_width s = 0 \<and> r \<in> set (runes (tl s))"
      using "1.prems" by (auto simp: runes.simps [of s] split: if_splits)
    then show ?thesis
    proof
      assume "r = replacement_char"
      then show ?thesis
        using rune_width_replacement by (simp add: replacement_char_def)
    qed (use "1.IH" in blast)
  next
    case False
    have "length (take (rune_width s) s) = rune_width s"
      using rune_width_le [of s] by simp
    moreover from False have "r = take (rune_width s) s \<or> r \<in> set (runes (drop (rune_width s) s))"
      using "1.prems" by (auto simp: runes.simps [of s] split: if_splits)
    ultimately show ?thesis
      using "1.IH"(2) False by (auto simp: rune_width_take)
  qed
qed

lemma runes_concat:
  "(\<And>r. r \<in> set rs \<Longrightarrow> r \<noteq> [] \<and> (\<forall>t. rune_width (r @ t) = length r)) \<Longrightarrow> runes (concat rs) = rs"
  by (induction rs) (auto simp: runes_front)

lemma runes_concat_take: "runes (concat (take n (runes s))) = take n (runes s)"
  by (rule runes_concat) (metis in_set_takeD runes_elem)

end
