(* ===== verification/Base64.thy ===== *)
theory Base64
  imports GoStrings
begin

text \<open>
  \<open>base64.StdEncoding\<close> of Go's standard library, as \<open>EncodeToString\<close> and \<open>DecodeString\<close> compute
  it: padded, line breaks (CR and LF) skipped wherever they stand in the input, the unused bits
  before the padding ignored, and a rejected input reported with the offset Go reports
  (\<open>CorruptInputError\<close>). The program decodes the message body and the attachments with it and
  encodes what it sends.
\<close>

section \<open>The alphabet\<close>

definition enc_char :: "nat \<Rightarrow> char" where
  "enc_char n =
     (if n < 26 then char_of (65 + n) else if n < 52 then char_of (71 + n)
      else if n < 62 then char_of (n - 4) else if n = 62 then CHR ''+'' else CHR ''/'')"

definition sextet :: "char \<Rightarrow> nat option" where
  "sextet c =
     (let b = of_char c :: nat
      in if 65 \<le> b \<and> b \<le> 90 then Some (b - 65) else if 97 \<le> b \<and> b \<le> 122 then Some (b - 71)
         else if 48 \<le> b \<and> b \<le> 57 then Some (b + 4) else if b = 43 then Some 62
         else if b = 47 then Some 63 else None)"

lemma sextet_enc_char [simp]: "n < 64 \<Longrightarrow> sextet (enc_char n) = Some n"
  by (auto simp: sextet_def enc_char_def Let_def)

lemma sextet_bound: "sextet c = Some v \<Longrightarrow> v < 64"
  by (auto simp: sextet_def Let_def split: if_splits)

section \<open>Encoding\<close>

definition byte :: "char \<Rightarrow> nat" where
  "byte c = of_char c"

fun EncodeToString :: "string \<Rightarrow> string" where
  "EncodeToString [] = []"
| "EncodeToString [a] =
     [enc_char (byte a div 4), enc_char (byte a mod 4 * 16), CHR ''='', CHR ''='']"
| "EncodeToString [a, b] =
     [enc_char (byte a div 4), enc_char (byte a mod 4 * 16 + byte b div 16),
      enc_char (byte b mod 16 * 4), CHR ''='']"
| "EncodeToString (a # b # c # s) =
     enc_char (byte a div 4) # enc_char (byte a mod 4 * 16 + byte b div 16)
     # enc_char (byte b mod 16 * 4 + byte c div 64) # enc_char (byte c mod 64)
     # EncodeToString s"

section \<open>Decoding\<close>

definition line_break :: "char \<Rightarrow> bool" where
  "line_break c \<longleftrightarrow> c = CHR 0x0A \<or> c = CHR 0x0D"

text \<open>The bytes of a quantum of two, three or four sextets.\<close>

fun quantum :: "nat list \<Rightarrow> string" where
  "quantum [a, b] = [char_of (a * 4 + b div 16)]"
| "quantum [a, b, c] = [char_of (a * 4 + b div 16), char_of (b mod 16 * 16 + c div 4)]"
| "quantum [a, b, c, d] =
     [char_of (a * 4 + b div 16), char_of (b mod 16 * 16 + c div 4), char_of (c mod 4 * 64 + d)]"
| "quantum _ = []"

text \<open>After the first \<open>=\<close>: with two sextets read a second \<open>=\<close> must follow, and then only line breaks.
  \<open>si\<close> is the offset of the byte after the \<open>=\<close>, \<open>q\<close> the sextets of the open quantum.\<close>

definition end_of_input :: "nat \<Rightarrow> nat list \<Rightarrow> string \<Rightarrow> nat + string" where
  "end_of_input si q s =
     (let n = length (takeWhile line_break s); rest = dropWhile line_break s
      in if rest = [] then Inr (quantum q) else Inl (si + n))"

definition padding :: "nat \<Rightarrow> nat list \<Rightarrow> string \<Rightarrow> nat + string" where
  "padding si q s =
     (if length q < 2 then Inl (si - 1)
      else if length q = 2 then
        (let n = length (takeWhile line_break s); rest = dropWhile line_break s
         in case rest of
              [] \<Rightarrow> Inl (si + n)
            | c # cs \<Rightarrow> if c = CHR ''='' then end_of_input (si + n + 1) q cs else Inl (si + n - 1))
      else end_of_input si q s)"

fun decode_at :: "nat \<Rightarrow> nat list \<Rightarrow> string \<Rightarrow> nat + string" where
  "decode_at si q [] = (if q = [] then Inr [] else Inl (si - length q))"
| "decode_at si q (c # cs) =
     (case sextet c of
        Some v \<Rightarrow>
          (if length q = 3
           then (case decode_at (si + 1) [] cs of
                   Inl e \<Rightarrow> Inl e | Inr bs \<Rightarrow> Inr (quantum (q @ [v]) @ bs))
           else decode_at (si + 1) (q @ [v]) cs)
      | None \<Rightarrow>
          (if line_break c then decode_at (si + 1) q cs
           else if c = CHR ''='' then padding (si + 1) q cs
           else Inl si))"

definition DecodeString :: "string \<Rightarrow> nat + string" where
  "DecodeString s = decode_at 0 [] s"

section \<open>Decoding what was encoded\<close>

lemma byte_bound: "byte c < 256"
  by (simp add: byte_def)

lemma byte_simps [simp]:
  "byte c div 16 div 16 = 0" "byte c div 16 mod 16 = byte c div 16"
  "byte c div 64 div 4 = 0" "byte c div 64 mod 4 = byte c div 64" "char_of (byte c) = c"
proof -
  have "byte c div 16 < 16" "byte c div 64 < 4" using byte_bound [of c] by linarith+
  then show "byte c div 16 div 16 = 0" "byte c div 16 mod 16 = byte c div 16"
    "byte c div 64 div 4 = 0" "byte c div 64 mod 4 = byte c div 64" by simp_all
qed (simp add: byte_def)

lemma sextet_bounds:
  "byte a div 4 < 64" "byte a mod 4 * 16 + byte b div 16 < 64" "byte a mod 4 * 16 < 64"
  "byte b mod 16 * 4 + byte c div 64 < 64" "byte b mod 16 * 4 < 64" "byte c mod 64 < 64"
proof -
  have "byte a div 4 < 64" "byte b div 16 < 16" "byte c div 64 < 4"
    using byte_bound [of a] byte_bound [of b] byte_bound [of c] by linarith+
  moreover have "byte a mod 4 < 4" "byte b mod 16 < 16" "byte c mod 64 < 64" by simp_all
  ultimately show "byte a div 4 < 64" "byte a mod 4 * 16 + byte b div 16 < 64"
    "byte a mod 4 * 16 < 64" "byte b mod 16 * 4 + byte c div 64 < 64" "byte b mod 16 * 4 < 64"
    "byte c mod 64 < 64"
    by linarith+
qed

lemma pad_char [simp]: "sextet (CHR ''='') = None" "\<not> line_break (CHR ''='')"
  by (simp_all add: sextet_def line_break_def)

lemma decode_at_encoded: "decode_at si [] (EncodeToString s) = Inr s"
proof (induction s arbitrary: si rule: EncodeToString.induct)
  case (4 a b c s)
  then show ?case by (simp add: sextet_bounds)
qed (simp_all add: sextet_bounds padding_def end_of_input_def Let_def)

theorem Decode_Encode [simp, go_string]: "DecodeString (EncodeToString s) = Inr s"
  by (simp add: DecodeString_def decode_at_encoded)

section \<open>Line breaks are skipped\<close>

text \<open>The decoded bytes of an input, when it is accepted: the offsets play no part.\<close>

definition accepted :: "nat + string \<Rightarrow> string option" where
  "accepted r = (case r of Inl _ \<Rightarrow> None | Inr bs \<Rightarrow> Some bs)"

lemma accepted_simps [simp]: "accepted (Inl e) = None" "accepted (Inr bs) = Some bs"
  by (simp_all add: accepted_def)

abbreviation without_breaks :: "string \<Rightarrow> string" where
  "without_breaks s \<equiv> filter (\<lambda>c. \<not> line_break c) s"

lemma end_of_input_line_breaks:
  "accepted (end_of_input si q s) = accepted (end_of_input si' q (without_breaks s))"
  by (auto simp: end_of_input_def Let_def dropWhile_filter_not filter_empty_conv)

lemma padding_line_breaks:
  "accepted (padding si q s) = accepted (padding si' q (without_breaks s))"
proof (cases "dropWhile line_break s")
  case Nil
  moreover from this have "without_breaks s = []" by simp
  ultimately show ?thesis
    by (simp only: padding_def end_of_input_def Let_def) simp
next
  case (Cons c cs)
  moreover from this have "without_breaks s = c # without_breaks cs"
    by (rule dropWhile_Cons_filter_not)
  moreover from Cons have "\<not> line_break c" using hd_dropWhile [of line_break s] by simp
  ultimately show ?thesis
    using end_of_input_line_breaks [of si q s si']
      end_of_input_line_breaks [of "si + length (takeWhile line_break s) + 1" q cs]
    by (simp add: padding_def Let_def dropWhile_filter_not)
qed

lemma decode_at_line_breaks:
  "accepted (decode_at si q s) = accepted (decode_at si' q (without_breaks s))"
proof (induction s arbitrary: si si' q)
  case Nil
  then show ?case by simp
next
  case (Cons c s)
  show ?case
  proof (cases "sextet c")
    case (Some v)
    then have "\<not> line_break c" by (auto simp: sextet_def line_break_def)
    then show ?thesis
      using Some Cons.IH [of "si + 1" "[]" "si' + 1"] Cons.IH [of "si + 1" "q @ [v]" "si' + 1"]
      by (auto simp: accepted_def split: sum.splits)
  next
    case None
    then show ?thesis
      using Cons.IH [of "si + 1" q si'] padding_line_breaks [of "si + 1" q s "si' + 1"] by simp
  qed
qed

theorem Decode_line_breaks:
  assumes "without_breaks s = without_breaks t"
  shows "accepted (DecodeString s) = accepted (DecodeString t)"
  using decode_at_line_breaks [of 0 "[]" s 0] decode_at_line_breaks [of 0 "[]" t 0] assms
  by (simp add: DecodeString_def)

lemma enc_char_not_line_break: "n < 64 \<Longrightarrow> \<not> line_break (enc_char n)"
  using sextet_enc_char [of n] by (auto simp: line_break_def sextet_def)

lemma Encode_no_line_break: "without_breaks (EncodeToString s) = EncodeToString s"
  by (induction s rule: EncodeToString.induct) (auto simp: sextet_bounds enc_char_not_line_break)

lemma Encode_chars: "c \<in> set (EncodeToString s) \<Longrightarrow> c = CHR ''='' \<or> sextet c \<noteq> None"
  by (induction s rule: EncodeToString.induct) (auto simp: sextet_bounds)

end
