(* ===== verification/Model.thy ===== *)
theory Model
  imports Base64
begin

text \<open>
  \<open>internal/core/model\<close>: the error codes, the callback targets and the delivery event, the email
  request with its attachments, the recipient lists and the generated request ids.

  A nil slice and an empty slice are the same list here (the code never tells them apart); a nil
  pointer is \<^const>\<open>None\<close>. A Go map that is iterated over is a list of pairs, in the order in which the
  iteration visits it: theorems over all lists hold for every iteration order.
\<close>

section \<open>Error codes\<close>

text \<open>\<open>ErrorCode\<close> is a string type of which the program only uses the declared constants and the
  empty string (\<open>CodeNone\<close>, "no code").\<close>

datatype ErrorCode =
    CodeNone
  | CodeMessageInvalidJSON | CodeMessageInvalidBody | CodeMessageMissingSender
  | CodeMessageMissingReceiver | CodeMessageMissingSubject | CodeMessageMissingBody
  | CodeSMTPConnectionFailed | CodeSMTPAuthorizationDenied | CodeSMTPSenderRejected
  | CodeSMTPReceiverRejected | CodeSMTPMessageRejected | CodeSMTPTemporaryFailure
  | CodeAPIConnectionFailed | CodeAPIAuthorizationDenied | CodeAPISenderNotAllowed
  | CodeAPIInvalidReceiver | CodeAPIInvalidAttachment | CodeAPIInvalidRequest
  | CodeAPIQuotaExceeded | CodeAPIRateLimited | CodeAPIProviderUnavailable
  | CodeAPIUnexpectedResponse | CodeUnknown

fun code_text :: "ErrorCode \<Rightarrow> string" where
  "code_text CodeNone = ''''"
| "code_text CodeMessageInvalidJSON = ''message_invalid_json''"
| "code_text CodeMessageInvalidBody = ''message_invalid_body''"
| "code_text CodeMessageMissingSender = ''message_missing_sender''"
| "code_text CodeMessageMissingReceiver = ''message_missing_receiver''"
| "code_text CodeMessageMissingSubject = ''message_missing_subject''"
| "code_text CodeMessageMissingBody = ''message_missing_body''"
| "code_text CodeSMTPConnectionFailed = ''smtp_connection_failed''"
| "code_text CodeSMTPAuthorizationDenied = ''smtp_authorization_denied''"
| "code_text CodeSMTPSenderRejected = ''smtp_sender_rejected''"
| "code_text CodeSMTPReceiverRejected = ''smtp_receiver_rejected''"
| "code_text CodeSMTPMessageRejected = ''smtp_message_rejected''"
| "code_text CodeSMTPTemporaryFailure = ''smtp_temporary_failure''"
| "code_text CodeAPIConnectionFailed = ''api_connection_failed''"
| "code_text CodeAPIAuthorizationDenied = ''api_authorization_denied''"
| "code_text CodeAPISenderNotAllowed = ''api_sender_not_allowed''"
| "code_text CodeAPIInvalidReceiver = ''api_invalid_receiver''"
| "code_text CodeAPIInvalidAttachment = ''api_invalid_attachment''"
| "code_text CodeAPIInvalidRequest = ''api_invalid_request''"
| "code_text CodeAPIQuotaExceeded = ''api_quota_exceeded''"
| "code_text CodeAPIRateLimited = ''api_rate_limited''"
| "code_text CodeAPIProviderUnavailable = ''api_provider_unavailable''"
| "code_text CodeAPIUnexpectedResponse = ''api_unexpected_response''"
| "code_text CodeUnknown = ''unknown_error''"

fun Retryable :: "ErrorCode \<Rightarrow> bool" where
  "Retryable CodeAPIConnectionFailed = True"
| "Retryable CodeAPIRateLimited = True"
| "Retryable CodeAPIProviderUnavailable = True"
| "Retryable CodeSMTPConnectionFailed = True"
| "Retryable CodeSMTPTemporaryFailure = True"
| "Retryable _ = False"

definition all_codes :: "ErrorCode list" where
  "all_codes =
     [CodeNone, CodeMessageInvalidJSON, CodeMessageInvalidBody, CodeMessageMissingSender,
      CodeMessageMissingReceiver, CodeMessageMissingSubject, CodeMessageMissingBody,
      CodeSMTPConnectionFailed, CodeSMTPAuthorizationDenied, CodeSMTPSenderRejected,
      CodeSMTPReceiverRejected, CodeSMTPMessageRejected, CodeSMTPTemporaryFailure,
      CodeAPIConnectionFailed, CodeAPIAuthorizationDenied, CodeAPISenderNotAllowed,
      CodeAPIInvalidReceiver, CodeAPIInvalidAttachment, CodeAPIInvalidRequest,
      CodeAPIQuotaExceeded, CodeAPIRateLimited, CodeAPIProviderUnavailable,
      CodeAPIUnexpectedResponse, CodeUnknown]"

lemma all_codes: "c \<in> set all_codes"
  by (cases c) (simp_all add: all_codes_def)

lemma all_codes_UNIV: "UNIV = set all_codes"
  using all_codes by auto

lemma all_codes_distinct: "distinct all_codes"
  by (simp add: all_codes_def)

text \<open>The codes are finitely many: a statement about all of them is computed code by code.\<close>

instantiation ErrorCode :: enum
begin

definition "enum_ErrorCode = all_codes"

definition "enum_all_ErrorCode P \<longleftrightarrow> list_all P all_codes"

definition "enum_ex_ErrorCode P \<longleftrightarrow> list_ex P all_codes"

instance
  by standard (auto simp: enum_ErrorCode_def enum_all_ErrorCode_def enum_ex_ErrorCode_def all_codes_UNIV [symmetric]
      all_codes_distinct list_all_iff list_ex_iff all_codes)

end

lemma ex_code: "(\<exists>c. P c) \<longleftrightarrow> list_ex P all_codes"
  using all_codes by (auto simp: list_ex_iff)

lemma every_code: "(\<forall>c. P c) \<longleftrightarrow> list_all P all_codes"
  using all_codes by (auto simp: list_all_iff)

lemma code_text_distinct: "distinct (map code_text all_codes)"
  by (simp add: all_codes_def)

text \<open>The codes can be told apart by their text, so consumers of events lose nothing.\<close>

lemma code_text_inject [simp]: "code_text c = code_text d \<longleftrightarrow> c = d"
  using code_text_distinct all_codes by (auto simp: distinct_map dest: inj_onD)

definition message_code :: "ErrorCode \<Rightarrow> bool" where
  "message_code c \<longleftrightarrow> prefix ''message_'' (code_text c)"

lemma message_code_iff:
  "message_code c \<longleftrightarrow> c \<in> {CodeMessageInvalidJSON, CodeMessageInvalidBody, CodeMessageMissingSender,
     CodeMessageMissingReceiver, CodeMessageMissingSubject, CodeMessageMissingBody}"
  by (cases c) (simp_all add: message_code_def)

lemma message_code_final: "message_code c \<Longrightarrow> \<not> Retryable c"
  by (auto simp: message_code_iff)

section \<open>Callbacks and delivery events\<close>

record CallbackTarget =
  target_URL :: string
  target_Headers :: "(string \<times> string) list"

record Callback =
  Success :: "CallbackTarget option"
  Failure :: "CallbackTarget option"

datatype DeliveryStatus = StatusSent | StatusFailed

fun status_text :: "DeliveryStatus \<Rightarrow> string" where
  "status_text StatusSent = ''sent''"
| "status_text StatusFailed = ''failed''"

text \<open>\<open>event_OccurredAt\<close> is in nanoseconds since the Unix epoch; \<open>None\<close> is Go's zero time.\<close>

record DeliveryEvent =
  event_ID :: string
  event_Subject :: string
  event_Status :: DeliveryStatus
  event_ErrorCode :: ErrorCode
  event_Cause :: string
  event_OccurredAt :: "int option"

section \<open>Recipients\<close>

type_synonym Recipients = "string list"

definition ParseRecipients :: "string \<Rightarrow> Recipients" where
  "ParseRecipients l = filter (\<lambda>a. a \<noteq> []) (map TrimSpace (Split (CHR '','') l))"

definition Recipients_String :: "Recipients \<Rightarrow> string" where
  "Recipients_String r = Join r '', ''"

text \<open>An address that survives a trip through a comma-separated list.\<close>

definition clean_address :: "string \<Rightarrow> bool" where
  "clean_address a \<longleftrightarrow> a \<noteq> [] \<and> TrimSpace a = a \<and> CHR '','' \<notin> set a"

lemma ParseRecipients_clean: "a \<in> set (ParseRecipients l) \<Longrightarrow> clean_address a"
proof -
  assume "a \<in> set (ParseRecipients l)"
  then obtain p where "p \<in> set (Split (CHR '','') l)" "a = TrimSpace p" "a \<noteq> []"
    by (auto simp: ParseRecipients_def)
  then show ?thesis
    using Split_parts TrimSpace_subset by (fastforce simp: clean_address_def)
qed

lemma ParseRecipients_Nil [simp]: "ParseRecipients [] = []"
  by (simp add: ParseRecipients_def)

lemma ParseRecipients_Join:
  "ParseRecipients (Join items '','') = concat (map ParseRecipients items)"
proof (cases "items = []")
  case False
  then have "Split (CHR '','') (Join items '','') = concat (map (Split (CHR '','')) items)"
    by (rule Split_Join)
  then show ?thesis
    by (simp add: ParseRecipients_def [abs_def] filter_concat map_concat comp_def)
qed simp

lemma ParseRecipients_single: "clean_address a \<Longrightarrow> ParseRecipients a = [a]"
  by (auto simp: clean_address_def ParseRecipients_def Split_no_sep)

lemma ParseRecipients_clean_list:
  "list_all clean_address rs \<Longrightarrow> concat (map ParseRecipients rs) = rs"
  by (induction rs) (auto simp: ParseRecipients_single)

section \<open>Email requests\<close>

record Attachment =
  att_Data :: string
  att_Name :: string
  att_Type :: string
  att_Decoder :: "string option"

record SendEmailData =
  email_ID :: string
  email_Attachments :: "Attachment list option"
  email_Body :: string
  email_From :: string
  email_FromName :: string
  email_Receiver :: Recipients
  email_Subject :: string
  email_Cc :: Recipients
  email_Bcc :: Recipients
  email_Callback :: "Callback option"

section \<open>Generated ids\<close>

unbundle bit_operations_syntax

definition hex_digit :: "nat \<Rightarrow> char" where
  "hex_digit n = (if n < 10 then char_of (48 + n) else char_of (87 + n))"

definition hex_bytes :: "8 word list \<Rightarrow> string" where
  "hex_bytes bs = concat (map (\<lambda>b. [hex_digit (unat b div 16), hex_digit (unat b mod 16)]) bs)"

text \<open>\<open>NewID\<close> over the sixteen bytes the random source filled in.\<close>

definition NewID :: "8 word list \<Rightarrow> string" where
  "NewID r =
     (let b = r[6 := (r ! 6 AND 0x0f) OR 0x40]; c = b[8 := (b ! 8 AND 0x3f) OR 0x80]
      in hex_bytes (take 4 c) @ ''-'' @ hex_bytes (take 2 (drop 4 c)) @ ''-''
         @ hex_bytes (take 2 (drop 6 c)) @ ''-'' @ hex_bytes (take 2 (drop 8 c)) @ ''-''
         @ hex_bytes (take 6 (drop 10 c)))"

lemma length_hex_bytes [simp]: "length (hex_bytes bs) = 2 * length bs"
  by (induction bs) (auto simp: hex_bytes_def)

lemma nat_and_15: "n AND 15 = n mod 16" for n :: nat
  using take_bit_eq_mask [of 4 n] by (simp add: take_bit_eq_mod mask_eq_exp_minus_1)

lemma nat_and_63: "n AND 63 = n mod 64" for n :: nat
  using take_bit_eq_mask [of 6 n] by (simp add: take_bit_eq_mod mask_eq_exp_minus_1)

lemma or_div_16: "(m OR k) div 16 = (m div 16) OR (k div 16)" for m k :: nat
  using drop_bit_or [of 4 m k] by (simp add: drop_bit_eq_div)

lemma version_nibble: "unat ((b AND 0x0f) OR 0x40) div 16 = 4" for b :: "8 word"
  by (simp add: unsigned_or_eq unsigned_and_eq nat_and_15 or_div_16)

lemma variant_bits: "unat ((b AND 0x3f) OR 0x80) div 16 \<in> {8, 9, 10, 11}" for b :: "8 word"
proof -
  have "unat b mod 64 div 16 < 4" by simp
  then have "unat b mod 64 div 16 \<in> {0, 1, 2, 3}" by auto
  then show ?thesis by (auto simp: unsigned_or_eq unsigned_and_eq nat_and_63 or_div_16)
qed

lemma hex_digit_values:
  "hex_digit 4 = CHR ''4''" "hex_digit 8 = CHR ''8''" "hex_digit 9 = CHR ''9''"
  "hex_digit 10 = CHR ''a''" "hex_digit 11 = CHR ''b''"
  by code_simp+

text \<open>A generated id is a version 4, variant 1 UUID: 36 characters, hyphens at the fixed places.\<close>

definition uuid_v4 :: "string \<Rightarrow> bool" where
  "uuid_v4 s \<longleftrightarrow> length s = 36 \<and> s ! 14 = CHR ''4'' \<and> s ! 19 \<in> set ''89ab''
     \<and> (\<forall>i \<in> {8, 13, 18, 23}. s ! i = CHR ''-'')"

lemma NewID_uuid_v4:
  assumes "length r = 16"
  shows "uuid_v4 (NewID r)"
proof -
  obtain b0 b1 b2 b3 b4 b5 b6 b7 b8 b9 b10 b11 b12 b13 b14 b15
    where r: "r = [b0, b1, b2, b3, b4, b5, b6, b7, b8, b9, b10, b11, b12, b13, b14, b15]"
    using assms by (auto simp: numeral_eq_Suc length_Suc_conv)
  show ?thesis
    using variant_bits [of b8]
    by (auto simp: uuid_v4_def NewID_def r hex_bytes_def version_nibble hex_digit_values)
qed

end
