(* ===== verification/Errors.thy ===== *)
theory Errors
  imports Model
begin

text \<open>
  \<open>internal/core/mailer/errors.go\<close> and the error values the delivery path wraps. A Go error is a
  chain: \<open>Wrapped\<close> is \<open>fmt.Errorf("...: %w", err)\<close> (the text before the wrapped error),
  \<open>Delivery\<close> is \<open>&DeliveryError{Code, Err}\<close>, \<open>HttpStatus\<close> is \<open>&httpStatusError\<close>, \<open>Joined\<close> is
  \<open>errors.Join\<close>; \<open>Textproto\<close> and \<open>CorruptInput\<close> are the error types of \<open>net/textproto\<close> and
  \<open>encoding/base64\<close>, \<open>Canceled\<close> is \<open>context.Canceled\<close>, and \<open>Plain\<close> any other error with its text.
\<close>

datatype goerr =
    Plain string
  | Wrapped string goerr
  | Delivery ErrorCode goerr
  | HttpStatus int string
  | Textproto int string
  | CorruptInput nat
  | Canceled
  | Joined "goerr list"

fun Error_text :: "goerr \<Rightarrow> string" where
  "Error_text (Plain s) = s"
| "Error_text (Wrapped p e) = p @ Error_text e"
| "Error_text (Delivery c e) = Error_text e"
| "Error_text (HttpStatus n b) = ''status '' @ Itoa n @ '': '' @ b"
| "Error_text (Textproto n m) = replicate (3 - length (Itoa n)) (CHR ''0'') @ Itoa n @ '' '' @ m"
| "Error_text (CorruptInput n) = ''illegal base64 data at input byte '' @ Itoa (int n)"
| "Error_text Canceled = ''context canceled''"
| "Error_text (Joined es) = Join (map Error_text es) [CHR 0x0A]"

definition NewError :: "ErrorCode \<Rightarrow> goerr \<Rightarrow> goerr" where
  "NewError c e = Delivery c e"

text \<open>\<open>Errorf(code, "<text>")\<close> and \<open>Errorf(code, "<text>%w", err)\<close>.\<close>

definition Errorf :: "ErrorCode \<Rightarrow> string \<Rightarrow> goerr" where
  "Errorf c txt = NewError c (Plain txt)"

definition Errorf_w :: "ErrorCode \<Rightarrow> string \<Rightarrow> goerr \<Rightarrow> goerr" where
  "Errorf_w c txt e = NewError c (Wrapped txt e)"

text \<open>\<open>errors.As\<close> for \<open>*DeliveryError\<close> and for \<open>*textproto.Error\<close>: the chain is searched depth first,
  outermost error first.\<close>

fun as_delivery :: "goerr \<Rightarrow> ErrorCode option" where
  "as_delivery (Wrapped _ e) = as_delivery e"
| "as_delivery (Delivery c _) = Some c"
| "as_delivery (Joined es) = first_some (map as_delivery es)"
| "as_delivery _ = None"

fun as_textproto :: "goerr \<Rightarrow> int option" where
  "as_textproto (Wrapped _ e) = as_textproto e"
| "as_textproto (Delivery _ e) = as_textproto e"
| "as_textproto (Textproto n _) = Some n"
| "as_textproto (Joined es) = first_some (map as_textproto es)"
| "as_textproto _ = None"

text \<open>\<open>errors.Is(err, context.Canceled)\<close>.\<close>

fun is_canceled :: "goerr \<Rightarrow> bool" where
  "is_canceled Canceled = True"
| "is_canceled (Wrapped _ e) = is_canceled e"
| "is_canceled (Delivery _ e) = is_canceled e"
| "is_canceled (Joined es) = list_ex is_canceled es"
| "is_canceled _ = False"

definition CodeOf :: "goerr \<Rightarrow> ErrorCode" where
  "CodeOf e = (case as_delivery e of Some c \<Rightarrow> c | None \<Rightarrow> CodeUnknown)"

definition CodeOf_opt :: "goerr option \<Rightarrow> ErrorCode" where
  "CodeOf_opt e = (case e of None \<Rightarrow> CodeUnknown | Some e \<Rightarrow> CodeOf e)"

lemma CodeOf_simps [simp, go_error]:
  "CodeOf (Plain s) = CodeUnknown"
  "CodeOf (Wrapped p e) = CodeOf e"
  "CodeOf (Delivery c e) = c"
  "CodeOf (HttpStatus n b) = CodeUnknown"
  "CodeOf (Textproto n m) = CodeUnknown"
  "CodeOf (NewError c e) = c"
  "CodeOf (Errorf c txt) = c"
  "CodeOf (Errorf_w c txt e) = c"
  by (simp_all add: CodeOf_def NewError_def Errorf_def Errorf_w_def)

lemma Error_text_Errorf [simp, go_error]:
  "Error_text (NewError c e) = Error_text e"
  "Error_text (Errorf c txt) = txt"
  "Error_text (Errorf_w c txt e) = txt @ Error_text e"
  by (simp_all add: NewError_def Errorf_def Errorf_w_def)

lemma CodeOf_Joined:
  "CodeOf (Joined (e # es)) = (if as_delivery e = None then CodeOf (Joined es) else CodeOf e)"
  by (cases "as_delivery e") (auto simp: CodeOf_def)

text \<open>Adding context never changes the classification: any number of \<open>%w\<close> wrappers around a
  classified error leaves its code in place.\<close>

fun wrap_all :: "string list \<Rightarrow> goerr \<Rightarrow> goerr" where
  "wrap_all [] e = e"
| "wrap_all (p # ps) e = Wrapped p (wrap_all ps e)"

lemma CodeOf_wrap_all [simp, go_error]: "CodeOf (wrap_all ps e) = CodeOf e"
  by (induction ps) auto

lemma Error_text_wrap_all [simp, go_error]: "Error_text (wrap_all ps e) = concat ps @ Error_text e"
  by (induction ps) auto

text \<open>\<open>errors.Join\<close> keeps the errors that are there.\<close>

definition join_errors :: "goerr option list \<Rightarrow> goerr option" where
  "join_errors errs =
     (let es = concat (map (\<lambda>e. case e of None \<Rightarrow> [] | Some x \<Rightarrow> [x]) errs)
      in if es = [] then None else Some (Joined es))"

lemma join_errors_map_Some [simp]: "join_errors (map Some es) = (if es = [] then None else Some (Joined es))"
  by (simp add: join_errors_def comp_def)

end
