(* ===== verification/Retry.thy ===== *)
theory Retry
  imports Errors
begin

text \<open>
  \<open>internal/core/mailer/retry.go\<close> and \<open>outcome.go\<close>: the retry policy with its exponential backoff,
  and the outcome of one delivery attempt. Durations are nanoseconds in 64-bit integers; the
  doubling is written with its wrap-around.
\<close>

section \<open>The policy\<close>

record RetryPolicy =
  MaxAttempts :: int
  BaseDelay :: int
  MaxDelay :: int

definition DefaultRetryPolicy :: RetryPolicy where
  "DefaultRetryPolicy = \<lparr>MaxAttempts = 5, BaseDelay = 30 * Second, MaxDelay = 10 * Minute\<rparr>"

text \<open>The loop of \<open>Delay\<close>; the first argument counts the iterations that \<open>i < attempt\<close> still allows.\<close>

fun delay_loop :: "nat \<Rightarrow> int \<Rightarrow> int \<Rightarrow> int" where
  "delay_loop 0 maxd delay = delay"
| "delay_loop (Suc n) maxd delay =
     (if delay < maxd then delay_loop n maxd (wrap64 (delay * 2)) else delay)"

definition Delay :: "RetryPolicy \<Rightarrow> int \<Rightarrow> int" where
  "Delay p attempt = min (delay_loop (nat (attempt - 1)) (MaxDelay p) (BaseDelay p)) (MaxDelay p)"

definition Delays :: "RetryPolicy \<Rightarrow> int list" where
  "Delays p =
     foldl (\<lambda>delays attempt.
              let delay = Delay p (int attempt)
              in if delays = [] \<or> last delays \<noteq> delay then delays @ [delay] else delays)
       [] [1..<nat (MaxAttempts p)]"

definition CanRetry :: "RetryPolicy \<Rightarrow> int \<Rightarrow> bool" where
  "CanRetry p attempt \<longleftrightarrow> attempt < MaxAttempts p"

section \<open>Outcomes\<close>

datatype Action = ActionDone | ActionRetry | ActionDeadLetter

fun Action_String :: "Action \<Rightarrow> string" where
  "Action_String ActionRetry = ''retry''"
| "Action_String ActionDeadLetter = ''dead-letter''"
| "Action_String ActionDone = ''done''"

record Outcome =
  out_Event :: DeliveryEvent
  out_Err :: "goerr option"
  out_Action :: Action
  out_RetryIn :: int

definition Sent :: "Outcome \<Rightarrow> bool" where
  "Sent o' \<longleftrightarrow> out_Err o' = None"

section \<open>Backoff\<close>

text \<open>The policies the configuration accepts (\<open>NewRetryConfig\<close>), with a cap below which doubling
  cannot leave 64 bits.\<close>

definition valid_policy :: "RetryPolicy \<Rightarrow> bool" where
  "valid_policy p \<longleftrightarrow> 1 \<le> MaxAttempts p \<and> 0 < BaseDelay p \<and> BaseDelay p \<le> MaxDelay p
     \<and> MaxDelay p \<le> 2 ^ 62"

lemma wrap64_double: "0 < d \<Longrightarrow> d < m \<Longrightarrow> m \<le> 2 ^ 62 \<Longrightarrow> wrap64 (d * 2) = d * 2"
  by (rule wrap64_id) (simp add: int64_range_def)

lemma delay_loop_closed:
  assumes "0 < d" "m \<le> 2 ^ 62"
  shows "min (delay_loop n m d) m = min (d * 2 ^ n) m"
  using assms
proof (induction n arbitrary: d)
  case (Suc n)
  show ?case
  proof (cases "d < m")
    case True
    then show ?thesis using Suc.IH [of "d * 2"] Suc.prems by (simp add: wrap64_double ac_simps)
  next
    case False
    have "(1 :: int) \<le> 2 ^ Suc n" by (rule one_le_power) simp
    then have "d * 1 \<le> d * 2 ^ Suc n" using Suc.prems by (intro mult_left_mono) auto
    then show ?thesis using False by simp
  qed
qed simp

lemma Delay_closed:
  assumes "valid_policy p" "1 \<le> attempt"
  shows "Delay p attempt = min (BaseDelay p * 2 ^ nat (attempt - 1)) (MaxDelay p)"
  using assms by (simp add: Delay_def valid_policy_def delay_loop_closed)

lemma Delay_bounds:
  assumes "valid_policy p"
  shows "BaseDelay p \<le> Delay p attempt" "Delay p attempt \<le> MaxDelay p"
proof -
  have "BaseDelay p * 1 \<le> BaseDelay p * 2 ^ nat (attempt - 1)"
    using assms by (intro mult_left_mono) (auto simp: valid_policy_def)
  then show "BaseDelay p \<le> Delay p attempt"
    using assms by (simp add: Delay_def valid_policy_def delay_loop_closed)
qed (simp add: Delay_def)

lemma Delay_positive: "valid_policy p \<Longrightarrow> 0 < Delay p attempt"
  using Delay_bounds(1) [of p attempt] by (simp add: valid_policy_def)

lemma Delay_mono:
  assumes "valid_policy p" "i \<le> j"
  shows "Delay p i \<le> Delay p j"
proof -
  have "BaseDelay p * 2 ^ nat (i - 1) \<le> BaseDelay p * 2 ^ nat (j - 1)"
    using assms by (intro mult_left_mono power_increasing) (auto simp: valid_policy_def)
  from min.mono [OF this order_refl [of "MaxDelay p"]] show ?thesis
    using assms by (simp only: Delay_def valid_policy_def delay_loop_closed)
qed

section \<open>The waits declared up front\<close>

text \<open>Removing adjacent duplicates, the way \<open>Delays\<close> builds its list.\<close>

fun add_new :: "'a list \<Rightarrow> 'a \<Rightarrow> 'a list" where
  "add_new ds d = (if ds = [] \<or> last ds \<noteq> d then ds @ [d] else ds)"

lemma Delays_add_new: "Delays p = foldl add_new [] (map (\<lambda>n. Delay p (int n)) [1..<nat (MaxAttempts p)])"
  by (simp add: Delays_def foldl_map Let_def)

lemma set_add_new [simp]: "set (add_new ds d) = insert d (set ds)"
  by (auto dest: last_in_set)

declare add_new.simps [simp del]

lemma set_foldl_add_new: "set (foldl add_new ds xs) = set ds \<union> set xs"
  by (induction xs arbitrary: ds) auto

lemma last_foldl_add_new: "xs \<noteq> [] \<Longrightarrow> last (foldl add_new ds xs) = last xs"
  by (induction xs rule: rev_induct) (auto simp: add_new.simps)

lemma sorted_add_new:
  assumes "sorted_wrt (<) ds" "\<And>y. y \<in> set ds \<Longrightarrow> y \<le> (x :: int)"
  shows "sorted_wrt (<) (add_new ds x)"
proof (cases "ds = [] \<or> last ds \<noteq> x")
  case True
  have "d < x" if mem: "d \<in> set ds" for d
  proof -
    obtain front l where ds: "ds = front @ [l]" using mem by (cases ds rule: rev_cases) auto
    have "l \<noteq> x" "l \<le> x" using True assms(2) [of l] by (auto simp: ds)
    moreover have "d \<le> l" using assms(1) mem by (auto simp: ds sorted_wrt_append)
    ultimately show ?thesis by simp
  qed
  then show ?thesis using assms(1) True by (simp add: add_new.simps sorted_wrt_append)
qed (use assms in \<open>simp add: add_new.simps\<close>)

lemma sorted_foldl_add_new:
  "sorted xs \<Longrightarrow> sorted_wrt (<) ds \<Longrightarrow> (\<And>x y. x \<in> set ds \<Longrightarrow> y \<in> set xs \<Longrightarrow> x \<le> y) \<Longrightarrow>
   sorted_wrt (<) (foldl add_new ds (xs :: int list))"
proof (induction xs arbitrary: ds)
  case (Cons x xs)
  then show ?case by (auto intro!: Cons.IH sorted_add_new)
qed simp

lemma set_Delays: "set (Delays p) = Delay p ` {1..<MaxAttempts p}"
proof -
  have "set (Delays p) = (\<lambda>n. Delay p (int n)) ` {1..<nat (MaxAttempts p)}"
    by (simp only: Delays_add_new set_foldl_add_new) simp
  also have "\<dots> = Delay p ` (int ` {1..<nat (MaxAttempts p)})" by (simp add: image_image)
  also have "int ` {1..<nat (MaxAttempts p)} = {1..<MaxAttempts p}"
    by (auto simp: image_int_atLeastLessThan)
  finally show ?thesis .
qed

lemma Delays_sorted: "valid_policy p \<Longrightarrow> sorted_wrt (<) (Delays p)"
  unfolding Delays_add_new
  by (rule sorted_foldl_add_new) (auto simp: sorted_map sorted_wrt_iff_nth_less Delay_mono sorted_iff_nth_mono)

lemma Delay_in_Delays: "1 \<le> attempt \<Longrightarrow> CanRetry p attempt \<Longrightarrow> Delay p attempt \<in> set (Delays p)"
  by (auto simp: set_Delays CanRetry_def)

end
