(* ===== verification/GoText.thy ===== *)
theory GoText
  imports GoStrings
begin

text \<open>
  Text the Go library renders for the program: \<open>url.PathEscape\<close> and \<open>url.QueryEscape\<close>
  (\<open>net/url\<close>), and the UTC times of \<open>time.RFC3339\<close> and \<open>time.RFC3339Nano\<close> (\<open>time\<close>). A time is a
  number of nanoseconds since the Unix epoch; \<open>ZeroTime\<close> is Go's zero \<open>time.Time\<close>.
\<close>

section \<open>URL escapes\<close>

definition hex_upper :: "nat \<Rightarrow> char" where
  "hex_upper n = (if n < 10 then char_of (48 + n) else char_of (55 + n))"

definition unreserved :: "char \<Rightarrow> bool" where
  "unreserved c \<longleftrightarrow>
     (let b = of_char c :: nat
      in (48 \<le> b \<and> b \<le> 57) \<or> (65 \<le> b \<and> b \<le> 90) \<or> (97 \<le> b \<and> b \<le> 122)
         \<or> c \<in> set ''-_.~'')"

definition percent :: "char \<Rightarrow> string" where
  "percent c = [CHR ''%'', hex_upper (of_char c div 16), hex_upper (of_char c mod 16)]"

definition PathEscape :: "string \<Rightarrow> string" where
  "PathEscape s = concat (map (\<lambda>c. if unreserved c \<or> c \<in> set ''$&+=:@'' then [c] else percent c) s)"

definition QueryEscape :: "string \<Rightarrow> string" where
  "QueryEscape s =
     concat (map (\<lambda>c. if unreserved c then [c] else if c = CHR '' '' then ''+'' else percent c) s)"

text \<open>\<open>url.Values.Encode\<close> for keys with one value each; the keys are given in ascending order, the
  order in which they are written.\<close>

definition Values_Encode :: "(string \<times> string) list \<Rightarrow> string" where
  "Values_Encode kvs = Join (map (\<lambda>(k, v). QueryEscape k @ ''='' @ QueryEscape v) kvs) ''&''"

lemma percent_no_slash: "CHR ''/'' \<notin> set (percent c)" "CHR ''?'' \<notin> set (percent c)"
    "CHR ''&'' \<notin> set (percent c)"
proof -
  have hex: "hex_upper n \<notin> {CHR ''/'', CHR ''?'', CHR ''&''}" if "n < 16" for n
  proof -
    have "n \<in> set [0..<16]" using that by simp
    moreover have "\<forall>n \<in> set [0..<16]. hex_upper n \<notin> {CHR ''/'', CHR ''?'', CHR ''&''}"
      by code_simp
    ultimately show ?thesis by blast
  qed
  have "(of_char c :: nat) < 256" by simp
  then have "of_char c div 16 < (16 :: nat)" "of_char c mod 16 < (16 :: nat)"
    using less_mult_imp_div_less [of "of_char c" 16 16] by simp_all
  from this [THEN hex]
  show "CHR ''/'' \<notin> set (percent c)" "CHR ''?'' \<notin> set (percent c)" "CHR ''&'' \<notin> set (percent c)"
    by (auto simp: percent_def)
qed

text \<open>An escaped path segment cannot leave its segment.\<close>

lemma PathEscape_segment: "CHR ''/'' \<notin> set (PathEscape s)" "CHR ''?'' \<notin> set (PathEscape s)"
  using percent_no_slash by (auto simp: PathEscape_def unreserved_def split: if_splits)

lemma QueryEscape_no_amp: "CHR ''&'' \<notin> set (QueryEscape s)"
  using percent_no_slash by (auto simp: QueryEscape_def unreserved_def split: if_splits)

section \<open>UTC times\<close>

definition ZeroTime :: int where
  "ZeroTime = - 62135596800000000000"

text \<open>Year, month and day of a day number counted from the epoch (proleptic Gregorian calendar).\<close>

definition civil_date :: "int \<Rightarrow> int \<times> int \<times> int" where
  "civil_date days =
     (let z = days + 719468; era = z div 146097; doe = z mod 146097;
          yoe = (doe - doe div 1460 + doe div 36524 - doe div 146096) div 365;
          doy = doe - (365 * yoe + yoe div 4 - yoe div 100); mp = (5 * doy + 2) div 153;
          d = doy - (153 * mp + 2) div 5 + 1; m = (if mp < 10 then mp + 3 else mp - 9)
      in (yoe + era * 400 + (if m \<le> 2 then 1 else 0), m, d))"

definition pad :: "nat \<Rightarrow> int \<Rightarrow> string" where
  "pad w n = (let s = Itoa n in replicate (w - length s) (CHR ''0'') @ s)"

definition date_time :: "int \<Rightarrow> string" where
  "date_time t =
     (let secs = t div Second; (y, m, d) = civil_date (secs div 86400); r = secs mod 86400
      in pad 4 y @ ''-'' @ pad 2 m @ ''-'' @ pad 2 d @ ''T'' @ pad 2 (r div 3600) @ '':''
         @ pad 2 (r div 60 mod 60) @ '':'' @ pad 2 (r mod 60))"

definition RFC3339 :: "int \<Rightarrow> string" where
  "RFC3339 t = date_time t @ ''Z''"

definition RFC3339Nano :: "int \<Rightarrow> string" where
  "RFC3339Nano t =
     (let f = t mod Second
      in date_time t @ (if f = 0 then [] else ''.'' @ TrimRight (pad 9 f) (CHR ''0'')) @ ''Z'')"

definition Year :: "int \<Rightarrow> int" where
  "Year t = fst (civil_date (t div Second div 86400))"

end
