(* ===== verification/World.thy ===== *)
theory World
  imports Errors GoText
begin

text \<open>
  Everything the program calls and does not contain: the HTTP client, the SMTP session, the
  brokers, the clock and the random source, and the few library functions that only render text.
  They are the fields of one parameter of type \<open>'e env\<close>; \<^typ>\<open>'e\<close> is the state they keep, of which
  the model knows nothing. A \<open>'e world\<close> is that state together with the trace of the calls made so
  far, each with its result, and the token memory of the Zoho client.
\<close>

section \<open>Calls and their results\<close>

record http_request =
  rq_method :: string
  rq_url :: string
  rq_header :: "(string \<times> string) list"
  rq_body :: string

text \<open>\<open>rs_body\<close> is what can be read from the response body before it ends (or breaks off).\<close>

record http_response =
  rs_status :: int
  rs_body :: string

datatype smtp_command =
    SmtpDial string int
  | SmtpNewClient string
  | SmtpAuth string string string
  | SmtpMail string
  | SmtpRcpt string
  | SmtpData
  | SmtpWrite string
  | SmtpCloseData
  | SmtpQuit
  | SmtpCloseConn

text \<open>\<open>time.Time\<close> values are nanoseconds since the Unix epoch. \<open>HeaderInt\<close> and \<open>HeaderString\<close> are the
  values of an AMQP table that the program writes and reads; \<open>HeaderOther\<close> stands for a value of any
  type it does not handle.\<close>

datatype amqp_value = HeaderInt int | HeaderString string | HeaderOther

type_synonym amqp_table = "(string \<times> amqp_value) list"

record amqp_publishing =
  pub_Headers :: amqp_table
  pub_ContentType :: string
  pub_Persistent :: bool
  pub_MessageId :: string
  pub_Timestamp :: "int option"
  pub_Body :: string

datatype amqp_command =
    AmqpDial string
  | AmqpChannel
  | AmqpConfirm
  | AmqpQos int
  | AmqpQueueDeclare string bool amqp_table
  | AmqpQueueDeclarePassive string bool
  | AmqpConsume string
  | AmqpPublish string amqp_publishing
  | AmqpWaitConfirm
  | AmqpAck nat
  | AmqpNack nat bool
  | AmqpCloseChannel
  | AmqpCloseConn

text \<open>What \<open>IsClosed\<close> can be asked of.\<close>

datatype amqp_object = AmqpConnection | AmqpChannelObject

text \<open>A record consumed from or produced to a Kafka topic; the offset of a produced record is set by
  the broker.\<close>

record kafka_record =
  kr_Topic :: string
  kr_Partition :: int
  kr_Offset :: int
  kr_Key :: string
  kr_Value :: string
  kr_Headers :: "(string \<times> string) list"

text \<open>Client options, and the answer of the broker for one topic to create.\<close>

datatype kgo_opt =
    SeedBrokers "string list"
  | DialTLS12
  | SASLPlainAuth string string
  | SASLSha256Auth string string
  | SASLSha512Auth string string
  | ConsumerGroup string
  | ConsumeTopics "string list"
  | DisableAutoCommit
  | BlockRebalanceOnPoll
  | RebalanceTimeout int
  | ConsumePartitions string "(int \<times> int) list"

datatype topic_response = TopicCreated | TopicAlreadyExists | TopicFailed goerr

text \<open>What a poll returns: whether the client is closed, whether some partition failed, the records.\<close>

record fetches =
  fe_Closed :: bool
  fe_Errors :: bool
  fe_Records :: "kafka_record list"

datatype kafka_command =
    KafkaNewClient "kgo_opt list"
  | KafkaCloseClient
  | KafkaPing
  | KafkaProduce kafka_record
  | KafkaCommit "kafka_record list"
  | KafkaAllowRebalance

datatype event =
    HttpCall http_request "goerr + http_response"
  | SmtpCall smtp_command "goerr option"
  | AmqpCall amqp_command "goerr + bool"
  | KafkaCall kafka_command "goerr option"
  | KafkaCreate int int "string list"
  | KafkaPolled string "kafka_record list"
  | Slept int

section \<open>The environment and the world\<close>

text \<open>\<open>lib_quote\<close> is the verb \<open>%q\<close>; \<open>lib_mail_address name addr\<close> is the \<open>String\<close> method of a
  \<open>mail.Address\<close>; \<open>lib_q_encoding\<close> is \<open>mime.QEncoding.Encode("UTF-8", s)\<close>; \<open>lib_url_error\<close> is the error
  of \<open>http.NewRequest\<close> for a URL that does not parse; \<open>lib_type_error doc\<close> is the wording of the error
  with which \<open>encoding/json\<close> reports a value of the wrong type or a text that is no time; \<open>lib_parse_duration\<close> is
  \<open>time.ParseDuration\<close> (it computes fractions in floating point), and \<open>lib_parse_time\<close> reads the text of a
  JSON time (RFC 3339). In a reply of the broker the boolean
  is what \<open>WaitContext\<close> returns (any other command ignores it). \<open>ctx_err\<close> is \<open>ctx.Err()\<close>, and \<open>sleep d\<close>
  waits for \<open>d\<close> or for the end of the context: its result says whether the context is still alive.\<close>

record golib =
  lib_quote :: "string \<Rightarrow> string"
  lib_mail_address :: "string \<Rightarrow> string \<Rightarrow> string"
  lib_q_encoding :: "string \<Rightarrow> string"
  lib_url_error :: "string \<Rightarrow> goerr option"
  lib_type_error :: "string \<Rightarrow> string"
  lib_parse_duration :: "string \<Rightarrow> int option"
  lib_parse_time :: "string \<Rightarrow> int option"

record 'e env = golib +
  http_do :: "http_request \<Rightarrow> 'e \<Rightarrow> (goerr + http_response) \<times> 'e"
  smtp_do :: "smtp_command \<Rightarrow> 'e \<Rightarrow> goerr option \<times> 'e"
  amqp_is_closed :: "amqp_object \<Rightarrow> 'e \<Rightarrow> bool \<times> 'e"
  amqp_do :: "amqp_command \<Rightarrow> 'e \<Rightarrow> (goerr + bool) \<times> 'e"
  kafka_do :: "kafka_command \<Rightarrow> 'e \<Rightarrow> goerr option \<times> 'e"
  kafka_create :: "int \<Rightarrow> int \<Rightarrow> string list \<Rightarrow> 'e \<Rightarrow> (goerr + (string \<times> topic_response) list) \<times> 'e"
  kafka_poll :: "string \<Rightarrow> 'e \<Rightarrow> fetches \<times> 'e"
  ctx_err :: "'e \<Rightarrow> goerr option \<times> 'e"
  sleep :: "int \<Rightarrow> 'e \<Rightarrow> bool \<times> 'e"
  clock :: "'e \<Rightarrow> int \<times> 'e"
  random16 :: "'e \<Rightarrow> 8 word list \<times> 'e"

record 'e world =
  trace :: "event list"
  hidden :: 'e
  zoho_token :: string
  zoho_expiresAt :: int

text \<open>A call changes the state outside and is appended to the trace with its result.\<close>

definition record_call :: "event \<Rightarrow> 'e \<Rightarrow> 'e world \<Rightarrow> 'e world" where
  "record_call ev e w = w\<lparr>trace := trace w @ [ev], hidden := e\<rparr>"

definition call_http :: "'e env \<Rightarrow> http_request \<Rightarrow> 'e world \<Rightarrow> (goerr + http_response) \<times> 'e world" where
  "call_http E rq w = (let (r, e) = http_do E rq (hidden w) in (r, record_call (HttpCall rq r) e w))"

definition call_smtp :: "'e env \<Rightarrow> smtp_command \<Rightarrow> 'e world \<Rightarrow> goerr option \<times> 'e world" where
  "call_smtp E c w = (let (r, e) = smtp_do E c (hidden w) in (r, record_call (SmtpCall c r) e w))"

definition call_amqp :: "'e env \<Rightarrow> amqp_command \<Rightarrow> 'e world \<Rightarrow> (goerr + bool) \<times> 'e world" where
  "call_amqp E c w = (let (r, e) = amqp_do E c (hidden w) in (r, record_call (AmqpCall c r) e w))"

definition call_kafka :: "'e env \<Rightarrow> kafka_command \<Rightarrow> 'e world \<Rightarrow> goerr option \<times> 'e world" where
  "call_kafka E c w = (let (r, e) = kafka_do E c (hidden w) in (r, record_call (KafkaCall c r) e w))"

definition call_kafka_create ::
  "'e env \<Rightarrow> int \<Rightarrow> int \<Rightarrow> string list \<Rightarrow> 'e world \<Rightarrow> (goerr + (string \<times> topic_response) list) \<times> 'e world"
where
  "call_kafka_create E p r ts w =
     (let (x, e) = kafka_create E p r ts (hidden w) in (x, record_call (KafkaCreate p r ts) e w))"

definition call_kafka_poll :: "'e env \<Rightarrow> string \<Rightarrow> 'e world \<Rightarrow> fetches \<times> 'e world" where
  "call_kafka_poll E topic w =
     (let (x, e) = kafka_poll E topic (hidden w) in (x, record_call (KafkaPolled topic (fe_Records x)) e w))"

definition call_sleep :: "'e env \<Rightarrow> int \<Rightarrow> 'e world \<Rightarrow> bool \<times> 'e world" where
  "call_sleep E d w = (let (r, e) = sleep E d (hidden w) in (r, record_call (Slept d) e w))"

text \<open>Reading the clock or the random source leaves no trace.\<close>

definition call_clock :: "'e env \<Rightarrow> 'e world \<Rightarrow> int \<times> 'e world" where
  "call_clock E w = (let (t, e) = clock E (hidden w) in (t, w\<lparr>hidden := e\<rparr>))"

definition call_random16 :: "'e env \<Rightarrow> 'e world \<Rightarrow> 8 word list \<times> 'e world" where
  "call_random16 E w = (let (r, e) = random16 E (hidden w) in (r, w\<lparr>hidden := e\<rparr>))"

definition call_is_closed :: "'e env \<Rightarrow> amqp_object \<Rightarrow> 'e world \<Rightarrow> bool \<times> 'e world" where
  "call_is_closed E ob w = (let (r, e) = amqp_is_closed E ob (hidden w) in (r, w\<lparr>hidden := e\<rparr>))"

definition call_ctx_err :: "'e env \<Rightarrow> 'e world \<Rightarrow> goerr option \<times> 'e world" where
  "call_ctx_err E w = (let (r, e) = ctx_err E (hidden w) in (r, w\<lparr>hidden := e\<rparr>))"

section \<open>What a call leaves behind\<close>

lemma trace_record_call [simp, trace_simps]: "trace (record_call ev e w) = trace w @ [ev]"
  by (simp add: record_call_def)

lemma zoho_record_call [simp, trace_simps]:
  "zoho_token (record_call ev e w) = zoho_token w"
  "zoho_expiresAt (record_call ev e w) = zoho_expiresAt w"
  by (simp_all add: record_call_def)

lemma call_trace:
  "call_http E rq w = (r, w') \<Longrightarrow> trace w' = trace w @ [HttpCall rq r]"
  "call_smtp E c w = (sr, w') \<Longrightarrow> trace w' = trace w @ [SmtpCall c sr]"
  "call_amqp E ac w = (ar, w') \<Longrightarrow> trace w' = trace w @ [AmqpCall ac ar]"
  "call_kafka E kc w = (kr, w') \<Longrightarrow> trace w' = trace w @ [KafkaCall kc kr]"
  "call_sleep E d w = (b, w') \<Longrightarrow> trace w' = trace w @ [Slept d]"
  "call_clock E w = (t, w') \<Longrightarrow> trace w' = trace w"
  "call_random16 E w = (bs, w') \<Longrightarrow> trace w' = trace w"
  "call_ctx_err E w = (ce, w') \<Longrightarrow> trace w' = trace w"
  "call_kafka_create E p r' ts w = (kc', w') \<Longrightarrow> trace w' = trace w @ [KafkaCreate p r' ts]"
  "call_kafka_poll E topic w = (x, w') \<Longrightarrow> trace w' = trace w @ [KafkaPolled topic (fe_Records x)]"
  "call_is_closed E ob w = (cl, w') \<Longrightarrow> trace w' = trace w"
  by (auto simp: call_http_def call_smtp_def call_amqp_def call_kafka_def call_sleep_def
      call_clock_def call_random16_def call_ctx_err_def call_is_closed_def
      call_kafka_create_def call_kafka_poll_def split: prod.splits)

lemma call_zoho:
  "call_http E rq w = (r, w') \<Longrightarrow> zoho_token w' = zoho_token w \<and> zoho_expiresAt w' = zoho_expiresAt w"
  "call_clock E w = (t, w') \<Longrightarrow> zoho_token w' = zoho_token w \<and> zoho_expiresAt w' = zoho_expiresAt w"
  by (auto simp: call_http_def call_clock_def split: prod.splits)

text \<open>An operation that only appends events of one kind to the trace.\<close>

definition appends :: "(event \<Rightarrow> bool) \<Rightarrow> 'e world \<Rightarrow> 'e world \<Rightarrow> bool" where
  "appends P w w' \<longleftrightarrow> (\<exists>evs. trace w' = trace w @ evs \<and> list_all P evs)"

lemma appends_refl [simp, intro]: "appends P w w"
  by (auto simp: appends_def)

lemma appends_trans [trans]: "appends P w w' \<Longrightarrow> appends P w' w'' \<Longrightarrow> appends P w w''"
  by (fastforce simp: appends_def)

lemma appends_mono: "appends P w w' \<Longrightarrow> (\<And>ev. P ev \<Longrightarrow> Q ev) \<Longrightarrow> appends Q w w'"
  by (auto simp: appends_def list_all_iff)

lemma appends_trace_eq: "trace w' = trace w \<Longrightarrow> appends P w w'"
  by (simp add: appends_def)

lemma appends_one: "trace w' = trace w @ [ev] \<Longrightarrow> P ev \<Longrightarrow> appends P w w'"
  by (auto simp: appends_def)

text \<open>An environment in which every call succeeds.\<close>

definition quiet_env :: "unit env" where
  "quiet_env =
     \<lparr>lib_quote = (\<lambda>s. s), lib_mail_address = (\<lambda>n a. n @ a), lib_q_encoding = (\<lambda>s. s), lib_url_error = (\<lambda>u. None),
      lib_type_error = (\<lambda>doc. ''json: cannot unmarshal''), lib_parse_duration = (\<lambda>s. None), lib_parse_time = (\<lambda>s. Some 0),
      http_do = (\<lambda>rq e. (Inr \<lparr>rs_status = 200, rs_body = ''{}''\<rparr>, e)), smtp_do = (\<lambda>c e. (None, e)),
      amqp_is_closed = (\<lambda>ob e. (False, e)),
      amqp_do = (\<lambda>c e. (Inr True, e)), kafka_do = (\<lambda>c e. (None, e)), 
      kafka_create = (\<lambda>p r ts e. (Inr [], e)),
      kafka_poll = (\<lambda>t e. (\<lparr>fe_Closed = False, fe_Errors = False, fe_Records = []\<rparr>, e)),
      ctx_err = (\<lambda>e. (None, e)), sleep = (\<lambda>d e. (True, e)), clock = (\<lambda>e. (0, e)),
      random16 = (\<lambda>e. (replicate 16 0, e))\<rparr>"


end
