(* ===== verification/Service.thy ===== *)
theory Service
  imports Retry World
begin

text \<open>
  \<open>internal/core/mailer/service.go\<close> and \<open>ports.go\<close>: the delivery service. The two ports are
  parameters of the service record, as they are fields of the Go struct: a \<open>Sender\<close> and a
  \<open>DeliveryNotifier\<close> take the world and return it changed, with an error or none. Log output is not
  modelled.
\<close>

section \<open>Ports and state\<close>

type_synonym 'e Sender = "SendEmailData \<Rightarrow> 'e world \<Rightarrow> goerr option \<times> 'e world"
type_synonym 'e DeliveryNotifier = "CallbackTarget \<Rightarrow> DeliveryEvent \<Rightarrow> 'e world \<Rightarrow> goerr option \<times> 'e world"

record 'e service =
  sender :: "'e Sender"
  notifier :: "'e DeliveryNotifier"
  policy :: RetryPolicy
  now :: "'e world \<Rightarrow> int \<times> 'e world"

definition NewService :: "'e env \<Rightarrow> 'e Sender \<Rightarrow> 'e DeliveryNotifier \<Rightarrow> RetryPolicy \<Rightarrow> 'e service" where
  "NewService E snd' ntf p = \<lparr>sender = snd', notifier = ntf, policy = p, now = call_clock E\<rparr>"

section \<open>Operations\<close>

definition send :: "'e service \<Rightarrow> SendEmailData \<Rightarrow> 'e world \<Rightarrow> goerr option \<times> 'e world" where
  "send s d w =
     (case DecodeString (email_Body d) of
        Inl n \<Rightarrow>
          (Some (Errorf_w CodeMessageInvalidBody ''failed to decode base64 body: '' (CorruptInput n)), w)
      | Inr decodedBody \<Rightarrow>
          (case sender s (d\<lparr>email_Body := decodedBody, email_Callback := None\<rparr>) w of
             (Some err, w1) \<Rightarrow>
               (Some (Wrapped (''failed to send email to '' @ Recipients_String (email_Receiver d) @ '': '') err), w1)
           | (None, w1) \<Rightarrow> (None, w1)))"

definition usableTarget :: "Callback option \<Rightarrow> (Callback \<Rightarrow> CallbackTarget option) \<Rightarrow> CallbackTarget option" where
  "usableTarget callback pick =
     (case callback of
        None \<Rightarrow> None
      | Some c \<Rightarrow>
          (case pick c of
             None \<Rightarrow> None
           | Some target \<Rightarrow> if TrimSpace (target_URL target) = [] then None else Some target))"

definition newEvent ::
  "'e service \<Rightarrow> SendEmailData \<Rightarrow> DeliveryStatus \<Rightarrow> goerr option \<Rightarrow> 'e world \<Rightarrow> DeliveryEvent \<times> 'e world"
where
  "newEvent s d st cause w =
     (let (t, w1) = now s w
      in (\<lparr>event_ID = email_ID d, event_Subject = email_Subject d, event_Status = st,
           event_ErrorCode = (case cause of None \<Rightarrow> CodeNone | Some err \<Rightarrow> CodeOf err),
           event_Cause = (case cause of None \<Rightarrow> [] | Some err \<Rightarrow> Error_text err),
           event_OccurredAt = Some t\<rparr>, w1))"

definition notifySuccess :: "'e service \<Rightarrow> SendEmailData \<Rightarrow> DeliveryEvent \<Rightarrow> 'e world \<Rightarrow> 'e world" where
  "notifySuccess s d ev w =
     (case usableTarget (email_Callback d) Success of
        None \<Rightarrow> w
      | Some target \<Rightarrow> snd (notifier s target ev w))"

definition handleFailure ::
  "'e service \<Rightarrow> SendEmailData \<Rightarrow> goerr \<Rightarrow> int \<Rightarrow> bool \<Rightarrow> 'e world \<Rightarrow> Outcome \<times> 'e world"
where
  "handleFailure s d cause attempt canRetry w =
     (let (ev, w1) = newEvent s d StatusFailed (Some cause) w
      in if canRetry \<and> Retryable (event_ErrorCode ev) then
           (\<lparr>out_Event = ev, out_Err = Some cause, out_Action = ActionRetry,
             out_RetryIn = Delay (policy s) attempt\<rparr>, w1)
         else
           (case usableTarget (email_Callback d) Failure of
              None \<Rightarrow>
                (\<lparr>out_Event = ev, out_Err = Some cause, out_Action = ActionDeadLetter, out_RetryIn = 0\<rparr>, w1)
            | Some target \<Rightarrow>
                (case notifier s target ev w1 of
                   (Some err, w2) \<Rightarrow>
                     (\<lparr>out_Event = ev,
                       out_Err = Some (Joined [cause, Wrapped (''failed to notify failure callback ''
                         @ target_URL target @ '': '') err]),
                       out_Action = ActionDeadLetter, out_RetryIn = 0\<rparr>, w2)
                 | (None, w2) \<Rightarrow>
                     (\<lparr>out_Event = ev, out_Err = Some cause, out_Action = ActionDone, out_RetryIn = 0\<rparr>, w2))))"

definition deliver :: "'e service \<Rightarrow> SendEmailData \<Rightarrow> int \<Rightarrow> bool \<Rightarrow> 'e world \<Rightarrow> Outcome \<times> 'e world" where
  "deliver s d attempt canRetry w =
     (case send s d w of
        (Some err, w1) \<Rightarrow> handleFailure s d err attempt canRetry w1
      | (None, w1) \<Rightarrow>
          (let (ev, w2) = newEvent s d StatusSent None w1; w3 = notifySuccess s d ev w2
           in (\<lparr>out_Event = ev, out_Err = None, out_Action = ActionDone, out_RetryIn = 0\<rparr>, w3)))"

definition Deliver :: "'e service \<Rightarrow> SendEmailData \<Rightarrow> int \<Rightarrow> 'e world \<Rightarrow> Outcome \<times> 'e world" where
  "Deliver s d attempt w = deliver s d attempt (CanRetry (policy s) attempt) w"

definition DeliverOnce :: "'e service \<Rightarrow> SendEmailData \<Rightarrow> 'e world \<Rightarrow> Outcome \<times> 'e world" where
  "DeliverOnce s d w = deliver s d 1 False w"


section \<open>Steps of the service\<close>

lemmas service_defs = deliver_def handleFailure_def newEvent_def notifySuccess_def

lemma newEvent_fields:
  assumes "newEvent s d st cause w = (ev, w')"
  shows "event_ID ev = email_ID d" "event_Subject ev = email_Subject d" "event_Status ev = st"
    and "event_ErrorCode ev = (case cause of None \<Rightarrow> CodeNone | Some err \<Rightarrow> CodeOf err)"
    and "event_Cause ev = (case cause of None \<Rightarrow> [] | Some err \<Rightarrow> Error_text err)"
    and "w' = snd (now s w)" "event_OccurredAt ev = Some (fst (now s w))"
  using assms by (auto simp: newEvent_def split: prod.splits)

text \<open>A usable target is one the callback defines with a URL that is not blank.\<close>

lemma usableTarget_iff:
  "usableTarget cb pick = Some t \<longleftrightarrow> (\<exists>c. cb = Some c \<and> pick c = Some t \<and> \<not> blank (target_URL t))"
  by (auto simp: usableTarget_def split: option.splits)

lemma send_update:
  "send (s\<lparr>notifier := ntf\<rparr>) d w = send s d w" "send (s\<lparr>policy := p\<rparr>) d w = send s d w"
  by (simp_all add: send_def split: sum.split)

lemma deliver_sent:
  assumes "send s d w = (None, w1)"
  shows "fst (deliver s d n c w) =
      \<lparr>out_Event = fst (newEvent s d StatusSent None w1), out_Err = None, out_Action = ActionDone, out_RetryIn = 0\<rparr>"
  using assms by (simp add: deliver_def Let_def split: prod.splits)

lemma deliver_failed:
  assumes "send s d w = (Some err, w1)"
  shows "deliver s d n c w = handleFailure s d err n c w1"
  using assms by (simp add: deliver_def)

lemma handleFailure_update: "handleFailure (s\<lparr>sender := sd\<rparr>) d err n c w = handleFailure s d err n c w"
proof -
  have "newEvent (s\<lparr>sender := sd\<rparr>) d st cause w = newEvent s d st cause w" for st cause
    by (simp add: newEvent_def)
  then show ?thesis
    by (cases "newEvent s d StatusFailed (Some err) w") (simp add: handleFailure_def split: option.split)
qed

lemma handleFailure_retry:
  assumes "c" "Retryable (CodeOf err)"
  shows "handleFailure s d err n c w =
      (\<lparr>out_Event = fst (newEvent s d StatusFailed (Some err) w), out_Err = Some err,
        out_Action = ActionRetry, out_RetryIn = Delay (policy s) n\<rparr>, snd (now s w))"
  using assms by (simp add: handleFailure_def newEvent_def split: prod.splits)

lemma handleFailure_final:
  assumes "\<not> (c \<and> Retryable (CodeOf err))"
  shows "out_Action (fst (handleFailure s d err n c w)) \<noteq> ActionRetry"
  using assms by (auto simp: handleFailure_def newEvent_def Let_def split: prod.splits option.splits)

lemma handleFailure_err: "out_Err (fst (handleFailure s d err n c w)) \<noteq> None"
  by (auto simp: handleFailure_def Let_def split: prod.splits option.splits)

lemma handleFailure_event:
  "out_Event (fst (handleFailure s d err n c w)) = fst (newEvent s d StatusFailed (Some err) w)"
  by (auto simp: handleFailure_def Let_def split: prod.splits option.splits)

lemma send_cases:
  obtains (bad_body) k where "DecodeString (email_Body d) = Inl k"
      "send s d w = (Some (Errorf_w CodeMessageInvalidBody ''failed to decode base64 body: '' (CorruptInput k)), w)"
    | (rejected) body err w1 where "DecodeString (email_Body d) = Inr body"
      "sender s (d\<lparr>email_Body := body, email_Callback := None\<rparr>) w = (Some err, w1)"
      "send s d w = (Some (Wrapped (''failed to send email to '' @ Recipients_String (email_Receiver d) @ '': '') err), w1)"
    | (accepted) body w1 where "DecodeString (email_Body d) = Inr body"
      "sender s (d\<lparr>email_Body := body, email_Callback := None\<rparr>) w = (None, w1)" "send s d w = (None, w1)"
proof (cases "DecodeString (email_Body d)")
  case (Inl k)
  then show ?thesis using bad_body by (simp add: send_def)
next
  case (Inr body)
  obtain r w1 where "sender s (d\<lparr>email_Body := body, email_Callback := None\<rparr>) w = (r, w1)" by fastforce
  then show ?thesis using Inr rejected accepted by (cases r) (simp_all add: send_def)
qed

section \<open>The contract of the service\<close>

text \<open>What the sources rely on: an outcome that asks for a retry is one the policy allows, after the
  policy's wait and for a temporary error code; an outcome without an error is a delivered email.\<close>

locale deliverer =
  fixes deliver_op :: "SendEmailData \<Rightarrow> int \<Rightarrow> 'e world \<Rightarrow> Outcome \<times> 'e world"
    and pol :: RetryPolicy
  assumes retry_allowed:
      "deliver_op d n w = (out, w') \<Longrightarrow> out_Action out = ActionRetry \<Longrightarrow>
       CanRetry pol n \<and> out_RetryIn out = Delay pol n \<and> Retryable (event_ErrorCode (out_Event out))"
    and sent_done: "deliver_op d n w = (out, w') \<Longrightarrow> out_Err out = None \<Longrightarrow> out_Action out = ActionDone"
    and status_sent:
      "deliver_op d n w = (out, w') \<Longrightarrow> event_Status (out_Event out) = StatusSent \<longleftrightarrow> out_Err out = None"

context deliverer
begin

lemma last_attempt_final:
  "deliver_op d n w = (out, w') \<Longrightarrow> MaxAttempts pol \<le> n \<Longrightarrow> out_Action out \<noteq> ActionRetry"
  using retry_allowed [of d n w out w'] by (auto simp: CanRetry_def)

lemma next_attempt_allowed:
  "deliver_op d n w = (out, w') \<Longrightarrow> out_Action out = ActionRetry \<Longrightarrow> n + 1 \<le> MaxAttempts pol"
  using retry_allowed [of d n w out w'] by (simp add: CanRetry_def)

lemma retry_wait_declared:
  "deliver_op d n w = (out, w') \<Longrightarrow> 1 \<le> n \<Longrightarrow> out_Action out = ActionRetry \<Longrightarrow>
   out_RetryIn out \<in> set (Delays pol)"
  using retry_allowed [of d n w out w'] by (auto intro: Delay_in_Delays)

end

lemma Deliver_retry:
  assumes "Deliver s d n w = (out, w')" "out_Action out = ActionRetry"
  shows "CanRetry (policy s) n \<and> out_RetryIn out = Delay (policy s) n
     \<and> Retryable (event_ErrorCode (out_Event out))"
proof -
  obtain r w1 where send: "send s d w = (r, w1)" by fastforce
  show ?thesis
  proof (cases r)
    case None
    then have "out_Action (fst (Deliver s d n w)) = ActionDone"
      using send by (simp add: Deliver_def deliver_sent)
    then show ?thesis using assms by simp
  next
    case (Some err)
    then have out: "(out, w') = handleFailure s d err n (CanRetry (policy s) n) w1"
      using assms send by (simp add: Deliver_def deliver_failed)
    then have "CanRetry (policy s) n \<and> Retryable (CodeOf err)"
      using handleFailure_final [of "CanRetry (policy s) n" err s d n w1] assms(2) by (metis fst_conv)
    then show ?thesis
      using out by (simp add: handleFailure_retry newEvent_def split: prod.splits)
  qed
qed

lemma Deliver_sent:
  assumes "Deliver s d n w = (out, w')"
  shows "out_Err out = None \<Longrightarrow> out_Action out = ActionDone"
    and "event_Status (out_Event out) = StatusSent \<longleftrightarrow> out_Err out = None"
proof -
  obtain r w1 where send: "send s d w = (r, w1)" by fastforce
  have "(out_Err out = None \<longrightarrow> out_Action out = ActionDone)
      \<and> (event_Status (out_Event out) = StatusSent \<longleftrightarrow> out_Err out = None)"
  proof (cases r)
    case None
    then have "out = fst (deliver s d n (CanRetry (policy s) n) w)"
      using assms by (simp add: Deliver_def)
    then show ?thesis using None send by (simp add: deliver_sent newEvent_def split: prod.splits)
  next
    case (Some err)
    then have "out = fst (handleFailure s d err n (CanRetry (policy s) n) w1)"
      using assms send by (simp add: Deliver_def deliver_failed)
    then show ?thesis
      by (auto simp: handleFailure_err handleFailure_event newEvent_def split: prod.splits)
  qed
  then show "out_Err out = None \<Longrightarrow> out_Action out = ActionDone"
    and "event_Status (out_Event out) = StatusSent \<longleftrightarrow> out_Err out = None" by auto
qed

interpretation service: deliverer "Deliver s" "policy s" for s :: "'e service"
  by unfold_locales (auto dest: Deliver_retry Deliver_sent)


section \<open>Properties\<close>

text \<open>The decision the documentation of \<open>Service\<close> describes: from the error code (none when the email
  was sent), whether an attempt is left, and the answer of the failure callback (none when the
  message names no usable one).\<close>

fun decide :: "ErrorCode option \<Rightarrow> bool \<Rightarrow> bool option \<Rightarrow> Action" where
  "decide None canRetry answer = ActionDone"
| "decide (Some code) canRetry answer =
     (if canRetry \<and> Retryable code then ActionRetry
      else if answer = Some True then ActionDone else ActionDeadLetter)"

definition failure_answer :: "'e service \<Rightarrow> SendEmailData \<Rightarrow> 'e world \<Rightarrow> bool option" where
  "failure_answer s d w =
     (case send s d w of
        (None, w1) \<Rightarrow> None
      | (Some err, w1) \<Rightarrow>
          (case usableTarget (email_Callback d) Failure of
             None \<Rightarrow> None
           | Some t \<Rightarrow>
               (let (ev, w2) = newEvent s d StatusFailed (Some err) w1
                in Some (fst (notifier s t ev w2) = None))))"

lemma Deliver_decides:
  "out_Action (fst (Deliver s d n w)) =
     decide (map_option CodeOf (fst (send s d w))) (n < MaxAttempts (policy s)) (failure_answer s d w)"
  by (auto simp: Deliver_def deliver_def handleFailure_def newEvent_def failure_answer_def CanRetry_def
      Let_def split: prod.splits option.splits)

lemma decide_done: "decide code canRetry answer = ActionDone \<Longrightarrow> code = None \<or> answer = Some True"
  by (cases code) (auto split: if_splits)

text \<open>C1: The action of a queued delivery refines the documented decision table: done when the email
  was sent, retry exactly when the error code is temporary and an attempt is left, otherwise done
  exactly when a usable failure callback accepted the failure event, and dead letter in every other
  case. So a message is never acknowledged without the email being sent or its failure being
  accepted by its callback.\<close>

theorem Deliver_refines_decide:
  "out_Action (fst (Deliver s d n w)) =
     decide (map_option CodeOf (fst (send s d w))) (n < MaxAttempts (policy s)) (failure_answer s d w)"
  by (rule Deliver_decides)

text \<open>When an attempt is to be retried no callback is called: the result, world included, is the
  same for every notifier, the wait is the policy's delay for this attempt, and the event reports
  the failure with its temporary code.\<close>

lemma retry_without_callback:
  assumes "out_Action (fst (Deliver s d n w)) = ActionRetry"
  shows "Deliver (s\<lparr>notifier := ntf\<rparr>) d n w = Deliver s d n w
    \<and> out_RetryIn (fst (Deliver s d n w)) = Delay (policy s) n
    \<and> event_Status (out_Event (fst (Deliver s d n w))) = StatusFailed
    \<and> Retryable (event_ErrorCode (out_Event (fst (Deliver s d n w))))"
proof (intro conjI)
  obtain r w1 where send: "send s d w = (r, w1)" by fastforce
  obtain err where r: "r = Some err" and c: "CanRetry (policy s) n" "Retryable (CodeOf err)"
  proof (cases r)
    case None
    then show thesis using assms send by (simp add: Deliver_def deliver_sent)
  next
    case (Some err)
    moreover from this have "CanRetry (policy s) n \<and> Retryable (CodeOf err)"
      using assms send handleFailure_final [of "CanRetry (policy s) n" err s d n w1]
      by (auto simp: Deliver_def deliver_failed)
    ultimately show thesis using that by blast
  qed
  show "Deliver (s\<lparr>notifier := ntf\<rparr>) d n w = Deliver s d n w"
    using send c by (simp add: Deliver_def deliver_failed send_update r handleFailure_retry newEvent_def)
  show "out_RetryIn (fst (Deliver s d n w)) = Delay (policy s) n"
    "event_Status (out_Event (fst (Deliver s d n w))) = StatusFailed"
    "Retryable (event_ErrorCode (out_Event (fst (Deliver s d n w))))"
    using send c by (simp_all add: Deliver_def deliver_failed r handleFailure_retry newEvent_def split: prod.splits)
qed

text \<open>C20: Once the email is sent the outcome is fixed: it is done, without error, and the same whatever
  the success callback answers, so an email that was sent is never sent again because its callback
  failed; the callback is called at most once, with the event that says so.\<close>

theorem success_callback_harmless:
  assumes "send s d w = (None, w1)"
  shows "fst (Deliver (s\<lparr>notifier := ntf\<rparr>) d n w) = fst (Deliver s d n w)
    \<and> out_Action (fst (Deliver s d n w)) = ActionDone \<and> Sent (fst (Deliver s d n w))
    \<and> snd (Deliver s d n w) =
      (case usableTarget (email_Callback d) Success of
         None \<Rightarrow> snd (now s w1)
       | Some t \<Rightarrow> snd (notifier s t (out_Event (fst (Deliver s d n w))) (snd (now s w1))))"
proof (intro conjI)
  have same: "send (s\<lparr>notifier := ntf\<rparr>) d w = (None, w1)"
    using assms by (simp add: send_update)
  show "fst (Deliver (s\<lparr>notifier := ntf\<rparr>) d n w) = fst (Deliver s d n w)"
    using assms same by (simp add: Deliver_def deliver_sent newEvent_def)
  show "out_Action (fst (Deliver s d n w)) = ActionDone" "Sent (fst (Deliver s d n w))"
    using assms by (simp_all add: Deliver_def deliver_sent Sent_def)
  show "snd (Deliver s d n w) =
      (case usableTarget (email_Callback d) Success of
         None \<Rightarrow> snd (now s w1)
       | Some t \<Rightarrow> snd (notifier s t (out_Event (fst (Deliver s d n w))) (snd (now s w1))))"
    using assms by (simp add: Deliver_def deliver_def newEvent_def notifySuccess_def split: prod.splits option.splits)
qed

text \<open>C21: A body that is not base64 is rejected before the transport is touched: the outcome is the
  same for every sender, it carries \<open>message_invalid_body\<close> with the offset of the bad byte in its
  cause, and it is never retried, whatever the attempt.\<close>

theorem invalid_body_is_final:
  assumes "DecodeString (email_Body d) = Inl k"
  shows "Deliver (s\<lparr>sender := sd\<rparr>) d n w = Deliver s d n w
    \<and> event_ErrorCode (out_Event (fst (Deliver s d n w))) = CodeMessageInvalidBody
    \<and> event_Cause (out_Event (fst (Deliver s d n w))) =
      ''failed to decode base64 body: illegal base64 data at input byte '' @ Itoa (int k)
    \<and> out_Action (fst (Deliver s d n w)) \<noteq> ActionRetry"
proof (intro conjI)
  let ?err = "Errorf_w CodeMessageInvalidBody ''failed to decode base64 body: '' (CorruptInput k)"
  have send: "send (s\<lparr>sender := sd'\<rparr>) d w = (Some ?err, w)" "send s d w = (Some ?err, w)" for sd'
    using assms by (simp_all add: send_def)
  show "Deliver (s\<lparr>sender := sd\<rparr>) d n w = Deliver s d n w"
    by (simp add: Deliver_def deliver_failed send handleFailure_update)
  show "event_ErrorCode (out_Event (fst (Deliver s d n w))) = CodeMessageInvalidBody"
    "event_Cause (out_Event (fst (Deliver s d n w))) =
      ''failed to decode base64 body: illegal base64 data at input byte '' @ Itoa (int k)"
    by (simp_all add: Deliver_def deliver_failed send handleFailure_event newEvent_def split: prod.splits)
  show "out_Action (fst (Deliver s d n w)) \<noteq> ActionRetry"
    by (simp add: Deliver_def deliver_failed send handleFailure_final)
qed

text \<open>The sender gets the email with the original body: a request whose body is the base64 text of
  an HTML document reaches the sender with that document as its body, without its callbacks and with
  every other field unchanged, and a sender error is wrapped without losing its code.\<close>

lemma send_delivers_decoded_body:
  "send s (d\<lparr>email_Body := EncodeToString html\<rparr>) w =
     (case sender s (d\<lparr>email_Body := html, email_Callback := None\<rparr>) w of
        (err, w1) \<Rightarrow>
          (map_option (Wrapped (''failed to send email to '' @ Recipients_String (email_Receiver d) @ '': '')) err, w1))"
  by (simp add: send_def split: prod.splits option.splits)

text \<open>C22: A synchronous request gets a single attempt: \<open>DeliverOnce\<close> is \<open>Deliver\<close> on attempt 1 under a
  policy of one attempt, so it never asks for a retry.\<close>

theorem DeliverOnce_single_attempt:
  assumes "MaxAttempts p = 1"
  shows "DeliverOnce s d w = Deliver (s\<lparr>policy := p\<rparr>) d 1 w
    \<and> out_Action (fst (DeliverOnce s d w)) \<noteq> ActionRetry"
proof (intro conjI)
  show eq: "DeliverOnce s d w = Deliver (s\<lparr>policy := p\<rparr>) d 1 w"
    using assms by (simp add: DeliverOnce_def Deliver_def deliver_def handleFailure_def newEvent_def
        notifySuccess_def CanRetry_def send_update split: prod.splits option.splits)
  from eq show "out_Action (fst (DeliverOnce s d w)) \<noteq> ActionRetry"
    using assms service.last_attempt_final [of "s\<lparr>policy := p\<rparr>" d 1 w
        "fst (DeliverOnce s d w)" "snd (DeliverOnce s d w)"] by simp
qed


section \<open>Witnesses\<close>

text \<open>A service whose sender is rate limited, one whose sender accepts everything, and a request.\<close>

definition busy_service :: "'e service" where
  "busy_service =
     \<lparr>sender = (\<lambda>d w. (Some (Errorf CodeAPIRateLimited ''slow down''), w)),
      notifier = (\<lambda>t ev w. (None, w)), policy = DefaultRetryPolicy, now = (\<lambda>w. (0, w))\<rparr>"

definition open_service :: "'e service" where
  "open_service = busy_service\<lparr>sender := (\<lambda>d w. (None, w))\<rparr>"

definition some_world :: "unit world" where
  "some_world = \<lparr>trace = [], hidden = (), zoho_token = [], zoho_expiresAt = ZeroTime\<rparr>"

definition some_email :: "string \<Rightarrow> SendEmailData" where
  "some_email body =
     \<lparr>email_ID = ''7'', email_Attachments = None, email_Body = body, email_From = ''a@x.io'', email_FromName = [],
      email_Receiver = [''b@x.io''], email_Subject = ''Hi'', email_Cc = [], email_Bcc = [''c@x.io''],
      email_Callback = Some \<lparr>Success = None, Failure = Some \<lparr>target_URL = ''http://cb'', target_Headers = []\<rparr>\<rparr>\<rparr>"

lemma busy_policy [simp]: "policy busy_service = DefaultRetryPolicy"
  by (simp add: busy_service_def)

lemma busy_now [simp]: "now busy_service w = (0, w)"
  by (simp add: busy_service_def)

lemma witness_send:
  "send busy_service (some_email ''SGk='') some_world =
     (Some (Wrapped ''failed to send email to b@x.io: '' (Errorf CodeAPIRateLimited ''slow down'')), some_world)"
  "send open_service (some_email ''SGk='') some_world = (None, some_world)"
proof -
  have "DecodeString ''SGk='' = Inr ''Hi''" by code_simp
  then show "send busy_service (some_email ''SGk='') some_world =
     (Some (Wrapped ''failed to send email to b@x.io: '' (Errorf CodeAPIRateLimited ''slow down'')), some_world)"
    "send open_service (some_email ''SGk='') some_world = (None, some_world)"
    by (simp_all add: send_def some_email_def busy_service_def open_service_def Recipients_String_def)
qed

lemma retry_without_callback_example:
  "out_RetryIn (fst (Deliver busy_service (some_email ''SGk='') 2 some_world)) = 60 * Second"
proof -
  have "out_Action (fst (Deliver busy_service (some_email ''SGk='') 2 some_world)) = ActionRetry"
    by (simp add: Deliver_def deliver_failed witness_send handleFailure_retry CanRetry_def
        DefaultRetryPolicy_def)
  from retry_without_callback [OF this] show ?thesis
    by (simp add: DefaultRetryPolicy_def Delay_def wrap64_def)
qed

theorem success_callback_harmless_witness:
  "out_Action (fst (Deliver open_service (some_email ''SGk='') 1 some_world)) = ActionDone"
  using success_callback_harmless [OF witness_send(2), of "notifier busy_service" 1] by simp

theorem invalid_body_is_final_witness:
  "event_ErrorCode (out_Event (fst (Deliver open_service (some_email ''S*k='') 1 some_world))) = CodeMessageInvalidBody"
proof -
  have "DecodeString ''S*k='' = Inl 1" by code_simp
  then show ?thesis
    using invalid_body_is_final [where d = "some_email ''S*k=''" and s = open_service and n = 1 and w = some_world]
    by (simp add: some_email_def)
qed

theorem DeliverOnce_single_attempt_witness:
  "out_Action (fst (DeliverOnce busy_service (some_email ''SGk='') some_world)) \<noteq> ActionRetry"
  using DeliverOnce_single_attempt
    [of "DefaultRetryPolicy\<lparr>MaxAttempts := 1\<rparr>" busy_service "some_email ''SGk=''" some_world, THEN conjunct2] by simp

end
