(* ===== verification/GoJson.thy ===== *)
theory GoJson
  imports Errors
begin

text \<open>
  \<open>encoding/json\<close> as the program uses it: the scanner of a document (the state machine of
  \<open>scanner.go\<close>, with its error messages and its nesting limit), the text of a value as \<open>Marshal\<close>
  writes it, and the decoding of a document into a struct.
\<close>

datatype json =
    JNull
  | JBool bool
  | JNum string
  | JStr string
  | JArr "json list"
  | JObj "(string \<times> json) list"

section \<open>Strings\<close>

definition hex_value :: "char \<Rightarrow> nat option" where
  "hex_value c =
     (let b = of_char c :: nat
      in if 48 \<le> b \<and> b \<le> 57 then Some (b - 48) else if 97 \<le> b \<and> b \<le> 102 then Some (b - 87)
         else if 65 \<le> b \<and> b \<le> 70 then Some (b - 55) else None)"

definition utf8_encode :: "nat \<Rightarrow> string" where
  "utf8_encode n =
     (if n < 128 then [char_of n]
      else if n < 2048 then [char_of (192 + n div 64), char_of (128 + n mod 64)]
      else if n < 65536 then
        [char_of (224 + n div 4096), char_of (128 + n div 64 mod 64), char_of (128 + n mod 64)]
      else
        [char_of (240 + n div 262144), char_of (128 + n div 4096 mod 64), char_of (128 + n div 64 mod 64),
         char_of (128 + n mod 64)])"

text \<open>\<open>getu4\<close>: the value of the four digits of an escape at the front of the string.\<close>

fun hex4 :: "string \<Rightarrow> nat option" where
  "hex4 (a # b # c # d # _) =
     (case (hex_value a, hex_value b, hex_value c, hex_value d) of
        (Some w, Some x, Some y, Some z) \<Rightarrow> Some (((w * 16 + x) * 16 + y) * 16 + z)
      | _ \<Rightarrow> None)"
| "hex4 _ = None"

definition high_surrogate :: "nat \<Rightarrow> bool" where
  "high_surrogate n \<longleftrightarrow> 0xD800 \<le> n \<and> n < 0xDC00"

definition low_surrogate :: "nat \<Rightarrow> bool" where
  "low_surrogate n \<longleftrightarrow> 0xDC00 \<le> n \<and> n < 0xE000"

text \<open>\<open>unquote\<close> on the text between the quotes of a string the scanner accepted: escapes are
  resolved, a lone surrogate and a byte that starts no valid encoding become U+FFFD. (The cases of a
  malformed escape, which the scanner rejects before, end the text.)\<close>

function unquote :: "string \<Rightarrow> string" where
  "unquote s =
     (case s of
        [] \<Rightarrow> []
      | c # cs \<Rightarrow>
          if c = CHR 0x5C then
            (case cs of
               [] \<Rightarrow> []
             | e # es \<Rightarrow>
                 if e = CHR ''u'' then
                   (case hex4 es of
                      None \<Rightarrow> []
                    | Some n \<Rightarrow>
                        (case (if high_surrogate n \<and> prefix [CHR 0x5C, CHR ''u''] (drop 4 es)
                               then hex4 (drop 6 es) else None) of
                           Some m \<Rightarrow>
                             if low_surrogate m
                             then utf8_encode ((n - 0xD800) * 1024 + (m - 0xDC00) + 65536) @ unquote (drop 10 es)
                             else replacement_char @ unquote (drop 4 es)
                         | None \<Rightarrow>
                             (if high_surrogate n \<or> low_surrogate n then replacement_char else utf8_encode n)
                             @ unquote (drop 4 es)))
                 else
                   (if e = CHR ''b'' then CHR 0x08 else if e = CHR ''f'' then CHR 0x0C
                    else if e = CHR ''n'' then CHR 0x0A else if e = CHR ''r'' then CHR 0x0D
                    else if e = CHR ''t'' then CHR 0x09 else e) # unquote es)
          else if rune_width s = 0 then replacement_char @ unquote cs
          else take (rune_width s) s @ unquote (drop (rune_width s) s))"
  by pat_completeness auto
termination by (relation "measure length") auto

declare unquote.simps [simp del]

definition hex_lower :: "nat \<Rightarrow> char" where
  "hex_lower n = (if n < 10 then char_of (48 + n) else char_of (87 + n))"

text \<open>The text of one rune in a quoted string: \<open>appendString\<close> with HTML escaping on.\<close>

definition escape_rune :: "string \<Rightarrow> string" where
  "escape_rune r =
     (case r of
        [c] \<Rightarrow>
          if c = CHR 0x5C \<or> c = CHR 0x22 then [CHR 0x5C, c]
          else if c = CHR 0x08 then [CHR 0x5C, CHR ''b'']
          else if c = CHR 0x0C then [CHR 0x5C, CHR ''f'']
          else if c = CHR 0x0A then [CHR 0x5C, CHR ''n'']
          else if c = CHR 0x0D then [CHR 0x5C, CHR ''r'']
          else if c = CHR 0x09 then [CHR 0x5C, CHR ''t'']
          else if (of_char c :: nat) < 32 \<or> c = CHR ''<'' \<or> c = CHR ''>'' \<or> c = CHR ''&'' then
            CHR 0x5C # ''u00'' @ [hex_lower (of_char c div 16), hex_lower (of_char c mod 16)]
          else [c]
      | _ \<Rightarrow>
          if r = [CHR 0xE2, CHR 0x80, CHR 0xA8] then CHR 0x5C # ''u2028''
          else if r = [CHR 0xE2, CHR 0x80, CHR 0xA9] then CHR 0x5C # ''u2029''
          else r)"

function escape :: "string \<Rightarrow> string" where
  "escape s =
     (if s = [] then []
      else if rune_width s = 0 then CHR 0x5C # ''ufffd'' @ escape (tl s)
      else escape_rune (take (rune_width s) s) @ escape (drop (rune_width s) s))"
  by pat_completeness auto
termination by (relation "measure length") auto

declare escape.simps [simp del]

text \<open>\<open>Marshal\<close> of a value (an object keeps the order of its members).\<close>

fun json_text :: "json \<Rightarrow> string" where
  "json_text JNull = ''null''"
| "json_text (JBool b) = (if b then ''true'' else ''false'')"
| "json_text (JNum n) = n"
| "json_text (JStr s) = CHR 0x22 # escape s @ [CHR 0x22]"
| "json_text (JArr vs) = CHR ''['' # Join (map json_text vs) '','' @ '']''"
| "json_text (JObj ms) =
     CHR ''{'' # Join (map (\<lambda>(k, v). CHR 0x22 # escape k @ [CHR 0x22] @ '':'' @ json_text v) ms) '','' @ ''}''"


section \<open>Reading back a quoted string\<close>

lemma hex_value_lower [simp]: "n < 16 \<Longrightarrow> hex_value (hex_lower n) = Some n"
  by (simp add: hex_value_def hex_lower_def)

lemma hex_value_0 [simp]: "hex_value (CHR ''0'') = Some 0"
  by (simp add: hex_value_def)

lemma unquote_Nil [simp]: "unquote [] = []"
  by (simp add: unquote.simps)

lemma unquote_short_escape:
  "unquote (CHR 0x5C # CHR 0x22 # t) = CHR 0x22 # unquote t"
  "unquote (CHR 0x5C # CHR 0x5C # t) = CHR 0x5C # unquote t"
  "unquote (CHR 0x5C # CHR ''b'' # t) = CHR 0x08 # unquote t"
  "unquote (CHR 0x5C # CHR ''f'' # t) = CHR 0x0C # unquote t"
  "unquote (CHR 0x5C # CHR ''n'' # t) = CHR 0x0A # unquote t"
  "unquote (CHR 0x5C # CHR ''r'' # t) = CHR 0x0D # unquote t"
  "unquote (CHR 0x5C # CHR ''t'' # t) = CHR 0x09 # unquote t"
  by (subst unquote.simps, simp)+

lemma unquote_hex_escape:
  assumes "hex4 (a # b # c # d # t) = Some n" "\<not> high_surrogate n" "\<not> low_surrogate n"
  shows "unquote (CHR 0x5C # CHR ''u'' # a # b # c # d # t) = utf8_encode n @ unquote t"
  using assms by (subst unquote.simps) simp

lemma unquote_control:
  "unquote (CHR 0x5C # CHR ''u'' # CHR ''0'' # CHR ''0'' # hex_lower (of_char c div 16) # hex_lower (of_char c mod 16) # t)
     = utf8_encode (of_char c) @ unquote t"
proof -
  have "(of_char c :: nat) < 256" by simp
  then have "of_char c div 16 < (16 :: nat)" "of_char c mod 16 < (16 :: nat)"
    using less_mult_imp_div_less [of "of_char c" 16 16] by simp_all
  then have "hex4 (CHR ''0'' # CHR ''0'' # hex_lower (of_char c div 16) # hex_lower (of_char c mod 16) # t)
      = Some (of_char c)"
    by simp
  moreover have "\<not> high_surrogate (of_char c)" "\<not> low_surrogate (of_char c)"
    unfolding high_surrogate_def low_surrogate_def using \<open>(of_char c :: nat) < 256\<close> by linarith+
  ultimately show ?thesis by (rule unquote_hex_escape)
qed

lemma unquote_rune:
  assumes "rune_width (r @ t) = length r" "r \<noteq> []" "hd r \<noteq> CHR 0x5C"
  shows "unquote (r @ t) = r @ unquote t"
  using assms by (subst unquote.simps) (cases r, auto)

lemma rune_width_1: "rune_width s = 1 \<Longrightarrow> of_char (hd s) < (128 :: nat)"
  by (cases s) (auto simp: rune_width_def rune1_def split: if_splits)

lemma rune_width_multi: "rune_width s = w \<Longrightarrow> 1 < w \<Longrightarrow> 128 \<le> (of_char (hd s) :: nat)"
  by (cases s) (auto simp: rune_width_def rune1_def rune2_def rune3_def rune4_def split: if_splits)

lemma unquote_line_separators:
  "unquote (CHR 0x5C # ''u2028'' @ t) = [CHR 0xE2, CHR 0x80, CHR 0xA8] @ unquote t"
  "unquote (CHR 0x5C # ''u2029'' @ t) = [CHR 0xE2, CHR 0x80, CHR 0xA9] @ unquote t"
  "unquote (CHR 0x5C # ''ufffd'' @ t) = replacement_char @ unquote t"
proof -
  have "hex4 (''2028'' @ t) = Some 0x2028" "hex4 (''2029'' @ t) = Some 0x2029" "hex4 (''fffd'' @ t) = Some 0xFFFD"
    by (simp_all add: hex_value_def)
  moreover have "utf8_encode 0x2028 = [CHR 0xE2, CHR 0x80, CHR 0xA8]"
    "utf8_encode 0x2029 = [CHR 0xE2, CHR 0x80, CHR 0xA9]" "utf8_encode 0xFFFD = replacement_char"
    by (simp_all add: utf8_encode_def replacement_char_def char_of_eq_iff take_bit_eq_mod)
  ultimately show "unquote (CHR 0x5C # ''u2028'' @ t) = [CHR 0xE2, CHR 0x80, CHR 0xA8] @ unquote t"
    "unquote (CHR 0x5C # ''u2029'' @ t) = [CHR 0xE2, CHR 0x80, CHR 0xA9] @ unquote t"
    "unquote (CHR 0x5C # ''ufffd'' @ t) = replacement_char @ unquote t"
    by (simp_all add: unquote_hex_escape high_surrogate_def low_surrogate_def)
qed

lemma unquote_escape_rune:
  assumes "r \<noteq> []" "\<And>t. rune_width (r @ t) = length r"
  shows "unquote (escape_rune r @ t) = r @ unquote t"
proof (cases "\<exists>c. r = [c]")
  case True
  then obtain c where r: "r = [c]" by blast
  have c: "of_char c < (128 :: nat)" using rune_width_1 [of "[c]"] assms(2) [of "[]"] r by simp
  then have enc: "utf8_encode (of_char c) = [c]" by (simp add: utf8_encode_def)
  have plain: "c \<noteq> CHR 0x5C \<Longrightarrow> unquote (c # t) = c # unquote t"
    using unquote_rune [of r t] assms r by simp
  show ?thesis
    unfolding r escape_rune_def
    by (auto simp: unquote_short_escape unquote_control enc plain split del: if_split) (auto simp: unquote_short_escape unquote_control enc plain)
next
  case False
  then obtain a b r' where r: "r = a # b # r'" using assms(1) by (metis neq_Nil_conv)
  then have "128 \<le> (of_char a :: nat)" using rune_width_multi [of r "length r"] assms(2) [of "[]"] by simp
  then have "a \<noteq> CHR 0x5C" by auto
  then have "unquote (r @ t) = r @ unquote t" using assms unquote_rune [of r t] r by simp
  then show ?thesis
    using r unquote_line_separators [of t] by (auto simp: escape_rune_def)
qed

text \<open>A string survives quoting and unquoting up to its invalid bytes, which become U+FFFD.\<close>

theorem unquote_escape: "unquote (escape s) = concat (runes s)"
proof (induction s rule: escape.induct)
  case (1 s)
  show ?case
  proof (cases "s = [] \<or> rune_width s = 0")
    case True
    then show ?thesis using 1 unquote_line_separators(3) by (subst escape.simps, subst runes.simps) auto
  next
    case False
    let ?r = "take (rune_width s) s"
    have "?r \<noteq> []" "\<And>t. rune_width (?r @ t) = length ?r"
      using False rune_width_take [of s] rune_width_le [of s] by auto
    then have "unquote (escape_rune ?r @ t) = ?r @ unquote t" for t by (rule unquote_escape_rune)
    then show ?thesis using 1 False by (subst escape.simps, subst runes.simps) simp
  qed
qed

corollary unquote_escape_valid [simp]: "valid_utf8 s \<Longrightarrow> unquote (escape s) = s"
  by (simp add: unquote_escape valid_utf8_def)


section \<open>The scanner\<close>

text \<open>The states of \<open>scanner.go\<close>, with the stack of open containers. A frame also holds the values read
  so far (in reverse), so that the scan builds the document: \<open>FKey\<close> waits for a member's key,
  \<open>FColon\<close> for the colon after it, \<open>FVal\<close> for its value, \<open>FObj\<close> for what follows a member, and
  \<open>FArr\<close> is an array. The last component of a machine is the text of the current string or number,
  in reverse.\<close>

datatype frame =
    FKey "(string \<times> json) list"
  | FColon "(string \<times> json) list" string
  | FVal "(string \<times> json) list" string
  | FObj "(string \<times> json) list"
  | FArr "json list"

datatype state =
    BeginValue | BeginValueOrEmpty | BeginString | BeginStringOrEmpty | EndValue | EndTop json
  | InString | InStringEsc | InStringEscU nat
  | Neg | Num1 | Num0 | Dot | Dot0 | Exp | ExpSign | Exp0
  | Literal string string json

datatype machine = M (m_state: state) (m_stack: "frame list") (m_text: string)

definition initial :: machine where
  "initial = M BeginValue [] []"

definition json_space :: "char \<Rightarrow> bool" where
  "json_space c \<longleftrightarrow> c \<in> {CHR '' '', CHR 0x09, CHR 0x0A, CHR 0x0D}"

definition hex_digit_char :: "char \<Rightarrow> bool" where
  "hex_digit_char c \<longleftrightarrow> hex_value c \<noteq> None"

definition maxNestingDepth :: nat where
  "maxNestingDepth = 10000"

text \<open>\<open>quoteChar\<close>: how the scanner names a byte in its messages. A byte from 128 is shown as the
  character with that code, escaped when it is not printable (below U+00A1, and the soft hyphen).\<close>

definition quote_char :: "char \<Rightarrow> string" where
  "quote_char c =
     (let b = of_char c :: nat; hex = [hex_lower (b div 16), hex_lower (b mod 16)];
          body =
            (if c = CHR 0x27 then [CHR 0x5C, CHR 0x27]
             else if c = CHR 0x5C then [CHR 0x5C, CHR 0x5C]
             else if b = 7 then [CHR 0x5C, CHR ''a''] else if b = 8 then [CHR 0x5C, CHR ''b'']
             else if b = 9 then [CHR 0x5C, CHR ''t''] else if b = 10 then [CHR 0x5C, CHR ''n'']
             else if b = 11 then [CHR 0x5C, CHR ''v''] else if b = 12 then [CHR 0x5C, CHR ''f'']
             else if b = 13 then [CHR 0x5C, CHR ''r'']
             else if b < 32 \<or> b = 127 then [CHR 0x5C, CHR ''x''] @ hex
             else if b < 127 then [c]
             else if b < 161 \<or> b = 173 then [CHR 0x5C, CHR ''u'', CHR ''0'', CHR ''0''] @ hex
             else utf8_encode b)
      in CHR 0x27 # body @ [CHR 0x27])"

definition syntax_error :: "char \<Rightarrow> string \<Rightarrow> string + machine" where
  "syntax_error c ctx = Inl (''invalid character '' @ quote_char c @ '' '' @ ctx)"

text \<open>A value is complete: it goes to the innermost open container.\<close>

fun complete :: "json \<Rightarrow> frame list \<Rightarrow> machine" where
  "complete v (FVal ms k # stk) = M EndValue (FObj ((k, v) # ms) # stk) []"
| "complete v (FArr vs # stk) = M EndValue (FArr (v # vs) # stk) []"
| "complete v (FKey ms # stk) = M EndValue (FColon ms (case v of JStr k \<Rightarrow> k | _ \<Rightarrow> []) # stk) []"
| "complete v stk = M (EndTop v) stk []"

definition open_frame :: "char \<Rightarrow> state \<Rightarrow> frame \<Rightarrow> frame list \<Rightarrow> string + machine" where
  "open_frame c st f stk =
     (if length stk < maxNestingDepth then Inr (M st (f # stk) [])
      else syntax_error c ''exceeded max depth'')"

definition begin_value :: "char \<Rightarrow> frame list \<Rightarrow> string + machine" where
  "begin_value c stk =
     (if json_space c then Inr (M BeginValue stk [])
      else if c = CHR ''{'' then open_frame c BeginStringOrEmpty (FKey []) stk
      else if c = CHR ''['' then open_frame c BeginValueOrEmpty (FArr []) stk
      else if c = CHR 0x22 then Inr (M InString stk [])
      else if c = CHR ''-'' then Inr (M Neg stk [c])
      else if c = CHR ''0'' then Inr (M Num0 stk [c])
      else if is_digit c then Inr (M Num1 stk [c])
      else if c = CHR ''t'' then Inr (M (Literal ''true'' ''rue'' (JBool True)) stk [])
      else if c = CHR ''f'' then Inr (M (Literal ''false'' ''alse'' (JBool False)) stk [])
      else if c = CHR ''n'' then Inr (M (Literal ''null'' ''ull'' JNull) stk [])
      else syntax_error c ''looking for beginning of value'')"

definition begin_string :: "char \<Rightarrow> frame list \<Rightarrow> string + machine" where
  "begin_string c stk =
     (if json_space c then Inr (M BeginString stk [])
      else if c = CHR 0x22 then Inr (M InString stk [])
      else syntax_error c ''looking for beginning of object key string'')"

fun end_value :: "char \<Rightarrow> frame list \<Rightarrow> string + machine" where
  "end_value c (FColon ms k # stk) =
     (if json_space c then Inr (M EndValue (FColon ms k # stk) [])
      else if c = CHR '':'' then Inr (M BeginValue (FVal ms k # stk) [])
      else syntax_error c ''after object key'')"
| "end_value c (FObj ms # stk) =
     (if json_space c then Inr (M EndValue (FObj ms # stk) [])
      else if c = CHR '','' then Inr (M BeginString (FKey ms # stk) [])
      else if c = CHR ''}'' then Inr (complete (JObj (rev ms)) stk)
      else syntax_error c ''after object key:value pair'')"
| "end_value c (FArr vs # stk) =
     (if json_space c then Inr (M EndValue (FArr vs # stk) [])
      else if c = CHR '','' then Inr (M BeginValue (FArr vs # stk) [])
      else if c = CHR '']'' then Inr (complete (JArr (rev vs)) stk)
      else syntax_error c ''after array element'')"
| "end_value c stk = syntax_error c ''after top-level value''"

definition end_top :: "char \<Rightarrow> json \<Rightarrow> string + machine" where
  "end_top c v =
     (if json_space c then Inr (M (EndTop v) [] []) else syntax_error c ''after top-level value'')"

text \<open>The end of a number is found at the character after it.\<close>

definition end_number :: "char \<Rightarrow> frame list \<Rightarrow> string \<Rightarrow> string + machine" where
  "end_number c stk txt =
     (if stk = [] then end_top c (JNum (rev txt))
      else end_value c (m_stack (complete (JNum (rev txt)) stk)))"

fun step :: "machine \<Rightarrow> char \<Rightarrow> string + machine" where
  "step (M BeginValue stk txt) c = begin_value c stk"
| "step (M BeginValueOrEmpty stk txt) c =
     (if json_space c then Inr (M BeginValueOrEmpty stk [])
      else if c = CHR '']'' then end_value c stk else begin_value c stk)"
| "step (M BeginString stk txt) c = begin_string c stk"
| "step (M BeginStringOrEmpty stk txt) c =
     (if json_space c then Inr (M BeginStringOrEmpty stk [])
      else if c = CHR ''}'' then Inr (complete (JObj []) (tl stk)) else begin_string c stk)"
| "step (M EndValue stk txt) c = end_value c stk"
| "step (M (EndTop v) stk txt) c = end_top c v"
| "step (M InString stk txt) c =
     (if c = CHR 0x22 then Inr (complete (JStr (unquote (rev txt))) stk)
      else if c = CHR 0x5C then Inr (M InStringEsc stk (c # txt))
      else if (of_char c :: nat) < 32 then syntax_error c ''in string literal''
      else Inr (M InString stk (c # txt)))"
| "step (M InStringEsc stk txt) c =
     (if c \<in> set (CHR 0x5C # CHR 0x22 # ''bfnrt/'') then Inr (M InString stk (c # txt))
      else if c = CHR ''u'' then Inr (M (InStringEscU 4) stk (c # txt))
      else syntax_error c ''in string escape code'')"
| "step (M (InStringEscU n) stk txt) c =
     (if hex_digit_char c then Inr (M (if n \<le> 1 then InString else InStringEscU (n - 1)) stk (c # txt))
      else syntax_error c (''in '' @ CHR 0x5C # ''u hexadecimal character escape''))"
| "step (M Neg stk txt) c =
     (if c = CHR ''0'' then Inr (M Num0 stk (c # txt))
      else if is_digit c then Inr (M Num1 stk (c # txt)) else syntax_error c ''in numeric literal'')"
| "step (M Num1 stk txt) c =
     (if is_digit c then Inr (M Num1 stk (c # txt))
      else if c = CHR ''.'' then Inr (M Dot stk (c # txt))
      else if c = CHR ''e'' \<or> c = CHR ''E'' then Inr (M Exp stk (c # txt)) else end_number c stk txt)"
| "step (M Num0 stk txt) c =
     (if c = CHR ''.'' then Inr (M Dot stk (c # txt))
      else if c = CHR ''e'' \<or> c = CHR ''E'' then Inr (M Exp stk (c # txt)) else end_number c stk txt)"
| "step (M Dot stk txt) c =
     (if is_digit c then Inr (M Dot0 stk (c # txt))
      else syntax_error c ''after decimal point in numeric literal'')"
| "step (M Dot0 stk txt) c =
     (if is_digit c then Inr (M Dot0 stk (c # txt))
      else if c = CHR ''e'' \<or> c = CHR ''E'' then Inr (M Exp stk (c # txt)) else end_number c stk txt)"
| "step (M Exp stk txt) c =
     (if c = CHR ''+'' \<or> c = CHR ''-'' then Inr (M ExpSign stk (c # txt))
      else if is_digit c then Inr (M Exp0 stk (c # txt))
      else syntax_error c ''in exponent of numeric literal'')"
| "step (M ExpSign stk txt) c =
     (if is_digit c then Inr (M Exp0 stk (c # txt))
      else syntax_error c ''in exponent of numeric literal'')"
| "step (M Exp0 stk txt) c =
     (if is_digit c then Inr (M Exp0 stk (c # txt)) else end_number c stk txt)"
| "step (M (Literal name rest v) stk txt) c =
     (case rest of
        [] \<Rightarrow> Inr (complete v stk)
      | e # es \<Rightarrow>
          if c = e then Inr (if es = [] then complete v stk else M (Literal name es v) stk [])
          else syntax_error c (''in literal '' @ name @ '' (expecting '' @ quote_char e @ '')''))"

fun run :: "machine \<Rightarrow> string \<Rightarrow> string + machine" where
  "run m [] = Inr m"
| "run m (c # cs) = (case step m c of Inl e \<Rightarrow> Inl e | Inr m' \<Rightarrow> run m' cs)"

text \<open>The document of \<open>Unmarshal\<close>: the scan of all bytes must end in a complete value (a space after
  the last byte ends a number).\<close>

fun top_value :: "state \<Rightarrow> json option" where
  "top_value (EndTop v) = Some v"
| "top_value _ = None"

definition finish :: "machine \<Rightarrow> json option" where
  "finish m = (case step m (CHR '' '') of Inl e \<Rightarrow> None | Inr m' \<Rightarrow> top_value (m_state m'))"

definition parse_document :: "string \<Rightarrow> string + json" where
  "parse_document s =
     (case run initial s of
        Inl e \<Rightarrow> Inl e
      | Inr m \<Rightarrow> (case finish m of Some v \<Rightarrow> Inr v | None \<Rightarrow> Inl ''unexpected end of JSON input''))"

text \<open>The value a \<open>Decoder\<close> reads first: an object or array is complete with its closing bracket,
  any other value with the byte after it; what follows is not looked at. At the end of the input
  the result tells an input of white space only from an incomplete value.\<close>

datatype first_value = Value json | Malformed string | Incomplete bool

fun container :: "json \<Rightarrow> bool" where
  "container (JArr _) = True"
| "container (JObj _) = True"
| "container _ = False"

definition top_number :: "machine \<Rightarrow> json option" where
  "top_number m =
     (if m_stack m = [] \<and> m_state m \<in> {Num1, Num0, Dot0, Exp0} then Some (JNum (rev (m_text m))) else None)"

fun run_first :: "machine \<Rightarrow> string \<Rightarrow> first_value" where
  "run_first m [] = (case finish m of Some v \<Rightarrow> Value v | None \<Rightarrow> Incomplete (m = initial))"
| "run_first m (c # cs) =
     (case top_value (m_state m) of
        Some v \<Rightarrow> Value v
      | None \<Rightarrow>
          (case step m c of
             Inl e \<Rightarrow> (case top_number m of Some v \<Rightarrow> Value v | None \<Rightarrow> Malformed e)
           | Inr m' \<Rightarrow>
               (case top_value (m_state m') of
                  Some v \<Rightarrow> if container v then Value v else run_first m' cs
                | None \<Rightarrow> run_first m' cs)))"


section \<open>Reading back what was written\<close>

lemma run_append: "run m (a @ b) = (case run m a of Inl e \<Rightarrow> Inl e | Inr m' \<Rightarrow> run m' b)"
  by (induction a arbitrary: m) (auto split: sum.splits)

definition string_char :: "char \<Rightarrow> bool" where
  "string_char c \<longleftrightarrow> c \<noteq> CHR 0x22 \<and> c \<noteq> CHR 0x5C \<and> 32 \<le> (of_char c :: nat)"

lemma run_string_chars:
  "list_all string_char r \<Longrightarrow> run (M InString stk tx) (r @ t) = run (M InString stk (rev r @ tx)) t"
  by (induction r arbitrary: tx) (auto simp: string_char_def)

lemma hex_digit_lower: "n < 16 \<Longrightarrow> hex_digit_char (hex_lower n)"
  by (simp add: hex_digit_char_def)

lemma run_short_escape:
  "c \<in> set (CHR 0x5C # CHR 0x22 # ''bfnrt/'') \<Longrightarrow>
   run (M InString stk tx) (CHR 0x5C # c # t) = run (M InString stk (c # CHR 0x5C # tx)) t"
  by simp

lemma run_hex_escape:
  "hex_digit_char a \<Longrightarrow> hex_digit_char b \<Longrightarrow> hex_digit_char c \<Longrightarrow> hex_digit_char d \<Longrightarrow>
   run (M InString stk tx) (CHR 0x5C # CHR ''u'' # a # b # c # d # t) =
     run (M InString stk (d # c # b # a # CHR ''u'' # CHR 0x5C # tx)) t"
  by simp

lemma hex_digits_used:
  "hex_digit_char (CHR ''0'')" "hex_digit_char (CHR ''2'')" "hex_digit_char (CHR ''8'')"
  "hex_digit_char (CHR ''9'')" "hex_digit_char (CHR ''f'')" "hex_digit_char (CHR ''d'')"
  by (simp_all add: hex_digit_char_def hex_value_def)

lemma run_escape_byte:
  "(of_char c :: nat) < 128 \<Longrightarrow>
   run (M InString stk tx) (escape_rune [c] @ t) = run (M InString stk (rev (escape_rune [c]) @ tx)) t"
proof -
  assume "(of_char c :: nat) < 128"
  then have hex: "hex_digit_char (hex_lower (of_char c div 16))" "hex_digit_char (hex_lower (of_char c mod 16))"
    by (auto intro!: hex_digit_lower)
  have "(\<exists>e \<in> set (CHR 0x5C # CHR 0x22 # ''bfnrt/''). escape_rune [c] = [CHR 0x5C, e])
      \<or> escape_rune [c] = [CHR 0x5C, CHR ''u'', CHR ''0'', CHR ''0'',
          hex_lower (of_char c div 16), hex_lower (of_char c mod 16)]
      \<or> escape_rune [c] = [c] \<and> string_char c"
    by (simp add: escape_rune_def string_char_def)
  then consider (short) e where "escape_rune [c] = [CHR 0x5C, e]" "e \<in> set (CHR 0x5C # CHR 0x22 # ''bfnrt/'')"
    | (hex) "escape_rune [c] = [CHR 0x5C, CHR ''u'', CHR ''0'', CHR ''0'',
        hex_lower (of_char c div 16), hex_lower (of_char c mod 16)]"
    | (plain) "escape_rune [c] = [c]" "string_char c"
    by blast
  then show ?thesis
  proof cases
    case short
    then show ?thesis by (simp only: append_Cons append_Nil run_short_escape rev.simps)
  next
    case hex
    then show ?thesis by (simp only: append_Cons append_Nil run_hex_escape \<open>hex_digit_char (hex_lower (of_char c div 16))\<close>
        \<open>hex_digit_char (hex_lower (of_char c mod 16))\<close> hex_digits_used rev.simps)
  next
    case plain
    then show ?thesis using run_string_chars [of "[c]"] by simp
  qed
qed

lemma multi_byte_rune:
  assumes "rune_width r = length r" "1 < length r"
  shows "list_all (\<lambda>c. 128 \<le> (of_char c :: nat)) r"
proof -
  consider (two) "rune2 r" "length r = 2" | (three) "rune3 r" "length r = 3" | (four) "rune4 r" "length r = 4"
    using assms by (auto simp: rune_width_def split: if_splits)
  then show ?thesis
    by cases (auto simp: rune2_def rune3_def rune4_def continuation_def Let_def list_all_length
        numeral_eq_Suc less_Suc_eq split: if_splits)
qed

lemma run_escape_rune:
  assumes "r \<noteq> []" "\<And>t. rune_width (r @ t) = length r"
  shows "run (M InString stk tx) (escape_rune r @ t) = run (M InString stk (rev (escape_rune r) @ tx)) t"
proof (cases "\<exists>c. r = [c]")
  case True
  then obtain c where r: "r = [c]" by blast
  then have "of_char c < (128 :: nat)" using rune_width_1 [of "[c]"] assms(2) [of "[]"] by simp
  then show ?thesis unfolding r by (rule run_escape_byte)
next
  case False
  then obtain a b r' where r: "r = a # b # r'" using assms(1) by (metis neq_Nil_conv)
  have "list_all (\<lambda>c. 128 \<le> (of_char c :: nat)) r"
    using multi_byte_rune [of r] assms(2) [of "[]"] r by simp
  then have "list_all string_char r"
    by (rule list.pred_mono_strong) (auto simp: string_char_def)
  then have "run (M InString stk tx) (r @ t) = run (M InString stk (rev r @ tx)) t"
    by (rule run_string_chars)
  moreover have "escape_rune r \<in> {r, CHR 0x5C # ''u2028'', CHR 0x5C # ''u2029''}"
    using r by (simp add: escape_rune_def)
  moreover have "run (M InString stk tx) ((CHR 0x5C # ''u2028'') @ t) = run (M InString stk (rev (CHR 0x5C # ''u2028'') @ tx)) t"
    "run (M InString stk tx) ((CHR 0x5C # ''u2029'') @ t) = run (M InString stk (rev (CHR 0x5C # ''u2029'') @ tx)) t"
    by (simp_all only: append_Cons append_Nil run_hex_escape hex_digits_used rev.simps)
  ultimately show ?thesis by auto
qed

lemma run_escape:
  "run (M InString stk tx) (escape s @ t) = run (M InString stk (rev (escape s) @ tx)) t"
proof (induction s arbitrary: tx rule: escape.induct)
  case (1 s)
  show ?case
  proof (cases "s = [] \<or> rune_width s = 0")
    case True
    have "run (M InString stk tx) ((CHR 0x5C # ''ufffd'') @ t) = run (M InString stk (rev (CHR 0x5C # ''ufffd'') @ tx)) t"
      for tx t by (simp only: append_Cons append_Nil run_hex_escape hex_digits_used rev.simps)
    then show ?thesis using 1 True by (subst (1 2) escape.simps) auto
  next
    case False
    let ?r = "take (rune_width s) s"
    have "?r \<noteq> []" "\<And>t. rune_width (?r @ t) = length ?r"
      using False rune_width_take [of s] rune_width_le [of s] by auto
    then have "run (M InString stk tx) (escape_rune ?r @ t) = run (M InString stk (rev (escape_rune ?r) @ tx)) t"
      for tx t by (rule run_escape_rune)
    then show ?thesis using 1 False by (subst (1 2) escape.simps) simp
  qed
qed

lemma run_string:
  "run (M InString stk []) (escape s @ CHR 0x22 # t) = run (complete (JStr (concat (runes s))) stk) t"
  by (simp add: run_escape unquote_escape)

text \<open>What a printed value is read back as: its invalid bytes are replaced. Numbers are left out: the
  program prints none.\<close>

fun cleaned :: "json \<Rightarrow> json" where
  "cleaned (JStr s) = JStr (concat (runes s))"
| "cleaned (JArr vs) = JArr (map cleaned vs)"
| "cleaned (JObj ms) = JObj (map (\<lambda>(k, v). (concat (runes k), cleaned v)) ms)"
| "cleaned v = v"

fun numberless :: "json \<Rightarrow> bool" where
  "numberless (JNum n) = False"
| "numberless (JArr vs) = (\<forall>v \<in> set vs. numberless v)"
| "numberless (JObj ms) = (\<forall>(k, v) \<in> set ms. numberless v)"
| "numberless v = True"

fun depth :: "json \<Rightarrow> nat" where
  "depth (JArr vs) = Suc (foldr (\<lambda>v. max (depth v)) vs 0)"
| "depth (JObj ms) = Suc (foldr (\<lambda>(k, v). max (depth v)) ms 0)"
| "depth v = 0"


lemma depth_element: "v \<in> set vs \<Longrightarrow> depth v < depth (JArr vs)"
  by (induction vs) (auto simp: less_Suc_eq_le le_max_iff_disj)

lemma depth_member: "(k, v) \<in> set ms \<Longrightarrow> depth v < depth (JObj ms)"
  by (induction ms) (auto simp: less_Suc_eq_le le_max_iff_disj)

lemma json_text_first:
  "numberless v \<Longrightarrow> \<exists>c cs. json_text v = c # cs \<and> \<not> json_space c \<and> c \<noteq> CHR '']''"
  by (cases v) (auto simp: json_space_def)

lemma run_elements:
  assumes "\<And>v t acc. v \<in> set vs \<Longrightarrow>
      run (M BeginValue (FArr acc # stk) []) (json_text v @ t) = run (complete (cleaned v) (FArr acc # stk)) t"
    and "vs \<noteq> []"
  shows "run (M BeginValue (FArr acc # stk) []) (Join (map json_text vs) '','' @ CHR '']'' # t)
    = run (complete (JArr (rev acc @ map cleaned vs)) stk) t"
  using assms
proof (induction vs arbitrary: acc)
  case (Cons v vs)
  show ?case
  proof (cases vs)
    case Nil
    then show ?thesis using Cons.prems by (simp add: json_space_def)
  next
    case (Cons u us)
    have "run (M BeginValue (FArr (cleaned v # acc) # stk) []) (Join (map json_text vs) '','' @ CHR '']'' # t)
      = run (complete (JArr (rev (cleaned v # acc) @ map cleaned vs)) stk) t"
      using Cons.IH [of "cleaned v # acc"] Cons.prems Cons by simp
    then show ?thesis using Cons.prems(1) Cons by (simp add: json_space_def)
  qed
qed simp

abbreviation member_text :: "string \<times> json \<Rightarrow> string" where
  "member_text \<equiv> \<lambda>(k, v). CHR 0x22 # escape k @ [CHR 0x22] @ '':'' @ json_text v"

lemma run_members:
  assumes "\<And>k v t acc. (k, v) \<in> set ms \<Longrightarrow>
      run (M BeginValue (FVal acc (concat (runes k)) # stk) []) (json_text v @ t) =
      run (complete (cleaned v) (FVal acc (concat (runes k)) # stk)) t"
    and "ms \<noteq> []"
  shows "run (M BeginString (FKey acc # stk) []) (Join (map member_text ms) '','' @ CHR ''}'' # t)
    = run (complete (JObj (rev acc @ map (\<lambda>(k, v). (concat (runes k), cleaned v)) ms)) stk) t"
  using assms
proof (induction ms arbitrary: acc)
  case (Cons m ms)
  obtain k v where m: "m = (k, v)" by fastforce
  have member: "run (M BeginString (FKey acc # stk) []) (member_text m @ t')
      = run (M EndValue (FObj ((concat (runes k), cleaned v) # acc) # stk) []) t'" for t'
    using Cons.prems(1) [of k v acc t'] m by (simp add: begin_string_def json_space_def run_string)
  show ?case
  proof (cases ms)
    case Nil
    then show ?thesis using member [of "CHR ''}'' # t"] m by (simp add: json_space_def)
  next
    case (Cons n ns)
    have "run (M BeginString (FKey ((concat (runes k), cleaned v) # acc) # stk) [])
        (Join (map member_text ms) '','' @ CHR ''}'' # t)
      = run (complete (JObj (rev ((concat (runes k), cleaned v) # acc)
          @ map (\<lambda>(k, v). (concat (runes k), cleaned v)) ms)) stk) t"
      using Cons.IH [of "(concat (runes k), cleaned v) # acc"] Cons.prems Cons by simp
    then show ?thesis
      using member [of "CHR '','' # Join (map member_text ms) '','' @ CHR ''}'' # t"] m Cons
      by (simp add: json_space_def)
  qed
qed simp

lemma run_value:
  "numberless v \<Longrightarrow> length stk + depth v \<le> maxNestingDepth \<Longrightarrow>
   run (M BeginValue stk []) (json_text v @ t) = run (complete (cleaned v) stk) t"
proof (induction v arbitrary: stk t)
  case (JBool b)
  then show ?case by (simp add: begin_value_def json_space_def is_digit_def)
next
  case JNull
  then show ?case by (simp add: begin_value_def json_space_def is_digit_def)
next
  case (JStr s)
  then show ?case by (simp add: begin_value_def json_space_def run_string)
next
  case (JArr vs)
  have open_array: "run (M BeginValue stk []) (CHR ''['' # u) = run (M BeginValueOrEmpty (FArr [] # stk) []) u" for u
    using JArr.prems(2) by (simp add: begin_value_def json_space_def open_frame_def)
  show ?case
  proof (cases vs)
    case Nil
    then show ?thesis using open_array by (simp add: json_space_def)
  next
    case (Cons u us)
    then obtain c cs where c: "json_text u = c # cs" "\<not> json_space c" "c \<noteq> CHR '']''"
      using JArr.prems(1) json_text_first [of u] by auto
    then obtain cs' where cs': "Join (map json_text vs) '','' @ CHR '']'' # t = c # cs'"
      using Cons by (cases us) auto
    have "run (M BeginValueOrEmpty (FArr [] # stk) []) (c # cs') = run (M BeginValue (FArr [] # stk) []) (c # cs')"
      using c by simp
    moreover have "run (M BeginValue (FArr [] # stk) []) (Join (map json_text vs) '','' @ CHR '']'' # t)
        = run (complete (JArr (rev [] @ map cleaned vs)) stk) t"
    proof (rule run_elements)
      fix v acc t'
      assume v: "v \<in> set vs"
      show "run (M BeginValue (FArr acc # stk) []) (json_text v @ t') = run (complete (cleaned v) (FArr acc # stk)) t'"
        using JArr.IH [OF v, of "FArr acc # stk"] JArr.prems v depth_element [OF v] by simp
    qed (simp add: Cons)
    ultimately show ?thesis using open_array cs' by simp
  qed
next
  case (JObj ms)
  have open_object: "run (M BeginValue stk []) (CHR ''{'' # u) = run (M BeginStringOrEmpty (FKey [] # stk) []) u" for u
    using JObj.prems(2) by (simp add: begin_value_def json_space_def open_frame_def)
  show ?case
  proof (cases ms)
    case Nil
    then show ?thesis using open_object by (simp add: json_space_def)
  next
    case (Cons m ms')
    then obtain cs where cs: "Join (map member_text ms) '','' @ CHR ''}'' # t = CHR 0x22 # cs"
      by (cases ms'; cases m) auto
    have "run (M BeginStringOrEmpty (FKey [] # stk) []) (CHR 0x22 # cs) = run (M BeginString (FKey [] # stk) []) (CHR 0x22 # cs)"
      by (simp add: json_space_def)
    moreover have "run (M BeginString (FKey [] # stk) []) (Join (map member_text ms) '','' @ CHR ''}'' # t)
        = run (complete (JObj (rev [] @ map (\<lambda>(k, v). (concat (runes k), cleaned v)) ms)) stk) t"
    proof (rule run_members)
      fix k v acc t'
      assume v: "(k, v) \<in> set ms"
      show "run (M BeginValue (FVal acc (concat (runes k)) # stk) []) (json_text v @ t')
          = run (complete (cleaned v) (FVal acc (concat (runes k)) # stk)) t'"
        using JObj.IH [OF v, of v "FVal acc (concat (runes k)) # stk"] JObj.prems v depth_member [OF v] by auto
    qed (simp add: Cons)
    ultimately show ?thesis using open_object cs by simp
  qed
qed simp

text \<open>A printed value of bounded depth is read back, by \<open>Unmarshal\<close> and by a \<open>Decoder\<close> alike.\<close>

theorem parse_json_text:
  assumes "numberless v" "depth v \<le> maxNestingDepth"
  shows "parse_document (json_text v) = Inr (cleaned v)"
  using run_value [of v "[]" "[]"] assms
  by (simp add: parse_document_def initial_def finish_def end_top_def json_space_def)


lemma run_EndTop: "run (M (EndTop v) stk tx) s = Inr m \<Longrightarrow> m_state m = EndTop v"
  by (induction s arbitrary: stk tx) (auto simp: end_top_def syntax_error_def split: if_splits)

lemma run_first_container:
  "run m s = Inr m' \<Longrightarrow> top_value (m_state m') = Some v \<Longrightarrow> container v \<Longrightarrow> top_value (m_state m) = None \<Longrightarrow>
   run_first m (s @ t) = Value v"
proof (induction s arbitrary: m)
  case (Cons c s)
  then obtain m1 where m1: "step m c = Inr m1" "run m1 s = Inr m'" by (auto split: sum.splits)
  show ?case
  proof (cases "top_value (m_state m1)")
    case None
    then show ?thesis using Cons m1 by simp
  next
    case (Some v1)
    then obtain stk tx where "m1 = M (EndTop v1) stk tx"
      by (cases m1; cases "m_state m1") auto
    then have "v1 = v" using run_EndTop m1(2) Cons.prems(2) by fastforce
    then show ?thesis using Some m1 Cons.prems by simp
  qed
qed simp

lemma container_cleaned [simp]: "container (cleaned v) = container v"
  by (cases v) auto

theorem first_json_text:
  assumes "numberless v" "depth v \<le> maxNestingDepth" "container v"
  shows "run_first initial (json_text v @ t) = Value (cleaned v)"
proof -
  have "complete (cleaned v) [] = M (EndTop (cleaned v)) [] []" by simp
  then have "run initial (json_text v) = Inr (M (EndTop (cleaned v)) [] [])"
    using run_value [of v "[]" "[]"] assms by (simp add: initial_def)
  then show ?thesis using assms by (intro run_first_container) (auto simp: initial_def)
qed

section \<open>Decoding into a struct\<close>

text \<open>A decoder takes the value that is already there and returns it changed, with the error that was
  saved on the way. A value of the wrong type is skipped; the error of an \<open>UnmarshalJSON\<close> method (the
  recipients and \<open>time.Time\<close> have one) ends the decoding and takes precedence over a saved one.\<close>

datatype decode_error = WrongType | BadRecipients | BadTime

type_synonym 'a decoded = "decode_error option \<times> 'a"
type_synonym 'a decoder = "'a \<Rightarrow> json \<Rightarrow> 'a decoded"

fun aborts :: "decode_error option \<Rightarrow> bool" where
  "aborts None \<longleftrightarrow> False"
| "aborts (Some e) \<longleftrightarrow> e \<noteq> WrongType"

fun worst :: "decode_error option \<Rightarrow> decode_error option \<Rightarrow> decode_error option" where
  "worst None e = e"
| "worst (Some d) e = (if aborts e then e else Some d)"

text \<open>\<open>foldName\<close>, for a comparison with an ASCII name: the Kelvin sign folds to \<open>K\<close> and the long s
  (\<open>C5 BF\<close>) to \<open>S\<close>.\<close>

definition ascii_upper :: "char \<Rightarrow> char" where
  "ascii_upper c =
     (if 97 \<le> (of_char c :: nat) \<and> (of_char c :: nat) \<le> 122 then char_of (of_char c - 32 :: nat) else c)"

function fold_name :: "string \<Rightarrow> string" where
  "fold_name s =
     (if s = [] then []
      else if prefix [CHR 0xE2, CHR 0x84, CHR 0xAA] s then CHR ''K'' # fold_name (drop 3 s)
      else if prefix [CHR 0xC5, CHR 0xBF] s then CHR ''S'' # fold_name (drop 2 s)
      else ascii_upper (hd s) # fold_name (tl s))"
  by pat_completeness auto
termination by (relation "measure length") auto

declare fold_name.simps [simp del]

definition find_field :: "(string \<times> 'a decoder) list \<Rightarrow> string \<Rightarrow> 'a decoder option" where
  "find_field fs key =
     (case map_of fs key of
        Some f \<Rightarrow> Some f
      | None \<Rightarrow> map_of (map (\<lambda>(n, f). (fold_name n, f)) fs) (fold_name key))"

fun decode_members :: "(string \<times> 'a decoder) list \<Rightarrow> 'a \<Rightarrow> (string \<times> json) list \<Rightarrow> 'a decoded" where
  "decode_members fs x [] = (None, x)"
| "decode_members fs x ((k, v) # ms) =
     (case find_field fs k of
        None \<Rightarrow> decode_members fs x ms
      | Some f \<Rightarrow>
          (let (e, y) = f x v
           in if aborts e then (e, y) else (let (e', z) = decode_members fs y ms in (worst e e', z))))"

definition decode_struct :: "(string \<times> 'a decoder) list \<Rightarrow> 'a decoder" where
  "decode_struct fs x v =
     (case v of
        JNull \<Rightarrow> (None, x)
      | JObj ms \<Rightarrow> decode_members fs x ms
      | _ \<Rightarrow> (Some WrongType, x))"

definition string_field :: "(string \<Rightarrow> 'a \<Rightarrow> 'a) \<Rightarrow> 'a decoder" where
  "string_field upd x v =
     (case v of JStr s \<Rightarrow> (None, upd s x) | JNull \<Rightarrow> (None, x) | _ \<Rightarrow> (Some WrongType, x))"

text \<open>A field that is itself decoded: the decoder works on the part \<open>get\<close> selects.\<close>

definition inner_field :: "('a \<Rightarrow> 'b) \<Rightarrow> ('b \<Rightarrow> 'a \<Rightarrow> 'a) \<Rightarrow> 'b decoder \<Rightarrow> 'a decoder" where
  "inner_field get upd dec x v = (let (e, y) = dec (get x) v in (e, upd y x))"

text \<open>A pointer: \<open>null\<close> sets it to nil, anything else is decoded into what it points to (a new zero
  value when it was nil).\<close>

definition decode_pointer :: "'b \<Rightarrow> 'b decoder \<Rightarrow> 'b option decoder" where
  "decode_pointer zero dec p v =
     (if v = JNull then (None, None)
      else (let (e, y) = dec (case p of None \<Rightarrow> zero | Some z \<Rightarrow> z) v in (e, Some y)))"

text \<open>A slice: \<open>null\<close> sets it to nil; the element at an index that exists is decoded into, the others
  start from the zero value.\<close>

fun decode_elements :: "'b \<Rightarrow> 'b decoder \<Rightarrow> 'b list \<Rightarrow> json list \<Rightarrow> 'b list decoded" where
  "decode_elements zero dec xs [] = (None, [])"
| "decode_elements zero dec xs (v # vs) =
     (let (e, y) = dec (case xs of [] \<Rightarrow> zero | x # _ \<Rightarrow> x) v
      in if aborts e then (e, y # drop 1 xs)
         else (let (e', ys) = decode_elements zero dec (drop 1 xs) vs in (worst e e', y # ys)))"

definition decode_slice :: "'b \<Rightarrow> 'b decoder \<Rightarrow> 'b list decoder" where
  "decode_slice zero dec xs v =
     (case v of
        JNull \<Rightarrow> (None, [])
      | JArr vs \<Rightarrow> decode_elements zero dec xs vs
      | _ \<Rightarrow> (Some WrongType, xs))"

section \<open>Unmarshal and Decoder\<close>

text \<open>The wording of a type error, and of a text that is not a time, is the library's: \<open>te doc\<close>.\<close>

fun decode_goerr :: "(string \<Rightarrow> string) \<Rightarrow> string \<Rightarrow> decode_error \<Rightarrow> goerr" where
  "decode_goerr te doc WrongType = Plain (te doc)"
| "decode_goerr te doc BadRecipients =
     Wrapped ''recipients must be a string or an array of strings: '' (Plain (te doc))"
| "decode_goerr te doc BadTime = Plain (te doc)"

definition decode_value :: "(string \<Rightarrow> string) \<Rightarrow> 'a decoder \<Rightarrow> 'a \<Rightarrow> string \<Rightarrow> json \<Rightarrow> goerr + 'a" where
  "decode_value te dec x doc v =
     (case dec x v of (None, y) \<Rightarrow> Inr y | (Some e, _) \<Rightarrow> Inl (decode_goerr te doc e))"

definition Unmarshal :: "(string \<Rightarrow> string) \<Rightarrow> 'a decoder \<Rightarrow> 'a \<Rightarrow> string \<Rightarrow> goerr + 'a" where
  "Unmarshal te dec x doc =
     (case parse_document doc of
        Inl e \<Rightarrow> Inl (Plain e)
      | Inr v \<Rightarrow> decode_value te dec x doc v)"

definition Decode_first :: "(string \<Rightarrow> string) \<Rightarrow> 'a decoder \<Rightarrow> 'a \<Rightarrow> string \<Rightarrow> goerr + 'a" where
  "Decode_first te dec x doc =
     (case run_first initial doc of
        Value v \<Rightarrow> decode_value te dec x doc v
      | Malformed e \<Rightarrow> Inl (Plain e)
      | Incomplete none \<Rightarrow> Inl (Plain (if none then ''EOF'' else ''unexpected EOF'')))"

lemma Unmarshal_json_text:
  "numberless v \<Longrightarrow> depth v \<le> maxNestingDepth \<Longrightarrow>
   Unmarshal te dec x (json_text v) = decode_value te dec x (json_text v) (cleaned v)"
  by (simp add: Unmarshal_def parse_json_text)

lemma Decode_first_json_text:
  "numberless v \<Longrightarrow> depth v \<le> maxNestingDepth \<Longrightarrow> container v \<Longrightarrow>
   Decode_first te dec x (json_text v @ t) = decode_value te dec x (json_text v @ t) (cleaned v)"
  by (simp add: Decode_first_def first_json_text)

end
