(* ===== verification/Message.thy ===== *)
theory Message
  imports Model GoJson GoText "HOL-Library.AList"
begin

text \<open>
  The JSON messages of \<open>internal/core/model\<close>: how a request document is decoded into a
  \<open>SendEmailData\<close> (field names, optional values, the two notations for recipients) and how a
  \<open>DeliveryEvent\<close> is written.
\<close>

section \<open>Decoding a request\<close>

definition zero_target :: CallbackTarget where
  "zero_target = \<lparr>target_URL = [], target_Headers = []\<rparr>"

definition zero_callback :: Callback where
  "zero_callback = \<lparr>Success = None, Failure = None\<rparr>"

definition zero_attachment :: Attachment where
  "zero_attachment = \<lparr>att_Data = [], att_Name = [], att_Type = [], att_Decoder = None\<rparr>"

definition zero_email :: SendEmailData where
  "zero_email =
     \<lparr>email_ID = [], email_Attachments = None, email_Body = [], email_From = [], email_FromName = [],
      email_Receiver = [], email_Subject = [], email_Cc = [], email_Bcc = [], email_Callback = None\<rparr>"

text \<open>\<open>map[string]string\<close>: the members are added to the map that is there; \<open>null\<close> as a value is the
  empty string.\<close>

fun decode_pairs :: "(string \<times> string) list \<Rightarrow> (string \<times> json) list \<Rightarrow> (string \<times> string) list decoded" where
  "decode_pairs hs [] = (None, hs)"
| "decode_pairs hs ((k, v) # ms) =
     (let (e, s) = string_field (\<lambda>s _. s) [] v; (e', hs') = decode_pairs (AList.update k s hs) ms
      in (worst e e', hs'))"

definition decode_string_map :: "(string \<times> string) list decoder" where
  "decode_string_map hs v =
     (case v of
        JNull \<Rightarrow> (None, [])
      | JObj ms \<Rightarrow> decode_pairs hs ms
      | _ \<Rightarrow> (Some WrongType, hs))"

definition target_fields :: "(string \<times> CallbackTarget decoder) list" where
  "target_fields =
     [(''url'', string_field (\<lambda>s t. t\<lparr>target_URL := s\<rparr>)),
      (''headers'', inner_field target_Headers (\<lambda>hs t. t\<lparr>target_Headers := hs\<rparr>) decode_string_map)]"

definition callback_fields :: "(string \<times> Callback decoder) list" where
  "callback_fields =
     [(''success'', inner_field Success (\<lambda>t c. c\<lparr>Success := t\<rparr>)
         (decode_pointer zero_target (decode_struct target_fields))),
      (''failure'', inner_field Failure (\<lambda>t c. c\<lparr>Failure := t\<rparr>)
         (decode_pointer zero_target (decode_struct target_fields)))]"

definition attachment_fields :: "(string \<times> Attachment decoder) list" where
  "attachment_fields =
     [(''data'', string_field (\<lambda>s a. a\<lparr>att_Data := s\<rparr>)),
      (''name'', string_field (\<lambda>s a. a\<lparr>att_Name := s\<rparr>)),
      (''type'', string_field (\<lambda>s a. a\<lparr>att_Type := s\<rparr>)),
      (''decoder'', inner_field att_Decoder (\<lambda>d a. a\<lparr>att_Decoder := d\<rparr>)
         (decode_pointer [] (string_field (\<lambda>s _. s))))]"

text \<open>\<open>Recipients.UnmarshalJSON\<close>: a string, an array of strings (\<open>null\<close> in it is the empty string), or
  \<open>null\<close>.\<close>

fun json_string :: "json \<Rightarrow> string option" where
  "json_string (JStr s) = Some s"
| "json_string JNull = Some []"
| "json_string _ = None"

definition UnmarshalJSON :: "Recipients decoder" where
  "UnmarshalJSON r v =
     (case json_string v of
        Some list \<Rightarrow> (None, ParseRecipients list)
      | None \<Rightarrow>
          (case v of
             JArr vs \<Rightarrow>
               if list_all (\<lambda>v. json_string v \<noteq> None) vs
               then (None, ParseRecipients (Join (map (\<lambda>v. the (json_string v)) vs) '',''))
               else (Some BadRecipients, r)
           | _ \<Rightarrow> (Some BadRecipients, r)))"

definition email_fields :: "(string \<times> SendEmailData decoder) list" where
  "email_fields =
     [(''id'', string_field (\<lambda>s d. d\<lparr>email_ID := s\<rparr>)),
      (''attachments'', inner_field email_Attachments (\<lambda>a d. d\<lparr>email_Attachments := a\<rparr>)
         (decode_pointer [] (decode_slice zero_attachment (decode_struct attachment_fields)))),
      (''body'', string_field (\<lambda>s d. d\<lparr>email_Body := s\<rparr>)),
      (''from'', string_field (\<lambda>s d. d\<lparr>email_From := s\<rparr>)),
      (''from_name'', string_field (\<lambda>s d. d\<lparr>email_FromName := s\<rparr>)),
      (''receiver'', inner_field email_Receiver (\<lambda>r d. d\<lparr>email_Receiver := r\<rparr>) UnmarshalJSON),
      (''subject'', string_field (\<lambda>s d. d\<lparr>email_Subject := s\<rparr>)),
      (''cc'', inner_field email_Cc (\<lambda>r d. d\<lparr>email_Cc := r\<rparr>) UnmarshalJSON),
      (''bcc'', inner_field email_Bcc (\<lambda>r d. d\<lparr>email_Bcc := r\<rparr>) UnmarshalJSON),
      (''callback'', inner_field email_Callback (\<lambda>c d. d\<lparr>email_Callback := c\<rparr>)
         (decode_pointer zero_callback (decode_struct callback_fields)))]"

definition decode_email :: "SendEmailData decoder" where
  "decode_email = decode_struct email_fields"

section \<open>Writing an event\<close>

definition omitempty :: "string \<Rightarrow> string \<Rightarrow> (string \<times> json) list" where
  "omitempty key s = (if s = [] then [] else [(key, JStr s)])"

text \<open>\<open>json.Marshal\<close> of a \<open>DeliveryEvent\<close>; a time outside the years 0 to 9999 is an error.\<close>

definition event_json :: "DeliveryEvent \<Rightarrow> json" where
  "event_json ev =
     JObj (omitempty ''id'' (event_ID ev) @ [(''subject'', JStr (event_Subject ev)),
         (''status'', JStr (status_text (event_Status ev)))]
       @ omitempty ''errorCode'' (code_text (event_ErrorCode ev)) @ omitempty ''cause'' (event_Cause ev)
       @ [(''occurredAt'', JStr (RFC3339Nano (case event_OccurredAt ev of None \<Rightarrow> ZeroTime | Some t \<Rightarrow> t)))])"

definition Marshal_event :: "DeliveryEvent \<Rightarrow> goerr + string" where
  "Marshal_event ev =
     (let year = Year (case event_OccurredAt ev of None \<Rightarrow> ZeroTime | Some t \<Rightarrow> t)
      in if 0 \<le> year \<and> year \<le> 9999 then Inr (json_text (event_json ev))
         else Inl (Plain ''json: error calling MarshalJSON for type time.Time: Time.MarshalJSON: year outside of range [0,9999]''))"

section \<open>Facts\<close>

lemma fold_name_Nil [simp]: "fold_name [] = []"
  by (simp add: fold_name.simps)

lemma fold_name_Cons:
  "(of_char c :: nat) < 128 \<Longrightarrow> fold_name (c # cs) = ascii_upper c # fold_name cs"
  by (subst fold_name.simps) auto

lemma find_field_exact [simp]: "map_of fs key = Some f \<Longrightarrow> find_field fs key = Some f"
  by (simp add: find_field_def)

text \<open>Both notations for a list of recipients mean the same: an array of addresses, an array of
  comma-separated lists, and one comma-separated string.\<close>

lemma UnmarshalJSON_array:
  "UnmarshalJSON r (JArr (map JStr items)) = (None, concat (map ParseRecipients items))"
proof -
  have "map (\<lambda>v. the (json_string v)) (map JStr items) = items" by (simp add: comp_def)
  moreover have "list_all (\<lambda>v. json_string v \<noteq> None) (map JStr items)" by (simp add: list_all_iff)
  ultimately show ?thesis by (simp add: UnmarshalJSON_def ParseRecipients_Join comp_def)
qed

lemma UnmarshalJSON_string: "UnmarshalJSON r (JStr s) = (None, ParseRecipients s)"
  by (simp add: UnmarshalJSON_def)

lemma UnmarshalJSON_clean:
  "UnmarshalJSON r v = (None, rs) \<Longrightarrow> list_all clean_address rs"
  by (auto simp: UnmarshalJSON_def list_all_iff dest: ParseRecipients_clean split: option.splits json.splits if_splits)

lemma UnmarshalJSON_clean_array:
  "list_all clean_address rs \<Longrightarrow> UnmarshalJSON r (JArr (map JStr rs)) = (None, rs)"
  by (simp add: UnmarshalJSON_array ParseRecipients_clean_list)

lemma event_json_shape: "numberless (event_json ev)" "depth (event_json ev) = 1" "container (event_json ev)"
  by (auto simp: event_json_def omitempty_def)


lemma TrimSpace_space: "TrimSpace (CHR '' '' # s) = TrimSpace s"
proof -
  have "front_match space_encodings (CHR '' '' # s) = Some [CHR '' '']"
    by (simp add: front_match_def space_encodings_def)
  then have "trim_front space_encodings (CHR '' '' # s) = trim_front space_encodings s"
    by (subst trim_front.simps) simp
  then show ?thesis by (simp add: TrimSpace_def)
qed

lemma ParseRecipients_space: "clean_address a \<Longrightarrow> ParseRecipients (CHR '' '' # a) = [a]"
proof -
  assume a: "clean_address a"
  then have "Split (CHR '','') (CHR '' '' # a) = [CHR '' '' # a]"
    by (intro Split_no_sep) (simp add: clean_address_def)
  then show ?thesis using a by (simp add: ParseRecipients_def TrimSpace_space clean_address_def)
qed

lemma Join_head: "Join ((c # x) # xs) sep = c # Join (x # xs) sep"
  by (cases xs) auto

lemma Join_comma_space: "Join (x # xs) '', '' = Join (x # map (Cons (CHR '' '')) xs) '',''"
  by (induction xs arbitrary: x) (auto simp: Join_head)

lemma ParseRecipients_String:
  "list_all clean_address rs \<Longrightarrow> ParseRecipients (Recipients_String rs) = rs"
proof (cases rs)
  case (Cons a as)
  assume "list_all clean_address rs"
  then have "concat (map ParseRecipients (a # map (Cons (CHR '' '')) as)) = rs"
    using Cons by (induction as arbitrary: rs) (auto simp: ParseRecipients_single ParseRecipients_space)
  then show ?thesis using Cons by (simp add: Recipients_String_def Join_comma_space ParseRecipients_Join)
qed (simp add: Recipients_String_def)

section \<open>Properties\<close>

text \<open>C26: The recipients of a message mean the same in both notations: an array of strings is read as
  the comma-separated string of its items. Every address that is read is trimmed, not empty and free
  of commas, and printing the list for the To header and reading it again gives the same list.\<close>

theorem recipients_notations:
  "UnmarshalJSON r (JArr (map JStr items)) = UnmarshalJSON r' (JStr (Join items '',''))
   \<and> list_all clean_address (ParseRecipients l)
   \<and> ParseRecipients (Recipients_String (ParseRecipients l)) = ParseRecipients l"
proof (intro conjI)
  show "UnmarshalJSON r (JArr (map JStr items)) = UnmarshalJSON r' (JStr (Join items '',''))"
    by (simp add: UnmarshalJSON_array UnmarshalJSON_string ParseRecipients_Join)
  show clean: "list_all clean_address (ParseRecipients l)"
    by (simp add: list_all_iff ParseRecipients_clean)
  show "ParseRecipients (Recipients_String (ParseRecipients l)) = ParseRecipients l"
    by (rule ParseRecipients_String [OF clean])
qed

end
