(* ===== verification/Consumer.thy ===== *)
theory Consumer
  imports Service Message
begin

text \<open>
  \<open>internal/adapter/consumer/mailer_consumer.go\<close>: the adapter between a queue and the service. Its
  \<open>Deliverer\<close> is a parameter, as the field of the Go struct is.
\<close>

text \<open>\<open>te\<close> is the wording of JSON type errors (\<^const>\<open>lib_type_error\<close>).\<close>

definition Handle ::
  "(string \<Rightarrow> string) \<Rightarrow> (SendEmailData \<Rightarrow> int \<Rightarrow> 'e world \<Rightarrow> Outcome \<times> 'e world)
    \<Rightarrow> string \<Rightarrow> int \<Rightarrow> 'e world \<Rightarrow> Outcome \<times> 'e world"
where
  "Handle te deliver_op body attempt w =
     (case Unmarshal te decode_email zero_email body of
        Inl err \<Rightarrow>
          (let cause = Errorf_w CodeMessageInvalidJSON ''failed to unmarshal email message: '' err
           in (\<lparr>out_Event = \<lparr>event_ID = [], event_Subject = [], event_Status = StatusFailed,
                   event_ErrorCode = CodeMessageInvalidJSON, event_Cause = Error_text cause,
                   event_OccurredAt = None\<rparr>,
                 out_Err = Some cause, out_Action = ActionDeadLetter, out_RetryIn = 0\<rparr>, w))
      | Inr d \<Rightarrow> deliver_op d attempt w)"

section \<open>The contract of a message handler\<close>

text \<open>What a queue source relies on: whatever the bytes are, a retry is only asked for when the policy
  allows it, with the policy's wait.\<close>

locale handler =
  fixes handle :: "string \<Rightarrow> int \<Rightarrow> 'e world \<Rightarrow> Outcome \<times> 'e world"
    and pol :: RetryPolicy
  assumes retry_allowed:
      "handle body n w = (out, w') \<Longrightarrow> out_Action out = ActionRetry \<Longrightarrow>
       CanRetry pol n \<and> out_RetryIn out = Delay pol n \<and> Retryable (event_ErrorCode (out_Event out))"
    and sent_done: "handle body n w = (out, w') \<Longrightarrow> out_Err out = None \<Longrightarrow> out_Action out = ActionDone"

context handler
begin

lemma next_attempt_allowed:
  "handle body n w = (out, w') \<Longrightarrow> out_Action out = ActionRetry \<Longrightarrow> n + 1 \<le> MaxAttempts pol"
  using retry_allowed [of body n w out w'] by (simp add: CanRetry_def)

lemma retry_wait_declared:
  "handle body n w = (out, w') \<Longrightarrow> 1 \<le> n \<Longrightarrow> out_Action out = ActionRetry \<Longrightarrow>
   out_RetryIn out \<in> set (Delays pol)"
  using retry_allowed [of body n w out w'] by (auto intro: Delay_in_Delays)

lemma retry_wait:
  "handle body n w = (out, w') \<Longrightarrow> out_Action out = ActionRetry \<Longrightarrow> out_RetryIn out = Delay pol n"
  using retry_allowed [of body n w out w'] by simp

end

text \<open>Any service that keeps its contract makes the consumer a handler that keeps its own.\<close>

context deliverer
begin

lemma Handle_handler: "handler (Handle te deliver_op) pol"
proof unfold_locales
  fix body n w out w'
  assume h: "Handle te deliver_op body n w = (out, w')"
  show "out_Action out = ActionRetry \<Longrightarrow>
      CanRetry pol n \<and> out_RetryIn out = Delay pol n \<and> Retryable (event_ErrorCode (out_Event out))"
    using h by (auto simp: Handle_def Let_def retry_allowed split: sum.splits)
  show "out_Err out = None \<Longrightarrow> out_Action out = ActionDone"
    using h by (auto simp: Handle_def Let_def sent_done split: sum.splits)
qed

end

interpretation mailer_consumer: handler "Handle te (Deliver s)" "policy s"
  for te and s :: "'e service"
  by (rule service.Handle_handler)

sublocale deliverer \<subseteq> consumer: handler "Handle te deliver_op" pol for te
  by (rule Handle_handler)

section \<open>Properties\<close>

text \<open>A queued body that is not a JSON email goes straight to the dead letters: the service is never
  called (the world does not change, whatever the attempt), the event carries
  \<open>message_invalid_json\<close> and the cause names the JSON error.\<close>

lemma invalid_json_dead_letter:
  assumes "Unmarshal te decode_email zero_email body = Inl err"
  shows "snd (Handle te deliver_op body n w) = w
    \<and> out_Action (fst (Handle te deliver_op body n w)) = ActionDeadLetter
    \<and> event_ErrorCode (out_Event (fst (Handle te deliver_op body n w))) = CodeMessageInvalidJSON
    \<and> event_Cause (out_Event (fst (Handle te deliver_op body n w))) =
        ''failed to unmarshal email message: '' @ Error_text err"
  using assms by (simp add: Handle_def Let_def)

lemma invalid_json_dead_letter_example:
  "out_Action (fst (Handle (\<lambda>s. s) (Deliver busy_service) ''{'' 1 some_world)) = ActionDeadLetter"
proof -
  have "Unmarshal (\<lambda>s. s) decode_email zero_email ''{'' = Inl (Plain ''unexpected end of JSON input'')"
    by (simp add: Unmarshal_def parse_document_def initial_def begin_value_def json_space_def open_frame_def
        maxNestingDepth_def finish_def)
  from invalid_json_dead_letter [OF this] show ?thesis by blast
qed


text \<open>A request without any field, which the busy service wants to retry.\<close>

lemma Unmarshal_empty_object [simp]: "Unmarshal te decode_email zero_email ''{}'' = Inr zero_email"
  by (simp add: Unmarshal_def parse_document_def initial_def begin_value_def json_space_def open_frame_def
      maxNestingDepth_def finish_def end_top_def decode_value_def decode_email_def decode_struct_def)

lemma busy_retry:
  assumes "n < 5"
  shows "\<exists>out. Handle te (Deliver busy_service) ''{}'' n w = (out, w) \<and> out_Action out = ActionRetry
    \<and> out_RetryIn out = Delay DefaultRetryPolicy n"
proof -
  have "DecodeString [] = Inr []" by code_simp
  then have "send busy_service zero_email w =
      (Some (Wrapped ''failed to send email to : '' (Errorf CodeAPIRateLimited ''slow down'')), w)"
    by (simp add: send_def zero_email_def busy_service_def Recipients_String_def)
  then show ?thesis
    using assms by (simp add: Handle_def Deliver_def deliver_failed handleFailure_retry CanRetry_def
        DefaultRetryPolicy_def)
qed

end
