(* ===== verification/Headers.thy ===== *)
theory Headers
  imports Consumer
begin

text \<open>
  \<open>internal/infrastructure/messaging/headers.go\<close>: the headers the two queue transports share, and the
  contract a transport keeps for the messages it retries.
\<close>

definition headerAttempt :: string where "headerAttempt = ''x-attempt''"
definition headerNotBefore :: string where "headerNotBefore = ''x-not-before''"
definition headerErrorCode :: string where "headerErrorCode = ''x-error-code''"
definition headerCause :: string where "headerCause = ''x-error-cause''"
definition headerFailedAt :: string where "headerFailedAt = ''x-failed-at''"
definition maxCauseHeaderChars :: nat where "maxCauseHeaderChars = 1024"

lemmas header_defs = headerAttempt_def headerNotBefore_def headerErrorCode_def headerCause_def headerFailedAt_def

type_synonym 'e Handler = "string \<Rightarrow> int \<Rightarrow> 'e world \<Rightarrow> Outcome \<times> 'e world"

definition truncate :: "string \<Rightarrow> nat \<Rightarrow> string" where
  "truncate s maxChars = (if length (runes s) \<le> maxChars then s else concat (take maxChars (runes s)))"

lemma length_runes_take: "length (runes (concat (take n (runes s)))) = min (length (runes s)) n"
  by (simp add: runes_concat_take)

text \<open>A cause header never has more than the allowed number of characters, a cause that fits is
  kept unchanged, and one that does not is cut at a character boundary: the text is a prefix of the
  cause (of the cause with its invalid bytes replaced) made of its first characters.\<close>

lemma truncate_bounds:
  "length (runes (truncate s n)) \<le> n
   \<and> (truncate s n = s \<or> runes (truncate s n) = take n (runes s) \<and> prefix (truncate s n) (concat (runes s)))"
proof -
  have "prefix (concat (take n (runes s))) (concat (runes s))"
    by (metis append_take_drop_id concat_append prefixI)
  then show ?thesis by (simp add: truncate_def length_runes_take runes_concat_take)
qed

section \<open>The contract of a queue transport\<close>

text \<open>A message that is retried comes back as a message with the next attempt number, and only while
  attempts are left.\<close>

locale queue_transport =
  fixes attempt_of :: "'m \<Rightarrow> int"
    and retried :: "'m \<Rightarrow> 'm \<Rightarrow> bool"
    and max_attempts :: int
  assumes first_attempt: "1 \<le> attempt_of m"
    and next_attempt: "retried m m' \<Longrightarrow> attempt_of m' = attempt_of m + 1 \<and> attempt_of m' \<le> max_attempts"

lemma successively_collapse:
  "successively (\<lambda>a b. a = b \<or> R a b) xs \<Longrightarrow> successively R (remdups_adj xs)"
proof (induction xs rule: remdups_adj.induct)
  case (3 x y xs)
  have "hd (remdups_adj (y # xs)) = y" by (simp add: hd_remdups_adj)
  then show ?case using 3 by (cases "x = y") (auto simp: successively_Cons simp del: remdups_adj.simps(3), simp_all add: successively_Cons)
qed simp_all

lemma no_repeats: "successively (\<lambda>a b. f a \<noteq> f b) xs \<Longrightarrow> remdups_adj (map f xs) = map f xs"
proof (induction xs)
  case (Cons x xs)
  then show ?case by (cases xs) auto
qed simp

lemma counting_nth:
  "successively (\<lambda>a b. b = a + 1 \<and> b \<le> (limit :: int)) (n # ns) \<Longrightarrow> i \<le> length ns \<Longrightarrow>
   (n # ns) ! i = n + int i \<and> (0 < i \<longrightarrow> n + int i \<le> limit)"
proof (induction ns arbitrary: n i)
  case (Cons m ns)
  show ?case
  proof (cases i)
    case (Suc j)
    then show ?thesis using Cons.IH [of m j] Cons.prems by (cases "j = 0") auto
  qed simp
qed simp

context queue_transport
begin

text \<open>A history of one message: each entry is what the previous one was retried as, or the same attempt again (a
  message that was given back, or whose connection was lost before it was settled).\<close>

abbreviation follows :: "'m \<Rightarrow> 'm \<Rightarrow> bool" where
  "follows m m' \<equiv> retried m m' \<or> attempt_of m' = attempt_of m"

lemma history_counts:
  assumes "successively follows ms"
  shows "successively (\<lambda>a b. b = a + 1 \<and> b \<le> max_attempts) (remdups_adj (map attempt_of ms))"
proof (rule successively_collapse)
  have "successively (\<lambda>m m'. attempt_of m = attempt_of m' \<or> attempt_of m' = attempt_of m + 1 \<and> attempt_of m' \<le> max_attempts) ms"
    using assms by (rule successively_mono) (auto dest: next_attempt)
  then show "successively (\<lambda>a b. a = b \<or> b = a + 1 \<and> b \<le> max_attempts) (map attempt_of ms)"
    by (simp add: successively_map)
qed

lemma history_attempts:
  assumes "successively follows ms" "i < length (remdups_adj (map attempt_of ms))"
  shows "remdups_adj (map attempt_of ms) ! i = attempt_of (hd ms) + int i"
proof (cases "remdups_adj (map attempt_of ms)")
  case (Cons n ns)
  then have "n = attempt_of (hd ms)" by (metis hd_map hd_remdups_adj list.sel(1) list.map_disc_iff remdups_adj_Nil_iff list.discI)
  then show ?thesis using counting_nth [of max_attempts n ns i] history_counts [OF assms(1)] assms(2) Cons by simp
qed (use assms in simp)

lemma history_bounded:
  assumes "successively follows ms" "1 \<le> max_attempts"
  shows "int (length (remdups_adj (map attempt_of ms))) \<le> max_attempts"
proof (cases "remdups_adj (map attempt_of ms)")
  case (Cons n ns)
  have "n \<in> set (map attempt_of ms)" using Cons by (metis list.set_intros(1) remdups_adj_set)
  then have "1 \<le> n" using first_attempt by auto
  then show ?thesis
    using counting_nth [of max_attempts n ns "length ns"] history_counts [OF assms(1)] assms(2) Cons by (cases "ns = []") auto
qed (use assms in simp)

end

end
