(* ===== verification/Config.thy ===== *)
theory Config
  imports Retry World
begin

text \<open>
  \<open>internal/application/config\<close> and \<open>rabbitmq_config.go\<close>: the settings read from the environment.
  \<open>g\<close> is \<open>os.Getenv\<close> (the empty string for a variable that is not set); \<open>L\<close> holds the library's
  rendering and parsing functions. A configuration error is an error value with its text.
\<close>

type_synonym getenv = "string \<Rightarrow> string"

section \<open>Reading variables (env.go, http\_api\_config.go, retry\_config.go, kafka\_config.go)\<close>

definition requireEnv :: "getenv \<Rightarrow> string \<Rightarrow> goerr + string" where
  "requireEnv g key =
     (let v = TrimSpace (g key)
      in if v = [] then Inl (Plain (''required environment variable '' @ key @ '' is not set'')) else Inr v)"

definition envOrDefault :: "getenv \<Rightarrow> string \<Rightarrow> string \<Rightarrow> string" where
  "envOrDefault g key defaultValue =
     (let v = TrimSpace (g key) in if v = [] then defaultValue else v)"

definition HTTPClientTimeout :: "'a golib_scheme \<Rightarrow> getenv \<Rightarrow> goerr + int" where
  "HTTPClientTimeout L g =
     (let v = TrimSpace (g ''HTTP_CLIENT_TIMEOUT'')
      in if v = [] then Inr (15 * Second)
         else
           (case lib_parse_duration L v of
              Some d \<Rightarrow>
                if d \<le> 0
                then Inl (Plain (''HTTP_CLIENT_TIMEOUT must be a positive duration (e.g. 15s), got '' @ lib_quote L v))
                else Inr d
            | None \<Rightarrow>
                Inl (Plain (''HTTP_CLIENT_TIMEOUT must be a positive duration (e.g. 15s), got '' @ lib_quote L v))))"

definition positiveInt :: "'a golib_scheme \<Rightarrow> getenv \<Rightarrow> string \<Rightarrow> int \<Rightarrow> goerr + int" where
  "positiveInt L g key defaultValue =
     (let v = envOrDefault g key []
      in if v = [] then Inr defaultValue
         else
           (case Atoi v of
              Some n \<Rightarrow>
                if n \<le> 0 then Inl (Plain (key @ '' must be a positive integer, got '' @ lib_quote L v)) else Inr n
            | None \<Rightarrow> Inl (Plain (key @ '' must be a positive integer, got '' @ lib_quote L v))))"

definition positiveDuration :: "'a golib_scheme \<Rightarrow> getenv \<Rightarrow> string \<Rightarrow> int \<Rightarrow> goerr + int" where
  "positiveDuration L g key defaultValue =
     (let v = TrimSpace (envOrDefault g key [])
      in if v = [] then Inr defaultValue
         else
           (case lib_parse_duration L v of
              Some d \<Rightarrow>
                if d \<le> 0 then Inl (Plain (key @ '' must be a positive duration (e.g. 30s), got '' @ lib_quote L v))
                else Inr d
            | None \<Rightarrow> Inl (Plain (key @ '' must be a positive duration (e.g. 30s), got '' @ lib_quote L v))))"

definition splitList :: "string \<Rightarrow> string list" where
  "splitList v = filter (\<lambda>s. s \<noteq> []) (map TrimSpace (Split (CHR '','') v))"

definition isTrue :: "string \<Rightarrow> bool" where
  "isTrue v \<longleftrightarrow> ToLower (TrimSpace v) \<in> {''1'', ''true'', ''yes'', ''on''}"

text \<open>\<open>String\<close> of a \<open>time.Duration\<close> of at least zero.\<close>

definition fraction :: "nat \<Rightarrow> int \<Rightarrow> string" where
  "fraction digits f = (if f = 0 then [] else ''.'' @ TrimRight (pad digits f) (CHR ''0''))"

definition Duration_String :: "int \<Rightarrow> string" where
  "Duration_String d =
     (if d = 0 then ''0s''
      else if d < 1000 then Itoa d @ ''ns''
      else if d < Millisecond then Itoa (d div 1000) @ fraction 3 (d mod 1000) @ [CHR 0xC2, CHR 0xB5, CHR ''s'']
      else if d < Second then Itoa (d div Millisecond) @ fraction 6 (d mod Millisecond) @ ''ms''
      else
        (let h = d div Hour; m = d div Minute mod 60;
             s = Itoa (d div Second mod 60) @ fraction 9 (d mod Second) @ ''s''
         in (if h > 0 then Itoa h @ ''h'' else []) @ (if d \<ge> Minute then Itoa m @ ''m'' else []) @ s))"

section \<open>Retry settings\<close>

record RetryConfig =
  retry_MaxAttempts :: int
  retry_BaseDelay :: int
  retry_MaxDelay :: int

definition NewRetryConfig :: "'a golib_scheme \<Rightarrow> getenv \<Rightarrow> goerr + RetryConfig" where
  "NewRetryConfig L g =
     (case positiveInt L g ''MAILER_MAX_ATTEMPTS'' 5 of
        Inl err \<Rightarrow> Inl err
      | Inr attempts \<Rightarrow>
          (case positiveDuration L g ''MAILER_RETRY_BASE_DELAY'' (30 * Second) of
             Inl err \<Rightarrow> Inl err
           | Inr base \<Rightarrow>
               (case positiveDuration L g ''MAILER_RETRY_MAX_DELAY'' (10 * Minute) of
                  Inl err \<Rightarrow> Inl err
                | Inr maxDelay \<Rightarrow>
                    if maxDelay < base
                    then Inl (Plain (''MAILER_RETRY_MAX_DELAY ('' @ Duration_String maxDelay
                      @ '') must not be lower than MAILER_RETRY_BASE_DELAY ('' @ Duration_String base @ '')''))
                    else Inr \<lparr>retry_MaxAttempts = attempts, retry_BaseDelay = base, retry_MaxDelay = maxDelay\<rparr>)))"

text \<open>The policy \<open>InitMailer\<close> builds from it.\<close>

definition retry_policy :: "RetryConfig \<Rightarrow> RetryPolicy" where
  "retry_policy c =
     \<lparr>MaxAttempts = retry_MaxAttempts c, BaseDelay = retry_BaseDelay c, MaxDelay = retry_MaxDelay c\<rparr>"

section \<open>HTTP source\<close>

record HTTPAPIConfig =
  http_Port :: string
  http_Keys :: "string list"
  http_MaxBodyBytes :: int

definition NewHTTPAPIConfig :: "'a golib_scheme \<Rightarrow> getenv \<Rightarrow> goerr + HTTPAPIConfig" where
  "NewHTTPAPIConfig L g =
     (case requireEnv g ''HTTP_API_KEYS'' of
        Inl err \<Rightarrow>
          Inl (Wrapped ''the http source (enabled by default) requires API keys, or set HTTP_API_DISABLED=true to disable it: '' err)
      | Inr keysValue \<Rightarrow>
          (let keys = filter (\<lambda>s. s \<noteq> []) (map TrimSpace (Split (CHR '','') keysValue))
           in if keys = [] then Inl (Plain ''HTTP_API_KEYS must contain at least one key'')
              else
                (case positiveInt L g ''HTTP_API_MAX_BODY_BYTES'' (25 * 2 ^ 20) of
                   Inl err \<Rightarrow> Inl err
                 | Inr maxBody \<Rightarrow>
                     Inr \<lparr>http_Port = envOrDefault g ''HTTP_API_PORT'' ''8081'', http_Keys = keys,
                          http_MaxBodyBytes = maxBody\<rparr>)))"

section \<open>Kafka source\<close>

record KafkaConfig =
  kafka_Brokers :: "string list"
  kafka_Topic :: string
  kafka_GroupID :: string
  kafka_CreateTopics :: bool
  kafka_Partitions :: int
  kafka_Replication :: int
  kafka_TLS :: bool
  kafka_SASLMechanism :: string
  kafka_SASLUser :: string
  kafka_SASLPass :: string

definition validateSASL :: "'a golib_scheme \<Rightarrow> KafkaConfig \<Rightarrow> goerr option" where
  "validateSASL L cfg =
     (if kafka_SASLMechanism cfg = [] then None
      else if kafka_SASLMechanism cfg \<in> {''plain'', ''scram-sha-256'', ''scram-sha-512''} then
        (if kafka_SASLUser cfg = [] \<or> kafka_SASLPass cfg = []
         then Some (Plain (''KAFKA_SASL_MECHANISM='' @ kafka_SASLMechanism cfg
                @ '' requires KAFKA_SASL_USER and KAFKA_SASL_PASS''))
         else None)
      else Some (Plain (''KAFKA_SASL_MECHANISM must be plain, scram-sha-256 or scram-sha-512, got ''
             @ lib_quote L (kafka_SASLMechanism cfg))))"

text \<open>The conversions of the partition and replication counts are \<open>int32(x)\<close> and \<open>int16(x)\<close>. The Go
  function returns the configuration together with the error; its caller drops it then.\<close>

definition NewKafkaConfig :: "'a golib_scheme \<Rightarrow> getenv \<Rightarrow> goerr + KafkaConfig" where
  "NewKafkaConfig L g =
     (case requireEnv g ''KAFKA_BROKERS'' of
        Inl err \<Rightarrow> Inl (Wrapped ''the kafka source requires brokers: '' err)
      | Inr brokersValue \<Rightarrow>
          (case positiveInt L g ''KAFKA_TOPIC_PARTITIONS'' 3 of
             Inl err \<Rightarrow> Inl err
           | Inr partitions \<Rightarrow>
               (case positiveInt L g ''KAFKA_TOPIC_REPLICATION'' 1 of
                  Inl err \<Rightarrow> Inl err
                | Inr replication \<Rightarrow>
                    (let cfg = \<lparr>kafka_Brokers = splitList brokersValue,
                        kafka_Topic = envOrDefault g ''KAFKA_TOPIC'' ''mailer-service'',
                        kafka_GroupID = envOrDefault g ''KAFKA_GROUP_ID'' ''gomailer'',
                        kafka_CreateTopics = isTrue (envOrDefault g ''KAFKA_CREATE_TOPICS'' ''false''),
                        kafka_Partitions = wrap32 partitions, kafka_Replication = wrap16 replication,
                        kafka_TLS = isTrue (envOrDefault g ''KAFKA_TLS'' ''false''),
                        kafka_SASLMechanism = ToLower (envOrDefault g ''KAFKA_SASL_MECHANISM'' []),
                        kafka_SASLUser = envOrDefault g ''KAFKA_SASL_USER'' [],
                        kafka_SASLPass = envOrDefault g ''KAFKA_SASL_PASS'' []\<rparr>
                     in case validateSASL L cfg of Some err \<Rightarrow> Inl err | None \<Rightarrow> Inr cfg))))"

section \<open>Transports\<close>

record ResendConfig =
  resend_APIKey :: string
  resend_BaseURL :: string

definition NewResendConfig :: "getenv \<Rightarrow> goerr + ResendConfig" where
  "NewResendConfig g =
     (case requireEnv g ''RESEND_API_KEY'' of
        Inl err \<Rightarrow> Inl err
      | Inr apiKey \<Rightarrow>
          Inr \<lparr>resend_APIKey = apiKey,
               resend_BaseURL = TrimRight (envOrDefault g ''RESEND_API_URL'' ''https://api.resend.com'') (CHR ''/'')\<rparr>)"

record ZeptoMailConfig =
  zepto_Authorization :: string
  zepto_BaseURL :: string

definition zeptoMailKeyPrefix :: string where
  "zeptoMailKeyPrefix = ''Zoho-enczapikey ''"

definition NewZeptoMailConfig :: "getenv \<Rightarrow> goerr + ZeptoMailConfig" where
  "NewZeptoMailConfig g =
     (case requireEnv g ''ZEPTOMAIL_API_KEY'' of
        Inl err \<Rightarrow> Inl err
      | Inr apiKey \<Rightarrow>
          Inr \<lparr>zepto_Authorization = zeptoMailKeyPrefix @ TrimSpace (TrimPrefix apiKey zeptoMailKeyPrefix),
               zepto_BaseURL = TrimRight (envOrDefault g ''ZEPTOMAIL_API_URL'' ''https://api.zeptomail.com'') (CHR ''/'')\<rparr>)"

record ZohoMailConfig =
  zoho_AccountID :: string
  zoho_ClientID :: string
  zoho_ClientSecret :: string
  zoho_RefreshToken :: string
  zoho_APIURL :: string
  zoho_AccountsURL :: string

text \<open>The loops over required variables: the values in the order of the keys, or the first error.\<close>

definition requireAll :: "getenv \<Rightarrow> string list \<Rightarrow> goerr + string list" where
  "requireAll g keys = map_results (requireEnv g) keys"

definition NewZohoMailConfig :: "getenv \<Rightarrow> goerr + ZohoMailConfig" where
  "NewZohoMailConfig g =
     (case requireAll g [''ZOHO_MAIL_ACCOUNT_ID'', ''ZOHO_CLIENT_ID'', ''ZOHO_CLIENT_SECRET'', ''ZOHO_REFRESH_TOKEN''] of
        Inl err \<Rightarrow> Inl err
      | Inr values \<Rightarrow>
          Inr \<lparr>zoho_AccountID = values ! 0, zoho_ClientID = values ! 1, zoho_ClientSecret = values ! 2,
               zoho_RefreshToken = values ! 3,
               zoho_APIURL = TrimRight (envOrDefault g ''ZOHO_MAIL_API_URL'' ''https://mail.zoho.com'') (CHR ''/''),
               zoho_AccountsURL = TrimRight (envOrDefault g ''ZOHO_ACCOUNTS_URL'' ''https://accounts.zoho.com'') (CHR ''/'')\<rparr>)"

record SMTPConfig =
  smtp_Host :: string
  smtp_Port :: int
  smtp_Username :: string
  smtp_Password :: string

text \<open>\<open>strconv.Atoi\<close> names the kind of its error: a text that is not a number, or one out of range.\<close>

definition atoi_error :: "'a golib_scheme \<Rightarrow> string \<Rightarrow> goerr" where
  "atoi_error L s =
     (let neg = prefix ''-'' s; ds = (if neg \<or> prefix ''+'' s then tl s else s)
      in Plain (''strconv.Atoi: parsing '' @ lib_quote L s @ '': ''
           @ (if ds = [] \<or> \<not> list_all is_digit ds then ''invalid syntax'' else ''value out of range'')))"

definition NewSMTPConfig :: "'a golib_scheme \<Rightarrow> getenv \<Rightarrow> goerr + SMTPConfig" where
  "NewSMTPConfig L g =
     (case requireAll g [''SMTP_SERVER'', ''SMTP_SERVER_PORT'', ''SMTP_SERVER_USER'', ''SMTP_SERVER_PASS''] of
        Inl err \<Rightarrow> Inl err
      | Inr values \<Rightarrow>
          (case Atoi (values ! 1) of
             None \<Rightarrow> Inl (Wrapped ''SMTP_SERVER_PORT must be a valid integer: '' (atoi_error L (values ! 1)))
           | Some port \<Rightarrow>
               Inr \<lparr>smtp_Host = values ! 0, smtp_Port = port, smtp_Username = values ! 2,
                    smtp_Password = values ! 3\<rparr>))"

record MailerSettings =
  set_Transport :: string
  set_APIClient :: string

definition NewMailerSettings :: "'a golib_scheme \<Rightarrow> getenv \<Rightarrow> goerr + MailerSettings" where
  "NewMailerSettings L g =
     (let transport = ToLower (envOrDefault g ''MAILER_TRANSPORT'' ''smtp'')
      in if transport = ''smtp'' then Inr \<lparr>set_Transport = transport, set_APIClient = []\<rparr>
         else if transport = ''api'' then
           (case requireEnv g ''MAILER_API_CLIENT'' of
              Inl err \<Rightarrow> Inl (Wrapped ''MAILER_TRANSPORT=api requires an API client: '' err)
            | Inr client \<Rightarrow> Inr \<lparr>set_Transport = transport, set_APIClient = ToLower client\<rparr>)
         else Inl (Plain (''MAILER_TRANSPORT must be '' @ lib_quote L ''smtp'' @ '' or '' @ lib_quote L ''api''
                @ '', got '' @ lib_quote L transport)))"

section \<open>Sources\<close>

definition knownSources :: "string list" where
  "knownSources = [''rabbitmq'', ''http'', ''kafka'']"

definition joinSources :: "string list \<Rightarrow> string" where
  "joinSources sources = Join sources '', ''"

fun listed :: "'a golib_scheme \<Rightarrow> string list \<Rightarrow> string list \<Rightarrow> goerr + string list" where
  "listed L sources [] = Inr sources"
| "listed L sources (item # items) =
     (let name = ToLower (TrimSpace item)
      in if name = [] \<or> name \<in> set sources then listed L sources items
         else if name \<notin> set knownSources
         then Inl (Plain (''MAILER_SOURCES: unknown source '' @ lib_quote L name @ '', available: '' @ joinSources knownSources))
         else listed L (sources @ [name]) items)"

definition listedSources :: "'a golib_scheme \<Rightarrow> getenv \<Rightarrow> goerr + string list" where
  "listedSources L g =
     (case listed L [] (Split (CHR '','') (envOrDefault g ''MAILER_SOURCES'' ''rabbitmq'')) of
        Inl err \<Rightarrow> Inl err
      | Inr sources \<Rightarrow>
          if sources = []
          then Inl (Plain (''MAILER_SOURCES must enable at least one source ('' @ joinSources knownSources @ '')''))
          else Inr sources)"

definition Sources :: "'a golib_scheme \<Rightarrow> getenv \<Rightarrow> goerr + string list" where
  "Sources L g =
     (case listedSources L g of
        Inl err \<Rightarrow> Inl err
      | Inr sources \<Rightarrow>
          (let httpListed = ''http'' \<in> set sources
           in if \<not> isTrue (envOrDefault g ''HTTP_API_DISABLED'' ''false'')
              then Inr (if httpListed then sources else sources @ [''http''])
              else if httpListed
              then Inl (Plain (''MAILER_SOURCES lists '' @ lib_quote L ''http'' @ '' but HTTP_API_DISABLED is true''))
              else Inr sources))"


section \<open>RabbitMQ (rabbitmq\_config.go)\<close>

text \<open>An \<open>Inl\<close> of \<open>getRequiredEnv\<close> is \<open>log.Fatalf\<close>: the process ends with that text.\<close>

record RabbitMQConfig =
  rabbit_URL :: string
  rabbit_Queue :: string

definition getRequiredEnv :: "getenv \<Rightarrow> string \<Rightarrow> goerr + string" where
  "getRequiredEnv g key =
     (if g key = [] then Inl (Plain (''Required environment variable '' @ key @ '' is not set'')) else Inr (g key))"

definition getEnvOrDefault :: "getenv \<Rightarrow> string \<Rightarrow> string \<Rightarrow> string" where
  "getEnvOrDefault g key defaultValue = (if g key = [] then defaultValue else g key)"

definition NewRabbitMQConfig :: "getenv \<Rightarrow> goerr + RabbitMQConfig" where
  "NewRabbitMQConfig g =
     (case map_results (getRequiredEnv g) [''RABBITMQ_USER'', ''RABBITMQ_PASS'', ''RABBITMQ_HOST''] of
        Inl err \<Rightarrow> Inl err
      | Inr values \<Rightarrow>
          (let port = getEnvOrDefault g ''RABBITMQ_PORT'' ''5672'';
               vhost = getEnvOrDefault g ''RABBITMQ_VHOST'' ''/'';
               queue = getEnvOrDefault g ''RABBITMQ_QUEUE'' ''mailer-service'';
               path = (if vhost \<noteq> [] \<and> hd vhost \<noteq> CHR ''/'' then CHR ''/'' # vhost else vhost)
           in Inr \<lparr>rabbit_URL = ''amqp://'' @ values ! 0 @ '':'' @ values ! 1 @ ''@'' @ values ! 2 @ '':'' @ port @ path,
                   rabbit_Queue = queue\<rparr>))"

section \<open>Properties\<close>

lemma envOrDefault_unset [simp]: "g key = [] \<Longrightarrow> envOrDefault g key d = d"
  by (simp add: envOrDefault_def)

lemma requireEnv_Inr: "requireEnv g key = Inr v \<longleftrightarrow> v = TrimSpace (g key) \<and> v \<noteq> []"
  by (auto simp: requireEnv_def Let_def)

lemma positiveInt_pos: "positiveInt L g key d = Inr n \<Longrightarrow> 0 < d \<Longrightarrow> 0 < n"
  by (auto simp: positiveInt_def Let_def split: if_splits option.splits)

lemma positiveDuration_pos: "positiveDuration L g key d = Inr n \<Longrightarrow> 0 < d \<Longrightarrow> 0 < n"
  by (auto simp: positiveDuration_def Let_def split: if_splits option.splits)

lemma retry_config_positive:
  assumes "NewRetryConfig L g = Inr c"
  shows "0 < retry_MaxAttempts c \<and> 0 < retry_BaseDelay c \<and> retry_BaseDelay c \<le> retry_MaxDelay c"
  using assms positiveInt_pos [of L g "''MAILER_MAX_ATTEMPTS''" 5]
    positiveDuration_pos [of L g "''MAILER_RETRY_BASE_DELAY''" "30 * Second"]
  by (auto simp: NewRetryConfig_def split: sum.splits if_splits)

lemma retry_config_policy: "NewRetryConfig L g = Inr c \<Longrightarrow> retry_MaxDelay c \<le> 2 ^ 62 \<Longrightarrow> valid_policy (retry_policy c)"
  using retry_config_positive by (fastforce simp: valid_policy_def retry_policy_def)

text \<open>Every retry configuration that is accepted gives a policy with at least one attempt and with
  positive waits, the base not above the cap, so all bounds on the policy's delays apply to it (for a
  cap below 2^62 ns, some 146 years); and with nothing set the configuration is the default policy.\<close>

lemma retry_config_valid:
  assumes "NewRetryConfig L g = Inr c"
  shows "1 \<le> retry_MaxAttempts c \<and> 0 < retry_BaseDelay c \<and> retry_BaseDelay c \<le> retry_MaxDelay c
    \<and> (retry_MaxDelay c \<le> 2 ^ 62 \<longleftrightarrow> valid_policy (retry_policy c))
    \<and> map_sum (\<lambda>e. ()) retry_policy (NewRetryConfig L (\<lambda>_. [])) = Inr DefaultRetryPolicy"
proof -
  have "map_sum (\<lambda>e. ()) retry_policy (NewRetryConfig L (\<lambda>_. [])) = Inr DefaultRetryPolicy"
    by (simp add: NewRetryConfig_def positiveInt_def positiveDuration_def retry_policy_def DefaultRetryPolicy_def)
  then show ?thesis using retry_config_positive [OF assms] by (auto simp: valid_policy_def retry_policy_def)
qed

definition plain_lib :: golib where
  "plain_lib =
     \<lparr>lib_quote = (\<lambda>s. s), lib_mail_address = (\<lambda>n a. n @ a), lib_q_encoding = (\<lambda>s. s), lib_url_error = (\<lambda>u. None),
      lib_type_error = (\<lambda>doc. ''json: cannot unmarshal''),
      lib_parse_duration = (\<lambda>s. if s = ''1m'' then Some Minute else None), lib_parse_time = (\<lambda>s. None)\<rparr>"

definition env_of :: "(string \<times> string) list \<Rightarrow> getenv" where
  "env_of vs key = (case map_of vs key of None \<Rightarrow> [] | Some v \<Rightarrow> v)"

lemma TrimSpace_examples:
  "TrimSpace ''1m'' = ''1m''" "TrimSpace ''k1, k2'' = ''k1, k2''" "TrimSpace ''k1'' = ''k1''" "TrimSpace '' k2'' = ''k2''"
  "TrimSpace ''kafka'' = ''kafka''" "TrimSpace ''b:9092'' = ''b:9092''" "TrimSpace ''4294967296'' = ''4294967296''"
  "TrimSpace ''true'' = ''true''" "TrimSpace ''false'' = ''false''"
  by code_simp+

lemma retry_config_valid_example:
  "\<exists>c. NewRetryConfig plain_lib (env_of [(''MAILER_RETRY_BASE_DELAY'', ''1m'')]) = Inr c
     \<and> retry_BaseDelay c = Minute \<and> 1 \<le> retry_MaxAttempts c"
proof -
  have "\<exists>c. NewRetryConfig plain_lib (env_of [(''MAILER_RETRY_BASE_DELAY'', ''1m'')]) = Inr c \<and> retry_BaseDelay c = Minute"
    by (simp add: NewRetryConfig_def positiveInt_def positiveDuration_def envOrDefault_def env_of_def
        TrimSpace_examples plain_lib_def)
  then show ?thesis using retry_config_valid by blast
qed

lemma listed_sources:
  "listed L ss items = Inr ss' \<Longrightarrow> distinct ss \<Longrightarrow> set ss \<subseteq> set knownSources \<Longrightarrow>
   distinct ss' \<and> set ss' \<subseteq> set knownSources"
  by (induction L ss items rule: listed.induct) (auto simp: Let_def split: if_splits)

text \<open>The sources that are started are known ones, at least one, none twice, and the HTTP source is
  among them exactly when it is not disabled; listing it while it is disabled is an error.\<close>

lemma configured_sources:
  assumes "Sources L g = Inr ss"
  shows "ss \<noteq> [] \<and> distinct ss \<and> set ss \<subseteq> {''rabbitmq'', ''http'', ''kafka''}
    \<and> (''http'' \<in> set ss \<longleftrightarrow> \<not> isTrue (envOrDefault g ''HTTP_API_DISABLED'' ''false''))"
proof -
  obtain ls where ls: "listedSources L g = Inr ls"
    using assms by (auto simp: Sources_def split: sum.splits)
  then have "ls \<noteq> []" "distinct ls \<and> set ls \<subseteq> set knownSources"
    using listed_sources [of L "[]" "Split (CHR '','') (envOrDefault g ''MAILER_SOURCES'' ''rabbitmq'')" ls]
    by (auto simp: listedSources_def split: sum.splits if_splits)
  then show ?thesis using assms ls
    by (auto simp: Sources_def Let_def knownSources_def split: if_splits)
qed

lemma kafka_and_http: "Sources plain_lib (env_of [(''MAILER_SOURCES'', ''kafka'')]) = Inr [''kafka'', ''http'']"
proof -
  have low: "ToLower ''kafka'' = ''kafka''" "ToLower ''false'' = ''false''" by code_simp+
  then show ?thesis
    by (simp add: Sources_def listedSources_def envOrDefault_def env_of_def TrimSpace_examples knownSources_def
        isTrue_def low)
qed

text \<open>The HTTP source never runs unauthenticated: an accepted configuration has at least one key, every
  key is trimmed and not empty, and the body limit is positive.\<close>

lemma http_config_keys:
  assumes "NewHTTPAPIConfig L g = Inr c"
  shows "http_Keys c \<noteq> []" "\<forall>k \<in> set (http_Keys c). k \<noteq> [] \<and> TrimSpace k = k" "0 < http_MaxBodyBytes c"
  using assms positiveInt_pos [of L g "''HTTP_API_MAX_BODY_BYTES''" "25 * 2 ^ 20"]
  by (auto simp: NewHTTPAPIConfig_def Let_def split: sum.splits if_splits)

lemma two_keys: "\<exists>c. NewHTTPAPIConfig plain_lib (env_of [(''HTTP_API_KEYS'', ''k1, k2'')]) = Inr c \<and> http_Keys c = [''k1'', ''k2'']"
  by (simp add: NewHTTPAPIConfig_def requireEnv_def env_of_def TrimSpace_examples positiveInt_def envOrDefault_def)

text \<open>The partition and replication counts of the Kafka configuration are the positive numbers that were
  set as long as these fit the 32 and 16 bits of their fields.\<close>

lemma kafka_config_counts:
  assumes "NewKafkaConfig L g = Inr c"
    and "positiveInt L g ''KAFKA_TOPIC_PARTITIONS'' 3 = Inr p" "p < 2 ^ 31"
    and "positiveInt L g ''KAFKA_TOPIC_REPLICATION'' 1 = Inr r" "r < 2 ^ 15"
  shows "kafka_Partitions c = p \<and> kafka_Replication c = r \<and> 0 < p \<and> 0 < r
    \<and> (kafka_SASLMechanism c \<in> {[], ''plain'', ''scram-sha-256'', ''scram-sha-512''})
    \<and> (kafka_SASLMechanism c = [] \<or> kafka_SASLUser c \<noteq> [] \<and> kafka_SASLPass c \<noteq> [])"
proof -
  have "0 < p" "0 < r" using positiveInt_pos assms by fastforce+
  moreover from this have "wrap32 p = p" "wrap16 r = r"
    using assms(3,5) by (simp_all add: wrap32_def wrap16_def)
  ultimately show ?thesis
    using assms(1,2,4)
    by (auto simp: NewKafkaConfig_def Let_def validateSASL_def split: sum.splits option.splits if_splits)
qed

text \<open>A number of partitions that does not fit 32 bits is accepted as positive and then truncated: with
  \<open>KAFKA_TOPIC_PARTITIONS=4294967296\<close> the configuration is accepted with zero partitions.\<close>

lemma kafka_partitions_truncated:
  "\<exists>c. NewKafkaConfig plain_lib (env_of [(''KAFKA_BROKERS'', ''b:9092''), (''KAFKA_TOPIC_PARTITIONS'', ''4294967296'')])
       = Inr c \<and> kafka_Partitions c = 0"
proof -
  let ?g = "env_of [(''KAFKA_BROKERS'', ''b:9092''), (''KAFKA_TOPIC_PARTITIONS'', ''4294967296'')]"
  have low: "ToLower [] = []" by code_simp
  have "Atoi ''4294967296'' = Some 4294967296"
    by (simp add: Atoi_def is_digit_def digits_value_def int64_range_def)
  then have "positiveInt plain_lib ?g ''KAFKA_TOPIC_PARTITIONS'' 3 = Inr 4294967296"
      "positiveInt plain_lib ?g ''KAFKA_TOPIC_REPLICATION'' 1 = Inr 1"
    by (simp_all add: positiveInt_def envOrDefault_def env_of_def TrimSpace_examples)
  then show ?thesis
    by (auto simp: NewKafkaConfig_def requireEnv_def env_of_def TrimSpace_examples validateSASL_def envOrDefault_def
        Let_def low wrap32_def)
qed

end
