(* ===== verification/RabbitTopology.thy ===== *)
theory RabbitTopology
  imports Headers
begin

text \<open>
  \<open>internal/infrastructure/messaging/rabbitmq_topology.go\<close>: the queues of the RabbitMQ source, their
  names, and the choice of the queue in which a retry waits.
\<close>

record topology =
  t_queue :: string
  t_deadLetter :: string
  t_retryDelays :: "int list"

definition newTopology :: "string \<Rightarrow> int list \<Rightarrow> topology" where
  "newTopology queue retryDelays =
     \<lparr>t_queue = queue, t_deadLetter = queue @ ''.dlq'', t_retryDelays = retryDelays\<rparr>"

definition compactDuration :: "int \<Rightarrow> string" where
  "compactDuration d =
     (if d smod Hour = 0 then Itoa (d sdiv Hour) @ ''h''
      else if d smod Minute = 0 then Itoa (d sdiv Minute) @ ''m''
      else if d smod Second = 0 then Itoa (d sdiv Second) @ ''s''
      else Itoa (d sdiv Millisecond) @ ''ms'')"

definition retryQueueName :: "string \<Rightarrow> int \<Rightarrow> string" where
  "retryQueueName queue delay = queue @ ''.retry.'' @ compactDuration delay"

text \<open>\<open>retryQueue\<close>: \<^const>\<open>None\<close> is the panic of indexing an empty list.\<close>

definition retryQueue :: "topology \<Rightarrow> int \<Rightarrow> string option" where
  "retryQueue t delay =
     (case find (\<lambda>d. delay \<le> d) (t_retryDelays t) of
        Some d \<Rightarrow> Some (retryQueueName (t_queue t) d)
      | None \<Rightarrow>
          if t_retryDelays t = [] then None
          else Some (retryQueueName (t_queue t) (last (t_retryDelays t))))"

definition retryQueues :: "topology \<Rightarrow> string list" where
  "retryQueues t = map (retryQueueName (t_queue t)) (t_retryDelays t)"

text \<open>The declaration of one retry queue: \<open>delay.Milliseconds()\<close> is its TTL, and expired messages go
  back to the main queue through the default exchange.\<close>

definition retry_args :: "topology \<Rightarrow> int \<Rightarrow> amqp_table" where
  "retry_args t delay =
     [(''x-message-ttl'', HeaderInt (delay sdiv Millisecond)),
      (''x-dead-letter-exchange'', HeaderString []),
      (''x-dead-letter-routing-key'', HeaderString (t_queue t))]"

fun declare_retry :: "'e env \<Rightarrow> topology \<Rightarrow> int list \<Rightarrow> 'e world \<Rightarrow> goerr option \<times> 'e world" where
  "declare_retry E t [] w = (None, w)"
| "declare_retry E t (d # ds) w =
     (case call_amqp E (AmqpQueueDeclare (retryQueueName (t_queue t) d) True (retry_args t d)) w of
        (Inl err, w1) \<Rightarrow>
          (Some (Wrapped (''declare retry queue '' @ retryQueueName (t_queue t) d @ '': '') err), w1)
      | (Inr _, w1) \<Rightarrow> declare_retry E t ds w1)"

definition declare_topology :: "'e env \<Rightarrow> topology \<Rightarrow> 'e world \<Rightarrow> goerr option \<times> 'e world" where
  "declare_topology E t w =
     (case call_amqp E (AmqpQueueDeclare (t_queue t) True []) w of
        (Inl err, w1) \<Rightarrow> (Some (Wrapped (''declare queue '' @ t_queue t @ '': '') err), w1)
      | (Inr _, w1) \<Rightarrow>
          (case call_amqp E (AmqpQueueDeclare (t_deadLetter t) True []) w1 of
             (Inl err, w2) \<Rightarrow> (Some (Wrapped (''declare queue '' @ t_deadLetter t @ '': '') err), w2)
           | (Inr _, w2) \<Rightarrow> declare_retry E t (t_retryDelays t) w2))"

section \<open>Names\<close>

text \<open>A duration is named after the largest unit that divides it; the number it shows is the duration
  in that unit.\<close>

lemma sdiv_smod_pos:
  assumes "0 < d" "0 < (k :: int)"
  shows "d sdiv k = d div k" "d smod k = d mod k"
proof -
  show "d sdiv k = d div k" using assms by (simp add: signed_divide_int_def)
  show "d smod k = d mod k" using assms by (simp add: signed_modulo_int_def)
qed

lemma Itoa_digits: "0 \<le> n \<Longrightarrow> list_all is_digit (Itoa n)"
  using Utoa_digits [of "nat n"] by (simp add: Itoa_def)

text \<open>A text of digits followed by a unit can be split again.\<close>

definition duration_units :: "(string \<times> int) list" where
  "duration_units = [(''h'', Hour), (''m'', Minute), (''s'', Second), (''ms'', Millisecond)]"

lemma digits_unit_inject:
  assumes "list_all is_digit a" "list_all is_digit b" "(u, k) \<in> set duration_units"
    and "(v, l) \<in> set duration_units" "a @ u = b @ v"
  shows "a = b \<and> u = v \<and> k = l"
proof -
  have letters: "w \<noteq> [] \<and> \<not> is_digit (hd w)" if "(w, j) \<in> set duration_units" for w j
    using that by (auto simp: duration_units_def is_digit_def)
  have digits: "takeWhile is_digit (x @ w) = x" if x: "list_all is_digit x" and wj: "(w, j) \<in> set duration_units" for x w j
  proof -
    obtain c cs where w: "w = c # cs" "\<not> is_digit c"
      using letters [OF wj] by (cases w) simp_all
    have "takeWhile is_digit (x @ w) = x @ takeWhile is_digit w"
      using x by (intro takeWhile_append2) (simp add: list_all_iff)
    then show ?thesis using w by simp
  qed
  have "a = b" using digits [OF assms(1,3)] digits [OF assms(2,4)] assms(5) by metis
  moreover from this have "u = v" using assms(5) by simp
  moreover from this have "k = l" using assms(3,4) by (auto simp: duration_units_def)
  ultimately show ?thesis by blast
qed

lemma compactDuration_unit:
  assumes "0 < d"
  obtains u k where "(u, k) \<in> set duration_units" "compactDuration d = Itoa (d div k) @ u"
    "k = Millisecond \<or> d mod k = 0" "0 < k"
proof -
  have "d smod Hour = d mod Hour" "d smod Minute = d mod Minute" "d smod Second = d mod Second"
    "d sdiv Hour = d div Hour" "d sdiv Minute = d div Minute" "d sdiv Second = d div Second"
    "d sdiv Millisecond = d div Millisecond"
    using assms by (simp_all only: sdiv_smod_pos zero_less_numeral)
  then have eq: "compactDuration d =
     (if d mod Hour = 0 then Itoa (d div Hour) @ ''h''
      else if d mod Minute = 0 then Itoa (d div Minute) @ ''m''
      else if d mod Second = 0 then Itoa (d div Second) @ ''s''
      else Itoa (d div Millisecond) @ ''ms'')"
    by (simp only: compactDuration_def)
  consider "d mod Hour = 0" | "d mod Hour \<noteq> 0" "d mod Minute = 0"
    | "d mod Hour \<noteq> 0" "d mod Minute \<noteq> 0" "d mod Second = 0"
    | "d mod Hour \<noteq> 0" "d mod Minute \<noteq> 0" "d mod Second \<noteq> 0" by blast
  then show thesis
  proof cases
    case 1 then show thesis using that [of "''h''" Hour] eq by (simp add: duration_units_def)
  next
    case 2 then show thesis using that [of "''m''" Minute] eq by (simp add: duration_units_def)
  next
    case 3 then show thesis using that [of "''s''" Second] eq by (simp add: duration_units_def)
  next
    case 4 then show thesis using that [of "''ms''" Millisecond] eq by (simp add: duration_units_def)
  qed
qed

text \<open>Two durations with the same name have the same number of milliseconds.\<close>

lemma compactDuration_ms:
  assumes "0 < d" "0 < e" "compactDuration d = compactDuration e"
  shows "d div Millisecond = e div Millisecond"
proof -
  obtain u k where d: "(u, k) \<in> set duration_units" "compactDuration d = Itoa (d div k) @ u"
    "k = Millisecond \<or> d mod k = 0" "0 < k" by (rule compactDuration_unit [OF assms(1)])
  obtain v l where e: "(v, l) \<in> set duration_units" "compactDuration e = Itoa (e div l) @ v"
    "l = Millisecond \<or> e mod l = 0" "0 < l" by (rule compactDuration_unit [OF assms(2)])
  have "list_all is_digit (Itoa (d div k))" "list_all is_digit (Itoa (e div l))"
    using assms(1,2) d(4) e(4) by (auto intro!: Itoa_digits simp: pos_imp_zdiv_nonneg_iff)
  from digits_unit_inject [OF this d(1) e(1)] have "d div k = e div l" "k = l"
    using assms(3) d(2) e(2) by (auto simp: Itoa_inject)
  then show ?thesis using d(3) e(3) by (metis div_mult_mod_eq)
qed

lemma retryQueueName_inject [simp]:
  "retryQueueName q d = retryQueueName q e \<longleftrightarrow> compactDuration d = compactDuration e"
  by (simp add: retryQueueName_def)

lemma retryQueueName_other: "retryQueueName q d \<noteq> q" "retryQueueName q d \<noteq> q @ ''.dlq''"
  by (simp_all add: retryQueueName_def)

section \<open>The queue in which a retry waits\<close>

lemma find_sorted: "sorted_wrt (<) ds \<Longrightarrow> x \<in> set ds \<Longrightarrow> find (\<lambda>d. x \<le> d) ds = Some (x :: int)"
  by (induction ds) auto

lemma retryQueue_Delay:
  assumes "valid_policy p" "1 \<le> n" "CanRetry p n"
  shows "retryQueue (newTopology q (Delays p)) (Delay p n) = Some (retryQueueName q (Delay p n))"
  using assms Delay_in_Delays [of n p] find_sorted [OF Delays_sorted, of p "Delay p n"]
  by (simp add: retryQueue_def newTopology_def)

text \<open>A message that the policy sends to a retry waits exactly the policy's delay: the topology built
  from the policy has a retry queue for it (choosing one never panics), the queue is one that is
  declared, and it is the queue named after that delay.\<close>

lemma retryQueue_waits_delay:
  assumes "valid_policy p" "1 \<le> n" "CanRetry p n"
  shows "retryQueue (newTopology q (Delays p)) (Delay p n) = Some (retryQueueName q (Delay p n))
    \<and> retryQueueName q (Delay p n) \<in> set (retryQueues (newTopology q (Delays p)))"
  using retryQueue_Delay [OF assms] Delay_in_Delays [OF assms(2,3)]
  by (simp add: newTopology_def retryQueues_def)

lemma retryQueue_waits_delay_example:
  "retryQueue (newTopology ''q'' (Delays DefaultRetryPolicy)) (Delay DefaultRetryPolicy 4)
     = Some (retryQueueName ''q'' (Delay DefaultRetryPolicy 4))"
  using retryQueue_waits_delay [of DefaultRetryPolicy 4 "''q''"]
  by (simp add: valid_policy_def DefaultRetryPolicy_def CanRetry_def)

text \<open>Two policies never disagree about a queue they both declare: delays whose retry queues have the
  same name are declared with the same arguments, so changing the policy cannot conflict with the
  queues that exist; and no retry queue has the name of the main queue or of the dead-letter queue.\<close>

lemma retry_queue_names_consistent:
  assumes "0 < d" "0 < e" "retryQueueName (t_queue t) d = retryQueueName (t_queue t) e"
  shows "retry_args t d = retry_args t e
    \<and> retryQueueName q d \<noteq> t_queue (newTopology q ds) \<and> retryQueueName q d \<noteq> t_deadLetter (newTopology q ds)"
  using assms compactDuration_ms [of d e] sdiv_smod_pos(1) [of d Millisecond] sdiv_smod_pos(1) [of e Millisecond]
  by (simp add: retry_args_def newTopology_def retryQueueName_other)

lemma retry_queue_names_consistent_example:
  "retry_args (newTopology ''q'' []) 90500 = retry_args (newTopology ''q'' []) 120500"
proof -
  have "compactDuration 90500 = compactDuration 120500"
    by (simp add: compactDuration_def signed_divide_int_def signed_modulo_int_def)
  then show ?thesis
    using retry_queue_names_consistent [of 90500 120500 "newTopology ''q'' []"] by simp
qed

end
