(* ===== verification/RabbitMQ.thy ===== *)
theory RabbitMQ
  imports RabbitTopology Config
begin

text \<open>
  \<open>rabbitmq_dispatch.go\<close>, \<open>rabbitmq_consumer.go\<close> and \<open>rabbitmq_source.go\<close> of
  \<open>internal/infrastructure/messaging\<close>: what happens to a delivery after its handler, the connection
  with its backoff, and the consume loop.
\<close>

section \<open>Dispatch of one delivery\<close>

record delivery =
  msg_Tag :: nat
  msg_Headers :: amqp_table
  msg_ContentType :: string
  msg_MessageId :: string
  msg_Timestamp :: "int option"
  msg_Body :: string

text \<open>\<open>attemptOf\<close>: the three integer types of the Go switch are one constructor here.\<close>

definition attemptOf :: "amqp_table \<Rightarrow> int" where
  "attemptOf headers =
     (case map_of headers headerAttempt of Some (HeaderInt v) \<Rightarrow> max v 1 | _ \<Rightarrow> 1)"

definition ack :: "'e env \<Rightarrow> delivery \<Rightarrow> 'e world \<Rightarrow> 'e world" where
  "ack E msg w = snd (call_amqp E (AmqpAck (msg_Tag msg)) w)"

definition publishing :: "delivery \<Rightarrow> amqp_table \<Rightarrow> amqp_publishing" where
  "publishing msg headers =
     \<lparr>pub_Headers = headers, pub_ContentType = msg_ContentType msg, pub_Persistent = True,
      pub_MessageId = msg_MessageId msg, pub_Timestamp = msg_Timestamp msg, pub_Body = msg_Body msg\<rparr>"

definition publishConfirmed ::
  "'e env \<Rightarrow> string \<Rightarrow> delivery \<Rightarrow> amqp_table \<Rightarrow> 'e world \<Rightarrow> goerr option \<times> 'e world"
where
  "publishConfirmed E queue msg headers w =
     (case call_amqp E (AmqpPublish queue (publishing msg headers)) w of
        (Inl err, w1) \<Rightarrow> (Some err, w1)
      | (Inr _, w1) \<Rightarrow>
          (case call_amqp E AmqpWaitConfirm w1 of
             (Inl err, w2) \<Rightarrow> (Some err, w2)
           | (Inr acked, w2) \<Rightarrow>
               (if acked then None else Some (Plain ''broker rejected the publish''), w2)))"

definition moveTo :: "'e env \<Rightarrow> string \<Rightarrow> delivery \<Rightarrow> amqp_table \<Rightarrow> 'e world \<Rightarrow> 'e world" where
  "moveTo E queue msg headers w =
     (case publishConfirmed E queue msg headers w of
        (Some _, w1) \<Rightarrow> snd (call_amqp E (AmqpNack (msg_Tag msg) True) w1)
      | (None, w1) \<Rightarrow> ack E msg w1)"

text \<open>\<open>apply\<close>; \<^const>\<open>None\<close> is the panic of \<^const>\<open>retryQueue\<close>.\<close>

definition apply_outcome ::
  "'e env \<Rightarrow> topology \<Rightarrow> delivery \<Rightarrow> int \<Rightarrow> Outcome \<Rightarrow> 'e world \<Rightarrow> 'e world option"
where
  "apply_outcome E t msg attempt out w =
     (case out_Action out of
        ActionRetry \<Rightarrow>
          (case retryQueue t (out_RetryIn out) of
             None \<Rightarrow> None
           | Some target \<Rightarrow>
               Some (moveTo E target msg [(headerAttempt, HeaderInt (wrap64 (attempt + 1)))] w))
      | ActionDeadLetter \<Rightarrow>
          (let (failedAt, w1) = call_clock E w
           in Some (moveTo E (t_deadLetter t) msg
                [(headerAttempt, HeaderInt attempt),
                 (headerErrorCode, HeaderString (code_text (event_ErrorCode (out_Event out)))),
                 (headerCause, HeaderString (Headers.truncate (event_Cause (out_Event out)) maxCauseHeaderChars)),
                 (headerFailedAt, HeaderString (RFC3339 failedAt))] w1))
      | ActionDone \<Rightarrow> Some (ack E msg w))"

text \<open>One turn of the consume loop for a delivery.\<close>

definition process_delivery ::
  "'e env \<Rightarrow> topology \<Rightarrow> 'e Handler \<Rightarrow> delivery \<Rightarrow> 'e world \<Rightarrow> 'e world option"
where
  "process_delivery E t h msg w =
     (let attempt = attemptOf (msg_Headers msg); (out, w1) = h (msg_Body msg) attempt w
      in apply_outcome E t msg attempt out w1)"

section \<open>Connection\<close>

definition initialBackoff :: int where "initialBackoff = 1 * Second"
definition maxBackoff :: int where "maxBackoff = 30 * Second"
definition prefetchCount :: int where "prefetchCount = 1"

record rabbit_consumer =
  rc_config :: RabbitMQConfig
  rc_topology :: topology
  rc_open :: bool
  rc_ready :: bool

definition NewConsumer :: "RabbitMQConfig \<Rightarrow> RetryPolicy \<Rightarrow> rabbit_consumer" where
  "NewConsumer cfg p =
     \<lparr>rc_config = cfg, rc_topology = newTopology (rabbit_Queue cfg) (Delays p), rc_open = False, rc_ready = False\<rparr>"

text \<open>\<open>openChannel\<close>: the channel is closed again when a step after it fails.\<close>

definition openChannel :: "'e env \<Rightarrow> topology \<Rightarrow> 'e world \<Rightarrow> goerr option \<times> 'e world" where
  "openChannel E t w =
     (case call_amqp E AmqpChannel w of
        (Inl err, w1) \<Rightarrow> (Some (Wrapped ''open channel: '' err), w1)
      | (Inr _, w1) \<Rightarrow>
          (case call_amqp E AmqpConfirm w1 of
             (Inl err, w2) \<Rightarrow>
               (Some (Wrapped ''enable publisher confirms: '' err), snd (call_amqp E AmqpCloseChannel w2))
           | (Inr _, w2) \<Rightarrow>
               (case call_amqp E (AmqpQos prefetchCount) w2 of
                  (Inl err, w3) \<Rightarrow>
                    (Some (Wrapped ''set prefetch: '' err), snd (call_amqp E AmqpCloseChannel w3))
                | (Inr _, w3) \<Rightarrow>
                    (case declare_topology E t w3 of
                       (Some err, w4) \<Rightarrow> (Some err, snd (call_amqp E AmqpCloseChannel w4))
                     | (None, w4) \<Rightarrow> (None, w4)))))"

definition dialAndOpen ::
  "'e env \<Rightarrow> rabbit_consumer \<Rightarrow> 'e world \<Rightarrow> goerr option \<times> rabbit_consumer \<times> 'e world"
where
  "dialAndOpen E c w =
     (case call_amqp E (AmqpDial (rabbit_URL (rc_config c))) w of
        (Inl err, w1) \<Rightarrow> (Some (Wrapped ''dial: '' err), c, w1)
      | (Inr _, w1) \<Rightarrow>
          (case openChannel E (rc_topology c) w1 of
             (Some err, w2) \<Rightarrow> (Some err, c, snd (call_amqp E AmqpCloseConn w2))
           | (None, w2) \<Rightarrow> (None, c\<lparr>rc_open := True\<rparr>, w2)))"

text \<open>\<open>Connect\<close> tries until it succeeds or the context ends, so it may run for ever: the first argument
  bounds the attempts, and \<^const>\<open>None\<close> is a loop that has not returned by then.\<close>

fun connect_loop ::
  "nat \<Rightarrow> 'e env \<Rightarrow> int \<Rightarrow> rabbit_consumer \<Rightarrow> 'e world \<Rightarrow> (goerr option \<times> rabbit_consumer \<times> 'e world) option"
where
  "connect_loop 0 E backoff c w = None"
| "connect_loop (Suc n) E backoff c w =
     (case dialAndOpen E c w of
        (Some _, c1, w1) \<Rightarrow>
          (case call_sleep E backoff w1 of
             (False, w2) \<Rightarrow> (let (err, w3) = call_ctx_err E w2 in Some (err, c1, w3))
           | (True, w2) \<Rightarrow> connect_loop n E (min (backoff * 2) maxBackoff) c1 w2)
      | (None, c1, w1) \<Rightarrow> Some (None, c1\<lparr>rc_ready := True\<rparr>, w1))"

definition Connect ::
  "nat \<Rightarrow> 'e env \<Rightarrow> rabbit_consumer \<Rightarrow> 'e world \<Rightarrow> (goerr option \<times> rabbit_consumer \<times> 'e world) option"
where
  "Connect n E c w = connect_loop n E initialBackoff c w"

definition Close :: "'e env \<Rightarrow> rabbit_consumer \<Rightarrow> 'e world \<Rightarrow> rabbit_consumer \<times> 'e world" where
  "Close E c w =
     (c\<lparr>rc_ready := False\<rparr>,
      if rc_open c then snd (call_amqp E AmqpCloseConn (snd (call_amqp E AmqpCloseChannel w))) else w)"

section \<open>The consume loop\<close>

text \<open>What the \<open>select\<close> of the loop receives next. A loop whose list of events is used up is still
  waiting.\<close>

datatype loop_event = CtxDone | ConnClosed "goerr option" | Message delivery | ChannelClosed

datatype loop_result = Waiting | Returned "goerr option" | Panicked

fun consume_events ::
  "'e env \<Rightarrow> topology \<Rightarrow> 'e Handler \<Rightarrow> loop_event list \<Rightarrow> 'e world \<Rightarrow> loop_result \<times> 'e world"
where
  "consume_events E t h [] w = (Waiting, w)"
| "consume_events E t h (CtxDone # evs) w = (let (err, w1) = call_ctx_err E w in (Returned err, w1))"
| "consume_events E t h (ConnClosed None # evs) w = (Returned (Some (Plain ''connection closed'')), w)"
| "consume_events E t h (ConnClosed (Some err) # evs) w =
     (Returned (Some (Wrapped ''connection closed: '' err)), w)"
| "consume_events E t h (ChannelClosed # evs) w =
     (Returned (Some (Plain ''messages channel closed'')), w)"
| "consume_events E t h (Message msg # evs) w =
     (case process_delivery E t h msg w of
        None \<Rightarrow> (Panicked, w)
      | Some w1 \<Rightarrow> consume_events E t h evs w1)"

definition consumeLoop ::
  "'e env \<Rightarrow> rabbit_consumer \<Rightarrow> 'e Handler \<Rightarrow> loop_event list \<Rightarrow> 'e world \<Rightarrow> loop_result \<times> 'e world"
where
  "consumeLoop E c h evs w =
     (if \<not> rc_open c then (Returned (Some (Plain ''not connected'')), w)
      else
        (case call_amqp E (AmqpConsume (rabbit_Queue (rc_config c))) w of
           (Inl err, w1) \<Rightarrow> (Returned (Some (Wrapped ''register consumer: '' err)), w1)
         | (Inr _, w1) \<Rightarrow> consume_events E (rc_topology c) h evs w1))"


section \<open>What is left in the trace\<close>

text \<open>The events of settling a delivery: what was published for it (if anything), and the one
  acknowledgement or requeue that ends it.\<close>

definition settles :: "delivery \<Rightarrow> (string \<times> amqp_publishing) option \<Rightarrow> event list \<Rightarrow> bool" where
  "settles msg target evs \<longleftrightarrow>
     (case target of
        None \<Rightarrow> (\<exists>a. evs = [AmqpCall (AmqpAck (msg_Tag msg)) a])
      | Some (q, p) \<Rightarrow>
          (\<exists>r a. evs = [AmqpCall (AmqpPublish q p) (Inr r), AmqpCall AmqpWaitConfirm (Inr True),
                        AmqpCall (AmqpAck (msg_Tag msg)) a])
        \<or> (\<exists>r c a. c \<noteq> Inr True \<and>
              evs = [AmqpCall (AmqpPublish q p) (Inr r), AmqpCall AmqpWaitConfirm c,
                     AmqpCall (AmqpNack (msg_Tag msg) True) a])
        \<or> (\<exists>err a. evs = [AmqpCall (AmqpPublish q p) (Inl err), AmqpCall (AmqpNack (msg_Tag msg) True) a]))"

lemma call_amqp_trace: "trace (snd (call_amqp E c w)) = trace w @ [AmqpCall c (fst (call_amqp E c w))]"
  by (metis call_trace(3) prod.collapse)

lemma moveTo_settles:
  "\<exists>evs. trace (moveTo E q msg hs w) = trace w @ evs \<and> settles msg (Some (q, publishing msg hs)) evs"
proof -
  obtain r w1 where pub: "call_amqp E (AmqpPublish q (publishing msg hs)) w = (r, w1)" by fastforce
  obtain c w2 where wait: "call_amqp E AmqpWaitConfirm w1 = (c, w2)" by fastforce
  show ?thesis
  proof (cases r)
    case (Inl err)
    then show ?thesis using pub
      by (auto simp: moveTo_def publishConfirmed_def settles_def call_amqp_trace dest!: call_trace(3))
  next
    case (Inr b)
    then show ?thesis using pub wait
      by (cases c) (auto simp: moveTo_def publishConfirmed_def settles_def call_amqp_trace ack_def dest!: call_trace(3))
  qed
qed

text \<open>What \<open>apply\<close> publishes for an outcome.\<close>

definition target_of ::
  "topology \<Rightarrow> delivery \<Rightarrow> int \<Rightarrow> Outcome \<Rightarrow> int \<Rightarrow> (string \<times> amqp_publishing) option"
where
  "target_of t msg attempt out failedAt =
     (case out_Action out of
        ActionDone \<Rightarrow> None
      | ActionRetry \<Rightarrow>
          Some (the (retryQueue t (out_RetryIn out)),
                publishing msg [(headerAttempt, HeaderInt (wrap64 (attempt + 1)))])
      | ActionDeadLetter \<Rightarrow>
          Some (t_deadLetter t, publishing msg
            [(headerAttempt, HeaderInt attempt),
             (headerErrorCode, HeaderString (code_text (event_ErrorCode (out_Event out)))),
             (headerCause, HeaderString (Headers.truncate (event_Cause (out_Event out)) maxCauseHeaderChars)),
             (headerFailedAt, HeaderString (RFC3339 failedAt))]))"

lemma apply_outcome_settles:
  assumes "apply_outcome E t msg attempt out w = Some w'"
  shows "\<exists>evs. trace w' = trace w @ evs \<and> settles msg (target_of t msg attempt out (fst (call_clock E w))) evs"
proof (cases "out_Action out")
  case ActionDone
  then show ?thesis using assms
    by (auto simp: apply_outcome_def target_of_def settles_def ack_def call_amqp_trace)
next
  case ActionRetry
  then obtain q where q: "retryQueue t (out_RetryIn out) = Some q"
    "w' = moveTo E q msg [(headerAttempt, HeaderInt (wrap64 (attempt + 1)))] w"
    using assms by (auto simp: apply_outcome_def split: option.splits)
  then show ?thesis using moveTo_settles ActionRetry by (simp add: target_of_def)
next
  case ActionDeadLetter
  obtain ts w1 where clock: "call_clock E w = (ts, w1)" by fastforce
  then have "w' = moveTo E (t_deadLetter t) msg (pub_Headers (snd (the (target_of t msg attempt out ts)))) w1"
    using assms ActionDeadLetter by (auto simp: apply_outcome_def target_of_def publishing_def)
  then show ?thesis
    using moveTo_settles [of E "t_deadLetter t" msg "pub_Headers (snd (the (target_of t msg attempt out ts)))" w1]
      call_trace(6) [OF clock] clock ActionDeadLetter
    by (simp add: target_of_def publishing_def)
qed

section \<open>Properties\<close>

definition acknowledges :: "delivery \<Rightarrow> event \<Rightarrow> bool" where
  "acknowledges msg ev \<longleftrightarrow> (\<exists>r. ev = AmqpCall (AmqpAck (msg_Tag msg)) r)"

definition requeues :: "delivery \<Rightarrow> event \<Rightarrow> bool" where
  "requeues msg ev \<longleftrightarrow> (\<exists>r. ev = AmqpCall (AmqpNack (msg_Tag msg) True) r)"

text \<open>C8: A delivery is never lost and never settled twice: applying an outcome calls the broker until
  exactly one last call, which acknowledges the delivery or requeues it. It is acknowledged only when
  nothing had to be moved or when the broker confirmed the copy in the retry or dead-letter queue;
  whenever the publish fails, times out or is rejected it is requeued.\<close>

theorem delivery_settled_once:
  assumes "apply_outcome E t msg attempt out w = Some w'"
  shows "\<exists>evs ev. trace w' = trace w @ evs @ [ev]
    \<and> (acknowledges msg ev \<noteq> requeues msg ev) \<and> (\<forall>e \<in> set evs. \<not> acknowledges msg e \<and> \<not> requeues msg e)
    \<and> (acknowledges msg ev \<longleftrightarrow> out_Action out = ActionDone \<or> AmqpCall AmqpWaitConfirm (Inr True) \<in> set evs)"
proof -
  obtain evs where evs: "trace w' = trace w @ evs"
    "settles msg (target_of t msg attempt out (fst (call_clock E w))) evs"
    using apply_outcome_settles [OF assms] by blast
  have last: "evs = butlast evs @ [last evs]" "acknowledges msg (last evs) \<noteq> requeues msg (last evs)"
    "\<forall>e \<in> set (butlast evs). \<not> acknowledges msg e \<and> \<not> requeues msg e"
    "acknowledges msg (last evs) \<longleftrightarrow> out_Action out = ActionDone \<or> AmqpCall AmqpWaitConfirm (Inr True) \<in> set (butlast evs)"
    using evs(2)
    by (auto simp: settles_def target_of_def acknowledges_def requeues_def split: Action.splits)
  then show ?thesis using evs(1) by (metis append.assoc)
qed

text \<open>C23: The copy a retry leaves carries the next attempt and goes to the queue the outcome's wait
  selects; the copy of a dead letter carries the attempt, the error code, the bounded cause and the
  time; a retry copy carries no error code and no cause. Both are persistent and keep the body, content type, id and
  timestamp of the delivery, and the attempt is read back from the headers (attempts count from 1, and the next one
  is a Go integer).\<close>

theorem moved_copy_contents:
  assumes "apply_outcome E t msg attempt out w = Some w'"
    and "AmqpCall (AmqpPublish q p) r \<in> set (drop (length (trace w)) (trace w'))"
    and "1 \<le> attempt" "int64_range (attempt + 1)"
  shows "pub_Body p = msg_Body msg \<and> pub_MessageId p = msg_MessageId msg \<and> pub_ContentType p = msg_ContentType msg
    \<and> pub_Persistent p \<and> pub_Timestamp p = msg_Timestamp msg
    \<and> (if out_Action out = ActionRetry
       then retryQueue t (out_RetryIn out) = Some q \<and> attemptOf (pub_Headers p) = attempt + 1
       else out_Action out = ActionDeadLetter \<and> q = t_deadLetter t \<and> attemptOf (pub_Headers p) = attempt
         \<and> map_of (pub_Headers p) headerErrorCode = Some (HeaderString (code_text (event_ErrorCode (out_Event out))))
         \<and> map_of (pub_Headers p) headerCause =
             Some (HeaderString (Headers.truncate (event_Cause (out_Event out)) maxCauseHeaderChars)))"
proof -
  obtain evs where evs: "trace w' = trace w @ evs"
    "settles msg (target_of t msg attempt out (fst (call_clock E w))) evs"
    using apply_outcome_settles [OF assms(1)] by blast
  have target: "target_of t msg attempt out (fst (call_clock E w)) = Some (q, p)"
    using evs assms(2) by (auto simp: settles_def split: option.splits)
  have "retryQueue t (out_RetryIn out) = Some q" if "out_Action out = ActionRetry"
    using target that assms(1) by (auto simp: target_of_def apply_outcome_def split: option.splits)
  then show ?thesis
    using target assms(3,4)
    by (auto simp: target_of_def publishing_def attemptOf_def header_defs split: Action.splits)
qed


definition some_delivery :: delivery where
  "some_delivery =
     \<lparr>msg_Tag = 3, msg_Headers = [(headerAttempt, HeaderInt 2)], msg_ContentType = ''application/json'',
      msg_MessageId = ''7'', msg_Timestamp = None, msg_Body = ''{}''\<rparr>"

definition retry_outcome :: Outcome where
  "retry_outcome =
     \<lparr>out_Event = \<lparr>event_ID = ''7'', event_Subject = [], event_Status = StatusFailed,
        event_ErrorCode = CodeAPIRateLimited, event_Cause = ''slow'', event_OccurredAt = None\<rparr>,
      out_Err = Some (Errorf CodeAPIRateLimited ''slow''), out_Action = ActionRetry, out_RetryIn = 60 * Second\<rparr>"

lemma retry_outcome_applied:
  "\<exists>w'. apply_outcome E (newTopology ''q'' [30 * Second, 60 * Second]) some_delivery 2 retry_outcome w = Some w'"
  by (simp add: apply_outcome_def retry_outcome_def retryQueue_def newTopology_def)

theorem delivery_settled_once_witness:
  "\<exists>w'. apply_outcome quiet_env (newTopology ''q'' [30 * Second, 60 * Second]) some_delivery 2 retry_outcome
      some_world = Some w' \<and> trace w' \<noteq> []"
proof -
  obtain w' where w': "apply_outcome quiet_env (newTopology ''q'' [30 * Second, 60 * Second]) some_delivery 2
      retry_outcome some_world = Some w'"
    using retry_outcome_applied by blast
  from delivery_settled_once [OF this] have "trace w' \<noteq> []" by auto
  with w' show ?thesis by blast
qed

theorem moved_copy_contents_witness:
  "\<exists>w' q p r. apply_outcome quiet_env (newTopology ''q'' [30 * Second, 60 * Second]) some_delivery 2 retry_outcome
      some_world = Some w' \<and> AmqpCall (AmqpPublish q p) r \<in> set (trace w') \<and> attemptOf (pub_Headers p) = 3"
proof -
  let ?t = "newTopology ''q'' [30 * Second, 60 * Second]"
  let ?p = "publishing some_delivery [(headerAttempt, HeaderInt 3)]"
  obtain w' where w': "apply_outcome quiet_env ?t some_delivery 2 retry_outcome some_world = Some w'"
    using retry_outcome_applied by blast
  have "w' = moveTo quiet_env (retryQueueName ''q'' (60 * Second)) some_delivery [(headerAttempt, HeaderInt 3)] some_world"
    using w' by (simp add: apply_outcome_def retry_outcome_def retryQueue_def newTopology_def wrap64_def)
  then have pub: "AmqpCall (AmqpPublish (retryQueueName ''q'' (60 * Second)) ?p) (Inr True) \<in> set (trace w')"
    by (simp add: moveTo_def publishConfirmed_def call_amqp_def quiet_env_def ack_def)
  then have "AmqpCall (AmqpPublish (retryQueueName ''q'' (60 * Second)) ?p) (Inr True)
      \<in> set (drop (length (trace some_world)) (trace w'))"
    by (simp add: some_world_def)
  from moved_copy_contents [OF w' this] have "attemptOf (pub_Headers ?p) = 3"
    by (simp add: int64_range_def retry_outcome_def)
  with w' pub show ?thesis by blast
qed

section \<open>The consume loop never panics\<close>

context handler
begin

lemma apply_retry_defined:
  assumes "valid_policy pol" "1 \<le> n" "handle body n w = (out, w1)"
  shows "apply_outcome E (newTopology q (Delays pol)) msg n out w1 \<noteq> None"
proof (cases "out_Action out")
  case ActionRetry
  then show ?thesis
    using retry_allowed [OF assms(3) ActionRetry] find_sorted [OF Delays_sorted [OF assms(1)]]
      retry_wait_declared [OF assms(3,2) ActionRetry]
    by (simp add: apply_outcome_def retryQueue_def newTopology_def)
qed (simp_all add: apply_outcome_def split: prod.splits)

lemma attempt_positive: "1 \<le> attemptOf hs"
  by (auto simp: attemptOf_def split: option.splits amqp_value.splits)

lemma consume_no_panic:
  "valid_policy pol \<Longrightarrow> fst (consume_events E (newTopology q (Delays pol)) handle evs w) \<noteq> Panicked"
proof (induction evs arbitrary: w)
  case (Cons ev evs)
  show ?case
  proof (cases ev)
    case (Message msg)
    obtain out w1 where "handle (msg_Body msg) (attemptOf (msg_Headers msg)) w = (out, w1)" by fastforce
    moreover from this obtain w2 where
      "apply_outcome E (newTopology q (Delays pol)) msg (attemptOf (msg_Headers msg)) out w1 = Some w2"
      using apply_retry_defined [OF Cons.prems attempt_positive] by blast
    ultimately show ?thesis using Cons Message by (simp add: process_delivery_def)
  next
    case (ConnClosed err)
    then show ?thesis by (cases err) simp_all
  qed (use Cons in \<open>simp_all split: prod.split\<close>)
qed simp

end

text \<open>The RabbitMQ consumer built for the service's policy never panics, whatever arrives: for every
  sequence of deliveries (with any headers and bodies) and connection events, and whatever the
  brokers, senders and callbacks answer, every retry the service asks for has a declared queue.\<close>

lemma consumer_never_panics:
  assumes "valid_policy (policy s)"
  shows "fst (consumeLoop E (NewConsumer cfg (policy s)) (Handle te (Deliver s)) evs w) \<noteq> Panicked
    \<and> fst (consumeLoop E (NewConsumer cfg (policy s)\<lparr>rc_open := True\<rparr>) (Handle te (Deliver s)) evs w) \<noteq> Panicked"
  using mailer_consumer.consume_no_panic [OF assms]
  by (simp add: consumeLoop_def NewConsumer_def split: prod.split sum.split)

lemma consumer_never_panics_example:
  "fst (consumeLoop quiet_env (NewConsumer \<lparr>rabbit_URL = ''amqp'', rabbit_Queue = ''q''\<rparr> DefaultRetryPolicy\<lparr>rc_open := True\<rparr>)
      (Handle (\<lambda>s. s) (Deliver busy_service)) [Message some_delivery, CtxDone] some_world) \<noteq> Panicked"
  using consumer_never_panics [of busy_service quiet_env "\<lparr>rabbit_URL = ''amqp'', rabbit_Queue = ''q''\<rparr>" "\<lambda>s. s"
      "[Message some_delivery, CtxDone]" some_world]
  by (simp add: valid_policy_def DefaultRetryPolicy_def)

section \<open>A message is attempted a bounded number of times\<close>

text \<open>\<open>m'\<close> is the delivery the broker makes of a copy that a retry of \<open>m\<close> left in a retry queue, when its
  time is up: it has the body and the attempt header of the copy (the broker adds headers of its own).
  The number of attempts of a policy is a Go integer.\<close>

definition retried_as :: "'e env \<Rightarrow> RetryPolicy \<Rightarrow> topology \<Rightarrow> 'e Handler \<Rightarrow> delivery \<Rightarrow> delivery \<Rightarrow> bool" where
  "retried_as E pol t h m m' \<longleftrightarrow>
     int64_range (MaxAttempts pol) \<and>
     (\<exists>w out w1 w2 q p r. h (msg_Body m) (attemptOf (msg_Headers m)) w = (out, w1)
        \<and> out_Action out = ActionRetry
        \<and> apply_outcome E t m (attemptOf (msg_Headers m)) out w1 = Some w2
        \<and> AmqpCall (AmqpPublish q p) r \<in> set (drop (length (trace w1)) (trace w2))
        \<and> map_of (msg_Headers m') headerAttempt = map_of (pub_Headers p) headerAttempt
        \<and> msg_Body m' = pub_Body p)"

context handler
begin

lemma rabbit_retry_step:
  assumes "retried_as E pol t handle m m'"
  shows "attemptOf (msg_Headers m') = attemptOf (msg_Headers m) + 1
    \<and> attemptOf (msg_Headers m') \<le> MaxAttempts pol"
proof -
  obtain w out w1 w2 q p r where h: "handle (msg_Body m) (attemptOf (msg_Headers m)) w = (out, w1)"
    "out_Action out = ActionRetry" "apply_outcome E t m (attemptOf (msg_Headers m)) out w1 = Some w2"
    "AmqpCall (AmqpPublish q p) r \<in> set (drop (length (trace w1)) (trace w2))"
    "map_of (msg_Headers m') headerAttempt = map_of (pub_Headers p) headerAttempt"
    and range: "int64_range (MaxAttempts pol)"
    using assms by (auto simp: retried_as_def)
  have le: "attemptOf (msg_Headers m) + 1 \<le> MaxAttempts pol"
    using next_attempt_allowed [OF h(1,2)] .
  moreover have "1 \<le> attemptOf (msg_Headers m)" by (rule attempt_positive)
  ultimately have "int64_range (attemptOf (msg_Headers m) + 1)"
    using range by (auto simp: int64_range_def)
  with apply_outcome_settles [OF h(3)] h(2,4) have "attemptOf (pub_Headers p) = attemptOf (msg_Headers m) + 1"
    using attempt_positive [of "msg_Headers m"]
    by (auto simp: settles_def target_of_def publishing_def attemptOf_def)
  moreover have "attemptOf (msg_Headers m') = attemptOf (pub_Headers p)"
    using h(5) by (simp add: attemptOf_def)
  ultimately show ?thesis using le by simp
qed

end

interpretation rabbit_transport: queue_transport "\<lambda>m. attemptOf (msg_Headers m)"
    "retried_as E (policy s) t (Handle te (Deliver s))" "MaxAttempts (policy s)"
  for E :: "'e env" and s :: "'e service" and t te
  by unfold_locales (auto simp: mailer_consumer.attempt_positive dest: mailer_consumer.rabbit_retry_step)

text \<open>A delivery that the broker makes again: the same message, whether it was given back or its connection was
  lost before it was settled.\<close>

definition redelivered :: "delivery \<Rightarrow> delivery \<Rightarrow> bool" where
  "redelivered m m' \<longleftrightarrow> msg_Body m' = msg_Body m \<and> map_of (msg_Headers m') headerAttempt = map_of (msg_Headers m) headerAttempt"

text \<open>C9: Over RabbitMQ the attempts of a message are counted up to \<open>MaxAttempts\<close>. Take any history in which each
  delivery is what the broker makes of the retry copy of the one before, or the one before delivered
  again (given back, or not settled when its connection was lost), whatever the sender and the callbacks of the
  service do. Then the attempt numbers of the deliveries, repeated deliveries taken together, go up by one from the first, and
  there are at most \<open>MaxAttempts\<close> of them; without repeated deliveries there are at most \<open>MaxAttempts\<close> deliveries.\<close>

theorem rabbit_attempts_bounded:
  assumes "successively (\<lambda>m m'. retried_as E (policy s) t (Handle te (Deliver s)) m m' \<or> redelivered m m') ms"
    and "1 \<le> MaxAttempts (policy s)"
  shows "let ns = remdups_adj (map (\<lambda>m. attemptOf (msg_Headers m)) ms)
    in int (length ns) \<le> MaxAttempts (policy s)
     \<and> (\<forall>i < length ns. ns ! i = attemptOf (msg_Headers (ms ! 0)) + int i)
     \<and> (successively (retried_as E (policy s) t (Handle te (Deliver s))) ms \<longrightarrow> int (length ms) \<le> MaxAttempts (policy s))"
proof -
  let ?a = "\<lambda>m. attemptOf (msg_Headers m)"
  have follows: "successively (\<lambda>m m'. retried_as E (policy s) t (Handle te (Deliver s)) m m' \<or> ?a m' = ?a m) ms"
    using assms(1) by (rule successively_mono) (auto simp: redelivered_def attemptOf_def)
  have "hd ms = ms ! 0" if "ms \<noteq> []" using that by (simp add: hd_conv_nth)
  then have counted: "remdups_adj (map ?a ms) ! i = ?a (ms ! 0) + int i" if "i < length (remdups_adj (map ?a ms))" for i
    using rabbit_transport.history_attempts [OF follows that] that by (cases "ms = []") auto
  have "remdups_adj (map ?a ms) = map ?a ms" if "successively (retried_as E (policy s) t (Handle te (Deliver s))) ms"
  proof -
    have "successively (\<lambda>m m'. ?a m \<noteq> ?a m') ms"
      using that by (rule successively_mono) (auto dest: rabbit_transport.next_attempt)
    then show ?thesis by (rule no_repeats)
  qed
  then have "int (length ms) \<le> MaxAttempts (policy s)" if "successively (retried_as E (policy s) t (Handle te (Deliver s))) ms"
    using rabbit_transport.history_bounded [OF follows assms(2)] that by (metis length_map)
  then show ?thesis
    unfolding Let_def using rabbit_transport.history_bounded [OF follows assms(2)] counted by blast
qed

lemma retried_asI:
  assumes "int64_range (MaxAttempts pol)" "h (msg_Body m) (attemptOf (msg_Headers m)) w = (out, w1)"
    and "out_Action out = ActionRetry" "apply_outcome E t m (attemptOf (msg_Headers m)) out w1 = Some w2"
    and "AmqpCall (AmqpPublish q p) r \<in> set (drop (length (trace w1)) (trace w2))"
    and "map_of (msg_Headers m') headerAttempt = map_of (pub_Headers p) headerAttempt" "msg_Body m' = pub_Body p"
  shows "retried_as E pol t h m m'"
  using assms unfolding retried_as_def by blast

lemma busy_retried:
  "retried_as quiet_env DefaultRetryPolicy (newTopology ''q'' (Delays DefaultRetryPolicy))
     (Handle te (Deliver busy_service)) (some_delivery\<lparr>msg_Tag := n\<rparr>) (some_delivery\<lparr>msg_Headers := [(headerAttempt, HeaderInt 3)]\<rparr>)"
proof -
  let ?m = "some_delivery\<lparr>msg_Tag := n\<rparr>"
  let ?t = "newTopology ''q'' (Delays DefaultRetryPolicy)"
  let ?p = "publishing ?m [(headerAttempt, HeaderInt 3)]"
  let ?d = "Delay DefaultRetryPolicy 2"
  obtain out where out: "Handle te (Deliver busy_service) ''{}'' 2 some_world = (out, some_world)"
    "out_Action out = ActionRetry" "out_RetryIn out = ?d"
    using busy_retry [of 2 te some_world] by auto
  have q: "retryQueue ?t ?d = Some (retryQueueName ''q'' ?d)"
    using retryQueue_Delay [of DefaultRetryPolicy 2 "''q''"]
    by (simp add: valid_policy_def DefaultRetryPolicy_def CanRetry_def)
  let ?w = "moveTo quiet_env (retryQueueName ''q'' ?d) ?m [(headerAttempt, HeaderInt 3)] some_world"
  have "apply_outcome quiet_env ?t ?m 2 out some_world = Some ?w"
    using out q by (simp add: apply_outcome_def wrap64_def)
  moreover have "AmqpCall (AmqpPublish (retryQueueName ''q'' ?d) ?p) (Inr True)
      \<in> set (drop (length (trace some_world)) (trace ?w))"
    by (simp add: moveTo_def publishConfirmed_def call_amqp_def quiet_env_def ack_def some_world_def)
  moreover have "attemptOf (msg_Headers ?m) = 2" "msg_Body ?m = ''{}''"
    by (simp_all add: some_delivery_def attemptOf_def)
  moreover have "int64_range (MaxAttempts DefaultRetryPolicy)"
    by (simp add: DefaultRetryPolicy_def int64_range_def)
  ultimately show ?thesis
    using out(1,2) by (intro retried_asI [of _ _ ?m some_world out some_world]) (auto simp: publishing_def)
qed

text \<open>A message that is given back once, and then retried.\<close>

theorem rabbit_attempts_bounded_witness:
  "int (length (remdups_adj (map (\<lambda>m. attemptOf (msg_Headers m))
     [some_delivery, some_delivery\<lparr>msg_Tag := 7\<rparr>, some_delivery\<lparr>msg_Headers := [(headerAttempt, HeaderInt 3)]\<rparr>])))
     \<le> MaxAttempts DefaultRetryPolicy"
proof -
  let ?m = "some_delivery\<lparr>msg_Tag := 7\<rparr>" and ?m' = "some_delivery\<lparr>msg_Headers := [(headerAttempt, HeaderInt 3)]\<rparr>"
  let ?R = "\<lambda>m m'. retried_as quiet_env (policy (busy_service :: unit service)) (newTopology ''q'' (Delays DefaultRetryPolicy))
     (Handle (\<lambda>s. s) (Deliver busy_service)) m m' \<or> redelivered m m'"
  have "?R some_delivery ?m" by (simp add: redelivered_def)
  moreover have "?R ?m ?m'" using busy_retried [of "\<lambda>s. s" 7] by (simp add: busy_service_def)
  ultimately have "successively ?R [some_delivery, ?m, ?m']" by simp
  from rabbit_attempts_bounded [OF this] show ?thesis by (simp add: DefaultRetryPolicy_def)
qed

section \<open>Reconnecting\<close>

text \<open>The wait before reconnection attempt \<open>k\<close>, counted from 0.\<close>

definition reconnect_wait :: "nat \<Rightarrow> int" where
  "reconnect_wait k = min (initialBackoff * 2 ^ k) maxBackoff"

lemma reconnect_wait_Suc: "reconnect_wait (Suc k) = min (reconnect_wait k * 2) maxBackoff"
  by (simp add: reconnect_wait_def min_mult_distrib_right maxBackoff_def initialBackoff_def)

fun sleeps :: "event list \<Rightarrow> int list" where
  "sleeps [] = []"
| "sleeps (Slept d # evs) = d # sleeps evs"
| "sleeps (_ # evs) = sleeps evs"

lemma sleeps_append [simp]: "sleeps (a @ b) = sleeps a @ sleeps b"
  by (induction a rule: sleeps.induct) auto

definition is_amqp :: "event \<Rightarrow> bool" where
  "is_amqp ev \<longleftrightarrow> (\<exists>c r. ev = AmqpCall c r)"

lemma sleeps_amqp: "list_all is_amqp evs \<Longrightarrow> sleeps evs = []"
  by (induction evs) (auto simp: is_amqp_def)

text \<open>What sets up a channel: nothing that opens or closes a connection, and nothing that touches a message.\<close>

fun channel_command :: "amqp_command \<Rightarrow> bool" where
  "channel_command (AmqpDial u) = False"
| "channel_command AmqpCloseConn = False"
| "channel_command (AmqpPublish q p) = False"
| "channel_command AmqpWaitConfirm = False"
| "channel_command (AmqpAck tag) = False"
| "channel_command (AmqpNack tag requeue) = False"
| "channel_command _ = True"

definition on_channel :: "event \<Rightarrow> bool" where
  "on_channel ev \<longleftrightarrow> (\<exists>c r. ev = AmqpCall c r \<and> channel_command c)"

lemma call_channel_appends:
  assumes "call_amqp E c w = (r, w')" "channel_command c"
  shows "appends on_channel w w'"
  by (rule appends_one [OF call_trace(3) [OF assms(1)]]) (use assms(2) in \<open>simp add: on_channel_def\<close>)

lemma on_channel_amqp: "appends on_channel w w' \<Longrightarrow> appends is_amqp w w'"
  by (erule appends_mono) (auto simp: on_channel_def is_amqp_def)

lemma call_amqp_appends: "call_amqp E c w = (r, w') \<Longrightarrow> appends is_amqp w w'"
  by (auto dest!: call_trace(3) simp: is_amqp_def intro: appends_one)

lemma call_amqp_appends_snd: "appends is_amqp w (snd (call_amqp E c w))"
  using call_amqp_appends by (metis prod.collapse)

lemma declare_retry_appends: "declare_retry E t ds w = (r, w') \<Longrightarrow> appends on_channel w w'"
proof (induction ds arbitrary: w)
  case (Cons d ds)
  obtain a w1 where a: "call_amqp E (AmqpQueueDeclare (retryQueueName (t_queue t) d) True (retry_args t d)) w = (a, w1)"
    by fastforce
  have i: "appends on_channel w w1" using call_channel_appends [OF a] by simp
  show ?case
    using Cons a i by (cases a) (auto intro: appends_trans [OF i])
qed simp

lemma declare_topology_appends:
  assumes "declare_topology E t w = (r, w')"
  shows "appends on_channel w w'"
proof -
  obtain a w1 where a: "call_amqp E (AmqpQueueDeclare (t_queue t) True []) w = (a, w1)" by fastforce
  obtain b w2 where b: "call_amqp E (AmqpQueueDeclare (t_deadLetter t) True []) w1 = (b, w2)" by fastforce
  obtain c w3 where c: "declare_retry E t (t_retryDelays t) w2 = (c, w3)" by fastforce
  have i: "appends on_channel w w1" "appends on_channel w1 w2" "appends on_channel w2 w3"
    using call_channel_appends [OF a] call_channel_appends [OF b] declare_retry_appends [OF c] by simp_all
  have "appends on_channel w w2" using appends_trans [OF i(1,2)] .
  moreover from this have "appends on_channel w w3" using appends_trans [OF _ i(3)] by blast
  ultimately show ?thesis
    using assms a b c i(1) by (auto simp: declare_topology_def split: sum.splits)
qed

lemma openChannel_on_channel:
  assumes "openChannel E t w = (r, w')"
  shows "appends on_channel w w'"
proof -
  obtain a w1 where a: "call_amqp E AmqpChannel w = (a, w1)" by fastforce
  obtain b w2 where b: "call_amqp E AmqpConfirm w1 = (b, w2)" by fastforce
  obtain c w3 where c: "call_amqp E (AmqpQos prefetchCount) w2 = (c, w3)" by fastforce
  obtain d w4 where d: "declare_topology E t w3 = (d, w4)" by fastforce
  have close: "appends on_channel v (snd (call_amqp E AmqpCloseChannel v))" for v
    by (rule call_channel_appends [OF prod.collapse [symmetric]]) simp
  have i: "appends on_channel w w1" "appends on_channel w1 w2" "appends on_channel w2 w3" "appends on_channel w3 w4"
    using call_channel_appends [OF a] call_channel_appends [OF b] call_channel_appends [OF c]
      declare_topology_appends [OF d] by simp_all
  note j = i(1) appends_trans [OF i(1,2)] appends_trans [OF appends_trans [OF i(1,2)] i(3)]
    appends_trans [OF appends_trans [OF appends_trans [OF i(1,2)] i(3)] i(4)]
  show ?thesis
    using assms a b c d j j [THEN appends_trans, OF close]
    by (auto simp: openChannel_def split: sum.splits option.splits)
qed

lemma openChannel_appends: "openChannel E t w = (r, w') \<Longrightarrow> appends is_amqp w w'"
  by (rule on_channel_amqp [OF openChannel_on_channel])

lemma dialAndOpen_appends: "dialAndOpen E c w = (r, c', w') \<Longrightarrow> appends is_amqp w w'"
  by (auto simp: dialAndOpen_def split: prod.splits sum.splits option.splits
      dest!: call_amqp_appends openChannel_appends
      intro: appends_trans appends_trans [OF _ call_amqp_appends_snd])

lemma dialAndOpen_sleeps:
  assumes "dialAndOpen E c w = (r, c', w')"
  shows "sleeps (trace w') = sleeps (trace w)"
  using dialAndOpen_appends [OF assms] by (auto simp: appends_def sleeps_amqp)

lemma connect_loop_sleeps:
  "connect_loop n E (reconnect_wait k) c w = Some (err, c', w') \<Longrightarrow>
   \<exists>j \<le> n. sleeps (trace w') = sleeps (trace w) @ map reconnect_wait [k..<k + j]"
proof (induction n arbitrary: k c w)
  case (Suc n)
  obtain r c1 w1 where dial: "dialAndOpen E c w = (r, c1, w1)" by (metis prod_cases3)
  note s1 = dialAndOpen_sleeps [OF dial]
  show ?case
  proof (cases r)
    case None
    then show ?thesis using Suc.prems dial s1 by (auto intro!: exI [of _ 0])
  next
    case (Some e)
    obtain b w2 where slp: "call_sleep E (reconnect_wait k) w1 = (b, w2)" by fastforce
    then have s2: "sleeps (trace w2) = sleeps (trace w) @ [reconnect_wait k]"
      using s1 call_trace(5) [OF slp] by simp
    show ?thesis
    proof (cases b)
      case True
      then have "connect_loop n E (reconnect_wait (Suc k)) c1 w2 = Some (err, c', w')"
        using Suc.prems dial Some slp by (simp add: reconnect_wait_Suc)
      from Suc.IH [OF this] obtain j where j: "j \<le> n"
        "sleeps (trace w') = sleeps (trace w2) @ map reconnect_wait [Suc k..<Suc k + j]" by blast
      then have "sleeps (trace w') = sleeps (trace w) @ map reconnect_wait [k..<k + Suc j]"
        using s2 by (simp add: upt_rec)
      with j show ?thesis by (intro exI [of _ "Suc j"]) auto
    next
      case False
      then have "trace w' = trace w2"
        using Suc.prems dial Some slp by (auto split: prod.splits dest!: call_trace(8))
      then show ?thesis using s2 by (intro exI [of _ 1]) auto
    qed
  qed
qed simp


text \<open>Connecting waits between attempts as documented: the waits of one call, in order, are one
  second doubled per failed attempt and capped at thirty seconds, so the consumer never hammers the
  broker and never waits longer than that, however often it fails.\<close>

lemma reconnect_backoff:
  assumes "Connect n E c w = Some (err, c', w')"
  shows "\<exists>k \<le> n. sleeps (trace w') = sleeps (trace w) @ map reconnect_wait [0..<k]
    \<and> (\<forall>d \<in> set (map reconnect_wait [0..<k]). 1 * Second \<le> d \<and> d \<le> 30 * Second)"
proof -
  have start: "initialBackoff = reconnect_wait 0"
    by (simp add: reconnect_wait_def initialBackoff_def maxBackoff_def)
  from connect_loop_sleeps [of n E 0 c w] assms obtain j where "j \<le> n"
    "sleeps (trace w') = sleeps (trace w) @ map reconnect_wait [0..<j]"
    by (auto simp: Connect_def start)
  moreover have "1 * Second \<le> reconnect_wait k \<and> reconnect_wait k \<le> 30 * Second" for k
  proof -
    have "(1 :: int) \<le> 2 ^ k" by (rule one_le_power) simp
    then show ?thesis by (simp add: reconnect_wait_def initialBackoff_def maxBackoff_def)
  qed
  ultimately show ?thesis by (intro exI [of _ j]) auto
qed

lemma reconnect_backoff_example:
  "\<exists>c' w'. Connect 1 quiet_env (NewConsumer \<lparr>rabbit_URL = ''amqp'', rabbit_Queue = ''q''\<rparr>
        (DefaultRetryPolicy\<lparr>MaxAttempts := 1\<rparr>)) some_world = Some (None, c', w') \<and> length (sleeps (trace w')) \<le> 1"
proof -
  let ?c = "NewConsumer \<lparr>rabbit_URL = ''amqp'', rabbit_Queue = ''q''\<rparr> (DefaultRetryPolicy\<lparr>MaxAttempts := 1\<rparr>)"
  have call: "\<exists>w'. call_amqp quiet_env c w = (Inr True, w')" for c w
    by (simp add: call_amqp_def quiet_env_def)
  have "\<exists>c' w'. dialAndOpen quiet_env ?c some_world = (None, c', w')"
    using call by (simp add: dialAndOpen_def openChannel_def declare_topology_def NewConsumer_def newTopology_def
        Delays_def call_amqp_def quiet_env_def)
  then obtain c' w' where "Connect 1 quiet_env ?c some_world = Some (None, c', w')"
    by (auto simp: Connect_def)
  moreover from reconnect_backoff [OF this] have "length (sleeps (trace w')) \<le> 1"
    by (auto simp: some_world_def)
  ultimately show ?thesis by blast
qed

end
