(* ===== verification/Kafka.thy ===== *)
theory Kafka
  imports Headers Config RabbitMQ
begin

text \<open>
  The Kafka source of \<open>internal/infrastructure/messaging\<close>: \<open>kafka_client.go\<close>, \<open>kafka_topics.go\<close>,
  \<open>kafka_dispatch.go\<close>, \<open>kafka_consume.go\<close> and \<open>kafka_source.go\<close>. (The backoff constants are those of
  the RabbitMQ consumer, as in the Go package.)
\<close>

section \<open>Client options and topics\<close>

definition kafkaClientOptions :: "KafkaConfig \<Rightarrow> kgo_opt list" where
  "kafkaClientOptions cfg =
     [SeedBrokers (kafka_Brokers cfg)] @ (if kafka_TLS cfg then [DialTLS12] else [])
     @ (if kafka_SASLMechanism cfg = ''plain'' then [SASLPlainAuth (kafka_SASLUser cfg) (kafka_SASLPass cfg)]
        else if kafka_SASLMechanism cfg = ''scram-sha-256'' then [SASLSha256Auth (kafka_SASLUser cfg) (kafka_SASLPass cfg)]
        else if kafka_SASLMechanism cfg = ''scram-sha-512'' then [SASLSha512Auth (kafka_SASLUser cfg) (kafka_SASLPass cfg)]
        else [])"

record kafkaTopics =
  kt_main :: string
  kt_retry :: string
  kt_deadLetter :: string

definition newKafkaTopics :: "string \<Rightarrow> kafkaTopics" where
  "newKafkaTopics topic = \<lparr>kt_main = topic, kt_retry = topic @ ''.retry'', kt_deadLetter = topic @ ''.dlq''\<rparr>"

definition all_topics :: "kafkaTopics \<Rightarrow> string list" where
  "all_topics t = [kt_main t, kt_retry t, kt_deadLetter t]"

fun first_failed :: "(string \<times> topic_response) list \<Rightarrow> goerr option" where
  "first_failed [] = None"
| "first_failed ((topic, TopicFailed err) # rs) = Some (Wrapped (''create topic '' @ topic @ '': '') err)"
| "first_failed (_ # rs) = first_failed rs"

definition ensure :: "'e env \<Rightarrow> kafkaTopics \<Rightarrow> int \<Rightarrow> int \<Rightarrow> 'e world \<Rightarrow> goerr option \<times> 'e world" where
  "ensure E t partitions replication w =
     (case call_kafka_create E partitions replication (all_topics t) w of
        (Inl err, w1) \<Rightarrow> (Some (Wrapped ''create topics: '' err), w1)
      | (Inr responses, w1) \<Rightarrow> (first_failed responses, w1))"

section \<open>The source\<close>

record KafkaSource =
  ks_cfg :: KafkaConfig
  ks_policy :: RetryPolicy
  ks_topics :: kafkaTopics
  ks_ready :: bool

definition NewKafkaSource :: "KafkaConfig \<Rightarrow> RetryPolicy \<Rightarrow> KafkaSource" where
  "NewKafkaSource cfg p =
     \<lparr>ks_cfg = cfg, ks_policy = p, ks_topics = newKafkaTopics (kafka_Topic cfg), ks_ready = False\<rparr>"

section \<open>Record headers\<close>

fun kafkaHeader :: "(string \<times> string) list \<Rightarrow> string \<Rightarrow> string" where
  "kafkaHeader [] key = []"
| "kafkaHeader ((k, v) # hs) key = (if k = key then v else kafkaHeader hs key)"

definition kafkaAttempt :: "(string \<times> string) list \<Rightarrow> int" where
  "kafkaAttempt hs = (case Atoi (kafkaHeader hs headerAttempt) of None \<Rightarrow> 1 | Some v \<Rightarrow> max v 1)"

definition kafkaNotBefore :: "(string \<times> string) list \<Rightarrow> int" where
  "kafkaNotBefore hs =
     (case Atoi (kafkaHeader hs headerNotBefore) of None \<Rightarrow> ZeroTime | Some millis \<Rightarrow> millis * Millisecond)"

definition copyRecord :: "kafka_record \<Rightarrow> string \<Rightarrow> (string \<times> string) list \<Rightarrow> kafka_record" where
  "copyRecord r topic hs =
     \<lparr>kr_Topic = topic, kr_Partition = 0, kr_Offset = 0, kr_Key = kr_Key r, kr_Value = kr_Value r, kr_Headers = hs\<rparr>"

section \<open>Dispatch of one record\<close>

text \<open>What \<open>apply\<close> produces for an outcome; \<open>t\<close> is the time it reads.\<close>

definition kafka_copy :: "kafkaTopics \<Rightarrow> kafka_record \<Rightarrow> int \<Rightarrow> Outcome \<Rightarrow> int \<Rightarrow> kafka_record option" where
  "kafka_copy ts r attempt out t =
     (case out_Action out of
        ActionRetry \<Rightarrow>
          Some (copyRecord r (kt_retry ts)
            [(headerAttempt, Itoa (wrap64 (attempt + 1))),
             (headerNotBefore, Itoa ((t + out_RetryIn out) div Millisecond))])
      | ActionDeadLetter \<Rightarrow>
          Some (copyRecord r (kt_deadLetter ts)
            [(headerAttempt, Itoa attempt),
             (headerErrorCode, code_text (event_ErrorCode (out_Event out))),
             (headerCause, Headers.truncate (event_Cause (out_Event out)) maxCauseHeaderChars),
             (headerFailedAt, RFC3339 t)])
      | ActionDone \<Rightarrow> None)"

definition kafka_apply ::
  "'e env \<Rightarrow> kafkaTopics \<Rightarrow> kafka_record \<Rightarrow> int \<Rightarrow> Outcome \<Rightarrow> 'e world \<Rightarrow> goerr option \<times> 'e world"
where
  "kafka_apply E ts r attempt out w =
     (if out_Action out = ActionDone then (None, w)
      else
        (let (t, w1) = call_clock E w
         in case kafka_copy ts r attempt out t of
              None \<Rightarrow> (None, w1)
            | Some c \<Rightarrow> call_kafka E (KafkaProduce c) w1))"

section \<open>The consume loop\<close>

text \<open>\<open>due.Sub(now)\<close> saturates at the ends of the 64-bit range.\<close>

definition sat64 :: "int \<Rightarrow> int" where
  "sat64 x = max (- (2 ^ 63)) (min x (2 ^ 63 - 1))"

definition waitUntilDue :: "'e env \<Rightarrow> int \<Rightarrow> 'e world \<Rightarrow> bool \<times> 'e world" where
  "waitUntilDue E due w =
     (let (t, w1) = call_clock E w; wait = sat64 (due - t)
      in if wait \<le> 0 then (True, w1) else call_sleep E wait w1)"

fun processBatch ::
  "'e env \<Rightarrow> kafkaTopics \<Rightarrow> 'e Handler \<Rightarrow> bool \<Rightarrow> kafka_record list \<Rightarrow> 'e world \<Rightarrow> kafka_record list \<times> 'e world"
where
  "processBatch E ts h waitDue [] w = ([], w)"
| "processBatch E ts h waitDue (r # rs) w =
     (case (if waitDue then waitUntilDue E (kafkaNotBefore (kr_Headers r)) w else (True, w)) of
        (False, w1) \<Rightarrow> ([], w1)
      | (True, w1) \<Rightarrow>
          (let attempt = kafkaAttempt (kr_Headers r); (out, w2) = h (kr_Value r) attempt w1
           in case kafka_apply E ts r attempt out w2 of
                (Some _, w3) \<Rightarrow> ([], w3)
              | (None, w3) \<Rightarrow>
                  (let (resolved, w4) = processBatch E ts h waitDue rs w3 in (r # resolved, w4))))"

text \<open>One turn of \<open>consume\<close>: \<open>Inl\<close> is the return of the loop. The readiness flag is part of the state.\<close>

definition consume_round ::
  "'e env \<Rightarrow> string \<Rightarrow> 'e Handler \<Rightarrow> bool \<Rightarrow> KafkaSource \<Rightarrow> 'e world
     \<Rightarrow> (goerr option + KafkaSource) \<times> 'e world"
where
  "consume_round E topic h waitDue s w =
     (let (fs, w1) = call_kafka_poll E topic w; (err, w2) = call_ctx_err E w1
      in if err \<noteq> None \<or> fe_Closed fs
         then (let (ctxErr, w3) = call_ctx_err E w2 in (Inl ctxErr, snd (call_kafka E KafkaAllowRebalance w3)))
         else
           (let s1 = s\<lparr>ks_ready := \<not> fe_Errors fs\<rparr>;
                (resolved, w3) = processBatch E (ks_topics s) h waitDue (fe_Records fs) w2;
                w4 = (if resolved = [] then w3 else snd (call_kafka E (KafkaCommit resolved) w3))
            in (Inr s1, snd (call_kafka E KafkaAllowRebalance w4))))"

fun consume ::
  "nat \<Rightarrow> 'e env \<Rightarrow> string \<Rightarrow> 'e Handler \<Rightarrow> bool \<Rightarrow> KafkaSource \<Rightarrow> 'e world
     \<Rightarrow> (goerr option + KafkaSource) \<times> 'e world"
where
  "consume 0 E topic h waitDue s w = (Inr s, w)"
| "consume (Suc n) E topic h waitDue s w =
     (case consume_round E topic h waitDue s w of
        (Inl err, w1) \<Rightarrow> (Inl err, w1)
      | (Inr s1, w1) \<Rightarrow> consume n E topic h waitDue s1 w1)"

section \<open>Starting the source\<close>

definition rebalanceMargin :: int where "rebalanceMargin = Minute"

definition consumer_options :: "KafkaSource \<Rightarrow> string \<Rightarrow> string \<Rightarrow> kgo_opt list" where
  "consumer_options s grp topic =
     kafkaClientOptions (ks_cfg s)
     @ [ConsumerGroup grp, ConsumeTopics [topic], DisableAutoCommit, BlockRebalanceOnPoll,
        RebalanceTimeout (wrap64 (MaxDelay (ks_policy s) + rebalanceMargin))]"

definition newConsumer :: "'e env \<Rightarrow> KafkaSource \<Rightarrow> string \<Rightarrow> string \<Rightarrow> 'e world \<Rightarrow> goerr option \<times> 'e world" where
  "newConsumer E s grp topic w =
     (case call_kafka E (KafkaNewClient (consumer_options s grp topic)) w of
        (Some err, w1) \<Rightarrow> (Some (Wrapped (''create consumer for '' @ topic @ '': '') err), w1)
      | (None, w1) \<Rightarrow> (None, w1))"

definition try_connect :: "'e env \<Rightarrow> KafkaSource \<Rightarrow> 'e world \<Rightarrow> goerr option \<times> 'e world" where
  "try_connect E s w =
     (case call_kafka E KafkaPing w of
        (Some err, w1) \<Rightarrow> (Some err, w1)
      | (None, w1) \<Rightarrow>
          if kafka_CreateTopics (ks_cfg s)
          then ensure E (ks_topics s) (kafka_Partitions (ks_cfg s)) (kafka_Replication (ks_cfg s)) w1
          else (None, w1))"

text \<open>\<open>connect\<close> with a bound on the attempts; \<^const>\<open>None\<close> is a loop that has not returned by then.\<close>

fun kafka_connect :: "nat \<Rightarrow> 'e env \<Rightarrow> int \<Rightarrow> KafkaSource \<Rightarrow> 'e world \<Rightarrow> (goerr option \<times> 'e world) option" where
  "kafka_connect 0 E backoff s w = None"
| "kafka_connect (Suc n) E backoff s w =
     (case try_connect E s w of
        (None, w1) \<Rightarrow> Some (None, w1)
      | (Some _, w1) \<Rightarrow>
          (case call_sleep E backoff w1 of
             (False, w2) \<Rightarrow> Some (call_ctx_err E w2)
           | (True, w2) \<Rightarrow> kafka_connect n E (min (backoff * 2) maxBackoff) s w2))"


section \<open>Facts about headers and batches\<close>

lemma kafkaAttempt_positive: "1 \<le> kafkaAttempt hs"
  by (auto simp: kafkaAttempt_def split: option.splits)

lemma Atoi_Nil: "Atoi [] = None"
  by (simp add: Atoi_def)

lemma kafka_copy_fields:
  assumes "kafka_copy ts r attempt out t = Some c"
  shows "kr_Value c = kr_Value r" "kr_Key c = kr_Key r"
    and "kr_Topic c = (if out_Action out = ActionRetry then kt_retry ts else kt_deadLetter ts)"
  using assms by (auto simp: kafka_copy_def copyRecord_def split: Action.splits)

lemma kafka_copy_attempt:
  assumes "kafka_copy ts r attempt out t = Some c" "1 \<le> attempt" "int64_range (attempt + 1)"
  shows "kafkaAttempt (kr_Headers c) = (if out_Action out = ActionRetry then attempt + 1 else attempt)"
proof -
  have "int64_range attempt" using assms(2,3) by (simp add: int64_range_def)
  then show ?thesis using assms
    by (auto simp: kafka_copy_def copyRecord_def kafkaAttempt_def header_defs split: Action.splits)
qed

lemma kafka_apply_trace:
  assumes "kafka_apply E ts r attempt out w = (err, w')"
  shows "if out_Action out = ActionDone then err = None \<and> w' = w
    else \<exists>t c. kafka_copy ts r attempt out t = Some c \<and> t = fst (call_clock E w)
      \<and> trace w' = trace w @ [KafkaCall (KafkaProduce c) err]"
proof (cases "out_Action out = ActionDone")
  case False
  obtain t w1 where clock: "call_clock E w = (t, w1)" by fastforce
  obtain c where c: "kafka_copy ts r attempt out t = Some c"
    using False by (cases "out_Action out") (simp_all add: kafka_copy_def)
  then have "call_kafka E (KafkaProduce c) w1 = (err, w')"
    using assms clock False by (simp add: kafka_apply_def)
  then show ?thesis using False c clock call_trace(4) call_trace(6) by fastforce
qed (use assms in \<open>simp add: kafka_apply_def\<close>)

section \<open>Properties\<close>

text \<open>C24: The retry headers of Kafka are read back: the copy of a retry is on the next attempt, keeps key
  and value, goes to the retry topic, and is due at the policy's wait after the time of the failure,
  to the millisecond; the copy of a dead letter keeps its attempt and is due at once.\<close>

theorem kafka_copy_read_back:
  assumes "kafka_copy ts r attempt out t = Some c" "1 \<le> attempt" "int64_range (attempt + 1)"
    and "int64_range ((t + out_RetryIn out) div Millisecond)"
  shows "kr_Key c = kr_Key r \<and> kr_Value c = kr_Value r
    \<and> (if out_Action out = ActionRetry
       then kr_Topic c = kt_retry ts \<and> kafkaAttempt (kr_Headers c) = attempt + 1
         \<and> kafkaNotBefore (kr_Headers c) \<le> t + out_RetryIn out
         \<and> t + out_RetryIn out < kafkaNotBefore (kr_Headers c) + Millisecond
       else kr_Topic c = kt_deadLetter ts \<and> kafkaAttempt (kr_Headers c) = attempt
         \<and> kafkaNotBefore (kr_Headers c) = ZeroTime)"
proof -
  have "kafkaNotBefore (kr_Headers c) =
      (if out_Action out = ActionRetry then (t + out_RetryIn out) div Millisecond * Millisecond else ZeroTime)"
    using assms(1,4) by (auto simp: kafka_copy_def copyRecord_def kafkaNotBefore_def header_defs Atoi_Nil split: Action.splits)
  moreover have "x div Millisecond * Millisecond \<le> x \<and> x < x div Millisecond * Millisecond + Millisecond" for x :: int
    using minus_mod_eq_div_mult [of x Millisecond] pos_mod_bound [of Millisecond x] pos_mod_sign [of Millisecond x]
    by linarith
  ultimately show ?thesis
    using kafka_copy_fields [OF assms(1)] kafka_copy_attempt [OF assms(1-3)] by auto
qed

text \<open>A record of the retry topic is processed only when it is due: waiting ends well only if the time
  had come when the clock was read, or after a sleep of the whole remaining time (the longest
  duration, some 292 years, if more is left).\<close>

lemma waits_until_due:
  assumes "waitUntilDue E due w = (True, w')"
  shows "due \<le> fst (call_clock E w) \<or>
    trace w' = trace w @ [Slept (min (due - fst (call_clock E w)) (2 ^ 63 - 1))]"
  using assms
  by (auto simp: waitUntilDue_def Let_def sat64_def split: prod.splits if_splits
      dest!: call_trace(5) call_trace(6))

text \<open>The consumer group tolerates the longest wait: the rebalance timeout of a consumer exceeds every
  delay of the policy by at least a minute, so a member that waits for a retry record is not expelled.\<close>

lemma rebalance_outlasts_retry:
  assumes "valid_policy (ks_policy s)"
  shows "\<exists>t. RebalanceTimeout t \<in> set (consumer_options s grp topic) \<and> Delay (ks_policy s) n + Minute \<le> t
    \<and> DisableAutoCommit \<in> set (consumer_options s grp topic) \<and> BlockRebalanceOnPoll \<in> set (consumer_options s grp topic)"
proof -
  have "0 < MaxDelay (ks_policy s)" "MaxDelay (ks_policy s) \<le> 2 ^ 62"
    using assms by (auto simp: valid_policy_def)
  then have "wrap64 (MaxDelay (ks_policy s) + rebalanceMargin) = MaxDelay (ks_policy s) + Minute"
    by (subst wrap64_id) (simp_all add: int64_range_def rebalanceMargin_def)
  then show ?thesis
    using Delay_bounds(2) [OF assms, of n]
    by (intro exI [of _ "MaxDelay (ks_policy s) + Minute"]) (simp add: consumer_options_def)
qed


section \<open>A record is attempted a bounded number of times\<close>

text \<open>\<open>r'\<close> is the record of the retry topic that a retry of \<open>r\<close> produced: it has the value and the
  headers of the copy.\<close>

definition kafka_retried :: "'e env \<Rightarrow> RetryPolicy \<Rightarrow> kafkaTopics \<Rightarrow> 'e Handler \<Rightarrow> kafka_record \<Rightarrow> kafka_record \<Rightarrow> bool" where
  "kafka_retried E pol ts h r r' \<longleftrightarrow>
     int64_range (MaxAttempts pol) \<and>
     (\<exists>w out w1 w2 c. h (kr_Value r) (kafkaAttempt (kr_Headers r)) w = (out, w1)
        \<and> out_Action out = ActionRetry
        \<and> kafka_apply E ts r (kafkaAttempt (kr_Headers r)) out w1 = (None, w2)
        \<and> kafka_copy ts r (kafkaAttempt (kr_Headers r)) out (fst (call_clock E w1)) = Some c
        \<and> kr_Headers r' = kr_Headers c \<and> kr_Value r' = kr_Value c)"

context handler
begin

lemma kafka_retry_step:
  assumes "kafka_retried E pol ts handle r r'"
  shows "kafkaAttempt (kr_Headers r') = kafkaAttempt (kr_Headers r) + 1
    \<and> kafkaAttempt (kr_Headers r') \<le> MaxAttempts pol"
proof -
  obtain w out w1 w2 c where h: "handle (kr_Value r) (kafkaAttempt (kr_Headers r)) w = (out, w1)"
    "out_Action out = ActionRetry"
    "kafka_copy ts r (kafkaAttempt (kr_Headers r)) out (fst (call_clock E w1)) = Some c"
    "kr_Headers r' = kr_Headers c" and range: "int64_range (MaxAttempts pol)"
    using assms by (auto simp: kafka_retried_def)
  have le: "kafkaAttempt (kr_Headers r) + 1 \<le> MaxAttempts pol"
    using next_attempt_allowed [OF h(1,2)] .
  moreover have pos: "1 \<le> kafkaAttempt (kr_Headers r)" by (rule kafkaAttempt_positive)
  ultimately have "int64_range (kafkaAttempt (kr_Headers r) + 1)"
    using range by (auto simp: int64_range_def)
  then show ?thesis using kafka_copy_attempt [OF h(3) pos] h(2,4) le by simp
qed

end

interpretation kafka_transport: queue_transport "\<lambda>r. kafkaAttempt (kr_Headers r)"
    "kafka_retried E (policy s) ts (Handle te (Deliver s))" "MaxAttempts (policy s)"
  for E :: "'e env" and s :: "'e service" and ts te
  by unfold_locales (auto simp: kafkaAttempt_positive dest: mailer_consumer.kafka_retry_step)

text \<open>Over Kafka a request is attempted at most \<open>MaxAttempts\<close> times: in any history in which each
  record is the retry copy of the one before, whatever the service's sender and callbacks do, there
  are at most that many records, and their attempts count up by one.\<close>

lemma kafka_attempts_bounded:
  assumes "successively (kafka_retried E (policy s) ts (Handle te (Deliver s))) rs"
    and "1 \<le> MaxAttempts (policy s)" "i < length rs"
  shows "int (length rs) \<le> MaxAttempts (policy s)
    \<and> kafkaAttempt (kr_Headers (rs ! i)) = kafkaAttempt (kr_Headers (rs ! 0)) + int i"
proof -
  have "successively (\<lambda>r r'. kafka_retried E (policy s) ts (Handle te (Deliver s)) r r'
      \<or> kafkaAttempt (kr_Headers r') = kafkaAttempt (kr_Headers r)) rs"
    using assms(1) by (rule successively_mono) simp
  note counted = kafka_transport.history_bounded [OF this assms(2)] kafka_transport.history_attempts [OF this]
  have "successively (\<lambda>r r'. kafkaAttempt (kr_Headers r) \<noteq> kafkaAttempt (kr_Headers r')) rs"
    using assms(1) by (rule successively_mono) (auto dest: kafka_transport.next_attempt)
  then have "remdups_adj (map (\<lambda>r. kafkaAttempt (kr_Headers r)) rs) = map (\<lambda>r. kafkaAttempt (kr_Headers r)) rs"
    by (rule no_repeats)
  moreover from this have "map (\<lambda>r. kafkaAttempt (kr_Headers r)) rs ! i = kafkaAttempt (kr_Headers (hd rs)) + int i"
    using counted(2) [of i] assms(3) by simp
  ultimately show ?thesis using counted(1) assms(3) by (cases rs) (simp_all, metis length_Cons nth_map list.simps(9))
qed

section \<open>A record that cannot be produced\<close>

text \<open>A broker that refuses the copy of the first of two records of a partition (as it does for a message
  that is too large) and takes everything else; the state counts the polls.\<close>

definition record_at :: "int \<Rightarrow> string \<Rightarrow> kafka_record" where
  "record_at off key =
     \<lparr>kr_Topic = ''mail'', kr_Partition = 0, kr_Offset = off, kr_Key = key, kr_Value = ''{}'', kr_Headers = []\<rparr>"

definition refusing_env :: "nat env" where
  "refusing_env =
     \<lparr>lib_quote = (\<lambda>s. s), lib_mail_address = (\<lambda>n a. n @ a), lib_q_encoding = (\<lambda>s. s), lib_url_error = (\<lambda>u. None),
      lib_type_error = (\<lambda>doc. []), lib_parse_duration = (\<lambda>s. None), lib_parse_time = (\<lambda>s. None),
      http_do = (\<lambda>rq e. (Inl Canceled, e)), smtp_do = (\<lambda>c e. (None, e)),
      amqp_is_closed = (\<lambda>ob e. (False, e)), amqp_do = (\<lambda>c e. (Inr True, e)),
      kafka_do = (\<lambda>c e. (case c of
          KafkaProduce r \<Rightarrow> if kr_Key r = ''k0'' then Some (Plain ''MESSAGE_TOO_LARGE'') else None | _ \<Rightarrow> None, e)),
      kafka_create = (\<lambda>p r ts e. (Inr [], e)),
      kafka_poll = (\<lambda>t e. (\<lparr>fe_Closed = False, fe_Errors = False,
          fe_Records = (if e = 0 then [record_at 0 ''k0''] else if e = 1 then [record_at 1 ''k1''] else [])\<rparr>, Suc e)),
      ctx_err = (\<lambda>e. (None, e)), sleep = (\<lambda>d e. (True, e)), clock = (\<lambda>e. (0, e)),
      random16 = (\<lambda>e. (replicate 16 0, e))\<rparr>"

definition counting_world :: "nat world" where
  "counting_world = \<lparr>trace = [], hidden = 0, zoho_token = [], zoho_expiresAt = ZeroTime\<rparr>"

definition mail_source :: KafkaSource where
  "mail_source =
     \<lparr>ks_cfg = \<lparr>kafka_Brokers = [''b''], kafka_Topic = ''mail'', kafka_GroupID = ''g'', kafka_CreateTopics = False,
        kafka_Partitions = 3, kafka_Replication = 1, kafka_TLS = False, kafka_SASLMechanism = [], kafka_SASLUser = [],
        kafka_SASLPass = []\<rparr>,
      ks_policy = DefaultRetryPolicy, ks_topics = newKafkaTopics ''mail'', ks_ready = True\<rparr>"

fun committed :: "event list \<Rightarrow> kafka_record list" where
  "committed [] = []"
| "committed (KafkaCall (KafkaCommit rs) None # evs) = rs @ committed evs"
| "committed (_ # evs) = committed evs"

fun produced :: "event list \<Rightarrow> kafka_record list" where
  "produced [] = []"
| "produced (KafkaCall (KafkaProduce r) None # evs) = r # produced evs"
| "produced (_ # evs) = produced evs"

lemma refusing_clock: "call_clock refusing_env w = (0, w)"
  by (simp add: call_clock_def refusing_env_def)

lemma refusing_ctx: "call_ctx_err refusing_env w = (None, w)"
  by (simp add: call_ctx_err_def refusing_env_def)

lemma refusing_kafka:
  "call_kafka refusing_env c w =
     (let r = (case c of KafkaProduce r \<Rightarrow> if kr_Key r = ''k0'' then Some (Plain ''MESSAGE_TOO_LARGE'') else None
                | _ \<Rightarrow> None)
      in (r, w\<lparr>trace := trace w @ [KafkaCall c r]\<rparr>))"
  by (simp add: call_kafka_def refusing_env_def record_call_def Let_def)

lemma refusing_poll:
  "call_kafka_poll refusing_env topic w =
     (let rs = (if hidden w = 0 then [record_at 0 ''k0''] else if hidden w = 1 then [record_at 1 ''k1''] else [])
      in (\<lparr>fe_Closed = False, fe_Errors = False, fe_Records = rs\<rparr>,
          w\<lparr>trace := trace w @ [KafkaPolled topic rs], hidden := Suc (hidden w)\<rparr>))"
  by (simp add: call_kafka_poll_def refusing_env_def record_call_def Let_def)

lemma busy_batch:
  assumes "kr_Value r = ''{}''" "kr_Headers r = []"
  shows "\<exists>c. kr_Key c = kr_Key r \<and>
    processBatch refusing_env ts (Handle te (Deliver busy_service)) False [r] w =
      (if kr_Key r = ''k0'' then [] else [r],
       w\<lparr>trace := trace w @ [KafkaCall (KafkaProduce c)
           (if kr_Key r = ''k0'' then Some (Plain ''MESSAGE_TOO_LARGE'') else None)]\<rparr>)"
proof -
  obtain out where out: "Handle te (Deliver busy_service) ''{}'' 1 w = (out, w)" "out_Action out = ActionRetry"
    using busy_retry [of 1 te w] by auto
  obtain c where c: "kafka_copy ts r 1 out 0 = Some c"
    using out(2) by (simp add: kafka_copy_def)
  have "kr_Key c = kr_Key r" using kafka_copy_fields(2) [OF c] .
  moreover have "kafkaAttempt [] = 1" by (simp add: kafkaAttempt_def Atoi_Nil)
  ultimately show ?thesis
    using assms out c by (intro exI [of _ c]) (simp add: kafka_apply_def refusing_clock refusing_kafka Let_def)
qed

lemma committed_append [simp]: "committed (a @ b) = committed a @ committed b"
  by (induction a rule: committed.induct) auto

lemma produced_append [simp]: "produced (a @ b) = produced a @ produced b"
  by (induction a rule: produced.induct) auto

text \<open>A run of two rounds: the record at offset 0 is neither resolved nor produced anywhere, the loop is still
  running, and the next round commits the record at offset 1 of the same partition, past it.\<close>

lemma refused_copy_run:
  "let (r, w') = consume 2 refusing_env ''mail'' (Handle te (Deliver busy_service)) False mail_source counting_world
   in r = Inr mail_source \<and> committed (trace w') = [record_at 1 ''k1'']
    \<and> ''k0'' \<notin> set (map kr_Key (produced (trace w')))
    \<and> kr_Partition (record_at 0 ''k0'') = kr_Partition (record_at 1 ''k1'')
    \<and> kr_Offset (record_at 0 ''k0'') < kr_Offset (record_at 1 ''k1'')"
proof -
  let ?ts = "newKafkaTopics ''mail''" and ?h = "Handle te (Deliver busy_service)"
  have key: "kr_Key (record_at n k) = k" "kr_Value (record_at n k) = ''{}''" "kr_Headers (record_at n k) = []" for n k
    by (simp_all add: record_at_def)
  let ?w0 = "counting_world\<lparr>trace := [KafkaPolled ''mail'' [record_at 0 ''k0'']], hidden := 1\<rparr>"
  obtain c0 where c0: "processBatch refusing_env ?ts ?h False [record_at 0 ''k0''] ?w0 =
      ([], ?w0\<lparr>trace := trace ?w0 @ [KafkaCall (KafkaProduce c0) (Some (Plain ''MESSAGE_TOO_LARGE''))]\<rparr>)"
    using busy_batch [of "record_at 0 ''k0''" ?ts te ?w0] key by auto
  let ?w1 = "?w0\<lparr>trace := trace ?w0 @ [KafkaCall (KafkaProduce c0) (Some (Plain ''MESSAGE_TOO_LARGE'')),
      KafkaCall KafkaAllowRebalance None]\<rparr>"
  have round0: "consume_round refusing_env ''mail'' ?h False mail_source counting_world = (Inr mail_source, ?w1)"
    using c0 by (simp add: consume_round_def refusing_poll refusing_ctx refusing_kafka mail_source_def counting_world_def
        Let_def del: processBatch.simps)
  let ?w2 = "?w1\<lparr>trace := trace ?w1 @ [KafkaPolled ''mail'' [record_at 1 ''k1'']], hidden := 2\<rparr>"
  obtain c1 where c1: "kr_Key c1 = ''k1''" "processBatch refusing_env ?ts ?h False [record_at 1 ''k1''] ?w2 =
      ([record_at 1 ''k1''], ?w2\<lparr>trace := trace ?w2 @ [KafkaCall (KafkaProduce c1) None]\<rparr>)"
    using busy_batch [of "record_at 1 ''k1''" ?ts te ?w2] key by auto
  have round1: "consume_round refusing_env ''mail'' ?h False mail_source ?w1 =
      (Inr mail_source, ?w2\<lparr>trace := trace ?w2 @ [KafkaCall (KafkaProduce c1) None,
        KafkaCall (KafkaCommit [record_at 1 ''k1'']) None, KafkaCall KafkaAllowRebalance None]\<rparr>)"
    using c1 by (simp add: consume_round_def refusing_poll refusing_ctx refusing_kafka mail_source_def
        counting_world_def numeral_2_eq_2 Let_def del: processBatch.simps)
  have two: "consume 2 E topic h b s w = consume (Suc (Suc 0)) E topic h b s w" for E topic h b s w
    by (simp only: numeral_2_eq_2)
  show ?thesis
    unfolding two using round0 round1 c1(1)
    by (simp add: record_at_def)
qed

text \<open>A batch stops at the first record whose copy is refused.\<close>

lemma processBatch_stops:
  assumes "processBatch E ts h waitDue before w = (before, w1)"
    and "(if waitDue then waitUntilDue E (kafkaNotBefore (kr_Headers r)) w1 else (True, w1)) = (True, w2)"
    and "h (kr_Value r) (kafkaAttempt (kr_Headers r)) w2 = (out, w3)"
    and "kafka_apply E ts r (kafkaAttempt (kr_Headers r)) out w3 = (Some err, w4)"
  shows "processBatch E ts h waitDue (before @ r # behind) w = (before, w4)"
  using assms(1)
proof (induction before arbitrary: w)
  case Nil
  then show ?case using assms(2-4) by simp
next
  case (Cons x before)
  obtain b v1 where due: "(if waitDue then waitUntilDue E (kafkaNotBefore (kr_Headers x)) w else (True, w)) = (b, v1)" by fastforce
  obtain out v2 where h: "h (kr_Value x) (kafkaAttempt (kr_Headers x)) v1 = (out, v2)" by fastforce
  obtain err v3 where app: "kafka_apply E ts x (kafkaAttempt (kr_Headers x)) out v2 = (err, v3)" by fastforce
  have "b" "err = None" "processBatch E ts h waitDue before v3 = (before, w1)"
    using Cons.prems due h app by (auto split: bool.splits option.splits prod.splits)
  then show ?case using Cons.IH [of v3] due h app by simp
qed

lemma processBatch_subset: "processBatch E ts h waitDue rs w = (resolved, w') \<Longrightarrow> set resolved \<subseteq> set rs"
proof (induction rs arbitrary: w w' resolved)
  case (Cons x rs)
  obtain b v1 where due: "(if waitDue then waitUntilDue E (kafkaNotBefore (kr_Headers x)) w else (True, w)) = (b, v1)" by fastforce
  obtain out v2 where h: "h (kr_Value x) (kafkaAttempt (kr_Headers x)) v1 = (out, v2)" by fastforce
  obtain err v3 where app: "kafka_apply E ts x (kafkaAttempt (kr_Headers x)) out v2 = (err, v3)" by fastforce
  obtain rest v4 where rest: "processBatch E ts h waitDue rs v3 = (rest, v4)" by fastforce
  show ?case using Cons.prems Cons.IH [OF rest] due h app rest by (auto split: bool.splits option.splits)
qed simp

lemma consume_round_polled:
  assumes "call_kafka_poll E topic w = (fs, w1)" "call_ctx_err E w1 = (None, w2)" "\<not> fe_Closed fs"
    and "processBatch E (ks_topics s) h waitDue (fe_Records fs) w2 = (resolved, w3)"
  shows "consume_round E topic h waitDue s w =
     (Inr (s\<lparr>ks_ready := \<not> fe_Errors fs\<rparr>),
      snd (call_kafka E KafkaAllowRebalance (if resolved = [] then w3 else snd (call_kafka E (KafkaCommit resolved) w3))))"
  using assms by (simp add: consume_round_def Let_def)

text \<open>C25: A record whose copy is refused for a reason other than the end of the context is skipped. In a round, let
  the records of the batch before \<open>r\<close> be resolved, and the copy of \<open>r\<close> be refused. The batch ends there, the records
  before \<open>r\<close> are committed, and as long as the context is not done the loop polls on. When the next batch, which
  does not have \<open>r\<close> again (the consumer's position is past it), resolves a record \<open>x\<close>, the loop commits \<open>x\<close>; so if \<open>x\<close>
  is a later record of the partition of \<open>r\<close>, the group's offset passes \<open>r\<close>, of which there is no copy.\<close>

theorem unresolved_record_skipped:
  assumes "call_kafka_poll E topic w = (fs, w1)" "call_ctx_err E w1 = (None, w2)" "\<not> fe_Closed fs"
    and "fe_Records fs = before @ r # behind" "r \<notin> set before"
    and "processBatch E (ks_topics s) h waitDue before w2 = (before, w3)"
    and "(if waitDue then waitUntilDue E (kafkaNotBefore (kr_Headers r)) w3 else (True, w3)) = (True, w4)"
    and "h (kr_Value r) (kafkaAttempt (kr_Headers r)) w4 = (out, w5)"
    and "kafka_apply E (ks_topics s) r (kafkaAttempt (kr_Headers r)) out w5 = (Some err, w6)"
    and "call_kafka_poll E topic (snd (consume_round E topic h waitDue s w)) = (fs', v1)" "call_ctx_err E v1 = (None, v2)"
    and "\<not> fe_Closed fs'" "r \<notin> set (fe_Records fs')"
    and "processBatch E (ks_topics s) h waitDue (fe_Records fs') v2 = (resolved, v3)" "x \<in> set resolved"
  shows "\<exists>c new s' w' e1 e2. trace w6 = trace w5 @ [KafkaCall (KafkaProduce c) (Some err)]
    \<and> kr_Key c = kr_Key r \<and> kr_Value c = kr_Value r
    \<and> trace v2 = trace w6 @ new @ [KafkaPolled topic (fe_Records fs')]
    \<and> (\<exists>e e'. new = (if before = [] then [] else [KafkaCall (KafkaCommit before) e]) @ [KafkaCall KafkaAllowRebalance e'])
    \<and> consume 2 E topic h waitDue s w = (Inr s', w')
    \<and> trace w' = trace v3 @ [KafkaCall (KafkaCommit resolved) e1, KafkaCall KafkaAllowRebalance e2]
    \<and> r \<notin> set before \<and> r \<notin> set resolved"
proof -
  have batch: "processBatch E (ks_topics s) h waitDue (fe_Records fs) w2 = (before, w6)"
    unfolding assms(4) by (rule processBatch_stops [OF assms(6-9)])
  let ?s1 = "s\<lparr>ks_ready := \<not> fe_Errors fs\<rparr>"
  obtain e ve where commit: "call_kafka E (KafkaCommit before) w6 = (e, ve)" by fastforce
  obtain e' ve' where allow: "call_kafka E KafkaAllowRebalance (if before = [] then w6 else ve) = (e', ve')" by fastforce
  have round1: "consume_round E topic h waitDue s w = (Inr ?s1, ve')"
    using consume_round_polled [OF assms(1-3) batch] commit allow by (cases "before = []") simp_all
  obtain e1 u1 where commit': "call_kafka E (KafkaCommit resolved) v3 = (e1, u1)" by fastforce
  obtain e2 u2 where allow': "call_kafka E KafkaAllowRebalance u1 = (e2, u2)" by fastforce
  have ne: "resolved \<noteq> []" using assms(15) by auto
  have poll: "call_kafka_poll E topic ve' = (fs', v1)" using assms(10) round1 by simp
  have round2: "consume_round E topic h waitDue ?s1 ve' = (Inr (?s1\<lparr>ks_ready := \<not> fe_Errors fs'\<rparr>), u2)"
    using consume_round_polled [OF poll assms(11,12), of ?s1 h waitDue resolved v3] assms(14) ne commit' allow' by simp
  have two: "consume 2 E topic h waitDue s w = consume (Suc (Suc 0)) E topic h waitDue s w"
    by (simp only: numeral_2_eq_2)
  have consumed: "consume 2 E topic h waitDue s w = (Inr (?s1\<lparr>ks_ready := \<not> fe_Errors fs'\<rparr>), u2)"
    unfolding two using round1 round2 by simp
  obtain t c where c: "kafka_copy (ks_topics s) r (kafkaAttempt (kr_Headers r)) out t = Some c"
    "trace w6 = trace w5 @ [KafkaCall (KafkaProduce c) (Some err)]"
    using kafka_apply_trace [OF assms(9)] by (auto split: if_splits)
  have new: "trace v2 = trace w6 @ ((if before = [] then [] else [KafkaCall (KafkaCommit before) e]) @ [KafkaCall KafkaAllowRebalance e'])
      @ [KafkaPolled topic (fe_Records fs')]"
    using call_trace(4) [OF commit] call_trace(4) [OF allow] call_trace(10) [OF poll] call_trace(8) [OF assms(11)]
    by (cases "before = []") simp_all
  have "trace u2 = trace v3 @ [KafkaCall (KafkaCommit resolved) e1, KafkaCall KafkaAllowRebalance e2]"
    using call_trace(4) [OF commit'] call_trace(4) [OF allow'] by simp
  moreover have "r \<notin> set resolved" using processBatch_subset [OF assms(14)] assms(13) by blast
  moreover have "kr_Key c = kr_Key r" "kr_Value c = kr_Value r" using kafka_copy_fields [OF c(1)] by simp_all
  ultimately show ?thesis using c(2) new consumed assms(5) by blast
qed


section \<open>Running both loops\<close>

text \<open>\<open>Run\<close> starts the two loops as goroutines and waits for both. Their rounds interleave in any order:
  \<open>sched\<close> says which loop (the retry loop on \<^const>\<open>True\<close>) takes the next round. The result is
  \<^const>\<open>None\<close> while a loop is still running.\<close>

fun run_loops ::
  "bool list \<Rightarrow> 'e env \<Rightarrow> 'e Handler \<Rightarrow> KafkaSource \<Rightarrow> goerr option option \<Rightarrow> goerr option option \<Rightarrow> 'e world
     \<Rightarrow> (goerr option option \<times> goerr option option) \<times> KafkaSource \<times> 'e world"
where
  "run_loops [] E h s m r w = ((m, r), s, w)"
| "run_loops (retry # sched) E h s m r w =
     (if (if retry then r else m) \<noteq> None then run_loops sched E h s m r w
      else
        (case consume_round E (if retry then kt_retry (ks_topics s) else kt_main (ks_topics s)) h retry s w of
           (Inl err, w1) \<Rightarrow>
             if retry then run_loops sched E h s m (Some err) w1 else run_loops sched E h s (Some err) r w1
         | (Inr s1, w1) \<Rightarrow> run_loops sched E h s1 m r w1))"

definition Run ::
  "nat \<Rightarrow> bool list \<Rightarrow> 'e env \<Rightarrow> 'e Handler \<Rightarrow> KafkaSource \<Rightarrow> 'e world
     \<Rightarrow> goerr option option \<times> KafkaSource \<times> 'e world"
where
  "Run n sched E h s w =
     (case call_kafka E (KafkaNewClient (kafkaClientOptions (ks_cfg s))) w of
        (Some err, w1) \<Rightarrow> (Some (Some (Wrapped ''create producer: '' err)), s, w1)
      | (None, w1) \<Rightarrow>
          (case kafka_connect n E initialBackoff s w1 of
             None \<Rightarrow> (None, s, w1)
           | Some (Some err, w2) \<Rightarrow> (Some (Some err), s, snd (call_kafka E KafkaCloseClient w2))
           | Some (None, w2) \<Rightarrow>
               (case newConsumer E s (kafka_GroupID (ks_cfg s)) (kt_main (ks_topics s)) w2 of
                  (Some err, w3) \<Rightarrow> (Some (Some err), s, snd (call_kafka E KafkaCloseClient w3))
                | (None, w3) \<Rightarrow>
                    (case newConsumer E s (kafka_GroupID (ks_cfg s) @ ''-retry'') (kt_retry (ks_topics s)) w3 of
                       (Some err, w4) \<Rightarrow>
                         (Some (Some err), s,
                          snd (call_kafka E KafkaCloseClient (snd (call_kafka E KafkaCloseClient w4))))
                     | (None, w4) \<Rightarrow>
                         (case run_loops sched E h (s\<lparr>ks_ready := True\<rparr>) None None w4 of
                            ((Some m, Some r), s1, w5) \<Rightarrow>
                              (Some (join_errors [m, r]), s1\<lparr>ks_ready := False\<rparr>,
                               snd (call_kafka E KafkaCloseClient
                                 (snd (call_kafka E KafkaCloseClient (snd (call_kafka E KafkaCloseClient w5))))))
                          | ((_, _), s1, w5) \<Rightarrow> (None, s1, w5))))))"

lemma run_loops_same_source:
  "run_loops sched E h s m r w = ((m', r'), s', w') \<Longrightarrow>
   ks_cfg s' = ks_cfg s \<and> ks_policy s' = ks_policy s \<and> ks_topics s' = ks_topics s"
  by (induction sched E h s m r w rule: run_loops.induct)
    (auto simp: consume_round_def Let_def split: prod.splits sum.splits if_splits)

text \<open>A source that has stopped is not ready: once both loops have returned, after any interleaving of
  their rounds, the readiness flag is cleared, and the configuration, policy and topics are those the
  source was built with.\<close>

lemma stopped_source_not_ready:
  assumes "Run n sched E h (NewKafkaSource cfg p) w = (Some err, s', w')"
  shows "\<not> ks_ready s' \<and> ks_cfg s' = cfg \<and> ks_policy s' = p \<and> ks_topics s' = newKafkaTopics (kafka_Topic cfg)"
  using assms
  by (auto simp: Run_def NewKafkaSource_def split: prod.splits option.splits dest!: run_loops_same_source)

section \<open>Witnesses\<close>

theorem unresolved_record_skipped_witness:
  "\<exists>w'. consume 2 refusing_env ''mail'' (Handle (\<lambda>t. t) (Deliver busy_service)) False mail_source counting_world = (Inr mail_source, w')
     \<and> (\<exists>e. KafkaCall (KafkaCommit [record_at 1 ''k1'']) e \<in> set (trace w'))"
proof -
  let ?ts = "newKafkaTopics ''mail''" and ?h = "Handle (\<lambda>t. t) (Deliver busy_service)"
  let ?r = "record_at 0 ''k0''" and ?x = "record_at 1 ''k1''"
  have key: "kr_Key (record_at n k) = k" "kr_Value (record_at n k) = ''{}''" "kr_Headers (record_at n k) = []" for n k
    by (simp_all add: record_at_def)
  have topics: "ks_topics mail_source = ?ts" by (simp add: mail_source_def)
  let ?w1 = "counting_world\<lparr>trace := [KafkaPolled ''mail'' [?r]], hidden := 1\<rparr>"
  let ?fs = "\<lambda>rs. \<lparr>fe_Closed = False, fe_Errors = False, fe_Records = rs\<rparr>"
  have poll1: "call_kafka_poll refusing_env ''mail'' counting_world = (?fs [?r], ?w1)"
    by (simp add: refusing_poll counting_world_def Let_def)
  obtain out where out: "?h ''{}'' 1 ?w1 = (out, ?w1)" "out_Action out = ActionRetry"
    using busy_retry [of 1 "\<lambda>t. t" ?w1] by auto
  then obtain c where c: "kafka_copy ?ts ?r 1 out 0 = Some c" by (simp add: kafka_copy_def)
  have attempt: "kafkaAttempt [] = 1" by (simp add: kafkaAttempt_def Atoi_Nil)
  have "kr_Key c = ''k0''" using kafka_copy_fields(2) [OF c] key by simp
  then have refused: "kafka_apply refusing_env ?ts ?r 1 out ?w1 =
      (Some (Plain ''MESSAGE_TOO_LARGE''), snd (kafka_apply refusing_env ?ts ?r 1 out ?w1))"
    using out(2) c by (simp add: kafka_apply_def refusing_clock refusing_kafka Let_def)
  let ?v = "snd (consume_round refusing_env ''mail'' ?h False mail_source counting_world)"
  have "hidden ?v = 1"
    using out refused c \<open>kr_Key c = ''k0''\<close>
    by (simp add: consume_round_def poll1 refusing_ctx topics key attempt kafka_apply_def refusing_clock refusing_kafka Let_def)
  then have poll2: "call_kafka_poll refusing_env ''mail'' ?v = (?fs [?x], snd (call_kafka_poll refusing_env ''mail'' ?v))"
    by (simp add: refusing_poll Let_def)
  let ?v2 = "snd (call_kafka_poll refusing_env ''mail'' ?v)"
  obtain c1 where batch: "processBatch refusing_env ?ts ?h False [?x] ?v2 =
      ([?x], ?v2\<lparr>trace := trace ?v2 @ [KafkaCall (KafkaProduce c1) None]\<rparr>)"
    using busy_batch [of ?x ?ts "\<lambda>t. t" ?v2] key by auto
  have other: "?r \<notin> set (fe_Records (?fs [?x]))" "?x \<in> set [?x]" by (simp_all add: record_at_def)
  have first: "\<not> fe_Closed (?fs [?r])" "fe_Records (?fs [?r]) = [] @ ?r # []" "?r \<notin> set []"
    "processBatch refusing_env (ks_topics mail_source) ?h False [] ?w1 = ([], ?w1)"
    "(if False then waitUntilDue refusing_env (kafkaNotBefore (kr_Headers ?r)) ?w1 else (True, ?w1)) = (True, ?w1)"
    "?h (kr_Value ?r) (kafkaAttempt (kr_Headers ?r)) ?w1 = (out, ?w1)"
    "kafka_apply refusing_env (ks_topics mail_source) ?r (kafkaAttempt (kr_Headers ?r)) out ?w1 =
      (Some (Plain ''MESSAGE_TOO_LARGE''), snd (kafka_apply refusing_env ?ts ?r 1 out ?w1))"
    using out(1) refused by (simp_all add: key attempt topics)
  have then_x: "\<not> fe_Closed (?fs [?x])" "processBatch refusing_env (ks_topics mail_source) ?h False (fe_Records (?fs [?x])) ?v2 =
      ([?x], ?v2\<lparr>trace := trace ?v2 @ [KafkaCall (KafkaProduce c1) None]\<rparr>)"
    using batch by (simp_all add: topics del: processBatch.simps)
  obtain s' w' e1 e2 where run: "consume 2 refusing_env ''mail'' ?h False mail_source counting_world = (Inr s', w')"
    "trace w' = trace (?v2\<lparr>trace := trace ?v2 @ [KafkaCall (KafkaProduce c1) None]\<rparr>)
       @ [KafkaCall (KafkaCommit [?x]) e1, KafkaCall KafkaAllowRebalance e2]"
    using unresolved_record_skipped [OF poll1 refusing_ctx first poll2 refusing_ctx then_x(1) other(1) then_x(2) other(2)]
    by (elim exE conjE) (rule that)
  then have "s' = mail_source" using refused_copy_run [of "\<lambda>t. t"] by simp
  with run show ?thesis by (auto intro: exI [of _ w'])
qed

lemma quiet_kafka: "call_kafka quiet_env c w = (None, w\<lparr>trace := trace w @ [KafkaCall c None]\<rparr>)"
  by (simp add: call_kafka_def quiet_env_def record_call_def)

lemma quiet_poll:
  "call_kafka_poll quiet_env topic w =
     (\<lparr>fe_Closed = False, fe_Errors = False, fe_Records = []\<rparr>, w\<lparr>trace := trace w @ [KafkaPolled topic []]\<rparr>)"
  by (simp add: call_kafka_poll_def quiet_env_def record_call_def)

lemma quiet_calls: "call_ctx_err quiet_env w = (None, w)" "call_clock quiet_env w = (0, w)"
    "call_sleep quiet_env d w = (True, w\<lparr>trace := trace w @ [Slept d]\<rparr>)"
  by (simp_all add: call_ctx_err_def call_clock_def call_sleep_def quiet_env_def record_call_def)

theorem kafka_copy_read_back_witness:
  "\<exists>c. kafka_copy (newKafkaTopics ''mail'') (record_at 0 ''k'') 2 retry_outcome 0 = Some c
     \<and> kafkaAttempt (kr_Headers c) = 3 \<and> kafkaNotBefore (kr_Headers c) \<le> 60 * Second"
proof -
  obtain c where c: "kafka_copy (newKafkaTopics ''mail'') (record_at 0 ''k'') 2 retry_outcome 0 = Some c"
    by (simp add: kafka_copy_def retry_outcome_def)
  from kafka_copy_read_back [OF this] have "kafkaAttempt (kr_Headers c) = 3 \<and> kafkaNotBefore (kr_Headers c) \<le> 60 * Second"
    by (simp add: retry_outcome_def int64_range_def)
  with c show ?thesis by blast
qed

lemma waits_until_due_example:
  "\<exists>w'. waitUntilDue quiet_env (5 * Second) some_world = (True, w') \<and> trace w' = [Slept (5 * Second)]"
proof -
  obtain w' where w': "waitUntilDue quiet_env (5 * Second) some_world = (True, w')"
    by (simp add: waitUntilDue_def quiet_calls sat64_def)
  from waits_until_due [OF this] have "trace w' = [Slept (5 * Second)]"
    by (simp add: quiet_calls some_world_def)
  with w' show ?thesis by blast
qed

lemma rebalance_outlasts_retry_example:
  "\<exists>t. RebalanceTimeout t \<in> set (consumer_options mail_source ''g'' ''mail'') \<and> Delay DefaultRetryPolicy 4 + Minute \<le> t"
  using rebalance_outlasts_retry [of mail_source "''g''" "''mail''" 4]
  by (auto simp: mail_source_def valid_policy_def DefaultRetryPolicy_def)

lemma kafka_retriedI:
  assumes "int64_range (MaxAttempts pol)" "h (kr_Value r) (kafkaAttempt (kr_Headers r)) w = (out, w1)"
    and "out_Action out = ActionRetry" "kafka_apply E ts r (kafkaAttempt (kr_Headers r)) out w1 = (None, w2)"
    and "kafka_copy ts r (kafkaAttempt (kr_Headers r)) out (fst (call_clock E w1)) = Some c"
    and "kr_Headers r' = kr_Headers c" "kr_Value r' = kr_Value c"
  shows "kafka_retried E pol ts h r r'"
  using assms unfolding kafka_retried_def by blast

lemma busy_kafka_retried:
  "kafka_retried quiet_env DefaultRetryPolicy (newKafkaTopics ''mail'') (Handle te (Deliver busy_service))
     (record_at 0 ''k'') ((record_at 0 ''k'')\<lparr>kr_Headers := [(headerAttempt, Itoa 2), (headerNotBefore, Itoa 30000)]\<rparr>)"
proof -
  obtain out where out: "Handle te (Deliver busy_service) ''{}'' 1 some_world = (out, some_world)"
    "out_Action out = ActionRetry" "out_RetryIn out = Delay DefaultRetryPolicy 1"
    using busy_retry [of 1 te some_world] by auto
  have delay: "Delay DefaultRetryPolicy 1 = 30 * Second" by (simp add: Delay_def DefaultRetryPolicy_def)
  have attempt: "kafkaAttempt [] = 1" by (simp add: kafkaAttempt_def Atoi_Nil)
  show ?thesis
    using out delay attempt
    by (intro kafka_retriedI [of _ _ "record_at 0 ''k''" some_world out some_world])
      (auto simp: record_at_def kafka_apply_def kafka_copy_def copyRecord_def quiet_calls quiet_kafka wrap64_def
        DefaultRetryPolicy_def int64_range_def)
qed

lemma kafka_attempts_bounded_example:
  "int (length [record_at 0 ''k'', (record_at 0 ''k'')\<lparr>kr_Headers := [(headerAttempt, Itoa 2), (headerNotBefore, Itoa 30000)]\<rparr>])
     \<le> MaxAttempts DefaultRetryPolicy"
  using kafka_attempts_bounded [where s = busy_service and E = quiet_env and te = "\<lambda>s. s" and ts = "newKafkaTopics ''mail''"
      and rs = "[record_at 0 ''k'', (record_at 0 ''k'')\<lparr>kr_Headers := [(headerAttempt, Itoa 2), (headerNotBefore, Itoa 30000)]\<rparr>]"
      and i = 1]
    busy_kafka_retried [of "\<lambda>s. s"]
  by (simp add: DefaultRetryPolicy_def)

lemma stopped_source_not_ready_example:
  "\<not> ks_ready (fst (snd (Run 1 [] (quiet_env\<lparr>kafka_do := (\<lambda>c e. (Some Canceled, e))\<rparr>)
     (Handle (\<lambda>s. s) (Deliver busy_service)) (NewKafkaSource (ks_cfg mail_source) DefaultRetryPolicy) some_world)))"
proof -
  let ?E = "quiet_env\<lparr>kafka_do := (\<lambda>c e. (Some Canceled, e))\<rparr>"
  obtain w' where w': "Run 1 [] ?E (Handle (\<lambda>s. s) (Deliver busy_service)) (NewKafkaSource (ks_cfg mail_source) DefaultRetryPolicy)
      some_world = (Some (Some (Wrapped ''create producer: '' Canceled)),
        NewKafkaSource (ks_cfg mail_source) DefaultRetryPolicy, w')"
    by (simp add: Run_def call_kafka_def)
  from stopped_source_not_ready [OF w'] w' show ?thesis by simp
qed

end
