(* ===== verification/Content.thy ===== *)
theory Content
  imports Service Message
begin

text \<open>
  What the senders share: \<open>internal/infrastructure/mailer/content.go\<close> and \<open>sender_address.go\<close> (the
  checks on an email, its envelope and its decoded attachments), the registry of attachment decoders
  (\<open>internal/core/decoder\<close>), and the contract every sender keeps (locale \<open>sender_contract\<close>).
\<close>

section \<open>The decoder registry\<close>

type_synonym Decoder = "string \<Rightarrow> goerr + string"
type_synonym decoders = "(string \<times> Decoder) list"

definition TypeBase64 :: string where "TypeBase64 = ''base64''"

definition Register :: "string \<Rightarrow> Decoder \<Rightarrow> decoders \<Rightarrow> (bool \<times> goerr option) \<times> decoders" where
  "Register decoderType dec ds =
     (case map_of ds decoderType of
        Some _ \<Rightarrow> ((False, Some (Plain ''decoder already registered'')), ds)
      | None \<Rightarrow> ((True, None), AList.update decoderType dec ds))"

definition GetDecoder :: "string \<Rightarrow> decoders \<Rightarrow> goerr + Decoder" where
  "GetDecoder decoderType ds =
     (case map_of ds decoderType of
        Some dec \<Rightarrow> Inr dec
      | None \<Rightarrow> Inl (Plain (''decoder not found, available decoders: '' @ Join (map fst ds) '', '')))"

text \<open>\<open>Base64.Decode\<close>, and the registry after the package's \<open>init\<close>.\<close>

definition Base64_Decode :: Decoder where
  "Base64_Decode s = (case DecodeString s of Inl n \<Rightarrow> Inl (CorruptInput n) | Inr bs \<Rightarrow> Inr bs)"

definition init_decoders :: decoders where
  "init_decoders = snd (Register TypeBase64 Base64_Decode [])"

section \<open>Content of an email\<close>

record attachmentContent =
  content_Name :: string
  content_Type :: string
  content_Content :: string

definition validateEmail :: "SendEmailData \<Rightarrow> goerr option" where
  "validateEmail d =
     (if TrimSpace (email_From d) = [] then
        Some (Errorf CodeMessageMissingSender ''sender email cannot be empty'')
      else if email_Receiver d = [] then
        Some (Errorf CodeMessageMissingReceiver ''recipient email cannot be empty'')
      else if TrimSpace (email_Subject d) = [] then
        Some (Errorf CodeMessageMissingSubject ''subject cannot be empty'')
      else if TrimSpace (email_Body d) = [] then
        Some (Errorf CodeMessageMissingBody ''body cannot be empty'')
      else None)"

definition allRecipients :: "SendEmailData \<Rightarrow> string list" where
  "allRecipients d = email_Receiver d @ email_Cc d @ email_Bcc d"

definition decodeAttachment :: "Attachment \<Rightarrow> goerr + string" where
  "decodeAttachment a =
     (let decType = (case att_Decoder a of None \<Rightarrow> TypeBase64 | Some t \<Rightarrow> t)
      in case GetDecoder decType init_decoders of
           Inl err \<Rightarrow> Inl err
         | Inr dec \<Rightarrow> dec (att_Data a))"

fun decode_each :: "Attachment list \<Rightarrow> attachmentContent list" where
  "decode_each [] = []"
| "decode_each (a # as) =
     (case decodeAttachment a of
        Inl err \<Rightarrow> decode_each as
      | Inr c \<Rightarrow> \<lparr>content_Name = att_Name a, content_Type = att_Type a, content_Content = c\<rparr> # decode_each as)"

definition decodeAttachments :: "SendEmailData \<Rightarrow> attachmentContent list" where
  "decodeAttachments d = (case email_Attachments d of None \<Rightarrow> [] | Some as \<Rightarrow> decode_each as)"

definition senderAddress :: "'a golib_scheme \<Rightarrow> SendEmailData \<Rightarrow> string" where
  "senderAddress lib d =
     (let name = TrimSpace (email_FromName d)
      in if name = [] then email_From d else lib_mail_address lib name (email_From d))"

section \<open>Facts\<close>

lemma validateEmail_code:
  "validateEmail d = Some err \<Longrightarrow>
   CodeOf err \<in> {CodeMessageMissingSender, CodeMessageMissingReceiver, CodeMessageMissingSubject,
     CodeMessageMissingBody}"
  by (auto simp: validateEmail_def split: if_splits)

text \<open>The email is checked after the service has decoded its body, and only the named fields matter.\<close>

lemma validateEmail_None:
  "validateEmail d = None \<longleftrightarrow> \<not> blank (email_From d) \<and> email_Receiver d \<noteq> []
     \<and> \<not> blank (email_Subject d) \<and> \<not> blank (email_Body d)"
  by (auto simp: validateEmail_def)

text \<open>With the one registered decoder, an attachment without a decoder and one with \<open>base64\<close> are read
  alike, and any other decoder is refused.\<close>

lemma decodeAttachment_alt:
  "decodeAttachment a =
     (case att_Decoder a of
        None \<Rightarrow> Base64_Decode (att_Data a)
      | Some t \<Rightarrow>
          if t = ''base64'' then Base64_Decode (att_Data a)
          else Inl (Plain ''decoder not found, available decoders: base64''))"
  by (auto simp: decodeAttachment_def GetDecoder_def init_decoders_def Register_def TypeBase64_def
      split: option.split)

lemma decode_each_length: "length (decode_each as) \<le> length as"
  by (induction as) (auto split: sum.splits)

lemma decode_each_append: "decode_each (as @ bs) = decode_each as @ decode_each bs"
  by (induction as) (auto split: sum.splits)

lemma decode_each_encoded:
  "(\<And>a. a \<in> set as \<Longrightarrow> att_Decoder a = Some ''base64'' \<and> att_Data a = EncodeToString (f a)) \<Longrightarrow>
   decode_each as =
     map (\<lambda>a. \<lparr>content_Name = att_Name a, content_Type = att_Type a, content_Content = f a\<rparr>) as"
  by (induction as) (auto simp: decodeAttachment_alt Base64_Decode_def)

text \<open>The sender's checks and attachments do not look at the callback.\<close>

lemma content_update [simp]:
  "validateEmail (d\<lparr>email_Callback := c\<rparr>) = validateEmail d"
  "decodeAttachments (d\<lparr>email_Callback := c\<rparr>) = decodeAttachments d"
  "decodeAttachments (d\<lparr>email_Body := b\<rparr>) = decodeAttachments d"
  "decodeAttachments (d\<lparr>email_Bcc := r\<rparr>) = decodeAttachments d"
  by (simp_all add: validateEmail_def decodeAttachments_def)

section \<open>The contract of a sender\<close>

text \<open>An event of a transport an email is handed to.\<close>

fun transport_event :: "event \<Rightarrow> bool" where
  "transport_event (HttpCall _ _) = True"
| "transport_event (SmtpCall _ _) = True"
| "transport_event _ = False"

text \<open>An email that is not complete is refused before anything is called, and whatever a sender does
  are calls of its transport: it never touches a queue and never waits.\<close>

locale sender_contract =
  fixes Send_op :: "SendEmailData \<Rightarrow> 'e world \<Rightarrow> goerr option \<times> 'e world"
  assumes incomplete: "validateEmail d = Some err \<Longrightarrow> Send_op d w = (Some err, w)"
    and only_transport: "Send_op d w = (r, w') \<Longrightarrow> appends transport_event w w'"

context sender_contract
begin

text \<open>The service built on such a sender answers an incomplete email with one of the \<open>message_\<close>
  codes: nothing was called, and the message is not retried.\<close>

lemma incomplete_final:
  assumes "DecodeString (email_Body d) = Inr body" "validateEmail (d\<lparr>email_Body := body\<rparr>) = Some err"
    and "send s d w = (r, w')" "sender s = Send_op"
  shows "w' = w \<and> r \<noteq> None \<and> message_code (CodeOf_opt r) \<and> CodeOf_opt r = CodeOf err"
  using assms validateEmail_code [OF assms(2)] incomplete [of "d\<lparr>email_Body := body, email_Callback := None\<rparr>" err w]
  by (auto simp: send_def CodeOf_opt_def message_code_iff)

lemma send_appends:
  assumes "send s d w = (r, w')" "sender s = Send_op"
  shows "appends transport_event w w'"
proof (cases rule: send_cases [where s = s and d = d and w = w])
  case (bad_body k)
  then show ?thesis using assms by simp
next
  case (rejected body err w1)
  then show ?thesis using assms only_transport by simp
next
  case (accepted body w1)
  then show ?thesis using assms only_transport by simp
qed

end

section \<open>A complete email\<close>

definition some_decoded_email :: SendEmailData where
  "some_decoded_email = some_email ''SGk=''\<lparr>email_Body := ''Hi'', email_Callback := None\<rparr>"

lemma some_email_decoded:
  "DecodeString (email_Body (some_email ''SGk='')) = Inr ''Hi''"
  "some_email ''SGk=''\<lparr>email_Body := ''Hi'', email_Callback := None\<rparr> = some_decoded_email"
  "validateEmail some_decoded_email = None"
proof -
  have "DecodeString ''SGk='' = Inr ''Hi''" "TrimSpace ''Hi'' \<noteq> []" "TrimSpace ''a@x.io'' \<noteq> []" by code_simp+
  then show "DecodeString (email_Body (some_email ''SGk='')) = Inr ''Hi''"
    "some_email ''SGk=''\<lparr>email_Body := ''Hi'', email_Callback := None\<rparr> = some_decoded_email"
    "validateEmail some_decoded_email = None"
    by (simp_all add: some_decoded_email_def some_email_def validateEmail_def)
qed

text \<open>An environment whose HTTP calls are all answered with one response.\<close>

definition answering :: "int \<Rightarrow> string \<Rightarrow> unit env" where
  "answering st body = quiet_env\<lparr>http_do := (\<lambda>rq e. (Inr \<lparr>rs_status = st, rs_body = body\<rparr>, e))\<rparr>"

lemma answering_simps [simp]:
  "lib_url_error (answering st body) url = None"
  "fst (call_http (answering st body) rq w) = Inr \<lparr>rs_status = st, rs_body = body\<rparr>"
  by (simp_all add: answering_def quiet_env_def call_http_def)

end
