(* ===== verification/HttpApi.thy ===== *)
theory HttpApi
  imports Content
begin

text \<open>
  \<open>internal/infrastructure/mailer/http_api.go\<close>: building a JSON request, executing it, and turning a
  provider's error response into an error code; and the \<open>net/http\<close> header operations it uses. The
  payloads are structs of strings and lists of strings, which \<open>json.Marshal\<close> never refuses. When a
  response breaks off, \<open>rs_body\<close> is the part that could be read; the decoder then reports the broken
  connection instead of an unexpected end, an error of the same class.
\<close>

section \<open>Headers and requests\<close>

text \<open>\<open>textproto.CanonicalMIMEHeaderKey\<close>: a key of token characters is written with a capital at the
  start and after each hyphen, any other key is left alone.\<close>

definition token_char :: "char \<Rightarrow> bool" where
  "token_char c \<longleftrightarrow>
     (let b = of_char c :: nat
      in (48 \<le> b \<and> b \<le> 57) \<or> (65 \<le> b \<and> b \<le> 90) \<or> (97 \<le> b \<and> b \<le> 122)
         \<or> c \<in> set ''!#$%&*+-.^_`|~'' \<or> b = 39)"

fun capitalize :: "bool \<Rightarrow> string \<Rightarrow> string" where
  "capitalize up [] = []"
| "capitalize up (c # cs) =
     (if up then ascii_upper c else ascii_lower c) # capitalize (c = CHR ''-'') cs"

definition CanonicalMIMEHeaderKey :: "string \<Rightarrow> string" where
  "CanonicalMIMEHeaderKey k = (if list_all token_char k then capitalize True k else k)"

definition Header_Set :: "string \<times> string \<Rightarrow> (string \<times> string) list \<Rightarrow> (string \<times> string) list" where
  "Header_Set kv h = AList.update (CanonicalMIMEHeaderKey (fst kv)) (snd kv) h"

text \<open>\<open>http.NewRequest\<close> with a known method: only the URL can be refused.\<close>

definition NewRequest :: "'a golib_scheme \<Rightarrow> string \<Rightarrow> string \<Rightarrow> string \<Rightarrow> goerr + http_request" where
  "NewRequest lib method url body =
     (case lib_url_error lib url of
        Some err \<Rightarrow> Inl err
      | None \<Rightarrow> Inr \<lparr>rq_method = method, rq_url = url, rq_header = [], rq_body = body\<rparr>)"

definition set_headers :: "(string \<times> string) list \<Rightarrow> http_request \<Rightarrow> http_request" where
  "set_headers kvs rq = rq\<lparr>rq_header := fold Header_Set kvs (rq_header rq)\<rparr>"

definition newJSONRequest ::
  "'a golib_scheme \<Rightarrow> string \<Rightarrow> string \<Rightarrow> json \<Rightarrow> (string \<times> string) list \<Rightarrow> goerr + http_request"
where
  "newJSONRequest lib method url payload headers =
     (case NewRequest lib method url (json_text payload) of
        Inl err \<Rightarrow> Inl (Wrapped ''failed to create request: '' err)
      | Inr req \<Rightarrow>
          Inr (set_headers headers (set_headers
            [(''Content-Type'', ''application/json''), (''Accept'', ''application/json'')] req)))"

definition maxErrorBodyBytes :: nat where "maxErrorBodyBytes = 4096"

section \<open>Executing a request\<close>

text \<open>\<open>out\<close> is the decoder of what the caller passes a pointer to, and \<open>x\<close> the value there; no decoder
  is a nil \<open>out\<close>, for which the body is thrown away. The first definition is what is made of the
  response, the second one the whole call.\<close>

definition read_response ::
  "'b golib_scheme \<Rightarrow> 'a decoder option \<Rightarrow> 'a \<Rightarrow> goerr + http_response \<Rightarrow> goerr + 'a"
where
  "read_response lib out x answer =
     (case answer of
        Inl err \<Rightarrow> Inl err
      | Inr resp \<Rightarrow>
          if rs_status resp < 200 \<or> 300 \<le> rs_status resp then
            Inl (HttpStatus (rs_status resp) (take maxErrorBodyBytes (rs_body resp)))
          else
            (case out of
               None \<Rightarrow> Inr x
             | Some dec \<Rightarrow>
                 (case Decode_first (lib_type_error lib) dec x (rs_body resp) of
                    Inl err \<Rightarrow> Inl (Wrapped ''failed to decode response: '' err)
                  | Inr y \<Rightarrow> Inr y)))"

definition doRequest ::
  "'e env \<Rightarrow> http_request \<Rightarrow> 'a decoder option \<Rightarrow> 'a \<Rightarrow> 'e world \<Rightarrow> (goerr + 'a) \<times> 'e world"
where
  "doRequest E req out x w = (let (answer, w1) = call_http E req w in (read_response E out x answer, w1))"

section \<open>Classifying an error response\<close>

type_synonym apiErrorClassifier = "int \<Rightarrow> string \<Rightarrow> string \<times> ErrorCode"

definition codeForStatus :: "int \<Rightarrow> ErrorCode" where
  "codeForStatus status =
     (if status = 401 \<or> status = 403 then CodeAPIAuthorizationDenied
      else if status = 429 then CodeAPIRateLimited
      else if status = 413 then CodeAPIInvalidAttachment
      else if 500 \<le> status then CodeAPIProviderUnavailable
      else if status = 400 \<or> status = 422 then CodeAPIInvalidRequest
      else CodeAPIUnexpectedResponse)"

definition noClassification :: apiErrorClassifier where
  "noClassification status body = ([], CodeNone)"

definition describeAPIError :: "string \<Rightarrow> goerr \<Rightarrow> apiErrorClassifier \<Rightarrow> goerr" where
  "describeAPIError provider err classify =
     (case err of
        HttpStatus status body \<Rightarrow>
          (let (detail, code) = classify status body;
               detail' = (if detail = [] then body else detail);
               code' = (if code = CodeNone then codeForStatus status else code)
           in Errorf code' (provider @ '' API returned status '' @ Itoa status @ '': '' @ detail'))
      | _ \<Rightarrow> Errorf_w CodeAPIConnectionFailed (''failed to call '' @ provider @ '' API: '') err)"

definition mentionsAny :: "string \<Rightarrow> string list \<Rightarrow> bool" where
  "mentionsAny message names =
     list_ex (\<lambda>f.
       list_ex (\<lambda>form. sublist form message)
         [''`'' @ f @ ''`'', [CHR 0x27] @ f @ [CHR 0x27], [CHR 0x22] @ f @ [CHR 0x22],
          '' '' @ f @ '' address'', '' '' @ f @ '' field'']) names"

definition fieldCode :: "string \<Rightarrow> ErrorCode \<Rightarrow> ErrorCode" where
  "fieldCode message fallback =
     (let lower = ToLower message
      in if mentionsAny lower [''from''] then CodeAPISenderNotAllowed
         else if mentionsAny lower [''to'', ''cc'', ''bcc''] \<or> sublist ''recipient'' lower then
           CodeAPIInvalidReceiver
         else fallback)"

section \<open>Decoders of response fields\<close>

definition int_field :: "(int \<Rightarrow> 'a \<Rightarrow> 'a) \<Rightarrow> 'a decoder" where
  "int_field upd x v =
     (case v of
        JNum s \<Rightarrow> (case Atoi s of Some n \<Rightarrow> (None, upd n x) | None \<Rightarrow> (Some WrongType, x))
      | JNull \<Rightarrow> (None, x)
      | _ \<Rightarrow> (Some WrongType, x))"

text \<open>Members of a request that are left out when empty.\<close>

definition strings_json :: "string list \<Rightarrow> json" where
  "strings_json xs = JArr (map JStr xs)"

definition omitempty_list :: "string \<Rightarrow> json list \<Rightarrow> (string \<times> json) list" where
  "omitempty_list key vs = (if vs = [] then [] else [(key, JArr vs)])"

section \<open>Facts\<close>

lemma codeForStatus_named: "codeForStatus status \<noteq> CodeNone"
  by (simp add: codeForStatus_def)

lemma codeForStatus_retryable:
  "Retryable (codeForStatus status) \<longleftrightarrow> status = 429 \<or> 500 \<le> status"
  by (auto simp: codeForStatus_def)

lemma CodeOf_describeAPIError:
  "CodeOf (describeAPIError provider err classify) =
     (case err of
        HttpStatus status body \<Rightarrow>
          (if snd (classify status body) = CodeNone then codeForStatus status else snd (classify status body))
      | _ \<Rightarrow> CodeAPIConnectionFailed)"
  by (auto simp: describeAPIError_def Let_def split: goerr.splits prod.splits)

lemma fieldCode_cases:
  "fieldCode m c \<in> {CodeAPISenderNotAllowed, CodeAPIInvalidReceiver, c}"
  by (auto simp: fieldCode_def Let_def)

lemma canonical_names:
  "CanonicalMIMEHeaderKey ''Content-Type'' = ''Content-Type''"
  "CanonicalMIMEHeaderKey ''Accept'' = ''Accept''"
  "CanonicalMIMEHeaderKey ''Authorization'' = ''Authorization''"
  by code_simp+

lemma newJSONRequest_authorized:
  assumes "lib_url_error lib url = None"
  shows "newJSONRequest lib method url payload [(''Authorization'', key)] =
     Inr \<lparr>rq_method = method, rq_url = url,
          rq_header = [(''Content-Type'', ''application/json''), (''Accept'', ''application/json''),
            (''Authorization'', key)],
          rq_body = json_text payload\<rparr>"
  using assms
  by (simp add: newJSONRequest_def NewRequest_def set_headers_def Header_Set_def canonical_names)

text \<open>One request is one call, whatever comes back.\<close>

lemma doRequest_call:
  assumes "doRequest E req out x w = (r, w')"
  obtains answer where "call_http E req w = (answer, w')" "r = read_response E out x answer"
  using assms by (auto simp: doRequest_def split: prod.splits)

lemma doRequest_appends: "doRequest E req out x w = (r, w') \<Longrightarrow> appends transport_event w w'"
  by (erule doRequest_call) (auto dest!: call_trace(1) intro: appends_one)

lemma doRequest_zoho:
  "doRequest E req out x w = (r, w') \<Longrightarrow> zoho_token w' = zoho_token w \<and> zoho_expiresAt w' = zoho_expiresAt w"
  by (erule doRequest_call) (auto dest: call_zoho(1))

text \<open>A classified error of a request: the connection, or the status the response had.\<close>

lemma doRequest_error_code:
  assumes "doRequest E req out x w = (Inl err, w')"
  obtains (connection) "CodeOf (describeAPIError p err classify) = CodeAPIConnectionFailed"
    | (status) st body where "err = HttpStatus st body"
        "CodeOf (describeAPIError p err classify) =
           (if snd (classify st body) = CodeNone then codeForStatus st else snd (classify st body))"
proof (cases err)
  case (HttpStatus st body)
  then show ?thesis using status by (simp add: CodeOf_describeAPIError)
qed (use connection in \<open>simp_all add: CodeOf_describeAPIError\<close>)

lemma read_response_status:
  "rs_status rs < 200 \<or> 300 \<le> rs_status rs \<Longrightarrow>
   read_response lib out x (Inr rs) = Inl (HttpStatus (rs_status rs) (take maxErrorBodyBytes (rs_body rs)))"
  by (simp add: read_response_def)

lemma read_response_undecodable:
  "200 \<le> rs_status rs \<Longrightarrow> rs_status rs < 300 \<Longrightarrow>
   Decode_first (lib_type_error lib) dec x (rs_body rs) = Inl err \<Longrightarrow>
   read_response lib (Some dec) x (Inr rs) = Inl (Wrapped ''failed to decode response: '' err)"
  by (simp add: read_response_def)

lemma read_response_accepted:
  "read_response lib out x answer = Inr y \<Longrightarrow>
   \<exists>rs. answer = Inr rs \<and> 200 \<le> rs_status rs \<and> rs_status rs < 300"
  by (auto simp: read_response_def split: sum.splits if_splits)

lemma read_response_HttpStatus:
  "read_response lib out x (Inr rs) = Inl (HttpStatus st body) \<Longrightarrow> rs_status rs = st"
  by (auto simp: read_response_def split: sum.splits if_splits option.splits)

end
