(* ===== verification/Resend.thy ===== *)
theory Resend
  imports HttpApi Config
begin

text \<open>
  \<open>internal/infrastructure/mailer/resend_sender.go\<close>: the sender that posts an email to the Resend API.
\<close>

section \<open>Request and responses\<close>

record resendAttachment =
  ra_Filename :: string
  ra_Content :: string
  ra_ContentType :: string

record resendEmailRequest =
  re_From :: string
  re_To :: "string list"
  re_Cc :: "string list"
  re_Bcc :: "string list"
  re_Subject :: string
  re_HTML :: string
  re_Attachments :: "resendAttachment list"

text \<open>The JSON of the structs. \<open>to\<close> is never empty here: an email without a receiver is refused first.\<close>

definition resend_attachment_json :: "resendAttachment \<Rightarrow> json" where
  "resend_attachment_json a =
     JObj ([(''filename'', JStr (ra_Filename a)), (''content'', JStr (ra_Content a))]
       @ omitempty ''content_type'' (ra_ContentType a))"

definition resend_request_json :: "resendEmailRequest \<Rightarrow> json" where
  "resend_request_json rq =
     JObj ([(''from'', JStr (re_From rq)), (''to'', strings_json (re_To rq))]
       @ omitempty_list ''cc'' (map JStr (re_Cc rq)) @ omitempty_list ''bcc'' (map JStr (re_Bcc rq))
       @ [(''subject'', JStr (re_Subject rq)), (''html'', JStr (re_HTML rq))]
       @ omitempty_list ''attachments'' (map resend_attachment_json (re_Attachments rq)))"

text \<open>The response's \<open>id\<close> is only logged; of the error the name and the message are used.\<close>

definition resend_response_fields :: "(string \<times> string decoder) list" where
  "resend_response_fields = [(''id'', string_field (\<lambda>s _. s))]"

record resendErrorResponse =
  rerr_Name :: string
  rerr_Message :: string

definition resend_error_fields :: "(string \<times> resendErrorResponse decoder) list" where
  "resend_error_fields =
     [(''name'', string_field (\<lambda>s r. r\<lparr>rerr_Name := s\<rparr>)),
      (''message'', string_field (\<lambda>s r. r\<lparr>rerr_Message := s\<rparr>))]"

section \<open>Operations\<close>

definition buildResendRequest :: "'a golib_scheme \<Rightarrow> SendEmailData \<Rightarrow> resendEmailRequest" where
  "buildResendRequest lib d =
     \<lparr>re_From = senderAddress lib d, re_To = email_Receiver d, re_Cc = email_Cc d, re_Bcc = email_Bcc d,
      re_Subject = email_Subject d, re_HTML = email_Body d,
      re_Attachments = map (\<lambda>a. \<lparr>ra_Filename = content_Name a, ra_Content = EncodeToString (content_Content a),
                                ra_ContentType = content_Type a\<rparr>) (decodeAttachments d)\<rparr>"

definition resendErrorCode :: "int \<Rightarrow> resendErrorResponse \<Rightarrow> ErrorCode" where
  "resendErrorCode status apiErr =
     (let name = rerr_Name apiErr
      in if status = 401 then CodeAPIAuthorizationDenied
         else if name \<in> {''missing_api_key'', ''invalid_api_key'', ''restricted_api_key'',
                          ''suspended_api_key'', ''invalid_permission'', ''invalid_access''} then
           CodeAPIAuthorizationDenied
         else if name = ''invalid_from_address'' then CodeAPISenderNotAllowed
         else if name = ''invalid_attachment'' then CodeAPIInvalidAttachment
         else if name \<in> {''daily_quota_exceeded'', ''monthly_quota_exceeded''} then CodeAPIQuotaExceeded
         else if name = ''rate_limit_exceeded'' then CodeAPIRateLimited
         else if name \<in> {''application_error'', ''internal_server_error'', ''service_unavailable''} then
           CodeAPIProviderUnavailable
         else if name = ''validation_error'' then
           (if status = 403 then CodeAPISenderNotAllowed
            else fieldCode (rerr_Message apiErr) CodeAPIInvalidRequest)
         else CodeNone)"

definition classifyResendError :: "(string \<Rightarrow> string) \<Rightarrow> apiErrorClassifier" where
  "classifyResendError te status body =
     (case Unmarshal te (decode_struct resend_error_fields) \<lparr>rerr_Name = [], rerr_Message = []\<rparr> body of
        Inl err \<Rightarrow> ([], CodeNone)
      | Inr apiErr \<Rightarrow>
          if rerr_Message apiErr = [] then ([], CodeNone)
          else (rerr_Name apiErr @ '': '' @ rerr_Message apiErr, resendErrorCode status apiErr))"

definition resendSender_Send ::
  "'e env \<Rightarrow> ResendConfig \<Rightarrow> SendEmailData \<Rightarrow> 'e world \<Rightarrow> goerr option \<times> 'e world"
where
  "resendSender_Send E cfg d w =
     (case validateEmail d of
        Some err \<Rightarrow> (Some err, w)
      | None \<Rightarrow>
          (case newJSONRequest E ''POST'' (resend_BaseURL cfg @ ''/emails'')
                  (resend_request_json (buildResendRequest E d))
                  [(''Authorization'', ''Bearer '' @ resend_APIKey cfg)] of
             Inl err \<Rightarrow> (Some err, w)
           | Inr req \<Rightarrow>
               (case doRequest E req (Some (decode_struct resend_response_fields)) [] w of
                  (Inl err, w1) \<Rightarrow> (Some (describeAPIError ''resend'' err (classifyResendError (lib_type_error E))), w1)
                | (Inr _, w1) \<Rightarrow> (None, w1))))"

section \<open>Facts\<close>

interpretation resend: sender_contract "resendSender_Send E cfg" for E :: "'e env" and cfg
proof
  fix d err and w :: "'e world"
  assume "validateEmail d = Some err"
  then show "resendSender_Send E cfg d w = (Some err, w)" by (simp add: resendSender_Send_def)
next
  fix d r and w w' :: "'e world"
  assume "resendSender_Send E cfg d w = (r, w')"
  then show "appends transport_event w w'"
    by (auto simp: resendSender_Send_def split: option.splits sum.splits prod.splits dest: doRequest_appends)
qed

text \<open>The request of an email: one POST, with the API key.\<close>

definition resend_http_request :: "'a golib_scheme \<Rightarrow> ResendConfig \<Rightarrow> SendEmailData \<Rightarrow> http_request" where
  "resend_http_request lib cfg d =
     \<lparr>rq_method = ''POST'', rq_url = resend_BaseURL cfg @ ''/emails'',
      rq_header = [(''Content-Type'', ''application/json''), (''Accept'', ''application/json''),
        (''Authorization'', ''Bearer '' @ resend_APIKey cfg)],
      rq_body = json_text (resend_request_json (buildResendRequest lib d))\<rparr>"

lemma resend_request_built:
  "lib_url_error lib (resend_BaseURL cfg @ ''/emails'') = None \<Longrightarrow>
   newJSONRequest lib ''POST'' (resend_BaseURL cfg @ ''/emails'') (resend_request_json (buildResendRequest lib d))
     [(''Authorization'', ''Bearer '' @ resend_APIKey cfg)] = Inr (resend_http_request lib cfg d)"
  by (simp only: newJSONRequest_authorized resend_http_request_def)

lemma resend_send:
  assumes "validateEmail d = None" "lib_url_error E (resend_BaseURL cfg @ ''/emails'') = None"
  shows "resendSender_Send E cfg d w =
     (let (answer, w1) = call_http E (resend_http_request E cfg d) w
      in (case read_response E (Some (decode_struct resend_response_fields)) [] answer of
            Inl err \<Rightarrow> Some (describeAPIError ''resend'' err (classifyResendError (lib_type_error E)))
          | Inr _ \<Rightarrow> None, w1))"
  using assms
  by (simp only: resendSender_Send_def resend_request_built doRequest_def option.case sum.case)
    (auto split: prod.splits sum.splits)

lemma resend_unauthorized:
  "CodeOf (describeAPIError p (HttpStatus 401 body) (classifyResendError te)) = CodeAPIAuthorizationDenied"
  by (auto simp: CodeOf_describeAPIError classifyResendError_def resendErrorCode_def codeForStatus_def
      split: sum.splits)

section \<open>Properties\<close>

text \<open>A complete email is handed to Resend in exactly one request: a POST to the emails endpoint
  with the API key, whose body names the sender, all three recipient lists, the subject, the decoded
  body and the decodable attachments in base64. The sender reports success exactly when the answer is
  a 2xx response whose body starts with a JSON value that fits.\<close>

lemma resend_one_request:
  assumes "validateEmail d = None" "lib_url_error E (resend_BaseURL cfg @ ''/emails'') = None"
    and "resendSender_Send E cfg d w = (r, w')"
  shows "\<exists>answer. trace w' = trace w @ [HttpCall (resend_http_request E cfg d) answer]
     \<and> (r = None \<longleftrightarrow>
         (\<exists>rs. answer = Inr rs \<and> 200 \<le> rs_status rs \<and> rs_status rs < 300
            \<and> (\<exists>i. Decode_first (lib_type_error E) (decode_struct resend_response_fields) [] (rs_body rs) = Inr i)))"
proof -
  obtain answer where call: "call_http E (resend_http_request E cfg d) w = (answer, w')"
    and r: "r = (case read_response E (Some (decode_struct resend_response_fields)) [] answer of
            Inl err \<Rightarrow> Some (describeAPIError ''resend'' err (classifyResendError (lib_type_error E)))
          | Inr _ \<Rightarrow> None)"
    using assms by (auto simp: resend_send split: prod.splits)
  from r have "r = None \<longleftrightarrow>
         (\<exists>rs. answer = Inr rs \<and> 200 \<le> rs_status rs \<and> rs_status rs < 300
            \<and> (\<exists>i. Decode_first (lib_type_error E) (decode_struct resend_response_fields) [] (rs_body rs) = Inr i))"
    by (auto simp: read_response_def split: sum.splits if_splits)
  with call_trace(1) [OF call] show ?thesis by blast
qed

text \<open>C32: An email that Resend accepted can be sent twice: when a 2xx response has a body that is not
  the expected JSON (an empty one, for instance), the sender reports \<open>api_connection_failed\<close>, which is
  a temporary failure, so a queued message goes to the retry queue and is posted again.\<close>

theorem accepted_email_retried:
  assumes "DecodeString (email_Body d) = Inr body"
    and "validateEmail (d\<lparr>email_Body := body, email_Callback := None\<rparr>) = None"
    and "lib_url_error E (resend_BaseURL cfg @ ''/emails'') = None"
    and "call_http E (resend_http_request E cfg (d\<lparr>email_Body := body, email_Callback := None\<rparr>)) w = (Inr rs, w1)"
    and "200 \<le> rs_status rs" "rs_status rs < 300"
    and "Decode_first (lib_type_error E) (decode_struct resend_response_fields) [] (rs_body rs) = Inl err"
    and "CanRetry p n"
  shows "out_Action (fst (Deliver (NewService E (resendSender_Send E cfg) ntf p) d n w)) = ActionRetry"
proof -
  let ?s = "NewService E (resendSender_Send E cfg) ntf p"
  let ?d = "d\<lparr>email_Body := body, email_Callback := None\<rparr>"
  have "resendSender_Send E cfg ?d w =
      (Some (describeAPIError ''resend'' (Wrapped ''failed to decode response: '' err)
        (classifyResendError (lib_type_error E))), w1)"
    using assms by (simp add: resend_send read_response_undecodable)
  then obtain e where send: "send ?s d w = (Some e, w1)" and code: "CodeOf e = CodeAPIConnectionFailed"
    using assms(1) by (simp add: send_def NewService_def CodeOf_describeAPIError)
  then show ?thesis
    using assms(8) by (simp add: Deliver_def deliver_failed handleFailure_retry NewService_def)
qed

section \<open>Witnesses\<close>

definition some_resend :: ResendConfig where
  "some_resend = \<lparr>resend_APIKey = ''re_1'', resend_BaseURL = ''https://api''\<rparr>"

lemma empty_body_undecodable: "Decode_first te dec x [] = Inl (Plain ''EOF'')"
proof -
  have "run_first initial [] = Incomplete True" by code_simp
  then show ?thesis by (simp add: Decode_first_def)
qed

lemma resend_one_request_example:
  "\<exists>answer. trace (snd (resendSender_Send (answering 200 []) some_resend some_decoded_email some_world)) =
     [HttpCall (resend_http_request (answering 200 []) some_resend some_decoded_email) answer]"
  using resend_one_request [OF some_email_decoded(3), of "answering 200 []" some_resend some_world
      "fst (resendSender_Send (answering 200 []) some_resend some_decoded_email some_world)"
      "snd (resendSender_Send (answering 200 []) some_resend some_decoded_email some_world)"]
  by (auto simp: some_world_def)

theorem accepted_email_retried_witness:
  "out_Action (fst (Deliver (NewService (answering 200 []) (resendSender_Send (answering 200 []) some_resend)
      (\<lambda>t ev w. (None, w)) DefaultRetryPolicy) (some_email ''SGk='') 1 some_world)) = ActionRetry"
proof -
  obtain w1 where "call_http (answering 200 []) (resend_http_request (answering 200 []) some_resend
      (some_email ''SGk=''\<lparr>email_Body := ''Hi'', email_Callback := None\<rparr>)) some_world =
      (Inr \<lparr>rs_status = 200, rs_body = []\<rparr>, w1)"
    by (metis answering_simps(2) prod.collapse)
  from accepted_email_retried [OF some_email_decoded(1) _ _ this, where n = 1 and p = DefaultRetryPolicy]
  show ?thesis
    by (simp add: some_email_decoded empty_body_undecodable CanRetry_def DefaultRetryPolicy_def)
qed

end
