(* ===== verification/ZeptoMail.thy ===== *)
theory ZeptoMail
  imports HttpApi Config
begin

text \<open>
  \<open>internal/infrastructure/mailer/zeptomail_sender.go\<close>: the sender that posts an email to the ZeptoMail
  API. Its error bodies carry a code and a list of details with codes of their own.
\<close>

section \<open>Request and responses\<close>

record zeptoMailAddress =
  za_Address :: string
  za_Name :: string

record zeptoMailAttachment =
  zat_Name :: string
  zat_MimeType :: string
  zat_Content :: string

record zeptoMailRequest =
  zr_From :: zeptoMailAddress
  zr_To :: "zeptoMailAddress list"
  zr_Cc :: "zeptoMailAddress list"
  zr_Bcc :: "zeptoMailAddress list"
  zr_Subject :: string
  zr_HTMLBody :: string
  zr_Attachments :: "zeptoMailAttachment list"

definition zepto_address_json :: "zeptoMailAddress \<Rightarrow> json" where
  "zepto_address_json a = JObj ([(''address'', JStr (za_Address a))] @ omitempty ''name'' (za_Name a))"

text \<open>\<open>zeptoMailRecipient\<close>: the address wrapped once more.\<close>

definition zepto_recipient_json :: "zeptoMailAddress \<Rightarrow> json" where
  "zepto_recipient_json a = JObj [(''email_address'', zepto_address_json a)]"

definition zepto_attachment_json :: "zeptoMailAttachment \<Rightarrow> json" where
  "zepto_attachment_json a =
     JObj [(''name'', JStr (zat_Name a)), (''mime_type'', JStr (zat_MimeType a)), (''content'', JStr (zat_Content a))]"

definition zepto_request_json :: "zeptoMailRequest \<Rightarrow> json" where
  "zepto_request_json rq =
     JObj ([(''from'', zepto_address_json (zr_From rq)), (''to'', JArr (map zepto_recipient_json (zr_To rq)))]
       @ omitempty_list ''cc'' (map zepto_recipient_json (zr_Cc rq))
       @ omitempty_list ''bcc'' (map zepto_recipient_json (zr_Bcc rq))
       @ [(''subject'', JStr (zr_Subject rq)), (''htmlbody'', JStr (zr_HTMLBody rq))]
       @ omitempty_list ''attachments'' (map zepto_attachment_json (zr_Attachments rq)))"

definition zepto_response_fields :: "(string \<times> string decoder) list" where
  "zepto_response_fields = [(''request_id'', string_field (\<lambda>s _. s))]"

record zeptoMailMessage =
  zm_Code :: string
  zm_Message :: string

definition zero_zepto_message :: zeptoMailMessage where
  "zero_zepto_message = \<lparr>zm_Code = [], zm_Message = []\<rparr>"

text \<open>The error object: a message with its details.\<close>

record zeptoMailError = zeptoMailMessage +
  zm_Details :: "zeptoMailMessage list"

definition zepto_message_fields :: "(string \<times> 'a zeptoMailMessage_scheme decoder) list" where
  "zepto_message_fields =
     [(''code'', string_field (\<lambda>s r. r\<lparr>zm_Code := s\<rparr>)), (''message'', string_field (\<lambda>s r. r\<lparr>zm_Message := s\<rparr>))]"

definition zepto_error_fields :: "(string \<times> zeptoMailError decoder) list" where
  "zepto_error_fields =
     zepto_message_fields @
     [(''details'', inner_field zm_Details (\<lambda>ds r. r\<lparr>zm_Details := ds\<rparr>)
         (decode_slice zero_zepto_message (decode_struct zepto_message_fields)))]"

text \<open>\<open>zeptoMailErrorResponse\<close> has one field, a pointer.\<close>

definition zepto_error_response_fields :: "(string \<times> zeptoMailError option decoder) list" where
  "zepto_error_response_fields =
     [(''error'', decode_pointer \<lparr>zm_Code = [], zm_Message = [], zm_Details = []\<rparr> (decode_struct zepto_error_fields))]"

section \<open>Operations\<close>

definition zeptoMailRecipients :: "Recipients \<Rightarrow> zeptoMailAddress list" where
  "zeptoMailRecipients addresses = map (\<lambda>a. \<lparr>za_Address = a, za_Name = []\<rparr>) addresses"

definition buildZeptoMailRequest :: "SendEmailData \<Rightarrow> zeptoMailRequest" where
  "buildZeptoMailRequest d =
     \<lparr>zr_From = \<lparr>za_Address = email_From d, za_Name = TrimSpace (email_FromName d)\<rparr>,
      zr_To = zeptoMailRecipients (email_Receiver d), zr_Cc = zeptoMailRecipients (email_Cc d),
      zr_Bcc = zeptoMailRecipients (email_Bcc d), zr_Subject = email_Subject d, zr_HTMLBody = email_Body d,
      zr_Attachments = map (\<lambda>a. \<lparr>zat_Name = content_Name a, zat_MimeType = content_Type a,
                                 zat_Content = EncodeToString (content_Content a)\<rparr>) (decodeAttachments d)\<rparr>"

definition zeptoMailDetailCode :: "zeptoMailMessage \<Rightarrow> ErrorCode" where
  "zeptoMailDetailCode detail =
     (let code = zm_Code detail
      in if code = ''SERR_157'' then CodeAPIAuthorizationDenied
         else if code = ''SM_111'' then CodeAPISenderNotAllowed
         else if code = ''SM_113'' then fieldCode (zm_Message detail) CodeAPIInvalidRequest
         else if code \<in> {''SM_133'', ''SMI_115'', ''LE_102''} then CodeAPIQuotaExceeded
         else if code \<in> {''GE_102'', ''SM_127''} then CodeAPIInvalidRequest
         else CodeNone)"

definition zeptoMailCode :: "string \<Rightarrow> ErrorCode" where
  "zeptoMailCode code =
     (if code = ''TM_3601'' then CodeAPIAuthorizationDenied
      else if code = ''TM_5001'' then CodeAPIQuotaExceeded
      else if code \<in> {''TM_3201'', ''TM_8001''} then CodeAPIInvalidRequest
      else CodeNone)"

text \<open>The code of the details: the first detail that has one decides.\<close>

fun details_code :: "zeptoMailMessage list \<Rightarrow> ErrorCode" where
  "details_code [] = CodeNone"
| "details_code (detail # ds) =
     (let code = zeptoMailDetailCode detail in if code = CodeNone then details_code ds else code)"

definition classifyZeptoMailError :: "(string \<Rightarrow> string) \<Rightarrow> apiErrorClassifier" where
  "classifyZeptoMailError te status body =
     (case Unmarshal te (decode_struct zepto_error_response_fields) None body of
        Inl err \<Rightarrow> ([], CodeNone)
      | Inr None \<Rightarrow> ([], CodeNone)
      | Inr (Some err) \<Rightarrow>
          (let details = map (\<lambda>m. zm_Code m @ '': '' @ zm_Message m) (zm_Details err);
               code = details_code (zm_Details err);
               code' = (if code = CodeNone then zeptoMailCode (zm_Code err) else code);
               description = zm_Code err @ '': '' @ zm_Message err
           in (if details = [] then description else description @ '' ('' @ Join details '', '' @ '')'', code')))"

definition zeptoMailSender_Send ::
  "'e env \<Rightarrow> ZeptoMailConfig \<Rightarrow> SendEmailData \<Rightarrow> 'e world \<Rightarrow> goerr option \<times> 'e world"
where
  "zeptoMailSender_Send E cfg d w =
     (case validateEmail d of
        Some err \<Rightarrow> (Some err, w)
      | None \<Rightarrow>
          (case newJSONRequest E ''POST'' (zepto_BaseURL cfg @ ''/v1.1/email'')
                  (zepto_request_json (buildZeptoMailRequest d))
                  [(''Authorization'', zepto_Authorization cfg)] of
             Inl err \<Rightarrow> (Some err, w)
           | Inr req \<Rightarrow>
               (case doRequest E req (Some (decode_struct zepto_response_fields)) [] w of
                  (Inl err, w1) \<Rightarrow>
                    (Some (describeAPIError ''zeptomail'' err (classifyZeptoMailError (lib_type_error E))), w1)
                | (Inr _, w1) \<Rightarrow> (None, w1))))"

section \<open>Facts\<close>

interpretation zeptomail: sender_contract "zeptoMailSender_Send E cfg" for E :: "'e env" and cfg
proof
  fix d err and w :: "'e world"
  assume "validateEmail d = Some err"
  then show "zeptoMailSender_Send E cfg d w = (Some err, w)" by (simp add: zeptoMailSender_Send_def)
next
  fix d r and w w' :: "'e world"
  assume "zeptoMailSender_Send E cfg d w = (r, w')"
  then show "appends transport_event w w'"
    by (auto simp: zeptoMailSender_Send_def split: option.splits sum.splits prod.splits dest: doRequest_appends)
qed

text \<open>The first detail with a known code decides; without one the code of the error, and without that
  the status.\<close>

lemma details_code_first:
  "details_code ds =
     (case find (\<lambda>m. zeptoMailDetailCode m \<noteq> CodeNone) ds of
        Some m \<Rightarrow> zeptoMailDetailCode m | None \<Rightarrow> CodeNone)"
  by (induction ds) (auto simp: Let_def)

lemma details_code_final: "\<not> Retryable (details_code ds)"
proof -
  have "\<not> Retryable (zeptoMailDetailCode m)" for m
    using fieldCode_cases [of "zm_Message m" CodeAPIInvalidRequest] by (auto simp: zeptoMailDetailCode_def Let_def)
  then show ?thesis by (auto simp: details_code_first split: option.splits)
qed

lemma zeptoMailCode_final: "\<not> Retryable (zeptoMailCode c)"
  by (auto simp: zeptoMailCode_def)

text \<open>So a body never makes a ZeptoMail failure temporary: only its status does.\<close>

lemma zepto_classified_final: "\<not> Retryable (snd (classifyZeptoMailError te st body))"
  by (auto simp: classifyZeptoMailError_def Let_def details_code_final zeptoMailCode_final
      split: sum.splits option.splits)

lemma zepto_retryable_status:
  "Retryable (CodeOf (describeAPIError p (HttpStatus st body) (classifyZeptoMailError te))) \<Longrightarrow> st = 429 \<or> 500 \<le> st"
  using zepto_classified_final [of te st body]
  by (auto simp: CodeOf_describeAPIError codeForStatus_retryable split: if_splits)

end
