(* ===== verification/Zoho.thy ===== *)
theory Zoho
  imports HttpApi Config
begin

text \<open>
  The Zoho Mail sender: \<open>zoho_token_source.go\<close> (access tokens, cached until shortly before they
  expire), \<open>zoho_mail_attachments.go\<close> (attachments are uploaded first) and \<open>zoho_mail_sender.go\<close> of
  \<open>internal/infrastructure/mailer\<close>. The two fields of the token source that change, \<open>token\<close> and
  \<open>expiresAt\<close>, are the fields \<^const>\<open>zoho_token\<close> and \<^const>\<open>zoho_expiresAt\<close> of the world: a process has
  one sender. Its mutex lets one \<open>Token\<close> or \<open>Invalidate\<close> run at a time, so each is one step here.
\<close>

section \<open>Token source\<close>

definition zohoTokenRefreshMargin :: int where "zohoTokenRefreshMargin = Minute"

record zohoTokenResponse =
  tok_AccessToken :: string
  tok_ExpiresIn :: int
  tok_Error :: string

definition zero_token :: zohoTokenResponse where
  "zero_token = \<lparr>tok_AccessToken = [], tok_ExpiresIn = 0, tok_Error = []\<rparr>"

definition token_fields :: "(string \<times> zohoTokenResponse decoder) list" where
  "token_fields =
     [(''access_token'', string_field (\<lambda>s t. t\<lparr>tok_AccessToken := s\<rparr>)),
      (''expires_in'', int_field (\<lambda>n t. t\<lparr>tok_ExpiresIn := n\<rparr>)),
      (''error'', string_field (\<lambda>s t. t\<lparr>tok_Error := s\<rparr>))]"

definition describeRefreshError :: "goerr \<Rightarrow> goerr" where
  "describeRefreshError err =
     (let described = describeAPIError ''zoho accounts'' err noClassification
      in case err of HttpStatus _ _ \<Rightarrow> NewError CodeAPIAuthorizationDenied described | _ \<Rightarrow> described)"

definition refresh_url :: "ZohoMailConfig \<Rightarrow> string" where
  "refresh_url cfg =
     zoho_AccountsURL cfg @ ''/oauth/v2/token?''
     @ Values_Encode [(''client_id'', zoho_ClientID cfg), (''client_secret'', zoho_ClientSecret cfg),
         (''grant_type'', ''refresh_token''), (''refresh_token'', zoho_RefreshToken cfg)]"

definition refresh :: "'e env \<Rightarrow> ZohoMailConfig \<Rightarrow> 'e world \<Rightarrow> (goerr + zohoTokenResponse) \<times> 'e world" where
  "refresh E cfg w =
     (case NewRequest E ''POST'' (refresh_url cfg) [] of
        Inl err \<Rightarrow> (Inl (Errorf_w CodeAPIConnectionFailed ''failed to create Zoho token request: '' err), w)
      | Inr req \<Rightarrow>
          (case doRequest E req (Some (decode_struct token_fields)) zero_token w of
             (Inl err, w1) \<Rightarrow> (Inl (describeRefreshError err), w1)
           | (Inr token, w1) \<Rightarrow>
               if tok_Error token \<noteq> [] \<or> tok_AccessToken token = [] then
                 (Inl (Errorf CodeAPIAuthorizationDenied
                    (''failed to refresh Zoho access token: '' @ lib_quote E (tok_Error token))), w1)
               else (Inr token, w1)))"

text \<open>\<open>Token\<close>: the clock is only read when there is a token, and once more after a refresh.\<close>

definition Token :: "'e env \<Rightarrow> ZohoMailConfig \<Rightarrow> 'e world \<Rightarrow> (goerr + string) \<times> 'e world" where
  "Token E cfg w =
     (let (valid, w1) =
        (if zoho_token w \<noteq> [] then
           (let (t, w0) = call_clock E w in (t < zoho_expiresAt w0, w0))
         else (False, w))
      in if valid then (Inr (zoho_token w1), w1)
         else
           (case refresh E cfg w1 of
              (Inl err, w2) \<Rightarrow> (Inl err, w2)
            | (Inr token, w2) \<Rightarrow>
                (let (t, w3) = call_clock E (w2\<lparr>zoho_token := tok_AccessToken token\<rparr>);
                     w4 = w3\<lparr>zoho_expiresAt :=
                       t + wrap64 (wrap64 (tok_ExpiresIn token * Second) - zohoTokenRefreshMargin)\<rparr>
                 in (Inr (zoho_token w4), w4))))"

definition Invalidate :: "'e world \<Rightarrow> 'e world" where
  "Invalidate w = w\<lparr>zoho_token := []\<rparr>"

section \<open>Requests and responses of the mail API\<close>

record zohoAttachmentRef =
  zref_StoreName :: string
  zref_AttachmentPath :: string
  zref_AttachmentName :: string

record zohoMailRequest =
  zq_FromAddress :: string
  zq_ToAddress :: string
  zq_CcAddress :: string
  zq_BccAddress :: string
  zq_Subject :: string
  zq_Content :: string
  zq_MailFormat :: string
  zq_Attachments :: "zohoAttachmentRef list"

definition zoho_ref_json :: "zohoAttachmentRef \<Rightarrow> json" where
  "zoho_ref_json r =
     JObj [(''storeName'', JStr (zref_StoreName r)), (''attachmentPath'', JStr (zref_AttachmentPath r)),
       (''attachmentName'', JStr (zref_AttachmentName r))]"

definition zoho_request_json :: "zohoMailRequest \<Rightarrow> json" where
  "zoho_request_json rq =
     JObj ([(''fromAddress'', JStr (zq_FromAddress rq)), (''toAddress'', JStr (zq_ToAddress rq))]
       @ omitempty ''ccAddress'' (zq_CcAddress rq) @ omitempty ''bccAddress'' (zq_BccAddress rq)
       @ [(''subject'', JStr (zq_Subject rq)), (''content'', JStr (zq_Content rq)),
          (''mailFormat'', JStr (zq_MailFormat rq))]
       @ omitempty_list ''attachments'' (map zoho_ref_json (zq_Attachments rq)))"

definition zero_ref :: zohoAttachmentRef where
  "zero_ref = \<lparr>zref_StoreName = [], zref_AttachmentPath = [], zref_AttachmentName = []\<rparr>"

definition ref_fields :: "(string \<times> zohoAttachmentRef decoder) list" where
  "ref_fields =
     [(''storeName'', string_field (\<lambda>s r. r\<lparr>zref_StoreName := s\<rparr>)),
      (''attachmentPath'', string_field (\<lambda>s r. r\<lparr>zref_AttachmentPath := s\<rparr>)),
      (''attachmentName'', string_field (\<lambda>s r. r\<lparr>zref_AttachmentName := s\<rparr>))]"

text \<open>\<open>zohoUploadResponse\<close> has the one field \<open>data\<close>.\<close>

definition upload_fields :: "(string \<times> zohoAttachmentRef decoder) list" where
  "upload_fields = [(''data'', decode_struct ref_fields)]"

record zohoErrorResponse =
  zerr_Description :: string
  zerr_ErrorCode :: string
  zerr_MoreInfo :: string

definition zero_zoho_error :: zohoErrorResponse where
  "zero_zoho_error = \<lparr>zerr_Description = [], zerr_ErrorCode = [], zerr_MoreInfo = []\<rparr>"

definition zoho_error_fields :: "(string \<times> zohoErrorResponse decoder) list" where
  "zoho_error_fields =
     [(''status'', decode_struct [(''description'', string_field (\<lambda>s r. r\<lparr>zerr_Description := s\<rparr>))]),
      (''data'', decode_struct
         [(''errorCode'', string_field (\<lambda>s r. r\<lparr>zerr_ErrorCode := s\<rparr>)),
          (''moreInfo'', string_field (\<lambda>s r. r\<lparr>zerr_MoreInfo := s\<rparr>))])]"

section \<open>Operations\<close>

definition describeZohoMailError :: "zohoErrorResponse \<Rightarrow> string" where
  "describeZohoMailError e =
     zerr_Description e
     @ (if zerr_ErrorCode e = [] then [] else '': '' @ zerr_ErrorCode e)
     @ (if zerr_MoreInfo e = [] then [] else '' ('' @ zerr_MoreInfo e @ '')'')"

definition classifyZohoMailError :: "(string \<Rightarrow> string) \<Rightarrow> apiErrorClassifier" where
  "classifyZohoMailError te status body =
     (case Unmarshal te (decode_struct zoho_error_fields) zero_zoho_error body of
        Inl err \<Rightarrow> ([], CodeNone)
      | Inr apiErr \<Rightarrow>
          if zerr_Description apiErr = [] then ([], CodeNone)
          else
            (describeZohoMailError apiErr,
             if status = 401 then CodeNone else fieldCode (zerr_MoreInfo apiErr) CodeNone))"

text \<open>\<open>call\<close>: a request of the mail API.\<close>

definition zoho_call ::
  "'e env \<Rightarrow> http_request \<Rightarrow> 'a decoder option \<Rightarrow> 'a \<Rightarrow> 'e world \<Rightarrow> (goerr + 'a) \<times> 'e world"
where
  "zoho_call E req out x w =
     (case doRequest E req out x w of
        (Inr y, w1) \<Rightarrow> (Inr y, w1)
      | (Inl err, w1) \<Rightarrow>
          (let w2 = (case err of
                       HttpStatus status _ \<Rightarrow> if status = 401 then Invalidate w1 else w1
                     | _ \<Rightarrow> w1)
           in (Inl (describeAPIError ''zoho mail'' err (classifyZohoMailError (lib_type_error E))), w2)))"

definition zohoAuthorization :: "string \<Rightarrow> string" where
  "zohoAuthorization token = ''Zoho-oauthtoken '' @ token"

definition upload_url :: "ZohoMailConfig \<Rightarrow> string \<Rightarrow> string" where
  "upload_url cfg name =
     zoho_APIURL cfg @ ''/api/accounts/'' @ PathEscape (zoho_AccountID cfg) @ ''/messages/attachments?''
     @ Values_Encode [(''fileName'', name)]"

definition uploadAttachment ::
  "'e env \<Rightarrow> ZohoMailConfig \<Rightarrow> string \<Rightarrow> attachmentContent \<Rightarrow> 'e world \<Rightarrow> (goerr + zohoAttachmentRef) \<times> 'e world"
where
  "uploadAttachment E cfg token a w =
     (case NewRequest E ''POST'' (upload_url cfg (content_Name a)) (content_Content a) of
        Inl err \<Rightarrow> (Inl (Wrapped ''failed to create upload request: '' err), w)
      | Inr req \<Rightarrow>
          zoho_call E
            (set_headers [(''Authorization'', zohoAuthorization token), (''Content-Type'', ''application/octet-stream''),
               (''Accept'', ''application/json'')] req)
            (Some (decode_struct upload_fields)) zero_ref w)"

fun uploadAttachments ::
  "'e env \<Rightarrow> ZohoMailConfig \<Rightarrow> string \<Rightarrow> attachmentContent list \<Rightarrow> 'e world
   \<Rightarrow> (goerr + zohoAttachmentRef list) \<times> 'e world"
where
  "uploadAttachments E cfg token [] w = (Inr [], w)"
| "uploadAttachments E cfg token (a # as) w =
     (case uploadAttachment E cfg token a w of
        (Inl err, w1) \<Rightarrow>
          (Inl (Wrapped (''failed to upload attachment '' @ lib_quote E (content_Name a) @ '': '') err), w1)
      | (Inr r, w1) \<Rightarrow>
          (case uploadAttachments E cfg token as w1 of
             (Inl err, w2) \<Rightarrow> (Inl err, w2)
           | (Inr refs, w2) \<Rightarrow> (Inr (r # refs), w2)))"

definition buildZohoMailRequest :: "SendEmailData \<Rightarrow> zohoAttachmentRef list \<Rightarrow> zohoMailRequest" where
  "buildZohoMailRequest d refs =
     \<lparr>zq_FromAddress = email_From d, zq_ToAddress = Join (email_Receiver d) '','',
      zq_CcAddress = Join (email_Cc d) '','', zq_BccAddress = Join (email_Bcc d) '','',
      zq_Subject = email_Subject d, zq_Content = email_Body d, zq_MailFormat = ''html'', zq_Attachments = refs\<rparr>"

definition messages_url :: "ZohoMailConfig \<Rightarrow> string" where
  "messages_url cfg = zoho_APIURL cfg @ ''/api/accounts/'' @ PathEscape (zoho_AccountID cfg) @ ''/messages''"

definition zohoMailSender_Send ::
  "'e env \<Rightarrow> ZohoMailConfig \<Rightarrow> SendEmailData \<Rightarrow> 'e world \<Rightarrow> goerr option \<times> 'e world"
where
  "zohoMailSender_Send E cfg d w =
     (case validateEmail d of
        Some err \<Rightarrow> (Some err, w)
      | None \<Rightarrow>
          (case Token E cfg w of
             (Inl err, w1) \<Rightarrow> (Some err, w1)
           | (Inr token, w1) \<Rightarrow>
               (case uploadAttachments E cfg token (decodeAttachments d) w1 of
                  (Inl err, w2) \<Rightarrow> (Some err, w2)
                | (Inr refs, w2) \<Rightarrow>
                    (case newJSONRequest E ''POST'' (messages_url cfg)
                            (zoho_request_json (buildZohoMailRequest d refs))
                            [(''Authorization'', zohoAuthorization token)] of
                       Inl err \<Rightarrow> (Some err, w2)
                     | Inr req \<Rightarrow>
                         (case zoho_call E req None () w2 of
                            (Inl err, w3) \<Rightarrow> (Some err, w3)
                          | (Inr _, w3) \<Rightarrow> (None, w3))))))"

section \<open>Steps\<close>

lemma NewRequest_url: "NewRequest lib m url body = Inr req \<Longrightarrow> rq_url req = url \<and> rq_method req = m"
  by (auto simp: NewRequest_def split: option.splits)

lemma set_headers_url [simp]: "rq_url (set_headers kvs rq) = rq_url rq"
  by (simp add: set_headers_def)

lemma refresh_appends: "refresh E cfg w = (r, w') \<Longrightarrow> appends transport_event w w'"
  by (auto simp: refresh_def split: sum.splits prod.splits if_splits dest: doRequest_appends)

lemma refresh_memory:
  "refresh E cfg w = (r, w') \<Longrightarrow> zoho_token w' = zoho_token w \<and> zoho_expiresAt w' = zoho_expiresAt w"
  by (auto simp: refresh_def split: sum.splits prod.splits if_splits dest: doRequest_zoho)

lemma refresh_trace:
  "refresh E cfg w = (r, w') \<Longrightarrow>
   trace w' = trace w \<or> (\<exists>req answer. trace w' = trace w @ [HttpCall req answer] \<and> rq_url req = refresh_url cfg)"
  by (auto simp: refresh_def split: sum.splits prod.splits if_splits elim!: doRequest_call
      dest!: NewRequest_url call_trace(1))

lemma refresh_token:
  assumes "refresh E cfg w = (Inr token, w')"
  shows "tok_AccessToken token \<noteq> []"
    and "\<exists>req answer. trace w' = trace w @ [HttpCall req answer] \<and> rq_url req = refresh_url cfg
           \<and> read_response E (Some (decode_struct token_fields)) zero_token answer = Inr token"
  using assms
  by (auto simp: refresh_def split: sum.splits prod.splits if_splits elim!: doRequest_call
      dest!: NewRequest_url call_trace(1))

lemma trace_update_zoho [simp]:
  "trace (w\<lparr>zoho_token := t\<rparr>) = trace w" "trace (w\<lparr>zoho_expiresAt := x\<rparr>) = trace w" "trace (Invalidate w) = trace w"
  by (simp_all add: Invalidate_def)

text \<open>The cached token can be used; and the three ways of a token request.\<close>

definition token_valid :: "'e env \<Rightarrow> 'e world \<Rightarrow> bool" where
  "token_valid E w \<longleftrightarrow> zoho_token w \<noteq> [] \<and> fst (call_clock E w) < zoho_expiresAt w"

lemma Token_cases:
  assumes "Token E cfg w = (r, w')"
  obtains (cached) w0 t where "zoho_token w \<noteq> []" "call_clock E w = (t, w0)" "t < zoho_expiresAt w"
      "r = Inr (zoho_token w)" "w' = w0"
    | (failed) err w1 where "r = Inl err" "refresh E cfg w1 = (Inl err, w')" "trace w1 = trace w"
      "zoho_token w1 = zoho_token w" "\<not> token_valid E w"
    | (renewed) token w1 w2 t w3 where "refresh E cfg w1 = (Inr token, w2)" "trace w1 = trace w"
      "\<not> token_valid E w" "call_clock E (w2\<lparr>zoho_token := tok_AccessToken token\<rparr>) = (t, w3)" "r = Inr (tok_AccessToken token)"
      "w' = w3\<lparr>zoho_expiresAt := t + wrap64 (wrap64 (tok_ExpiresIn token * Second) - zohoTokenRefreshMargin)\<rparr>"
proof -
  define look where "look = (if zoho_token w \<noteq> [] then
      (let (t, w0) = call_clock E w in (t < zoho_expiresAt w0, w0)) else (False, w))"
  obtain valid w1 where look: "look = (valid, w1)" by fastforce
  have same: "trace w1 = trace w \<and> zoho_token w1 = zoho_token w"
    using look call_trace(6) call_zoho(2)
    by (fastforce simp: look_def split: if_splits prod.splits)
  have Token: "Token E cfg w = (if valid then (Inr (zoho_token w1), w1)
         else
           (case refresh E cfg w1 of
              (Inl err, w2) \<Rightarrow> (Inl err, w2)
            | (Inr token, w2) \<Rightarrow>
                (let (t, w3) = call_clock E (w2\<lparr>zoho_token := tok_AccessToken token\<rparr>);
                     w4 = w3\<lparr>zoho_expiresAt :=
                       t + wrap64 (wrap64 (tok_ExpiresIn token * Second) - zohoTokenRefreshMargin)\<rparr>
                 in (Inr (zoho_token w4), w4))))"
    using look by (simp add: Token_def look_def [symmetric])
  show ?thesis
  proof (cases valid)
    case True
    then obtain t where "zoho_token w \<noteq> []" "call_clock E w = (t, w1)" "t < zoho_expiresAt w1"
      using look by (auto simp: look_def split: if_splits prod.splits)
    moreover from this have "zoho_expiresAt w1 = zoho_expiresAt w" using call_zoho(2) by blast
    ultimately show ?thesis using cached Token True assms same by simp
  next
    case False
    have invalid: "\<not> token_valid E w"
      using look False call_zoho(2) by (fastforce simp: token_valid_def look_def split: if_splits prod.splits)
    obtain x w2 where ref: "refresh E cfg w1 = (x, w2)" by fastforce
    show ?thesis
    proof (cases x)
      case (Inl err)
      then show ?thesis using failed ref Token False assms same invalid by simp
    next
      case (Inr token)
      obtain t w3 where clk: "call_clock E (w2\<lparr>zoho_token := tok_AccessToken token\<rparr>) = (t, w3)" by fastforce
      then have "zoho_token w3 = tok_AccessToken token" using call_zoho(2) by fastforce
      then show ?thesis using renewed ref Token False assms same Inr clk invalid by (simp add: Let_def)
    qed
  qed
qed

lemma Token_appends: "Token E cfg w = (r, w') \<Longrightarrow> appends transport_event w w'"
proof (erule Token_cases)
  fix err w1
  assume "refresh E cfg w1 = (Inl err, w')" "trace w1 = trace w"
  then show ?thesis using refresh_appends by (fastforce simp: appends_def)
next
  fix token w1 w2 t w3 x
  assume "refresh E cfg w1 = (Inr token, w2)" "trace w1 = trace w" "w' = w3\<lparr>zoho_expiresAt := x\<rparr>"
    "call_clock E (w2\<lparr>zoho_token := tok_AccessToken token\<rparr>) = (t, w3)"
  then show ?thesis using refresh_appends call_trace(6) by (fastforce simp: appends_def)
qed (auto dest: call_trace(6) intro: appends_trace_eq)

lemma zoho_call_appends: "zoho_call E req out x w = (r, w') \<Longrightarrow> appends transport_event w w'"
proof -
  assume call: "zoho_call E req out x w = (r, w')"
  obtain y w1 where req: "doRequest E req out x w = (y, w1)" by fastforce
  then have "trace w' = trace w1"
    using call by (auto simp: zoho_call_def Let_def split: sum.splits goerr.splits if_splits)
  with doRequest_appends [OF req] show ?thesis by (simp add: appends_def)
qed

lemma uploadAttachment_appends: "uploadAttachment E cfg token a w = (r, w') \<Longrightarrow> appends transport_event w w'"
  by (auto simp: uploadAttachment_def split: sum.splits dest: zoho_call_appends)

lemma uploadAttachments_appends:
  "uploadAttachments E cfg token as w = (r, w') \<Longrightarrow> appends transport_event w w'"
proof (induction as arbitrary: w r)
  case (Cons a as)
  then show ?case
    by (auto split: prod.splits sum.splits dest: uploadAttachment_appends intro: appends_trans)
qed simp

interpretation zoho: sender_contract "zohoMailSender_Send E cfg" for E :: "'e env" and cfg
proof
  fix d err and w :: "'e world"
  assume "validateEmail d = Some err"
  then show "zohoMailSender_Send E cfg d w = (Some err, w)" by (simp add: zohoMailSender_Send_def)
next
  fix d r and w w' :: "'e world"
  assume "zohoMailSender_Send E cfg d w = (r, w')"
  then show "appends transport_event w w'"
    by (auto simp: zohoMailSender_Send_def split: option.splits sum.splits prod.splits
        dest!: Token_appends uploadAttachments_appends zoho_call_appends intro: appends_trans)
qed

section \<open>A rejected token is forgotten\<close>

text \<open>When the last call made was answered with 401 by the mail API, there is no token in the cache.\<close>

definition rejected_forgotten :: "ZohoMailConfig \<Rightarrow> 'e world \<Rightarrow> bool" where
  "rejected_forgotten cfg w \<longleftrightarrow>
     (\<forall>tr rq rs. trace w = tr @ [HttpCall rq (Inr rs)] \<and> rs_status rs = 401 \<and> rq_url rq \<noteq> refresh_url cfg
        \<longrightarrow> zoho_token w = [])"

lemma rejected_forgotten_step:
  assumes "rejected_forgotten cfg w" "trace w' = trace w" "zoho_token w' = zoho_token w"
  shows "rejected_forgotten cfg w'"
  using assms by (simp add: rejected_forgotten_def)

lemma rejected_forgotten_refresh:
  assumes "rejected_forgotten cfg w" "trace w1 = trace w" "zoho_token w1 = zoho_token w"
    and "refresh E cfg w1 = (r, w2)" "trace w' = trace w2" "r = Inl err \<and> w' = w2 \<or> (\<exists>token. r = Inr token)"
  shows "rejected_forgotten cfg w'"
proof (cases "trace w2 = trace w1")
  case True
  then show ?thesis
    using assms refresh_memory [OF assms(4)] refresh_token(2) [of E cfg w1 _ w2]
    by (auto simp: rejected_forgotten_def)
next
  case False
  then show ?thesis
    using refresh_trace [OF assms(4)] assms(5) by (auto simp: rejected_forgotten_def)
qed

lemma Token_rejected_forgotten:
  assumes "Token E cfg w = (r, w')" "rejected_forgotten cfg w"
  shows "rejected_forgotten cfg w'"
  using assms(1)
proof (cases rule: Token_cases)
  case (cached w0 t)
  then show ?thesis
    using assms(2) call_trace(6) call_zoho(2) rejected_forgotten_step by metis
next
  case (failed err w1)
  then show ?thesis using rejected_forgotten_refresh [OF assms(2)] by blast
next
  case (renewed token w1 w2 t w3)
  have "trace w' = trace w2" using call_trace(6) [OF renewed(4)] renewed(6) by simp
  then show ?thesis
    using renewed refresh_token(2) [OF renewed(1)] by (auto simp: rejected_forgotten_def)
qed

lemma zoho_call_rejected_forgotten:
  assumes "zoho_call E req out x w = (r, w')"
  shows "rejected_forgotten cfg w'"
proof -
  obtain answer w1 where call: "call_http E req w = (answer, w1)"
    and z: "zoho_call E req out x w =
      (case read_response E out x answer of
         Inr y \<Rightarrow> (Inr y, w1)
       | Inl err \<Rightarrow> (Inl (describeAPIError ''zoho mail'' err (classifyZohoMailError (lib_type_error E))),
           (case err of HttpStatus status _ \<Rightarrow> if status = 401 then Invalidate w1 else w1 | _ \<Rightarrow> w1)))"
    by (cases "call_http E req w")
      (auto simp: zoho_call_def doRequest_def Let_def split: sum.split goerr.split)
  have tr: "trace w1 = trace w @ [HttpCall req answer]" using call_trace(1) [OF call] .
  show ?thesis
  proof (cases answer)
    case (Inl err)
    then have "trace w' = trace w @ [HttpCall req answer]"
      using assms z tr by (auto split: sum.splits goerr.splits if_splits)
    then show ?thesis using Inl by (simp add: rejected_forgotten_def)
  next
    case (Inr rs)
    show ?thesis
    proof (cases "rs_status rs = 401")
      case True
      then have "w' = Invalidate w1" using assms z Inr by (simp add: read_response_status)
      then show ?thesis by (simp add: rejected_forgotten_def Invalidate_def)
    next
      case False
      have "trace w' = trace w1" using assms z by (auto split: sum.splits goerr.splits if_splits)
      then show ?thesis using False Inr tr by (simp add: rejected_forgotten_def)
    qed
  qed
qed

lemma uploadAttachments_rejected_forgotten:
  "uploadAttachments E cfg token as w = (r, w') \<Longrightarrow> rejected_forgotten cfg w \<Longrightarrow> rejected_forgotten cfg w'"
proof (induction as arbitrary: w r)
  case (Cons a as)
  have "rejected_forgotten cfg w1" if "uploadAttachment E cfg token a w = (y, w1)" for y w1
    using that Cons.prems(2)
    by (auto simp: uploadAttachment_def split: sum.splits dest: zoho_call_rejected_forgotten)
  then show ?case using Cons by (auto split: prod.splits sum.splits)
qed simp

section \<open>Properties\<close>

text \<open>A token is used as long as it is valid, and no longer: a request for a token returns the cached
  one without any call exactly when the clock is before its expiry, one minute before the end of the
  lifetime the server named. Otherwise the refresh token is exchanged in one call, and a new token is
  cached with the new expiry. A token that is handed out is never empty.\<close>

lemma Token_cached_or_renewed:
  assumes "Token E cfg w = (Inr token, w')"
  shows "token \<noteq> [] \<and> zoho_token w' = token
     \<and> (if token_valid E w then trace w' = trace w \<and> token = zoho_token w
        else \<exists>req answer resp t. trace w' = trace w @ [HttpCall req answer] \<and> rq_url req = refresh_url cfg
             \<and> read_response E (Some (decode_struct token_fields)) zero_token answer = Inr resp
             \<and> token = tok_AccessToken resp
             \<and> zoho_expiresAt w' = t + wrap64 (wrap64 (tok_ExpiresIn resp * Second) - Minute))"
  using assms
proof (cases rule: Token_cases)
  case (cached w0 t)
  then show ?thesis
    using call_trace(6) [OF cached(2)] call_zoho(2) [OF cached(2)] by (simp add: token_valid_def)
next
  case (renewed tok w1 w2 t w3)
  have "trace w' = trace w2" "zoho_token w' = tok_AccessToken tok"
    using call_trace(6) [OF renewed(4)] call_zoho(2) [OF renewed(4)] renewed(6) by simp_all
  then show ?thesis
    using renewed refresh_token [OF renewed(1)]
    by (simp add: zohoTokenRefreshMargin_def) blast
qed simp

text \<open>C33: A rejected token is forgotten: whenever the last call was answered with 401 by the mail API
  (for an attachment or for the message), the cached token is dropped, so the next email starts with a
  refresh. Sending an email keeps this invariant on every path.\<close>

theorem rejected_token_forgotten:
  assumes "rejected_forgotten cfg w" "zohoMailSender_Send E cfg d w = (r, w')"
  shows "rejected_forgotten cfg w'"
proof -
  have "rejected_forgotten cfg w1" if "Token E cfg w = (y, w1)" for y w1
    using Token_rejected_forgotten that assms(1) by blast
  then show ?thesis
    using assms
    by (auto simp: zohoMailSender_Send_def split: option.splits sum.splits prod.splits
        dest: uploadAttachments_rejected_forgotten zoho_call_rejected_forgotten)
qed

section \<open>Witnesses\<close>

definition some_zoho :: ZohoMailConfig where
  "some_zoho = \<lparr>zoho_AccountID = ''1'', zoho_ClientID = ''c'', zoho_ClientSecret = ''s'', zoho_RefreshToken = ''r'',
     zoho_APIURL = ''https://m'', zoho_AccountsURL = ''https://a''\<rparr>"

definition token_world :: "unit world" where
  "token_world = some_world\<lparr>zoho_token := ''t0'', zoho_expiresAt := 10\<rparr>"

lemma Token_token_world: "Token (answering st body) some_zoho token_world = (Inr ''t0'', token_world)"
  by (simp add: Token_def token_world_def call_clock_def answering_def quiet_env_def some_world_def)

lemma Token_cached_or_renewed_example: "zoho_token token_world = ''t0''"
  using Token_cached_or_renewed [OF Token_token_world] by blast

theorem rejected_token_forgotten_witness:
  "rejected_forgotten some_zoho (snd (zohoMailSender_Send (answering 401 []) some_zoho some_decoded_email token_world))"
proof -
  have "rejected_forgotten some_zoho token_world"
    by (simp add: rejected_forgotten_def token_world_def some_world_def)
  from rejected_token_forgotten [OF this prod.collapse [symmetric]] show ?thesis .
qed

end
