(* ===== verification/Smtp.thy ===== *)
theory Smtp
  imports Content Config
begin

text \<open>
  The SMTP sender: \<open>smtp_sender.go\<close> (one session per email over implicit TLS, its deferred \<open>Quit\<close> and
  \<open>Close\<close> run on every path) and \<open>smtp_message.go\<close> (the MIME message) of
  \<open>internal/infrastructure/mailer\<close>. The session itself is \<open>net/smtp\<close> over the network, so each of its
  commands is a call of the environment.
\<close>

section \<open>The message\<close>

definition base64LineLength :: nat where "base64LineLength = 76"

definition CRLF :: string where "CRLF = [CHR 0x0D, CHR 0x0A]"

text \<open>The loop of \<open>writeBase64Lines\<close>, from a position on: what is still to be written.\<close>

function base64_lines :: "string \<Rightarrow> string" where
  "base64_lines encoded =
     (if encoded = [] then []
      else take base64LineLength encoded @ CRLF @ base64_lines (drop base64LineLength encoded))"
  by pat_completeness auto
termination by (relation "measure length") (auto simp: base64LineLength_def)

declare base64_lines.simps [simp del]

definition writeBase64Lines :: "string \<Rightarrow> string" where
  "writeBase64Lines content = base64_lines (EncodeToString content) @ CRLF"

definition attachment_part :: "string \<Rightarrow> attachmentContent \<Rightarrow> string" where
  "attachment_part boundary a =
     ''--'' @ boundary @ CRLF
     @ ''Content-Type: '' @ content_Type a @ CRLF
     @ ''Content-Transfer-Encoding: base64'' @ CRLF
     @ ''Content-Disposition: attachment; filename='' @ [CHR 0x22] @ content_Name a @ [CHR 0x22] @ CRLF @ CRLF
     @ writeBase64Lines (content_Content a)"

definition buildMessage :: "'a golib_scheme \<Rightarrow> SendEmailData \<Rightarrow> string" where
  "buildMessage lib d =
     (let head =
            ''From: '' @ senderAddress lib d @ CRLF
            @ ''To: '' @ Recipients_String (email_Receiver d) @ CRLF
            @ (if email_Cc d = [] then [] else ''Cc: '' @ Recipients_String (email_Cc d) @ CRLF)
            @ ''Subject: '' @ lib_q_encoding lib (email_Subject d) @ CRLF
            @ ''MIME-Version: 1.0'' @ CRLF;
          attachments = decodeAttachments d
      in if attachments = [] then
           head @ ''Content-Type: text/html; charset=UTF-8'' @ CRLF @ CRLF @ email_Body d
         else
           (let boundary = ''boundary_'' @ Itoa (int (length (email_Body d) + length attachments))
            in head
               @ ''Content-Type: multipart/mixed; boundary='' @ [CHR 0x22] @ boundary @ [CHR 0x22] @ CRLF @ CRLF
               @ ''--'' @ boundary @ CRLF
               @ ''Content-Type: text/html; charset=UTF-8'' @ CRLF
               @ ''Content-Transfer-Encoding: base64'' @ CRLF @ CRLF
               @ writeBase64Lines (email_Body d)
               @ concat (map (attachment_part boundary) attachments)
               @ ''--'' @ boundary @ ''--'' @ CRLF))"

section \<open>The session\<close>

definition smtpCode :: "ErrorCode \<Rightarrow> goerr \<Rightarrow> ErrorCode" where
  "smtpCode stepCode err =
     (case as_textproto err of
        Some code \<Rightarrow> if 400 \<le> code \<and> code < 500 then CodeSMTPTemporaryFailure else stepCode
      | None \<Rightarrow> stepCode)"

text \<open>\<open>writeData\<close>: when writing fails the data connection is closed, whatever that returns.\<close>

definition writeData :: "'e env \<Rightarrow> string \<Rightarrow> 'e world \<Rightarrow> goerr option \<times> 'e world" where
  "writeData E message w =
     (case call_smtp E SmtpData w of
        (Some err, w1) \<Rightarrow>
          (Some (Errorf_w (smtpCode CodeSMTPMessageRejected err) ''failed to initialize data transfer: '' err), w1)
      | (None, w1) \<Rightarrow>
          (case call_smtp E (SmtpWrite message) w1 of
             (Some err, w2) \<Rightarrow>
               (Some (Errorf_w (smtpCode CodeSMTPMessageRejected err) ''failed to write message: '' err),
                snd (call_smtp E SmtpCloseData w2))
           | (None, w2) \<Rightarrow>
               (case call_smtp E SmtpCloseData w2 of
                  (Some err, w3) \<Rightarrow>
                    (Some (Errorf_w (smtpCode CodeSMTPMessageRejected err)
                       ''SMTP server rejected the message: '' err), w3)
                | (None, w3) \<Rightarrow> (None, w3))))"

fun rcpt_all :: "'e env \<Rightarrow> string list \<Rightarrow> 'e world \<Rightarrow> goerr option \<times> 'e world" where
  "rcpt_all E [] w = (None, w)"
| "rcpt_all E (r # rs) w =
     (case call_smtp E (SmtpRcpt r) w of
        (Some err, w1) \<Rightarrow>
          (Some (Errorf_w (smtpCode CodeSMTPReceiverRejected err)
             (''failed to set recipient '' @ r @ '': '') err), w1)
      | (None, w1) \<Rightarrow> rcpt_all E rs w1)"

text \<open>What happens between the greeting and \<open>Quit\<close>.\<close>

definition smtp_session :: "'e env \<Rightarrow> SMTPConfig \<Rightarrow> SendEmailData \<Rightarrow> 'e world \<Rightarrow> goerr option \<times> 'e world" where
  "smtp_session E cfg d w =
     (case call_smtp E (SmtpAuth (smtp_Username cfg) (smtp_Password cfg) (smtp_Host cfg)) w of
        (Some err, w1) \<Rightarrow>
          (Some (Errorf_w (smtpCode CodeSMTPAuthorizationDenied err) ''SMTP authentication failed: '' err), w1)
      | (None, w1) \<Rightarrow>
          (case call_smtp E (SmtpMail (email_From d)) w1 of
             (Some err, w2) \<Rightarrow>
               (Some (Errorf_w (smtpCode CodeSMTPSenderRejected err) ''failed to set sender: '' err), w2)
           | (None, w2) \<Rightarrow>
               (case rcpt_all E (allRecipients d) w2 of
                  (Some err, w3) \<Rightarrow> (Some err, w3)
                | (None, w3) \<Rightarrow> writeData E (buildMessage E d) w3)))"

text \<open>The deferred calls run last in, first out: \<open>Quit\<close> before the connection is closed.\<close>

definition smtpSender_Send :: "'e env \<Rightarrow> SMTPConfig \<Rightarrow> SendEmailData \<Rightarrow> 'e world \<Rightarrow> goerr option \<times> 'e world" where
  "smtpSender_Send E cfg d w =
     (case validateEmail d of
        Some err \<Rightarrow> (Some err, w)
      | None \<Rightarrow>
          (case call_smtp E (SmtpDial (smtp_Host cfg) (smtp_Port cfg)) w of
             (Some err, w1) \<Rightarrow>
               (Some (Errorf_w CodeSMTPConnectionFailed ''failed to establish TLS connection: '' err), w1)
           | (None, w1) \<Rightarrow>
               (case call_smtp E (SmtpNewClient (smtp_Host cfg)) w1 of
                  (Some err, w2) \<Rightarrow>
                    (Some (Errorf_w CodeSMTPConnectionFailed ''failed to create SMTP client: '' err),
                     snd (call_smtp E SmtpCloseConn w2))
                | (None, w2) \<Rightarrow>
                    (let (r, w3) = smtp_session E cfg d w2;
                         w4 = snd (call_smtp E SmtpQuit w3);
                         w5 = snd (call_smtp E SmtpCloseConn w4)
                     in (r, w5)))))"

section \<open>The lines of the encoded text\<close>

text \<open>Every line has at most 76 characters, and the text is read back by any decoder that skips line
  breaks, the program's own included.\<close>

lemma without_breaks_CRLF [simp]: "without_breaks (CRLF @ s) = without_breaks s" "without_breaks CRLF = []"
  by (simp_all add: CRLF_def line_break_def)

lemma base64_lines_breaks: "without_breaks (base64_lines s) = without_breaks s"
proof (induction s rule: base64_lines.induct)
  case (1 encoded)
  then show ?case
    by (subst base64_lines.simps)
      (auto simp flip: filter_append simp: filter_append [of _ "take base64LineLength encoded"])
qed

lemma base64_lines_split:
  "without_breaks s = s \<Longrightarrow>
   \<exists>ls. base64_lines s = concat (map (\<lambda>l. l @ CRLF) ls) \<and> concat ls = s
     \<and> (\<forall>l \<in> set ls. length l \<le> base64LineLength \<and> without_breaks l = l)"
proof (induction s rule: base64_lines.induct)
  case (1 encoded)
  show ?case
  proof (cases "encoded = []")
    case True
    then show ?thesis by (intro exI [of _ "[]"]) (simp add: base64_lines.simps)
  next
    case False
    have all: "\<forall>c \<in> set encoded. \<not> line_break c" using 1(2) by (simp add: filter_id_conv)
    then have "without_breaks (drop base64LineLength encoded) = drop base64LineLength encoded"
      by (auto simp: filter_id_conv dest: in_set_dropD)
    then obtain ls where ls: "base64_lines (drop base64LineLength encoded) = concat (map (\<lambda>l. l @ CRLF) ls)"
      "concat ls = drop base64LineLength encoded"
      "\<forall>l \<in> set ls. length l \<le> base64LineLength \<and> without_breaks l = l"
      using 1(1) [OF False] by blast
    have "without_breaks (take base64LineLength encoded) = take base64LineLength encoded"
      using all by (auto simp: filter_id_conv dest: in_set_takeD)
    then show ?thesis
      using ls False
      by (intro exI [of _ "take base64LineLength encoded # ls"])
        (subst base64_lines.simps, auto simp: base64LineLength_def)
  qed
qed

lemma writeBase64Lines_chars: "CHR ''-'' \<notin> set (writeBase64Lines content)" "CHR ''_'' \<notin> set (writeBase64Lines content)"
proof -
  have enc: "c \<noteq> CHR ''-'' \<and> c \<noteq> CHR ''_''" if "c \<in> set (EncodeToString content)" for c
    using Encode_chars [OF that] by (auto simp: sextet_def)
  obtain ls where ls: "base64_lines (EncodeToString content) = concat (map (\<lambda>l. l @ CRLF) ls)"
    "concat ls = EncodeToString content"
    using base64_lines_split [OF Encode_no_line_break] by blast
  have "set (writeBase64Lines content) \<subseteq> set (EncodeToString content) \<union> set CRLF"
  proof -
    have "set (concat (map (\<lambda>l. l @ CRLF) ls)) \<subseteq> set (concat ls) \<union> set CRLF" by auto
    then show ?thesis unfolding writeBase64Lines_def ls(1) ls(2) by simp
  qed
  then show "CHR ''-'' \<notin> set (writeBase64Lines content)" "CHR ''_'' \<notin> set (writeBase64Lines content)"
    using enc by (auto simp: CRLF_def)
qed

lemma writeBase64Lines_decode: "accepted (DecodeString (writeBase64Lines content)) = Some content"
proof -
  have "without_breaks (writeBase64Lines content) = without_breaks (EncodeToString content)"
    by (simp add: writeBase64Lines_def base64_lines_breaks)
  then show ?thesis using Decode_line_breaks by fastforce
qed

section \<open>The transcript of a session\<close>

abbreviation ok :: "smtp_command \<Rightarrow> event" where
  "ok c \<equiv> SmtpCall c None"

text \<open>Commands that were tried, whatever came back.\<close>

definition tried :: "event list \<Rightarrow> smtp_command list \<Rightarrow> bool" where
  "tried evs cs \<longleftrightarrow> list_all2 (\<lambda>ev c. \<exists>r. ev = SmtpCall c r) evs cs"

text \<open>The code of a failing command, and what is still tried after it: a 4xx reply is temporary, whatever
  the step.\<close>

definition temporary_reply :: "goerr \<Rightarrow> bool" where
  "temporary_reply e \<longleftrightarrow> (\<exists>n. as_textproto e = Some n \<and> n div 100 = 4)"

fun step_code :: "smtp_command \<Rightarrow> ErrorCode" where
  "step_code (SmtpAuth u p h) = CodeSMTPAuthorizationDenied"
| "step_code (SmtpMail a) = CodeSMTPSenderRejected"
| "step_code (SmtpRcpt a) = CodeSMTPReceiverRejected"
| "step_code _ = CodeSMTPMessageRejected"

fun failure_code :: "smtp_command \<Rightarrow> goerr \<Rightarrow> ErrorCode" where
  "failure_code (SmtpDial h p) e = CodeSMTPConnectionFailed"
| "failure_code (SmtpNewClient h) e = CodeSMTPConnectionFailed"
| "failure_code c e = (if temporary_reply e then CodeSMTPTemporaryFailure else step_code c)"

lemma smtpCode_temporary [simp]: "smtpCode c e = (if temporary_reply e then CodeSMTPTemporaryFailure else c)"
  by (auto simp: smtpCode_def temporary_reply_def split: option.split)

fun cleanup :: "smtp_command \<Rightarrow> smtp_command list" where
  "cleanup (SmtpDial h p) = []"
| "cleanup (SmtpNewClient h) = [SmtpCloseConn]"
| "cleanup (SmtpWrite m) = [SmtpCloseData, SmtpQuit, SmtpCloseConn]"
| "cleanup _ = [SmtpQuit, SmtpCloseConn]"

text \<open>A run of commands that stopped at the first failure.\<close>

definition stopped_at :: "event list \<Rightarrow> smtp_command \<Rightarrow> goerr \<Rightarrow> event list \<Rightarrow> bool" where
  "stopped_at evs c e rest \<longleftrightarrow> (\<exists>pre. evs = map ok pre @ SmtpCall c (Some e) # rest)"

lemma rcpt_all_accepted:
  "rcpt_all E rs w = (None, w') \<Longrightarrow> trace w' = trace w @ map ok (map SmtpRcpt rs)"
  by (induction rs arbitrary: w) (auto split: prod.splits option.splits dest!: call_trace(2))

lemma rcpt_all_failed:
  "rcpt_all E rs w = (Some err, w') \<Longrightarrow>
   \<exists>evs r e. trace w' = trace w @ evs \<and> stopped_at evs (SmtpRcpt r) e [] \<and> CodeOf err = failure_code (SmtpRcpt r) e"
proof (induction rs arbitrary: w)
  case (Cons r rs)
  obtain x w1 where x: "call_smtp E (SmtpRcpt r) w = (x, w1)" by fastforce
  show ?case
  proof (cases x)
    case (Some e)
    then have "trace w' = trace w @ [SmtpCall (SmtpRcpt r) (Some e)]"
      "CodeOf err = failure_code (SmtpRcpt r) e"
      using x Cons.prems call_trace(2) [OF x] by auto
    moreover have "stopped_at [SmtpCall (SmtpRcpt r) (Some e)] (SmtpRcpt r) e []"
      unfolding stopped_at_def by (intro exI [of _ "[]"]) simp
    ultimately show ?thesis by blast
  next
    case None
    then have "rcpt_all E rs w1 = (Some err, w')" using Cons.prems x by simp
    from Cons.IH [OF this] obtain evs r' e where ih: "trace w' = trace w1 @ evs"
      "stopped_at evs (SmtpRcpt r') e []" "CodeOf err = failure_code (SmtpRcpt r') e"
      by blast
    from ih(2) obtain pre where "evs = map ok pre @ [SmtpCall (SmtpRcpt r') (Some e)]"
      by (auto simp: stopped_at_def)
    then have "stopped_at (ok (SmtpRcpt r) # evs) (SmtpRcpt r') e []"
      unfolding stopped_at_def by (intro exI [of _ "SmtpRcpt r # pre"]) simp
    moreover have "trace w' = trace w @ ok (SmtpRcpt r) # evs"
      using ih(1) None call_trace(2) [OF x] by simp
    ultimately show ?thesis using ih(3) by blast
  qed
qed simp

lemma stopped_atI: "evs = map ok pre @ SmtpCall c (Some e) # rest \<Longrightarrow> stopped_at evs c e rest"
  by (auto simp: stopped_at_def)

lemma stopped_at_after: "stopped_at evs c e rest \<Longrightarrow> stopped_at (map ok pre @ evs) c e rest"
  unfolding stopped_at_def by (metis append.assoc map_append)

lemma stopped_at_then: "stopped_at evs c e rest \<Longrightarrow> stopped_at (evs @ xs) c e (rest @ xs)"
  unfolding stopped_at_def by auto

lemma tried_append: "tried xs cs \<Longrightarrow> tried ys ds \<Longrightarrow> tried (xs @ ys) (cs @ ds)"
  by (auto simp: tried_def intro: list_all2_appendI)

lemma tried_call: "call_smtp E c w = (r, w') \<Longrightarrow> \<exists>evs. trace w' = trace w @ evs \<and> tried evs [c]"
  using call_trace(2) by (fastforce simp: tried_def)

lemma writeData_accepted:
  "writeData E m w = (None, w') \<Longrightarrow> trace w' = trace w @ map ok [SmtpData, SmtpWrite m, SmtpCloseData]"
  by (auto simp: writeData_def split: prod.splits option.splits dest!: call_trace(2))

text \<open>After a failing command of the session, \<open>Quit\<close> and the closing of the connection follow; after a
  failing write the data connection is closed first.\<close>

definition session_failed :: "goerr \<Rightarrow> event list \<Rightarrow> bool" where
  "session_failed err evs \<longleftrightarrow>
     (\<exists>c e rest cs. stopped_at evs c e rest \<and> tried rest cs \<and> cleanup c = cs @ [SmtpQuit, SmtpCloseConn]
        \<and> CodeOf err = failure_code c e)"

lemma session_failedI:
  "stopped_at evs c e rest \<Longrightarrow> tried rest cs \<Longrightarrow> cleanup c = cs @ [SmtpQuit, SmtpCloseConn] \<Longrightarrow>
   CodeOf err = failure_code c e \<Longrightarrow> session_failed err evs"
  by (auto simp: session_failed_def)

lemma session_failed_step:
  assumes "trace w' = trace w @ [SmtpCall c (Some e)]" "cleanup c = [SmtpQuit, SmtpCloseConn]"
    and "CodeOf err = failure_code c e"
  shows "\<exists>evs. trace w' = trace w @ evs \<and> session_failed err evs"
  using assms
  by (intro exI [of _ "[SmtpCall c (Some e)]"] conjI session_failedI [of _ c e "[]" "[]"] stopped_atI [of _ "[]"])
    (simp_all add: tried_def)

lemma session_failed_after:
  assumes "trace w1 = trace w @ map ok pre" "\<exists>evs. trace w' = trace w1 @ evs \<and> session_failed err evs"
  shows "\<exists>evs. trace w' = trace w @ evs \<and> session_failed err evs"
proof -
  obtain evs where evs: "trace w' = trace w1 @ evs" "session_failed err evs" using assms(2) by blast
  then have "session_failed err (map ok pre @ evs)"
    unfolding session_failed_def using stopped_at_after by blast
  then show ?thesis using assms(1) evs(1) by auto
qed

lemma writeData_failed:
  assumes "writeData E m w = (Some err, w')"
  shows "\<exists>evs. trace w' = trace w @ evs \<and> session_failed err evs"
proof -
  obtain x w1 where x: "call_smtp E SmtpData w = (x, w1)" by fastforce
  show ?thesis
  proof (cases x)
    case (Some e)
    then show ?thesis
      using assms x call_trace(2) [OF x] by (intro session_failed_step [of _ _ SmtpData e]) (auto simp: writeData_def)
  next
    case None
    obtain y w2 where y: "call_smtp E (SmtpWrite m) w1 = (y, w2)" by fastforce
    obtain z w3 where z: "call_smtp E SmtpCloseData w2 = (z, w3)" by fastforce
    have "\<exists>evs. trace w' = trace w1 @ evs \<and> session_failed err evs"
    proof (cases y)
      case (Some e)
      then have "w' = w3" "CodeOf err = failure_code (SmtpWrite m) e"
        using assms x None y z by (auto simp: writeData_def)
      moreover have "trace w3 = trace w1 @ [SmtpCall (SmtpWrite m) (Some e), SmtpCall SmtpCloseData z]"
        using call_trace(2) [OF y] call_trace(2) [OF z] Some by simp
      moreover have "session_failed err [SmtpCall (SmtpWrite m) (Some e), SmtpCall SmtpCloseData z]"
        using calculation
        by (intro session_failedI [of _ "SmtpWrite m" e "[SmtpCall SmtpCloseData z]" "[SmtpCloseData]"]
            stopped_atI [of _ "[]"]) (simp_all add: tried_def)
      ultimately show ?thesis by blast
    next
      case None': None
      then have z': "z \<noteq> None" "w' = w3" "\<And>e. z = Some e \<Longrightarrow> CodeOf err = failure_code SmtpCloseData e"
        using assms x None y z by (auto simp: writeData_def split: option.splits)
      then obtain e where "z = Some e" by blast
      then have "\<exists>evs. trace w' = trace w2 @ evs \<and> session_failed err evs"
        using z' call_trace(2) [OF z] by (intro session_failed_step [of _ _ SmtpCloseData e]) auto
      moreover have "trace w2 = trace w1 @ map ok [SmtpWrite m]" using call_trace(2) [OF y] None' by simp
      ultimately show ?thesis by (rule session_failed_after [rotated])
    qed
    moreover have "trace w1 = trace w @ map ok [SmtpData]" using call_trace(2) [OF x] None by simp
    ultimately show ?thesis by (rule session_failed_after [rotated])
  qed
qed

lemma smtp_session_accepted:
  "smtp_session E cfg d w = (None, w') \<Longrightarrow>
   trace w' = trace w @ map ok ([SmtpAuth (smtp_Username cfg) (smtp_Password cfg) (smtp_Host cfg), SmtpMail (email_From d)]
     @ map SmtpRcpt (allRecipients d) @ [SmtpData, SmtpWrite (buildMessage E d), SmtpCloseData])"
  by (auto simp: smtp_session_def split: prod.splits option.splits
      dest!: call_trace(2) rcpt_all_accepted writeData_accepted)

lemma smtp_session_failed:
  assumes "smtp_session E cfg d w = (Some err, w')"
  shows "\<exists>evs. trace w' = trace w @ evs \<and> session_failed err evs"
proof -
  let ?auth = "SmtpAuth (smtp_Username cfg) (smtp_Password cfg) (smtp_Host cfg)"
  obtain x w1 where x: "call_smtp E ?auth w = (x, w1)" by fastforce
  show ?thesis
  proof (cases x)
    case (Some e)
    then show ?thesis
      using assms x call_trace(2) [OF x] by (intro session_failed_step [of _ _ ?auth e]) (auto simp: smtp_session_def)
  next
    case None
    obtain y w2 where y: "call_smtp E (SmtpMail (email_From d)) w1 = (y, w2)" by fastforce
    have "\<exists>evs. trace w' = trace w1 @ evs \<and> session_failed err evs"
    proof (cases y)
      case (Some e)
      then show ?thesis
        using assms x None y call_trace(2) [OF y]
        by (intro session_failed_step [of _ _ "SmtpMail (email_From d)" e]) (auto simp: smtp_session_def)
    next
      case None': None
      obtain z w3 where z: "rcpt_all E (allRecipients d) w2 = (z, w3)" by fastforce
      have "\<exists>evs. trace w' = trace w2 @ evs \<and> session_failed err evs"
      proof (cases z)
        case (Some err')
        then have "w' = w3" "err' = err" using assms x None y None' z by (auto simp: smtp_session_def)
        then obtain evs r e where "trace w' = trace w2 @ evs" "stopped_at evs (SmtpRcpt r) e []"
          "CodeOf err = failure_code (SmtpRcpt r) e"
          using rcpt_all_failed z Some by blast
        moreover from this have "session_failed err evs"
          by (intro session_failedI [of _ "SmtpRcpt r" e "[]" "[]"]) (simp_all add: tried_def)
        ultimately show ?thesis by blast
      next
        case None'': None
        then have "writeData E (buildMessage E d) w3 = (Some err, w')"
          using assms x None y None' z by (simp add: smtp_session_def)
        from writeData_failed [OF this] show ?thesis
          using rcpt_all_accepted z None'' session_failed_after by blast
      qed
      moreover have "trace w2 = trace w1 @ map ok [SmtpMail (email_From d)]"
        using call_trace(2) [OF y] None' by simp
      ultimately show ?thesis by (rule session_failed_after [rotated])
    qed
    moreover have "trace w1 = trace w @ map ok [?auth]" using call_trace(2) [OF x] None by simp
    ultimately show ?thesis by (rule session_failed_after [rotated])
  qed
qed

section \<open>The sender as a whole\<close>

lemma call_smtp_appends: "call_smtp E c w = (r, w') \<Longrightarrow> appends transport_event w w'"
  by (rule appends_one [OF call_trace(2)]) simp_all

lemma tried_transport: "tried evs cs \<Longrightarrow> list_all transport_event evs"
  unfolding tried_def by (induction evs cs rule: list_all2_induct) auto

lemma stopped_at_transport: "stopped_at evs c e rest \<Longrightarrow> tried rest cs \<Longrightarrow> list_all transport_event evs"
  by (auto simp: stopped_at_def tried_transport list_all_iff [of _ "map _ _"])

lemma smtp_session_appends:
  assumes "smtp_session E cfg d w = (r, w')"
  shows "appends transport_event w w'"
proof (cases r)
  case None
  with assms smtp_session_accepted show ?thesis by (fastforce simp: appends_def list_all_iff)
next
  case (Some err)
  with assms smtp_session_failed obtain evs where "trace w' = trace w @ evs" "session_failed err evs" by blast
  then show ?thesis using stopped_at_transport by (auto simp: appends_def session_failed_def)
qed

text \<open>The end of a session that was opened.\<close>

lemma closing_calls:
  obtains q c where
    "trace (snd (call_smtp E SmtpCloseConn (snd (call_smtp E SmtpQuit w)))) =
       trace w @ [SmtpCall SmtpQuit q, SmtpCall SmtpCloseConn c]"
proof -
  obtain q w1 where q: "call_smtp E SmtpQuit w = (q, w1)" by fastforce
  obtain c w2 where c: "call_smtp E SmtpCloseConn w1 = (c, w2)" by fastforce
  show ?thesis using that q c call_trace(2) [OF q] call_trace(2) [OF c] by simp
qed

lemma smtp_Send_cases:
  assumes "smtpSender_Send E cfg d w = (r, w')"
  obtains (incomplete) err where "validateEmail d = Some err" "r = Some err" "w' = w"
    | (dial) err e where "r = Some err" "CodeOf err = CodeSMTPConnectionFailed"
        "trace w' = trace w @ [SmtpCall (SmtpDial (smtp_Host cfg) (smtp_Port cfg)) (Some e)]"
    | (greeting) err e c where "r = Some err" "CodeOf err = CodeSMTPConnectionFailed"
        "trace w' = trace w @ [ok (SmtpDial (smtp_Host cfg) (smtp_Port cfg)),
           SmtpCall (SmtpNewClient (smtp_Host cfg)) (Some e), SmtpCall SmtpCloseConn c]"
    | (session) w2 w3 q c where "validateEmail d = None" "smtp_session E cfg d w2 = (r, w3)"
        "trace w2 = trace w @ [ok (SmtpDial (smtp_Host cfg) (smtp_Port cfg)), ok (SmtpNewClient (smtp_Host cfg))]"
        "trace w' = trace w3 @ [SmtpCall SmtpQuit q, SmtpCall SmtpCloseConn c]"
proof (cases "validateEmail d")
  case (Some err)
  then show ?thesis using incomplete assms by (simp add: smtpSender_Send_def)
next
  case valid: None
  obtain x w1 where x: "call_smtp E (SmtpDial (smtp_Host cfg) (smtp_Port cfg)) w = (x, w1)" by fastforce
  show ?thesis
  proof (cases x)
    case (Some e)
    then show ?thesis using dial assms x call_trace(2) [OF x] valid by (auto simp: smtpSender_Send_def)
  next
    case None
    obtain y w2 where y: "call_smtp E (SmtpNewClient (smtp_Host cfg)) w1 = (y, w2)" by fastforce
    show ?thesis
    proof (cases y)
      case (Some e)
      obtain c w3 where "call_smtp E SmtpCloseConn w2 = (c, w3)" by fastforce
      then show ?thesis
        using greeting assms x y None Some valid call_trace(2) [OF x] call_trace(2) [OF y] call_trace(2)
        by (fastforce simp: smtpSender_Send_def)
    next
      case None': None
      obtain r' w3 where s: "smtp_session E cfg d w2 = (r', w3)" by fastforce
      obtain q c where end_trace: "trace (snd (call_smtp E SmtpCloseConn (snd (call_smtp E SmtpQuit w3)))) =
          trace w3 @ [SmtpCall SmtpQuit q, SmtpCall SmtpCloseConn c]"
        using closing_calls by blast
      have "r' = r" "w' = snd (call_smtp E SmtpCloseConn (snd (call_smtp E SmtpQuit w3)))"
        using assms x y None None' valid s by (simp_all add: smtpSender_Send_def Let_def)
      then show ?thesis
        using session [OF valid, of w2 w3 q c] s end_trace call_trace(2) [OF x] call_trace(2) [OF y] None None'
        by simp
    qed
  qed
qed

interpretation smtp: sender_contract "smtpSender_Send E cfg" for E :: "'e env" and cfg
proof
  fix d err and w :: "'e world"
  assume "validateEmail d = Some err"
  then show "smtpSender_Send E cfg d w = (Some err, w)" by (simp add: smtpSender_Send_def)
next
  fix d r and w w' :: "'e world"
  assume "smtpSender_Send E cfg d w = (r, w')"
  then show "appends transport_event w w'"
  proof (cases rule: smtp_Send_cases)
    case (session w2 w3 q c)
    obtain evs where "trace w3 = trace w2 @ evs" "list_all transport_event evs"
      using smtp_session_appends [OF session(2)] by (auto simp: appends_def)
    then show ?thesis using session(3,4) by (simp add: appends_def)
  qed (auto simp: appends_def)
qed

section \<open>Properties\<close>

text \<open>C30: The SMTP sender reports success only for an email the server took over completely: in one
  session, it was greeted and authenticated, the server accepted the sender and every recipient
  (receiver, cc and bcc, in this order), the message built from the email was written, and the final
  reply to the data was positive. The session is then ended and its connection closed.\<close>

theorem smtp_accepted_session:
  assumes "smtpSender_Send E cfg d w = (None, w')"
  shows "validateEmail d = None
    \<and> (\<exists>q c. trace w' = trace w
        @ map ok ([SmtpDial (smtp_Host cfg) (smtp_Port cfg), SmtpNewClient (smtp_Host cfg),
             SmtpAuth (smtp_Username cfg) (smtp_Password cfg) (smtp_Host cfg), SmtpMail (email_From d)]
           @ map SmtpRcpt (email_Receiver d @ email_Cc d @ email_Bcc d)
           @ [SmtpData, SmtpWrite (buildMessage E d), SmtpCloseData])
        @ [SmtpCall SmtpQuit q, SmtpCall SmtpCloseConn c])"
  using assms
proof (cases rule: smtp_Send_cases)
  case (session w2 w3 q c)
  then show ?thesis using smtp_session_accepted [OF session(2)] by (auto simp: allRecipients_def)
qed simp_all

lemma failed_session_code:
  assumes "smtpSender_Send E cfg d w = (Some err, w')" "validateEmail d = None"
  shows "\<exists>evs c e rest. trace w' = trace w @ evs \<and> stopped_at evs c e rest \<and> tried rest (cleanup c)
    \<and> CodeOf err = failure_code c e"
  using assms(1)
proof (cases rule: smtp_Send_cases)
  case (dial err' e)
  then show ?thesis
    by (intro exI [of _ "[SmtpCall (SmtpDial (smtp_Host cfg) (smtp_Port cfg)) (Some e)]"]
        exI [of _ "SmtpDial (smtp_Host cfg) (smtp_Port cfg)"] exI [of _ e] exI [of _ "[]"] conjI
        stopped_atI [of _ "[]"]) (simp_all add: tried_def)
next
  case (greeting err' e c)
  then show ?thesis
    by (intro exI [of _ "[ok (SmtpDial (smtp_Host cfg) (smtp_Port cfg)),
           SmtpCall (SmtpNewClient (smtp_Host cfg)) (Some e), SmtpCall SmtpCloseConn c]"]
        exI [of _ "SmtpNewClient (smtp_Host cfg)"] exI [of _ e] exI [of _ "[SmtpCall SmtpCloseConn c]"] conjI
        stopped_atI [of _ "[SmtpDial (smtp_Host cfg) (smtp_Port cfg)]"]) (simp_all add: tried_def)
next
  case (session w2 w3 q c)
  let ?open = "[SmtpDial (smtp_Host cfg) (smtp_Port cfg), SmtpNewClient (smtp_Host cfg)]"
  let ?close = "[SmtpCall SmtpQuit q, SmtpCall SmtpCloseConn c]"
  obtain evs f e rest cs where evs: "trace w3 = trace w2 @ evs" and at: "stopped_at evs f e rest" "tried rest cs"
    "cleanup f = cs @ [SmtpQuit, SmtpCloseConn]" "CodeOf err = failure_code f e"
    using smtp_session_failed [OF session(2)] by (auto simp: session_failed_def)
  have "stopped_at (map ok ?open @ evs @ ?close) f e (rest @ ?close)"
    using stopped_at_then [OF at(1), of ?close] by (rule stopped_at_after)
  moreover have "tried (rest @ ?close) (cleanup f)"
    unfolding at(3) by (intro tried_append at(2)) (simp add: tried_def)
  moreover have "trace w' = trace w @ map ok ?open @ evs @ ?close"
    using session(3,4) evs by simp
  ultimately show ?thesis using at(4) by blast
qed (use assms in simp)

text \<open>The commands that make the connection: the TLS dial, and the greeting that \<open>smtp.NewClient\<close> reads.\<close>

fun connecting :: "smtp_command \<Rightarrow> bool" where
  "connecting (SmtpDial h p) = True"
| "connecting (SmtpNewClient h) = True"
| "connecting c = False"

lemma failure_code_cases:
  "failure_code c e = (if connecting c then CodeSMTPConnectionFailed
     else if temporary_reply e then CodeSMTPTemporaryFailure else step_code c)"
  "Retryable (failure_code c e) \<longleftrightarrow> connecting c \<or> temporary_reply e"
  by (cases c; simp)+

text \<open>C31: When the SMTP sender fails on a complete email, the session went well up to one command, which
  failed; nothing is sent after it but the orderly end of the session, and the connection is closed
  whenever it was opened. The error code is that of the failing command: \<open>smtp_connection_failed\<close> for the
  dial and the greeting, whatever the reply (also for a greeting of 421, which the README calls
  \<open>smtp_temporary_failure\<close>), otherwise \<open>smtp_temporary_failure\<close> for a 4xx reply and the code of the step for any
  other error. So the failures that may be retried are those of the connection and the 4xx replies.\<close>

theorem smtp_failed_session:
  assumes "smtpSender_Send E cfg d w = (Some err, w')" "validateEmail d = None"
  shows "\<exists>evs c e rest. trace w' = trace w @ evs \<and> stopped_at evs c e rest \<and> tried rest (cleanup c)
    \<and> CodeOf err = (if connecting c then CodeSMTPConnectionFailed
         else if temporary_reply e then CodeSMTPTemporaryFailure else step_code c)
    \<and> (Retryable (CodeOf err) \<longleftrightarrow> connecting c \<or> temporary_reply e)"
  using failed_session_code [OF assms] failure_code_cases by metis

lemma senderAddress_bcc: "senderAddress lib (d\<lparr>email_Bcc := b\<rparr>) = senderAddress lib d"
  by (simp add: senderAddress_def Let_def)

text \<open>Blind copies stay blind: the message is the same whoever the blind-copy recipients are, while
  each of them is a recipient of the session.\<close>

lemma bcc_not_in_message:
  "buildMessage lib (d\<lparr>email_Bcc := b\<rparr>) = buildMessage lib d
   \<and> set b \<subseteq> set (allRecipients (d\<lparr>email_Bcc := b\<rparr>))"
  by (auto simp: buildMessage_def Let_def senderAddress_bcc allRecipients_def)

text \<open>C34: The encoded parts of a multipart message are well formed: content is written as lines of at
  most 76 characters, each ended by CR LF, it decodes to the content again, and it contains no hyphen,
  so a boundary line can never occur inside a part.\<close>

theorem encoded_part:
  "(\<exists>ls. writeBase64Lines content = concat (map (\<lambda>l. l @ CRLF) ls) @ CRLF
      \<and> concat ls = EncodeToString content \<and> list_all (\<lambda>l. length l \<le> 76) ls)
   \<and> accepted (DecodeString (writeBase64Lines content)) = Some content
   \<and> \<not> sublist (''--'' @ boundary) (writeBase64Lines content)"
proof (intro conjI)
  show "\<exists>ls. writeBase64Lines content = concat (map (\<lambda>l. l @ CRLF) ls) @ CRLF
      \<and> concat ls = EncodeToString content \<and> list_all (\<lambda>l. length l \<le> 76) ls"
    using base64_lines_split [OF Encode_no_line_break, of content]
    by (auto simp: writeBase64Lines_def base64LineLength_def list_all_iff)
  show "accepted (DecodeString (writeBase64Lines content)) = Some content"
    by (rule writeBase64Lines_decode)
  show "\<not> sublist (''--'' @ boundary) (writeBase64Lines content)"
    using writeBase64Lines_chars(1) [of content] by (auto dest: set_mono_sublist)
qed

section \<open>Witnesses\<close>

definition some_smtp :: SMTPConfig where
  "some_smtp = \<lparr>smtp_Host = ''smtp'', smtp_Port = 465, smtp_Username = ''u'', smtp_Password = ''p''\<rparr>"

text \<open>A server that accepts everything, and one that asks to come back later for every recipient.\<close>

definition greylisting_env :: "unit env" where
  "greylisting_env = quiet_env\<lparr>smtp_do :=
     (\<lambda>c e. (case c of SmtpRcpt a \<Rightarrow> Some (Textproto 451 ''later'') | _ \<Rightarrow> None, e))\<rparr>"

lemma call_smtp_quiet: "call_smtp quiet_env c w = (None, record_call (ok c) () w)"
  by (simp add: call_smtp_def quiet_env_def)

lemma call_smtp_greylisting:
  "call_smtp greylisting_env c w =
     (let r = (case c of SmtpRcpt a \<Rightarrow> Some (Textproto 451 ''later'') | _ \<Rightarrow> None)
      in (r, record_call (SmtpCall c r) () w))"
  by (simp add: call_smtp_def greylisting_env_def Let_def)

lemma some_recipients: "allRecipients some_decoded_email = [''b@x.io'', ''c@x.io'']"
  by (simp add: allRecipients_def some_decoded_email_def some_email_def)

theorem smtp_accepted_session_witness: "validateEmail some_decoded_email = None"
proof -
  have "fst (smtpSender_Send quiet_env some_smtp some_decoded_email some_world) = None"
    by (simp add: smtpSender_Send_def smtp_session_def writeData_def call_smtp_quiet some_email_decoded(3)
        some_recipients)
  then have "smtpSender_Send quiet_env some_smtp some_decoded_email some_world =
      (None, snd (smtpSender_Send quiet_env some_smtp some_decoded_email some_world))"
    by (metis prod.collapse)
  from smtp_accepted_session [OF this] show ?thesis by (rule conjunct1)
qed

lemma greylisted: "fst (smtpSender_Send greylisting_env some_smtp some_decoded_email some_world) \<noteq> None"
  by (simp add: smtpSender_Send_def some_email_decoded(3) smtp_session_def call_smtp_greylisting some_recipients Let_def)

theorem smtp_failed_session_witness:
  "\<exists>evs c e rest. trace (snd (smtpSender_Send greylisting_env some_smtp some_decoded_email some_world)) = evs
     \<and> stopped_at evs c e rest \<and> tried rest (cleanup c)"
proof -
  obtain err where "smtpSender_Send greylisting_env some_smtp some_decoded_email some_world =
      (Some err, snd (smtpSender_Send greylisting_env some_smtp some_decoded_email some_world))"
    using greylisted by (metis not_Some_eq prod.collapse)
  from smtp_failed_session [OF this some_email_decoded(3)] show ?thesis
    by (auto simp: some_world_def)
qed

end
