(* ===== verification/Notifier.thy ===== *)
theory Notifier
  imports HttpApi
begin

text \<open>
  \<open>internal/infrastructure/callback/http_notifier.go\<close>: the notifier that posts a delivery event to the
  callback of a message. The body of the answer is thrown away.
\<close>

definition callback_request :: "'a golib_scheme \<Rightarrow> CallbackTarget \<Rightarrow> string \<Rightarrow> goerr + http_request" where
  "callback_request lib target payload =
     (case NewRequest lib ''POST'' (target_URL target) payload of
        Inl err \<Rightarrow> Inl (Wrapped ''failed to create callback request: '' err)
      | Inr req \<Rightarrow> Inr (set_headers ((''Content-Type'', ''application/json'') # target_Headers target) req))"

definition Notify :: "'e env \<Rightarrow> 'e DeliveryNotifier" where
  "Notify E target ev w =
     (case Marshal_event ev of
        Inl err \<Rightarrow> (Some (Wrapped ''failed to encode delivery event: '' err), w)
      | Inr payload \<Rightarrow>
          (case callback_request E target payload of
             Inl err \<Rightarrow> (Some err, w)
           | Inr req \<Rightarrow>
               (case call_http E req w of
                  (Inl err, w1) \<Rightarrow> (Some (Wrapped ''failed to call callback: '' err), w1)
                | (Inr resp, w1) \<Rightarrow>
                    if rs_status resp < 200 \<or> 300 \<le> rs_status resp
                    then (Some (Plain (''callback returned status '' @ Itoa (rs_status resp))), w1)
                    else (None, w1))))"

section \<open>Facts\<close>

lemma Notify_appends: "Notify E target ev w = (r, w') \<Longrightarrow> appends transport_event w w'"
  by (auto simp: Notify_def split: sum.splits prod.splits if_splits dest!: call_trace(1) intro: appends_one)

lemma set_headers_body [simp]:
  "rq_body (set_headers kvs rq) = rq_body rq" "rq_method (set_headers kvs rq) = rq_method rq"
  by (simp_all add: set_headers_def)

lemma Header_Set_other:
  "CanonicalMIMEHeaderKey (fst kv) \<noteq> k \<Longrightarrow> map_of (Header_Set kv h) k = map_of h k"
  by (simp add: Header_Set_def update_conv')

lemma fold_Header_Set_other:
  "(\<And>kv. kv \<in> set kvs \<Longrightarrow> CanonicalMIMEHeaderKey (fst kv) \<noteq> k) \<Longrightarrow>
   map_of (fold Header_Set kvs h) k = map_of h k"
  by (induction kvs arbitrary: h) (auto simp: Header_Set_other)

lemma callback_request_parts:
  assumes "callback_request lib target payload = Inr req"
  shows "rq_method req = ''POST''" "rq_url req = target_URL target" "rq_body req = payload"
    and "(\<And>kv. kv \<in> set (target_Headers target) \<Longrightarrow> CanonicalMIMEHeaderKey (fst kv) \<noteq> ''Content-Type'') \<Longrightarrow>
         map_of (rq_header req) ''Content-Type'' = Some ''application/json''"
proof -
  have req: "req = set_headers ((''Content-Type'', ''application/json'') # target_Headers target)
      \<lparr>rq_method = ''POST'', rq_url = target_URL target, rq_header = [], rq_body = payload\<rparr>"
    using assms by (auto simp: callback_request_def NewRequest_def split: option.splits)
  then show "rq_method req = ''POST''" "rq_url req = target_URL target" "rq_body req = payload"
    by (simp_all add: set_headers_def)
  assume other: "\<And>kv. kv \<in> set (target_Headers target) \<Longrightarrow> CanonicalMIMEHeaderKey (fst kv) \<noteq> ''Content-Type''"
  have "map_of (fold Header_Set (target_Headers target)
      (Header_Set (''Content-Type'', ''application/json'') [])) ''Content-Type''
      = map_of (Header_Set (''Content-Type'', ''application/json'') []) ''Content-Type''"
    using other by (rule fold_Header_Set_other)
  then show "map_of (rq_header req) ''Content-Type'' = Some ''application/json''"
    by (simp add: req set_headers_def Header_Set_def canonical_names)
qed

lemma code_text_empty: "code_text c = [] \<longleftrightarrow> c = CodeNone"
  by (cases c) simp_all

lemma event_members:
  assumes "event_json ev = JObj ms"
  shows "distinct (map fst ms)" "fst ` set ms \<subseteq> {''id'', ''subject'', ''status'', ''errorCode'', ''cause'', ''occurredAt''}"
    "map_of ms ''id'' = (if event_ID ev = [] then None else Some (JStr (event_ID ev)))"
    "map_of ms ''subject'' = Some (JStr (event_Subject ev))"
    "map_of ms ''status'' = Some (JStr (if event_Status ev = StatusSent then ''sent'' else ''failed''))"
    "map_of ms ''errorCode'' = (if event_ErrorCode ev = CodeNone then None else Some (JStr (code_text (event_ErrorCode ev))))"
    "map_of ms ''cause'' = (if event_Cause ev = [] then None else Some (JStr (event_Cause ev)))"
    "map_of ms ''occurredAt'' = Some (JStr (RFC3339Nano (case event_OccurredAt ev of None \<Rightarrow> ZeroTime | Some t \<Rightarrow> t)))"
proof -
  have ms: "ms = omitempty ''id'' (event_ID ev) @ [(''subject'', JStr (event_Subject ev)), (''status'', JStr (status_text (event_Status ev)))]
       @ omitempty ''errorCode'' (code_text (event_ErrorCode ev)) @ omitempty ''cause'' (event_Cause ev)
       @ [(''occurredAt'', JStr (RFC3339Nano (case event_OccurredAt ev of None \<Rightarrow> ZeroTime | Some t \<Rightarrow> t)))]"
    using assms by (simp add: event_json_def)
  have status: "status_text (event_Status ev) = (if event_Status ev = StatusSent then ''sent'' else ''failed'')"
    by (cases "event_Status ev") simp_all
  have omitted: "map_of (omitempty k v) k' = (if k' = k \<and> v \<noteq> [] then Some (JStr v) else None)"
    "map fst (omitempty k v) = (if v = [] then [] else [k])" "fst ` set (omitempty k v) \<subseteq> {k}" for k k' v
    by (auto simp: omitempty_def)
  show "distinct (map fst ms)" by (simp add: ms omitted(2))
  show "fst ` set ms \<subseteq> {''id'', ''subject'', ''status'', ''errorCode'', ''cause'', ''occurredAt''}"
    using omitted(3) by (auto simp: ms)
  show "map_of ms ''id'' = (if event_ID ev = [] then None else Some (JStr (event_ID ev)))"
    "map_of ms ''subject'' = Some (JStr (event_Subject ev))"
    "map_of ms ''status'' = Some (JStr (if event_Status ev = StatusSent then ''sent'' else ''failed''))"
    "map_of ms ''errorCode'' = (if event_ErrorCode ev = CodeNone then None else Some (JStr (code_text (event_ErrorCode ev))))"
    "map_of ms ''cause'' = (if event_Cause ev = [] then None else Some (JStr (event_Cause ev)))"
    "map_of ms ''occurredAt'' = Some (JStr (RFC3339Nano (case event_OccurredAt ev of None \<Rightarrow> ZeroTime | Some t \<Rightarrow> t)))"
    by (simp_all add: ms omitted(1) status map_add_def code_text_empty)
qed

section \<open>Properties\<close>

text \<open>C35: A callback is one POST of the event to the target's URL, and it counts as answered exactly when
  the answer is a 2xx response. The JSON carries the id, the error code and the cause of the event unless they are empty, and
  always its subject, its status and its time; the content type is JSON unless the target's own headers say
  otherwise. There is no call, and an error, exactly when JSON cannot write the year of the event or the URL cannot be parsed.\<close>

theorem callback_posts_event:
  assumes "Notify E target ev w = (r, w')"
  shows "let t = (case event_OccurredAt ev of None \<Rightarrow> ZeroTime | Some t \<Rightarrow> t) in
    if Year t < 0 \<or> 9999 < Year t \<or> lib_url_error E (target_URL target) \<noteq> None then w' = w \<and> r \<noteq> None
    else \<exists>req answer ms. trace w' = trace w @ [HttpCall req answer]
       \<and> rq_method req = ''POST'' \<and> rq_url req = target_URL target \<and> rq_body req = json_text (JObj ms)
       \<and> distinct (map fst ms) \<and> fst ` set ms \<subseteq> {''id'', ''subject'', ''status'', ''errorCode'', ''cause'', ''occurredAt''}
       \<and> map_of ms ''id'' = (if event_ID ev = [] then None else Some (JStr (event_ID ev)))
       \<and> map_of ms ''subject'' = Some (JStr (event_Subject ev))
       \<and> map_of ms ''status'' = Some (JStr (if event_Status ev = StatusSent then ''sent'' else ''failed''))
       \<and> map_of ms ''errorCode'' =
           (if event_ErrorCode ev = CodeNone then None else Some (JStr (code_text (event_ErrorCode ev))))
       \<and> map_of ms ''cause'' = (if event_Cause ev = [] then None else Some (JStr (event_Cause ev)))
       \<and> map_of ms ''occurredAt'' = Some (JStr (RFC3339Nano t))
       \<and> ((\<forall>kv \<in> set (target_Headers target). CanonicalMIMEHeaderKey (fst kv) \<noteq> ''Content-Type'')
           \<longrightarrow> map_of (rq_header req) ''Content-Type'' = Some ''application/json'')
       \<and> (r = None \<longleftrightarrow> (\<exists>rs. answer = Inr rs \<and> 200 \<le> rs_status rs \<and> rs_status rs < 300))"
proof -
  let ?t = "case event_OccurredAt ev of None \<Rightarrow> ZeroTime | Some t \<Rightarrow> t"
  obtain ms where ms: "event_json ev = JObj ms" by (simp add: event_json_def)
  show ?thesis
  proof (cases "Year ?t < 0 \<or> 9999 < Year ?t \<or> lib_url_error E (target_URL target) \<noteq> None")
    case True
    then show ?thesis
      using assms by (auto simp: Notify_def Marshal_event_def callback_request_def NewRequest_def Let_def split: if_splits)
  next
    case False
    then have enc: "Marshal_event ev = Inr (json_text (JObj ms))" by (simp add: Marshal_event_def ms Let_def not_less)
    obtain req where req: "callback_request E target (json_text (JObj ms)) = Inr req"
      using False by (auto simp: callback_request_def NewRequest_def)
    obtain answer w1 where call: "call_http E req w = (answer, w1)" by fastforce
    have "w' = w1" and r: "r = None \<longleftrightarrow> (\<exists>rs. answer = Inr rs \<and> 200 \<le> rs_status rs \<and> rs_status rs < 300)"
      using assms req enc call by (auto simp: Notify_def split: sum.splits if_splits)
    then show ?thesis
      using False call_trace(1) [OF call] callback_request_parts [OF req] event_members [OF ms] unfolding Let_def
      by (simp only: if_False) (intro exI [of _ req] exI [of _ answer] exI [of _ ms], simp)
  qed
qed

theorem callback_posts_event_witness:
  "\<exists>req answer. trace (snd (Notify (answering 500 []) \<lparr>target_URL = ''http://cb'', target_Headers = []\<rparr>
       \<lparr>event_ID = [], event_Subject = [], event_Status = StatusFailed, event_ErrorCode = CodeUnknown,
        event_Cause = [], event_OccurredAt = Some 0\<rparr> some_world)) = [HttpCall req answer] \<and> rq_url req = ''http://cb''"
proof -
  let ?t = "\<lparr>target_URL = ''http://cb'', target_Headers = []\<rparr>"
  let ?ev = "\<lparr>event_ID = [], event_Subject = [], event_Status = StatusFailed, event_ErrorCode = CodeUnknown,
        event_Cause = [], event_OccurredAt = Some 0\<rparr>"
  have "Year 0 = 1970" by code_simp
  moreover have "lib_url_error (answering 500 []) u = None" for u by (simp add: answering_def quiet_env_def)
  ultimately show ?thesis
    using callback_posts_event [of "answering 500 []" ?t ?ev some_world, OF prod.collapse [symmetric]]
    by (auto simp: some_world_def)
qed

end
