(* ===== verification/Senders.thy ===== *)
theory Senders
  imports Resend ZeptoMail Zoho Smtp Notifier "HOL-Library.List_Lexorder" "HOL-Library.Char_ord"
begin

text \<open>
  How a service gets its sender: the registry of API clients
  (\<open>internal/infrastructure/mailer/api_clients.go\<close>) and the wiring of
  \<open>internal/application/bean/mailer.go\<close>. A setting that is refused ends the process there
  (\<open>log.Fatalf\<close>); here it is the error with that text. The HTTP client's timeout is part of the
  environment. A new Zoho sender starts without a token, as the first world of a process does.
\<close>

section \<open>Registry\<close>

type_synonym 'e apiClientFactory = "getenv \<Rightarrow> goerr + 'e Sender"

definition apiClients :: "'e env \<Rightarrow> (string \<times> 'e apiClientFactory) list" where
  "apiClients E =
     [(''resend'', \<lambda>g. case NewResendConfig g of Inl err \<Rightarrow> Inl err | Inr cfg \<Rightarrow> Inr (resendSender_Send E cfg)),
      (''zoho'', \<lambda>g. case NewZohoMailConfig g of Inl err \<Rightarrow> Inl err | Inr cfg \<Rightarrow> Inr (zohoMailSender_Send E cfg)),
      (''zeptomail'', \<lambda>g. case NewZeptoMailConfig g of Inl err \<Rightarrow> Inl err | Inr cfg \<Rightarrow> Inr (zeptoMailSender_Send E cfg))]"

definition availableAPIClients :: "'e env \<Rightarrow> string list" where
  "availableAPIClients E = sort (map fst (apiClients E))"

definition NewAPISender :: "'e env \<Rightarrow> getenv \<Rightarrow> string \<Rightarrow> goerr + 'e Sender" where
  "NewAPISender E g name =
     (case map_of (apiClients E) name of
        None \<Rightarrow> Inl (Plain (''unknown mailer API client '' @ lib_quote E name @ '', available: ''
                  @ Join (availableAPIClients E) '', ''))
      | Some factory \<Rightarrow> factory g)"

section \<open>Wiring\<close>

definition newSender :: "'e env \<Rightarrow> getenv \<Rightarrow> MailerSettings \<Rightarrow> goerr + 'e Sender" where
  "newSender E g settings =
     (if set_Transport settings = ''smtp'' then
        (case NewSMTPConfig E g of Inl err \<Rightarrow> Inl err | Inr cfg \<Rightarrow> Inr (smtpSender_Send E cfg))
      else if set_Transport settings = ''api'' then NewAPISender E g (set_APIClient settings)
      else Inl (Plain (''unsupported transport '' @ lib_quote E (set_Transport settings))))"

definition InitMailer :: "'e env \<Rightarrow> getenv \<Rightarrow> goerr + 'e service" where
  "InitMailer E g =
     (case NewMailerSettings E g of
        Inl err \<Rightarrow> Inl (Wrapped ''Invalid mailer settings: '' err)
      | Inr settings \<Rightarrow>
          (case HTTPClientTimeout E g of
             Inl err \<Rightarrow> Inl (Wrapped ''Invalid HTTP client settings: '' err)
           | Inr timeout \<Rightarrow>
               (case newSender E g settings of
                  Inl err \<Rightarrow> Inl (Wrapped ''Failed to initialize mailer sender: '' err)
                | Inr snd' \<Rightarrow>
                    (case NewRetryConfig E g of
                       Inl err \<Rightarrow> Inl (Wrapped ''Invalid retry settings: '' err)
                     | Inr retry \<Rightarrow> Inr (NewService E snd' (Notify E) (retry_policy retry))))))"

section \<open>Every sender that can be configured keeps the contract\<close>

lemma NewAPISender_contract: "NewAPISender E g name = Inr s \<Longrightarrow> sender_contract s"
  using resend.sender_contract_axioms zoho.sender_contract_axioms zeptomail.sender_contract_axioms
  by (auto simp: NewAPISender_def apiClients_def split: if_splits sum.splits)

lemma newSender_contract: "newSender E g settings = Inr s \<Longrightarrow> sender_contract s"
  using NewAPISender_contract smtp.sender_contract_axioms
  by (auto simp: newSender_def split: if_splits sum.splits)

lemma InitMailer_parts:
  assumes "InitMailer E g = Inr s"
  obtains snd' retry where "sender_contract snd'" "NewRetryConfig E g = Inr retry"
    "s = NewService E snd' (Notify E) (retry_policy retry)"
proof -
  obtain settings snd' retry where "newSender E g settings = Inr snd'" "NewRetryConfig E g = Inr retry"
    "s = NewService E snd' (Notify E) (retry_policy retry)"
    using assms by (auto simp: InitMailer_def split: sum.splits)
  then show ?thesis using that newSender_contract by blast
qed

lemma InitMailer_sender: "InitMailer E g = Inr s \<Longrightarrow> sender_contract (sender s)"
  by (erule InitMailer_parts) (simp add: NewService_def)

section \<open>Properties\<close>

text \<open>C29: With every transport the program can be configured for, an email whose body is base64 and which lacks a
  sender, a recipient, a subject or a body (white space counts for nothing, and the body is looked at once it is
  decoded) is refused before anything is called. The code reported is that of the first of these that is
  missing, in this order, and it is never retried.\<close>

theorem incomplete_email_refused:
  assumes "InitMailer E g = Inr s" "DecodeString (email_Body d) = Inr body"
    and "blank (email_From d) \<or> email_Receiver d = [] \<or> blank (email_Subject d) \<or> blank body"
  shows "fst (send s d w) \<noteq> None \<and> snd (send s d w) = w
    \<and> event_ErrorCode (out_Event (fst (Deliver s d n w))) =
       (if blank (email_From d) then CodeMessageMissingSender
        else if email_Receiver d = [] then CodeMessageMissingReceiver
        else if blank (email_Subject d) then CodeMessageMissingSubject
        else CodeMessageMissingBody)
    \<and> out_Action (fst (Deliver s d n w)) \<noteq> ActionRetry"
proof -
  let ?code = "if blank (email_From d) then CodeMessageMissingSender
        else if email_Receiver d = [] then CodeMessageMissingReceiver
        else if blank (email_Subject d) then CodeMessageMissingSubject else CodeMessageMissingBody"
  have "\<exists>err. validateEmail (d\<lparr>email_Body := body\<rparr>) = Some err \<and> CodeOf err = ?code"
    using assms(3) by (auto simp: validateEmail_def)
  then obtain err where err: "validateEmail (d\<lparr>email_Body := body\<rparr>) = Some err" "CodeOf err = ?code" by blast
  obtain r w' where send: "send s d w = (r, w')" by fastforce
  have refused: "w' = w \<and> r \<noteq> None \<and> message_code (CodeOf_opt r) \<and> CodeOf_opt r = CodeOf err"
    by (rule sender_contract.incomplete_final [OF InitMailer_sender [OF assms(1)] assms(2) err(1) send refl])
  then obtain e where e: "r = Some e" by blast
  have "message_code (CodeOf err)" using refused by metis
  moreover have "CodeOf e = CodeOf err" using refused e by (simp add: CodeOf_opt_def)
  ultimately have code: "CodeOf e = CodeOf err" "message_code (CodeOf err)" by simp_all
  have "Deliver s d n w = handleFailure s d e n (CanRetry (policy s) n) w"
    using send e refused by (simp add: Deliver_def deliver_failed)
  moreover have "event_ErrorCode (fst (newEvent s d StatusFailed (Some e) w)) = CodeOf e"
    by (simp add: newEvent_def split: prod.split)
  ultimately show ?thesis
    using send e code err(2) conjunct1 [OF refused] handleFailure_final [of "CanRetry (policy s) n" e] message_code_final
    by (simp add: handleFailure_event)
qed

text \<open>Which answers of a provider lead to another attempt. Credentials that are rejected (401) never
  do, whatever the response body says; for ZeptoMail and Zoho Mail the body can never make a failure
  temporary, only a status of 429 or from 500 on can.\<close>

lemma provider_answer_retryable:
  "\<not> Retryable (CodeOf (describeAPIError ''resend'' (HttpStatus 401 body) (classifyResendError te)))
   \<and> (Retryable (CodeOf (describeAPIError ''zeptomail'' (HttpStatus st body) (classifyZeptoMailError te)))
        \<longrightarrow> st = 429 \<or> 500 \<le> st)
   \<and> (Retryable (CodeOf (describeAPIError ''zoho mail'' (HttpStatus st body) (classifyZohoMailError te)))
        \<longrightarrow> st = 429 \<or> 500 \<le> st)
   \<and> \<not> Retryable (CodeOf (describeRefreshError (HttpStatus st body)))"
proof (intro conjI)
  show "\<not> Retryable (CodeOf (describeAPIError ''resend'' (HttpStatus 401 body) (classifyResendError te)))"
    by (simp add: resend_unauthorized)
  show "Retryable (CodeOf (describeAPIError ''zeptomail'' (HttpStatus st body) (classifyZeptoMailError te)))
        \<longrightarrow> st = 429 \<or> 500 \<le> st"
    using zepto_retryable_status by auto
  have "\<not> Retryable (snd (classifyZohoMailError te st body))"
  proof -
    have "\<not> Retryable (fieldCode m CodeNone)" for m
      using fieldCode_cases [of m CodeNone] by auto
    then show ?thesis by (simp add: classifyZohoMailError_def split: sum.split)
  qed
  then show "Retryable (CodeOf (describeAPIError ''zoho mail'' (HttpStatus st body) (classifyZohoMailError te)))
        \<longrightarrow> st = 429 \<or> 500 \<le> st"
    by (auto simp: CodeOf_describeAPIError codeForStatus_retryable split: if_splits)
  show "\<not> Retryable (CodeOf (describeRefreshError (HttpStatus st body)))"
    by (simp add: describeRefreshError_def)
qed

section \<open>Witnesses\<close>

definition smtp_settings :: getenv where
  "smtp_settings = env_of [(''SMTP_SERVER'', ''smtp''), (''SMTP_SERVER_PORT'', ''465''),
     (''SMTP_SERVER_USER'', ''u''), (''SMTP_SERVER_PASS'', ''p'')]"

lemma smtp_service: "\<exists>s. InitMailer quiet_env smtp_settings = Inr s"
proof -
  have "NewMailerSettings quiet_env smtp_settings = Inr \<lparr>set_Transport = ''smtp'', set_APIClient = []\<rparr>"
    "HTTPClientTimeout quiet_env smtp_settings = Inr (15 * Second)"
    "NewSMTPConfig quiet_env smtp_settings = Inr \<lparr>smtp_Host = ''smtp'', smtp_Port = 465, smtp_Username = ''u'', smtp_Password = ''p''\<rparr>"
    "NewRetryConfig quiet_env smtp_settings =
       Inr \<lparr>retry_MaxAttempts = 5, retry_BaseDelay = 30 * Second, retry_MaxDelay = 10 * Minute\<rparr>"
    by code_simp+
  then show ?thesis by (simp add: InitMailer_def newSender_def)
qed

theorem incomplete_email_refused_witness:
  "\<exists>s. event_ErrorCode (out_Event (fst (Deliver s (some_email []) 1 some_world))) = CodeMessageMissingBody"
proof -
  obtain s where s: "InitMailer quiet_env smtp_settings = Inr s" using smtp_service by blast
  have "DecodeString [] = Inr []" "TrimSpace ''a@x.io'' \<noteq> []" "TrimSpace ''Hi'' \<noteq> []" by code_simp+
  then have body: "DecodeString (email_Body (some_email [])) = Inr []" "\<not> blank (email_From (some_email []))"
    "email_Receiver (some_email []) \<noteq> []" "\<not> blank (email_Subject (some_email []))"
    by (simp_all add: some_email_def)
  from incomplete_email_refused [OF s body(1), where n = 1 and w = some_world] body(2-4) show ?thesis
    by (intro exI [of _ s]) simp
qed

lemma provider_answer_retryable_example:
  "\<not> Retryable (CodeOf (describeAPIError ''zeptomail'' (HttpStatus 400 []) (classifyZeptoMailError (\<lambda>s. s))))"
  using provider_answer_retryable [of "[]" "\<lambda>s. s" 400] by simp

end
