(* ===== verification/GoHttp.thy ===== *)
theory GoHttp
  imports GoText
begin

text \<open>
  The part of \<open>net/http\<close> that decides which handler answers a request: the patterns of a \<open>ServeMux\<close> as the
  program uses them, the answers it gives itself (redirects to clean paths, 404, 405), and the response that a
  handler writes. A path is what \<open>URL.EscapedPath\<close> gives for a request, and requests have no query.
\<close>

record server_response =
  sr_Status :: int
  sr_Header :: "(string \<times> string) list"
  sr_Body :: string

text \<open>\<open>http.Error\<close>.\<close>

definition http_Error :: "(string \<times> string) list \<Rightarrow> string \<Rightarrow> int \<Rightarrow> server_response" where
  "http_Error h message code =
     \<lparr>sr_Status = code,
      sr_Header = h @ [(''Content-Type'', ''text/plain; charset=utf-8''), (''X-Content-Type-Options'', ''nosniff'')],
      sr_Body = message @ [CHR 0x0A]\<rparr>"

section \<open>Paths\<close>

text \<open>\<open>url.PathUnescape\<close>: an escape that is not one leaves the text as it is.\<close>

definition hex_value :: "char \<Rightarrow> nat option" where
  "hex_value c =
     (let b = of_char c :: nat
      in if 48 \<le> b \<and> b \<le> 57 then Some (b - 48) else if 65 \<le> b \<and> b \<le> 70 then Some (b - 55)
         else if 97 \<le> b \<and> b \<le> 102 then Some (b - 87) else None)"

fun url_unescape :: "string \<Rightarrow> string option" where
  "url_unescape [] = Some []"
| "url_unescape (c # cs) =
     (if c \<noteq> CHR ''%'' then map_option ((#) c) (url_unescape cs)
      else
        (case cs of
           h # l # rest \<Rightarrow>
             (case (hex_value h, hex_value l) of
                (Some a, Some b) \<Rightarrow> map_option ((#) (char_of (16 * a + b))) (url_unescape rest)
              | _ \<Rightarrow> None)
         | _ \<Rightarrow> None))"

definition pathUnescape :: "string \<Rightarrow> string" where
  "pathUnescape s = (case url_unescape s of None \<Rightarrow> s | Some t \<Rightarrow> t)"

text \<open>The segments of a path, as the multiplexer walks through it: a slash at the end is a segment of its own.\<close>

function path_segments :: "string \<Rightarrow> string list" where
  "path_segments path =
     (if path = [] then [] else if path = ''/'' then [''/'']
      else pathUnescape (takeWhile (\<lambda>c. c \<noteq> CHR ''/'') (tl path))
        # path_segments (dropWhile (\<lambda>c. c \<noteq> CHR ''/'') (tl path)))"
  by pat_completeness auto
termination
  by (relation "measure length") (auto intro: le_less_trans [OF length_dropWhile_le])

declare path_segments.simps [simp del]

text \<open>\<open>cleanPath\<close>: without empty segments and dots, and a slash at the end is kept.\<close>

fun clean_segments :: "string list \<Rightarrow> string list \<Rightarrow> string list" where
  "clean_segments kept [] = rev kept"
| "clean_segments kept (x # rest) =
     clean_segments (if x = [] \<or> x = ''.'' then kept else if x = ''..'' then drop 1 kept else x # kept) rest"

definition cleanPath :: "string \<Rightarrow> string" where
  "cleanPath p =
     (if p = [] then ''/''
      else
        (let np = ''/'' @ Join (clean_segments [] (Split (CHR ''/'') p)) ''/''
         in if suffix ''/'' p \<and> np \<noteq> ''/'' then np @ ''/'' else np))"

section \<open>Redirects\<close>

text \<open>\<open>URL.String\<close> of a URL that is a path, and \<open>http.Redirect\<close> to it. The status is a parameter: \<open>net/http\<close>
  answered 301 up to Go 1.25, and 307 since.\<close>

definition path_url :: "string \<Rightarrow> string" where
  "path_url path = concat (map (\<lambda>c. if unreserved c \<or> c \<in> set ''$&+,/:;=@'' then [c] else percent c) path)"

definition htmlEscape :: "string \<Rightarrow> string" where
  "htmlEscape s =
     concat (map (\<lambda>c. if c = CHR ''&'' then ''&amp;'' else if c = CHR ''<'' then ''&lt;'' else if c = CHR ''>'' then ''&gt;''
       else if c = CHR 0x22 then ''&#34;'' else if c = CHR 0x27 then ''&#39;'' else [c]) s)"

definition RedirectText :: "int \<Rightarrow> string" where
  "RedirectText code = (if code = 301 then ''Moved Permanently'' else if code = 307 then ''Temporary Redirect'' else [])"

definition http_Redirect :: "int \<Rightarrow> string \<Rightarrow> string \<Rightarrow> server_response" where
  "http_Redirect code m path =
     \<lparr>sr_Status = code,
      sr_Header = (''Location'', path_url path)
        # (if m = ''GET'' \<or> m = ''HEAD'' then [(''Content-Type'', ''text/html; charset=utf-8'')] else []),
      sr_Body =
        (if m = ''GET'' then
           ''<a href='' @ [CHR 0x22] @ htmlEscape (path_url path) @ [CHR 0x22] @ ''>'' @ RedirectText code @ ''</a>.''
             @ [CHR 0x0A, CHR 0x0A]
         else [])\<rparr>"

section \<open>Patterns\<close>

text \<open>A pattern names a method or none, and one path or all paths below one, which then ends with a slash. \<open>GET\<close>
  stands for \<open>HEAD\<close> too. No two patterns of a multiplexer of the program match the same request, so their
  precedence does not matter.\<close>

datatype path_pattern = OnePath string | Below string

fun pattern_matches :: "path_pattern \<Rightarrow> string \<Rightarrow> bool" where
  "pattern_matches (OnePath p) path = (path_segments path = path_segments p)"
| "pattern_matches (Below p) path = strict_prefix (butlast (path_segments p)) (path_segments path)"

text \<open>\<open>exactMatch\<close>: nothing is left for the slash at the end of the pattern.\<close>

fun exactMatch :: "path_pattern \<Rightarrow> string \<Rightarrow> bool" where
  "exactMatch (OnePath p) path = pattern_matches (OnePath p) path"
| "exactMatch (Below p) path =
     (pattern_matches (Below p) path \<and> suffix ''/'' path \<and> length (path_segments path) = length (path_segments p))"

fun method_matches :: "string option \<Rightarrow> string \<Rightarrow> bool" where
  "method_matches None m = True"
| "method_matches (Some pattern) m = (m = pattern \<or> pattern = ''GET'' \<and> m = ''HEAD'')"

type_synonym 'h route = "string option \<times> path_pattern \<times> 'h"

definition allowed_methods :: "string option list \<Rightarrow> string" where
  "allowed_methods methods =
     Join (concat (map (\<lambda>m. case m of None \<Rightarrow> [] | Some p \<Rightarrow> if p = ''GET'' then [''GET'', ''HEAD''] else [p]) methods)) '', ''"

section \<open>The multiplexer\<close>

definition match_route :: "'h route list \<Rightarrow> string \<Rightarrow> string \<Rightarrow> 'h route option" where
  "match_route routes m path = List.find (\<lambda>(pm, p, _). method_matches pm m \<and> pattern_matches p path) routes"

definition exactly :: "'h route option \<Rightarrow> string \<Rightarrow> bool" where
  "exactly r path = (case r of None \<Rightarrow> False | Some (_, p, _) \<Rightarrow> exactMatch p path)"

text \<open>\<open>matchOrRedirect\<close>: a path without the slash that a pattern asks for.\<close>

definition lacks_slash :: "'h route list \<Rightarrow> string \<Rightarrow> string \<Rightarrow> bool" where
  "lacks_slash routes m path \<longleftrightarrow>
     \<not> exactly (match_route routes m path) path \<and> \<not> suffix ''/'' path
     \<and> exactly (match_route routes m (path @ ''/'')) (path @ ''/'')"

text \<open>\<open>matchingMethods\<close>: the routes whose methods a 405 offers.\<close>

definition routes_at :: "'h route list \<Rightarrow> string \<Rightarrow> 'h route list" where
  "routes_at routes path =
     filter (\<lambda>(_, p, _). pattern_matches p path \<or> \<not> suffix ''/'' path \<and> pattern_matches p (path @ ''/'')) routes"

text \<open>The handler of a request, or the answer of the multiplexer. All but \<open>CONNECT\<close> requests are sent to the
  clean form of their path; \<open>code\<close> is the status of a redirect.\<close>

definition ServeMux :: "int \<Rightarrow> 'h route list \<Rightarrow> string \<Rightarrow> string \<Rightarrow> server_response + 'h" where
  "ServeMux code routes m path =
     (let q = (if m = ''CONNECT'' then path else cleanPath path)
      in if path = ''*'' then Inl \<lparr>sr_Status = 400, sr_Header = [(''Connection'', ''close'')], sr_Body = []\<rparr>
         else if lacks_slash routes m q then Inl (http_Redirect code m (cleanPath (pathUnescape path) @ ''/''))
         else if q \<noteq> path then Inl (http_Redirect code m q)
         else
           (case match_route routes m q of
              Some (_, _, h) \<Rightarrow> Inr h
            | None \<Rightarrow>
                Inl (if routes_at routes q = [] then http_Error [] ''404 page not found'' 404
                     else http_Error [(''Allow'', allowed_methods (map fst (routes_at routes q)))] ''Method Not Allowed'' 405)))"

section \<open>Facts\<close>

lemma http_Error_status [simp]: "sr_Status (http_Error h message code) = code"
  by (simp add: http_Error_def)

lemma http_Redirect_status [simp]: "sr_Status (http_Redirect code m path) = code"
  by (simp add: http_Redirect_def)

lemma path_segments_slash: "\<not> suffix ''/'' path \<Longrightarrow> path_segments (path @ ''/'') = path_segments path @ [''/'']"
proof (induction path rule: path_segments.induct)
  case (1 path)
  show ?case
  proof (cases "path = []")
    case True
    then show ?thesis by (simp add: path_segments.simps)
  next
    case False
    then obtain c cs where path: "path = c # cs" by (cases path) auto
    have ne: "path \<noteq> ''/''" "path @ ''/'' \<noteq> ''/''" using "1.prems" path by auto
    have walk: "path_segments p = pathUnescape (takeWhile (\<lambda>c. c \<noteq> CHR ''/'') (tl p))
        # path_segments (dropWhile (\<lambda>c. c \<noteq> CHR ''/'') (tl p))" if "p \<noteq> []" "p \<noteq> ''/''" for p
      using that by (simp add: path_segments.simps [of p])
    show ?thesis
    proof (cases "CHR ''/'' \<in> set cs")
      case True
      let ?r = "dropWhile (\<lambda>c. c \<noteq> CHR ''/'') cs"
      have "\<not> suffix ''/'' ?r"
        using "1.prems" path suffix_dropWhile [of "\<lambda>c. c \<noteq> CHR ''/''" cs] suffix_order.trans suffix_ConsI by metis
      moreover have "takeWhile (\<lambda>c. c \<noteq> CHR ''/'') (cs @ ''/'') = takeWhile (\<lambda>c. c \<noteq> CHR ''/'') cs"
        "dropWhile (\<lambda>c. c \<noteq> CHR ''/'') (cs @ ''/'') = ?r @ ''/''"
        using True by (simp_all add: takeWhile_append1 dropWhile_append1)
      ultimately show ?thesis
        using "1.IH" False ne walk [of path] walk [of "path @ ''/''"] by (simp add: path)
    next
      case no: False
      then have all: "takeWhile (\<lambda>c. c \<noteq> CHR ''/'') cs = cs" "dropWhile (\<lambda>c. c \<noteq> CHR ''/'') cs = []"
        and more: "takeWhile (\<lambda>c. c \<noteq> CHR ''/'') (cs @ ''/'') = cs" "dropWhile (\<lambda>c. c \<noteq> CHR ''/'') (cs @ ''/'') = ''/''"
        by (auto simp: takeWhile_append takeWhile_eq_all_conv dropWhile_append dropWhile_eq_Nil_conv)
      have ends: "path_segments ''/'' = [''/'']" "path_segments [] = []" by (simp_all add: path_segments.simps)
      have "path_segments path = [pathUnescape cs]"
        using walk [OF False ne(1)] unfolding path list.sel all ends .
      moreover have "path_segments (path @ ''/'') = [pathUnescape cs, ''/'']"
        using walk [of "path @ ''/''"] ne(2) unfolding path append_Cons list.sel more ends by simp
      ultimately show ?thesis by simp
    qed
  qed
qed

text \<open>A multiplexer whose patterns have no slash at the end adds none to a path.\<close>

definition leaf_route :: "'h route \<Rightarrow> bool" where
  "leaf_route r \<longleftrightarrow> (case r of (_, OnePath p, _) \<Rightarrow> last (path_segments p) \<noteq> ''/'' | _ \<Rightarrow> False)"

lemma leaf_match:
  assumes "list_all leaf_route routes" "\<not> suffix ''/'' path"
  shows "match_route routes m (path @ ''/'') = None"
    and "routes_at routes path = filter (\<lambda>(_, p, _). pattern_matches p path) routes"
proof -
  have no: "\<not> pattern_matches p (path @ ''/'')" if "(pm, p, h) \<in> set routes" for pm p h
  proof
    assume m: "pattern_matches p (path @ ''/'')"
    have "leaf_route (pm, p, h)" using assms(1) that by (auto simp: list_all_iff)
    then obtain q where q: "p = OnePath q" "last (path_segments q) \<noteq> ''/''"
      by (auto simp: leaf_route_def split: path_pattern.splits)
    then show False using m path_segments_slash [OF assms(2)] by auto (metis last_snoc)
  qed
  then show "match_route routes m (path @ ''/'') = None"
    by (auto simp: match_route_def find_None_iff)
  show "routes_at routes path = filter (\<lambda>(_, p, _). pattern_matches p path) routes"
    unfolding routes_at_def using no by (intro filter_cong) auto
qed

lemma leaf_mux:
  assumes "list_all leaf_route routes"
  shows "ServeMux code routes m path =
     (if path = ''*'' then Inl \<lparr>sr_Status = 400, sr_Header = [(''Connection'', ''close'')], sr_Body = []\<rparr>
      else if m \<noteq> ''CONNECT'' \<and> cleanPath path \<noteq> path then Inl (http_Redirect code m (cleanPath path))
      else
        (case match_route routes m path of
           Some (_, _, h) \<Rightarrow> Inr h
         | None \<Rightarrow>
             (let here = filter (\<lambda>(_, p, _). pattern_matches p path) routes
              in Inl (if here = [] then http_Error [] ''404 page not found'' 404
                      else http_Error [(''Allow'', allowed_methods (map fst here))] ''Method Not Allowed'' 405))))"
proof -
  have "\<not> lacks_slash routes m q" for q
    using leaf_match(1) [OF assms] by (auto simp: lacks_slash_def exactly_def)
  moreover have "routes_at routes path = filter (\<lambda>(_, p, _). pattern_matches p path) routes"
  proof (cases "suffix ''/'' path")
    case True
    then show ?thesis by (simp add: routes_at_def)
  qed (rule leaf_match(2) [OF assms])
  ultimately show ?thesis by (auto simp: ServeMux_def Let_def split: option.split)
qed

text \<open>Two lists of routes with the same patterns, whose handlers differ only for methods that the request
  does not have, answer it alike.\<close>

definition same_for :: "string \<Rightarrow> 'h route \<Rightarrow> 'h route \<Rightarrow> bool" where
  "same_for m a b \<longleftrightarrow>
     fst a = fst b \<and> fst (snd a) = fst (snd b) \<and> (method_matches (fst a) m \<longrightarrow> snd (snd a) = snd (snd b))"

lemma ServeMux_same:
  assumes "list_all2 (same_for m) routes routes'"
  shows "ServeMux code routes m path = ServeMux code routes' m path"
proof -
  have "match_route routes m q = match_route routes' m q" for q
    using assms unfolding match_route_def
    by (induction rule: list_all2_induct) (auto simp: same_for_def prod_eq_iff)
  moreover have here: "list_all2 (same_for m) (routes_at routes q) (routes_at routes' q)" for q
    using assms unfolding routes_at_def by (induction rule: list_all2_induct) (auto simp: same_for_def)
  moreover have "map fst as = map fst bs" if "list_all2 (same_for m) as bs" for as bs :: "'a route list"
    using that by (induction rule: list_all2_induct) (auto simp: same_for_def)
  then have "map fst (routes_at routes q) = map fst (routes_at routes' q)" for q using here by blast
  moreover have "routes_at routes q = [] \<longleftrightarrow> routes_at routes' q = []" for q using here [of q] by auto
  ultimately show ?thesis by (simp only: ServeMux_def lacks_slash_def Let_def)
qed

end
