(* ===== verification/HttpSource.thy ===== *)
theory HttpSource
  imports Content Config GoHttp
begin

text \<open>
  \<open>internal/adapter/httpapi\<close>: the synchronous HTTP source. A request is what the handler looks at (the
  value of its \<open>Authorization\<close> header and its body), a response what it writes; the method and the path are
  looked at by the multiplexer. The listener is \<open>net/http\<close>; the \<open>Deliverer\<close> of the handler is a parameter, as
  its field is.
\<close>

section \<open>Requests and responses\<close>

record server_request =
  sq_Authorization :: string
  sq_Body :: string

text \<open>\<open>writeJSON\<close>: the status is written before the body is encoded, so a value that cannot be encoded
  leaves an empty body. \<open>Encode\<close> ends the value with a line feed.\<close>

definition writeJSON :: "(string \<times> string) list \<Rightarrow> int \<Rightarrow> goerr + string \<Rightarrow> server_response" where
  "writeJSON h status body =
     \<lparr>sr_Status = status, sr_Header = h @ [(''Content-Type'', ''application/json'')],
      sr_Body = (case body of Inl err \<Rightarrow> [] | Inr s \<Rightarrow> s @ [CHR 0x0A])\<rparr>"

definition errorResponse :: "string \<Rightarrow> goerr + string" where
  "errorResponse msg = Inr (json_text (JObj [(''error'', JStr msg)]))"

section \<open>Authorization\<close>

definition bearerPrefix :: string where "bearerPrefix = ''Bearer ''"

definition ConstantTimeCompare :: "string \<Rightarrow> string \<Rightarrow> nat" where
  "ConstantTimeCompare x y = (if x = y then 1 else 0)"

text \<open>All keys are compared, and the results are combined with a bitwise or.\<close>

definition authorized :: "string \<Rightarrow> string list \<Rightarrow> bool" where
  "authorized header keys =
     (if \<not> prefix bearerPrefix header then False
      else
        (let token = TrimSpace (TrimPrefix header bearerPrefix)
         in fold (\<lambda>key match. match OR ConstantTimeCompare token key) keys 0 = 1))"

definition requireBearer ::
  "string list \<Rightarrow> (string \<Rightarrow> 'e world \<Rightarrow> server_response \<times> 'e world)
    \<Rightarrow> server_request \<Rightarrow> 'e world \<Rightarrow> server_response \<times> 'e world"
where
  "requireBearer keys next_handler r w =
     (if \<not> authorized (sq_Authorization r) keys then
        (writeJSON [(''WWW-Authenticate'', ''Bearer realm='' @ [CHR 0x22] @ ''gomailer'' @ [CHR 0x22])] 401
           (errorResponse ''missing or invalid bearer token''), w)
      else next_handler (sq_Body r) w)"

section \<open>Reading the body\<close>

text \<open>A body that breaks off at the size limit (\<open>http.MaxBytesReader\<close>): the value has to be complete with
  the bytes before the limit.\<close>

fun first_within :: "machine \<Rightarrow> string \<Rightarrow> first_value option" where
  "first_within m [] = None"
| "first_within m (c # cs) =
     (case top_value (m_state m) of
        Some v \<Rightarrow> Some (Value v)
      | None \<Rightarrow>
          (case step m c of
             Inl e \<Rightarrow> (case top_number m of Some v \<Rightarrow> Some (Value v) | None \<Rightarrow> Some (Malformed e))
           | Inr m' \<Rightarrow>
               (case top_value (m_state m') of
                  Some v \<Rightarrow> if container v then Some (Value v) else first_within m' cs
                | None \<Rightarrow> first_within m' cs)))"

datatype read_error = TooLarge | Unreadable goerr

definition decode_request ::
  "(string \<Rightarrow> string) \<Rightarrow> int \<Rightarrow> string \<Rightarrow> read_error + SendEmailData"
where
  "decode_request te maxBodyBytes body =
     (if int (length body) \<le> maxBodyBytes then
        (case Decode_first te decode_email zero_email body of
           Inl err \<Rightarrow> Inl (Unreadable err)
         | Inr d \<Rightarrow> Inr d)
      else
        (case first_within initial (take (nat maxBodyBytes) body) of
           None \<Rightarrow> Inl TooLarge
         | Some (Value v) \<Rightarrow>
             (case decode_value te decode_email zero_email body v of
                Inl err \<Rightarrow> Inl (Unreadable err)
              | Inr d \<Rightarrow> Inr d)
         | Some (Malformed e) \<Rightarrow> Inl (Unreadable (Plain e))
         | Some (Incomplete _) \<Rightarrow> Inl TooLarge))"

definition writeDecodeError :: "read_error \<Rightarrow> server_response" where
  "writeDecodeError err =
     (case err of
        TooLarge \<Rightarrow> writeJSON [] 413 (errorResponse ''request body too large'')
      | Unreadable e \<Rightarrow> writeJSON [] 400 (errorResponse (''invalid JSON body: '' @ Error_text e)))"

section \<open>Status\<close>

definition isRejection :: "ErrorCode \<Rightarrow> bool" where
  "isRejection code \<longleftrightarrow> code \<in> {CodeAPIInvalidReceiver, CodeAPISenderNotAllowed, CodeAPIInvalidAttachment,
     CodeAPIInvalidRequest, CodeAPIQuotaExceeded, CodeSMTPSenderRejected, CodeSMTPReceiverRejected,
     CodeSMTPMessageRejected}"

definition statusFor :: "Outcome \<Rightarrow> int" where
  "statusFor out =
     (if Sent out then 200
      else
        (let code = event_ErrorCode (out_Event out)
         in if prefix ''message_'' (code_text code) then 400
            else if isRejection code then 422
            else if code = CodeAPIRateLimited then 429
            else if code \<in> {CodeAPIConnectionFailed, CodeAPIProviderUnavailable, CodeSMTPConnectionFailed} then 503
            else 502))"

section \<open>The handler\<close>

definition ServeHTTP ::
  "'e env \<Rightarrow> (SendEmailData \<Rightarrow> 'e world \<Rightarrow> Outcome \<times> 'e world) \<Rightarrow> int \<Rightarrow> string \<Rightarrow> 'e world
    \<Rightarrow> server_response \<times> 'e world"
where
  "ServeHTTP E deliver_once maxBodyBytes body w =
     (case decode_request (lib_type_error E) maxBodyBytes body of
        Inl err \<Rightarrow> (writeDecodeError err, w)
      | Inr d \<Rightarrow>
          (let (d', w1) =
             (if TrimSpace (email_ID d) = [] then
                (let (r, w0) = call_random16 E w in (d\<lparr>email_ID := NewID r\<rparr>, w0))
              else (d, w));
             (out, w2) = deliver_once d' w1
           in (writeJSON [] (statusFor out) (Marshal_event (out_Event out)), w2)))"

text \<open>\<open>NewServer\<close>: the one route, and what the server does with a request.\<close>

definition NewServer ::
  "'e env \<Rightarrow> HTTPAPIConfig \<Rightarrow> (SendEmailData \<Rightarrow> 'e world \<Rightarrow> Outcome \<times> 'e world)
    \<Rightarrow> (server_request \<Rightarrow> 'e world \<Rightarrow> server_response \<times> 'e world) route list"
where
  "NewServer E cfg deliver_once =
     [(Some ''POST'', OnePath ''/v1/emails'',
       requireBearer (http_Keys cfg) (ServeHTTP E deliver_once (http_MaxBodyBytes cfg)))]"

definition http_answer ::
  "int \<Rightarrow> (server_request \<Rightarrow> 'e world \<Rightarrow> server_response \<times> 'e world) route list \<Rightarrow> string \<Rightarrow> string
    \<Rightarrow> server_request \<Rightarrow> 'e world \<Rightarrow> server_response \<times> 'e world"
where
  "http_answer code routes m path r w =
     (case ServeMux code routes m path of
        Inl resp \<Rightarrow> (resp, w)
      | Inr h \<Rightarrow> h r w)"

abbreviation post_email where
  "post_email code E cfg deliver_once \<equiv> http_answer code (NewServer E cfg deliver_once) ''POST'' ''/v1/emails''"

section \<open>Facts\<close>

lemma emails_path: "path_segments ''/v1/emails'' = [''v1'', ''emails'']" "cleanPath ''/v1/emails'' = ''/v1/emails''"
  by code_simp+

lemma star_path: "path_segments ''*'' = [[]]"
  by code_simp

lemma NewServer_mux:
  "ServeMux code (NewServer E cfg deliver_once) m path =
     (if path = ''*'' then Inl \<lparr>sr_Status = 400, sr_Header = [(''Connection'', ''close'')], sr_Body = []\<rparr>
      else if m \<noteq> ''CONNECT'' \<and> cleanPath path \<noteq> path then Inl (http_Redirect code m (cleanPath path))
      else if path_segments path \<noteq> [''v1'', ''emails''] then Inl (http_Error [] ''404 page not found'' 404)
      else if m = ''POST'' then Inr (requireBearer (http_Keys cfg) (ServeHTTP E deliver_once (http_MaxBodyBytes cfg)))
      else Inl (http_Error [(''Allow'', ''POST'')] ''Method Not Allowed'' 405))"
proof -
  have "list_all leaf_route (NewServer E cfg deliver_once)"
    by (simp add: NewServer_def leaf_route_def emails_path)
  from leaf_mux [OF this] show ?thesis
    by (simp add: NewServer_def match_route_def emails_path allowed_methods_def)
qed

lemma post_email_handler:
  "post_email code E cfg deliver_once r w =
     requireBearer (http_Keys cfg) (ServeHTTP E deliver_once (http_MaxBodyBytes cfg)) r w"
  by (simp add: http_answer_def NewServer_mux emails_path)

lemma fold_compare:
  "m = 0 \<or> m = 1 \<Longrightarrow>
   fold (\<lambda>key match. match OR ConstantTimeCompare token key) keys m = (if m = 1 \<or> token \<in> set keys then 1 else 0)"
proof (induction keys arbitrary: m)
  case (Cons k ks)
  let ?n = "if m = 1 \<or> token = k then 1 else 0 :: nat"
  have "m OR ConstantTimeCompare token k = ?n"
    using Cons.prems by (elim disjE) (simp_all add: ConstantTimeCompare_def)
  moreover have "?n = 0 \<or> ?n = 1" by simp
  ultimately show ?case using Cons.IH [of ?n] by (simp only: fold_Cons comp_apply list.set) simp
qed (simp only: fold_Nil id_apply list.set, auto)

lemma authorized_iff:
  "authorized header keys \<longleftrightarrow>
     prefix bearerPrefix header \<and> TrimSpace (TrimPrefix header bearerPrefix) \<in> set keys"
  by (simp add: authorized_def Let_def fold_compare)

lemma Sent_iff: "Sent out \<longleftrightarrow> out_Err out = None"
  by (simp add: Sent_def)

lemma statusFor_alt:
  "statusFor out =
     (if Sent out then 200
      else
        (let code = event_ErrorCode (out_Event out)
         in if message_code code then 400 else if isRejection code then 422
            else if code = CodeAPIRateLimited then 429
            else if code \<in> {CodeAPIConnectionFailed, CodeAPIProviderUnavailable, CodeSMTPConnectionFailed} then 503
            else 502))"
  by (simp only: statusFor_def message_code_def)

lemma statusFor_cases: "statusFor out \<in> {200, 400, 422, 429, 502, 503}"
  by (simp add: statusFor_alt Let_def)

lemma statusFor_sent: "statusFor out = 200 \<longleftrightarrow> Sent out"
  by (simp add: statusFor_alt Let_def)

lemma statusFor_invalid: "\<not> Sent out \<Longrightarrow> statusFor out = 400 \<longleftrightarrow> message_code (event_ErrorCode (out_Event out))"
  by (simp add: statusFor_alt Let_def)

lemma statusFor_temporary:
  "\<not> Sent out \<Longrightarrow> statusFor out \<in> {429, 503} \<longleftrightarrow>
     Retryable (event_ErrorCode (out_Event out)) \<and> event_ErrorCode (out_Event out) \<noteq> CodeSMTPTemporaryFailure"
  by (cases "event_ErrorCode (out_Event out)") (simp_all add: statusFor_alt isRejection_def message_code_iff)

lemma writeJSON_status [simp]: "sr_Status (writeJSON h st b) = st"
  by (simp add: writeJSON_def)

lemma writeDecodeError_status: "sr_Status (writeDecodeError err) \<in> {400, 413}"
  by (cases err) (simp_all add: writeDecodeError_def)

lemma ServeHTTP_status: "sr_Status (fst (ServeHTTP E deliver_once n body w)) \<noteq> 401"
proof (cases "decode_request (lib_type_error E) n body")
  case (Inl err)
  then show ?thesis using writeDecodeError_status [of err] by (auto simp: ServeHTTP_def)
next
  case (Inr d)
  have "statusFor out \<noteq> 401" for out using statusFor_cases [of out] by auto
  then show ?thesis using Inr by (simp add: ServeHTTP_def Let_def split: prod.splits)
qed

section \<open>Properties\<close>

text \<open>C36: The HTTP source never runs unauthenticated. With every configuration the program accepts, only
  \<open>POST\<close> to the clean path \<open>/v1/emails\<close> (letters of which may be written as percent escapes) reaches the service.
  A path that is not clean is answered with a redirect to its clean form (except for \<open>CONNECT\<close>), \<open>*\<close> with 400, any
  other path with 404 and any other method with 405. A request that reaches the service is answered with 401
  exactly when its header is not \<open>Bearer \<close> followed by one of the configured keys (white space around the token
  aside); a token without characters is never accepted. None of the requests refused has any effect.\<close>

theorem bearer_required:
  assumes "NewHTTPAPIConfig L g = Inr cfg" "http_answer code (NewServer E cfg deliver_once) m path r w = (resp, w')"
  shows "if m = ''POST'' \<and> cleanPath path = path \<and> path_segments path = [''v1'', ''emails''] then
      (sr_Status resp = 401 \<longleftrightarrow>
        \<not> (prefix ''Bearer '' (sq_Authorization r)
           \<and> TrimSpace (TrimPrefix (sq_Authorization r) ''Bearer '') \<in> set (http_Keys cfg)))
      \<and> (sr_Status resp = 401 \<longrightarrow> w' = w)
      \<and> (TrimSpace (TrimPrefix (sq_Authorization r) ''Bearer '') = [] \<longrightarrow> sr_Status resp = 401)
    else w' = w
      \<and> (if path = ''*'' then sr_Status resp = 400
         else if m \<noteq> ''CONNECT'' \<and> cleanPath path \<noteq> path then resp = http_Redirect code m (cleanPath path)
         else sr_Status resp = (if path_segments path = [''v1'', ''emails''] then 405 else 404))"
proof (cases "m = ''POST'' \<and> cleanPath path = path \<and> path_segments path = [''v1'', ''emails'']")
  case True
  then have routed: "requireBearer (http_Keys cfg) (ServeHTTP E deliver_once (http_MaxBodyBytes cfg)) r w = (resp, w')"
    using assms(2) star_path by (auto simp: http_answer_def NewServer_mux split: if_splits)
  have "(sr_Status resp = 401 \<longleftrightarrow>
        \<not> (prefix ''Bearer '' (sq_Authorization r)
           \<and> TrimSpace (TrimPrefix (sq_Authorization r) ''Bearer '') \<in> set (http_Keys cfg)))
      \<and> (sr_Status resp = 401 \<longrightarrow> w' = w)
      \<and> (TrimSpace (TrimPrefix (sq_Authorization r) ''Bearer '') = [] \<longrightarrow> sr_Status resp = 401)"
  proof (cases "authorized (sq_Authorization r) (http_Keys cfg)")
    case True
    then have "resp = fst (ServeHTTP E deliver_once (http_MaxBodyBytes cfg) (sq_Body r) w)"
      using routed by (simp add: requireBearer_def)
    then have "sr_Status resp \<noteq> 401" by (simp add: ServeHTTP_status)
    then show ?thesis
      using True http_config_keys(2) [OF assms(1)] by (auto simp: authorized_iff bearerPrefix_def)
  next
    case False
    then have "sr_Status resp = 401" "w' = w" using routed by (auto simp: requireBearer_def)
    then show ?thesis using False by (auto simp: authorized_iff bearerPrefix_def)
  qed
  with True show ?thesis by simp
next
  case False
  then show ?thesis
    using assms(2) by (auto simp: http_answer_def NewServer_mux split: if_splits)
qed

text \<open>C37: An authorized request is delivered at most once, synchronously: a body that cannot be read is
  answered with 400, or with 413 when it is cut off by the size limit, and nothing else happens; any
  other body leads to exactly one delivery, of the email in the body, with a generated UUID exactly
  when it has no id of its own, and the response carries the event of that delivery.\<close>

theorem http_delivers_once:
  assumes "\<And>v. length (fst (random16 E v)) = 16" "ServeHTTP E deliver_once n body w = (resp, w')"
  shows "(\<exists>err. decode_request (lib_type_error E) n body = Inl err \<and> w' = w
        \<and> sr_Status resp = (case err of TooLarge \<Rightarrow> 413 | Unreadable e \<Rightarrow> 400))
    \<or> (\<exists>d d' w1 out. decode_request (lib_type_error E) n body = Inr d \<and> deliver_once d' w1 = (out, w')
        \<and> resp = writeJSON [] (statusFor out) (Marshal_event (out_Event out))
        \<and> trace w1 = trace w \<and> d' = d\<lparr>email_ID := email_ID d'\<rparr>
        \<and> (if TrimSpace (email_ID d) = [] then uuid_v4 (email_ID d') else d' = d \<and> w1 = w))"
proof (cases "decode_request (lib_type_error E) n body")
  case (Inl err)
  then show ?thesis using assms by (cases err) (auto simp: ServeHTTP_def writeDecodeError_def)
next
  case (Inr d)
  show ?thesis
  proof (cases "TrimSpace (email_ID d) = []")
    case True
    obtain r w1 where r: "call_random16 E w = (r, w1)" by fastforce
    then have "r = fst (random16 E (hidden w))" by (auto simp: call_random16_def split: prod.splits)
    then have "length r = 16" using assms(1) by simp
    then have "uuid_v4 (NewID r)" by (rule NewID_uuid_v4)
    moreover obtain out w2 where out: "deliver_once (d\<lparr>email_ID := NewID r\<rparr>) w1 = (out, w2)" by fastforce
    moreover from this have "resp = writeJSON [] (statusFor out) (Marshal_event (out_Event out))" "w' = w2"
      using assms(2) Inr True r by (simp_all add: ServeHTTP_def)
    ultimately show ?thesis
      using Inr True call_trace(7) [OF r]
      by (intro disjI2 exI [of _ d] exI [of _ "d\<lparr>email_ID := NewID r\<rparr>"] exI [of _ w1] exI [of _ out] conjI)
        simp_all
  next
    case False
    obtain out w2 where "deliver_once d w = (out, w2)" by fastforce
    moreover from this have "resp = writeJSON [] (statusFor out) (Marshal_event (out_Event out))" "w' = w2"
      using assms(2) Inr False by (simp_all add: ServeHTTP_def)
    ultimately show ?thesis
      using Inr False
      by (intro disjI2 exI [of _ d] exI [of _ d] exI [of _ w] exI [of _ out] conjI) simp_all
  qed
qed

text \<open>C38: The status of the response tells the caller what to do: 200 means sent and nothing else does, 400
  means the email itself is invalid, and 429 or 503 are answered exactly for the temporary failures,
  with one exception: \<open>smtp_temporary_failure\<close> is answered with 502, like rejected credentials.\<close>

theorem http_status_meaning:
  "(statusFor out = 200 \<longleftrightarrow> Sent out)
   \<and> (let code = event_ErrorCode (out_Event out)
      in if Sent out then statusFor out = 200
         else if code = CodeSMTPTemporaryFailure then statusFor out = 502
         else (statusFor out = 400 \<longleftrightarrow> message_code code) \<and> (statusFor out \<in> {429, 503} \<longleftrightarrow> Retryable code))"
proof (intro conjI)
  have "statusFor out = 502" if "\<not> Sent out" "event_ErrorCode (out_Event out) = CodeSMTPTemporaryFailure"
    using that by (simp add: statusFor_alt message_code_iff isRejection_def)
  then show "let code = event_ErrorCode (out_Event out)
      in if Sent out then statusFor out = 200
         else if code = CodeSMTPTemporaryFailure then statusFor out = 502
         else (statusFor out = 400 \<longleftrightarrow> message_code code) \<and> (statusFor out \<in> {429, 503} \<longleftrightarrow> Retryable code)"
    using statusFor_sent [of out] statusFor_invalid [of out] statusFor_temporary [of out] by (simp add: Let_def)
qed (rule statusFor_sent)

section \<open>Witnesses\<close>

theorem bearer_required_witness:
  "\<exists>cfg. \<forall>code. sr_Status (fst (http_answer code (NewServer quiet_env cfg (DeliverOnce open_service)) ''POST'' ''/v1/emails''
       \<lparr>sq_Authorization = ''Bearer '', sq_Body = []\<rparr> some_world)) = 401
     \<and> http_Keys cfg = [''k1'', ''k2'']"
proof -
  obtain cfg where cfg: "NewHTTPAPIConfig plain_lib (env_of [(''HTTP_API_KEYS'', ''k1, k2'')]) = Inr cfg"
    "http_Keys cfg = [''k1'', ''k2'']"
    using two_keys by blast
  have "TrimSpace (TrimPrefix ''Bearer '' ''Bearer '') = []" by code_simp
  then have "sr_Status (fst (http_answer code (NewServer quiet_env cfg (DeliverOnce open_service)) ''POST'' ''/v1/emails''
       \<lparr>sq_Authorization = ''Bearer '', sq_Body = []\<rparr> some_world)) = 401" for code
    using bearer_required [OF cfg(1) prod.collapse [symmetric],
        where E = quiet_env and deliver_once = "DeliverOnce open_service" and m = "''POST''" and path = "''/v1/emails''"
          and r = "\<lparr>sq_Authorization = ''Bearer '', sq_Body = []\<rparr>" and w = some_world and code = code]
    by (simp add: emails_path)
  with cfg(2) show ?thesis by blast
qed

theorem http_delivers_once_witness:
  "\<exists>err. decode_request (lib_type_error quiet_env) 10 [] = Inl err
     \<and> sr_Status (fst (ServeHTTP quiet_env (DeliverOnce open_service) 10 [] some_world)) = (case err of TooLarge \<Rightarrow> 413 | Unreadable e \<Rightarrow> 400)"
proof -
  have "run_first initial [] = Incomplete True" by code_simp
  then have "\<exists>err. decode_request (lib_type_error quiet_env) 10 [] = Inl err"
    by (simp add: decode_request_def Decode_first_def)
  moreover have "length (fst (random16 quiet_env v)) = 16" for v by (simp add: quiet_env_def)
  note http_delivers_once [OF this prod.collapse [symmetric], where deliver_once = "DeliverOnce open_service" and n = 10 and body = "[]" and w = some_world]
  ultimately show ?thesis by fastforce
qed

end
