(* ===== verification/Client.thy ===== *)
theory Client
  imports Content Consumer "HOL-Library.List_Lexorder" "HOL-Library.Char_ord"
begin

text \<open>
  The Go client library's message contract: \<open>client/email.go\<close> (the email as an application builds it, its
  validation, and the JSON message it is sent as) and \<open>client/id.go\<close>. The types \<open>Callback\<close>,
  \<open>CallbackTarget\<close> and \<open>ErrorCode\<close> of the client have the fields and constants of the server's, so the
  model uses the same records for both. The client is a module of its own: what ties it to the server is
  the JSON text alone, and the round trip at the end goes through that text.
\<close>

section \<open>Emails\<close>

record ClientAttachment =
  cat_Name :: string
  cat_ContentType :: string
  cat_Content :: string

record Email =
  cl_ID :: string
  cl_From :: string
  cl_FromName :: string
  cl_To :: "string list"
  cl_Cc :: "string list"
  cl_Bcc :: "string list"
  cl_Subject :: string
  cl_HTML :: string
  cl_Attachments :: "ClientAttachment list"
  cl_Callback :: "Callback option"

definition ErrInvalidEmail :: goerr where
  "ErrInvalidEmail = Plain ''invalid email''"

definition nonBlank :: "string list \<Rightarrow> string list" where
  "nonBlank values = filter (\<lambda>s. s \<noteq> []) (map TrimSpace values)"

definition Validate :: "Email \<Rightarrow> goerr option" where
  "Validate e =
     (let missing =
            (if TrimSpace (cl_From e) = [] then [''from''] else [])
            @ (if nonBlank (cl_To e) = [] then [''to''] else [])
            @ (if TrimSpace (cl_Subject e) = [] then [''subject''] else [])
            @ (if TrimSpace (cl_HTML e) = [] then [''html''] else [])
      in if missing = [] then None
         else Some (Joined [ErrInvalidEmail, Plain (''missing '' @ Join missing '', '')]))"

definition Prepare :: "'e env \<Rightarrow> Email \<Rightarrow> 'e world \<Rightarrow> (goerr + Email) \<times> 'e world" where
  "Prepare E e w =
     (case Validate e of
        Some err \<Rightarrow> (Inl err, w)
      | None \<Rightarrow>
          if TrimSpace (cl_ID e) = [] then
            (let (r, w1) = call_random16 E w in (Inr (e\<lparr>cl_ID := NewID r\<rparr>), w1))
          else (Inr e, w))"

section \<open>The message\<close>

record wireAttachment =
  wa_Name :: string
  wa_Type :: string
  wa_Data :: string
  wa_Decoder :: string

record wireEmail =
  we_ID :: string
  we_From :: string
  we_FromName :: string
  we_Receiver :: "string list"
  we_Cc :: "string list"
  we_Bcc :: "string list"
  we_Subject :: string
  we_Body :: string
  we_Attachments :: "wireAttachment list"
  we_Callback :: "Callback option"

definition contentType :: "string \<Rightarrow> string" where
  "contentType v = (if v = [] then ''application/octet-stream'' else v)"

definition wire_email :: "Email \<Rightarrow> wireEmail" where
  "wire_email e =
     \<lparr>we_ID = cl_ID e, we_From = TrimSpace (cl_From e), we_FromName = TrimSpace (cl_FromName e),
      we_Receiver = nonBlank (cl_To e), we_Cc = nonBlank (cl_Cc e), we_Bcc = nonBlank (cl_Bcc e),
      we_Subject = cl_Subject e, we_Body = EncodeToString (cl_HTML e),
      we_Attachments = map (\<lambda>a. \<lparr>wa_Name = cat_Name a, wa_Type = contentType (cat_ContentType a),
        wa_Data = EncodeToString (cat_Content a), wa_Decoder = ''base64''\<rparr>) (cl_Attachments e),
      we_Callback = cl_Callback e\<rparr>"

text \<open>\<open>json.Marshal\<close> of the structs. The keys of a map are written in ascending order; a nil slice without
  \<open>omitempty\<close> is \<open>null\<close>.\<close>

definition omitempty_member :: "string \<Rightarrow> json option \<Rightarrow> (string \<times> json) list" where
  "omitempty_member key v = (case v of None \<Rightarrow> [] | Some j \<Rightarrow> [(key, j)])"

definition target_json :: "CallbackTarget \<Rightarrow> json" where
  "target_json t =
     JObj ((''url'', JStr (target_URL t))
       # (if target_Headers t = [] then []
          else [(''headers'', JObj (map (\<lambda>(k, v). (k, JStr v)) (sort_key fst (target_Headers t))))]))"

definition callback_json :: "Callback \<Rightarrow> json" where
  "callback_json c =
     JObj (omitempty_member ''success'' (map_option target_json (Success c))
       @ omitempty_member ''failure'' (map_option target_json (Failure c)))"

definition wire_attachment_json :: "wireAttachment \<Rightarrow> json" where
  "wire_attachment_json a =
     JObj [(''name'', JStr (wa_Name a)), (''type'', JStr (wa_Type a)), (''data'', JStr (wa_Data a)),
       (''decoder'', JStr (wa_Decoder a))]"

definition omitempty_array :: "string \<Rightarrow> json list \<Rightarrow> (string \<times> json) list" where
  "omitempty_array key vs = omitempty_member key (if vs = [] then None else Some (JArr vs))"

definition wire_json :: "wireEmail \<Rightarrow> json" where
  "wire_json m =
     JObj (omitempty ''id'' (we_ID m) @ [(''from'', JStr (we_From m))]
       @ omitempty ''from_name'' (we_FromName m)
       @ [(''receiver'', if we_Receiver m = [] then JNull else JArr (map JStr (we_Receiver m)))]
       @ omitempty_array ''cc'' (map JStr (we_Cc m)) @ omitempty_array ''bcc'' (map JStr (we_Bcc m))
       @ [(''subject'', JStr (we_Subject m)), (''body'', JStr (we_Body m))]
       @ omitempty_array ''attachments'' (map wire_attachment_json (we_Attachments m))
       @ omitempty_member ''callback'' (map_option callback_json (we_Callback m)))"

definition MarshalJSON :: "Email \<Rightarrow> string" where
  "MarshalJSON e = json_text (wire_json (wire_email e))"

section \<open>Valid emails\<close>

lemma Validate_None:
  "Validate e = None \<longleftrightarrow> \<not> blank (cl_From e) \<and> nonBlank (cl_To e) \<noteq> [] \<and> \<not> blank (cl_Subject e) \<and> \<not> blank (cl_HTML e)"
  by (simp add: Validate_def Let_def)

lemma Prepare_valid:
  assumes "Prepare E e w = (Inr e', w')"
  shows "Validate e' = None" "e' = e\<lparr>cl_ID := cl_ID e'\<rparr>" "trace w' = trace w"
proof -
  have v: "Validate e = None" using assms by (auto simp: Prepare_def split: option.splits)
  show "trace w' = trace w"
    using assms v by (auto simp: Prepare_def dest!: call_trace(7) split: prod.splits if_splits)
  obtain i where "e' = e\<lparr>cl_ID := i\<rparr>"
  proof (cases "TrimSpace (cl_ID e) = []")
    case True
    then show ?thesis using that assms v by (auto simp: Prepare_def split: prod.splits)
  next
    case False
    then have "e' = e\<lparr>cl_ID := cl_ID e\<rparr>" using assms v by (simp add: Prepare_def)
    then show ?thesis by (rule that)
  qed
  then show "Validate e' = None" "e' = e\<lparr>cl_ID := cl_ID e'\<rparr>" using v by (simp_all add: Validate_None)
qed

text \<open>The id that an email is sent with: its own, or a new one if it has none.\<close>

definition sent_id :: "Email \<Rightarrow> string \<Rightarrow> bool" where
  "sent_id e i \<longleftrightarrow> (if blank (cl_ID e) then \<exists>r. i = NewID r else i = cl_ID e)"

lemma Prepare_cases:
  "Prepare E e w =
     (case Validate e of
        Some err \<Rightarrow> (Inl err, w)
      | None \<Rightarrow> (Inr (e\<lparr>cl_ID := if blank (cl_ID e) then NewID (fst (call_random16 E w)) else cl_ID e\<rparr>),
                 if blank (cl_ID e) then snd (call_random16 E w) else w))"
  by (simp add: Prepare_def split: option.split prod.split)

lemma Prepare_sent_id: "Prepare E e w = (Inr e', w') \<Longrightarrow> sent_id e (cl_ID e')"
  by (auto simp: Prepare_cases sent_id_def split: option.splits)

lemma nonBlank_trimmed: "a \<in> set (nonBlank xs) \<Longrightarrow> a \<noteq> [] \<and> TrimSpace a = a"
  by (auto simp: nonBlank_def)

section \<open>Text that JSON carries unchanged\<close>

fun utf8_json :: "json \<Rightarrow> bool" where
  "utf8_json (JStr s) = valid_utf8 s"
| "utf8_json (JArr vs) = (\<forall>v \<in> set vs. utf8_json v)"
| "utf8_json (JObj ms) = (\<forall>(k, v) \<in> set ms. valid_utf8 k \<and> utf8_json v)"
| "utf8_json v = True"

lemma cleaned_utf8: "utf8_json v \<Longrightarrow> cleaned v = v"
proof (induction v rule: utf8_json.induct)
  case (3 ms)
  then show ?case by (fastforce simp: valid_utf8_def intro!: map_idI)
qed (auto simp: valid_utf8_def intro!: map_idI)

lemma valid_utf8_ascii: "list_all (\<lambda>c. (of_char c :: nat) < 128) s \<Longrightarrow> valid_utf8 s"
proof (induction s)
  case (Cons c s)
  have "rune_width ([c] @ s) = length [c]" using Cons.prems by (simp add: rune_width_def rune1_def)
  then have "runes (c # s) = [c] # runes s" using runes_front [of "[c]" s] by simp
  then show ?case using Cons by (simp add: valid_utf8_def)
qed (simp add: valid_utf8_def)

lemma NewID_ascii: "list_all (\<lambda>c. (of_char c :: nat) < 128) (NewID r)"
proof -
  have digit: "(of_char (hex_digit n) :: nat) < 128" if "n < 16" for n
    using that by (simp add: hex_digit_def)
  have "list_all (\<lambda>c. (of_char c :: nat) < 128) (hex_bytes bs)" for bs
  proof (induction bs)
    case (Cons b bs)
    have "unat b < 256" using unsigned_less [of b, where ?'a = nat] by simp
    then have "unat b div 16 < 16" by (simp add: less_mult_imp_div_less)
    then show ?case using Cons digit by (simp add: hex_bytes_def)
  qed (simp add: hex_bytes_def)
  then show ?thesis by (simp add: NewID_def Let_def)
qed

lemma NewID_ready: "valid_utf8 (NewID r)" "\<not> blank (NewID r)"
proof -
  show "valid_utf8 (NewID r)" using NewID_ascii by (rule valid_utf8_ascii)
  have keeps: "c \<in> set (trim_front encs s)" if "c \<in> set s" "\<forall>e \<in> set encs. c \<notin> set e" for c encs s
    using that
  proof (induction encs s rule: trim_front.induct)
    case (1 encs s)
    show ?case
    proof (cases "front_match encs s")
      case None
      then show ?thesis using "1.prems" by (simp add: trim_front_id)
    next
      case (Some e)
      then have "prefix e s" "c \<notin> set e" using front_match_Some [OF Some] "1.prems" by auto
      then have "c \<in> set (drop (length e) s)" using "1.prems"(1) by (auto elim!: prefixE)
      then show ?thesis using "1.IH" [OF Some] "1.prems"(2) Some by (simp add: trim_front.simps [of encs s])
    qed
  qed
  have "\<forall>e \<in> set space_encodings. CHR ''-'' \<notin> set e" by code_simp
  moreover have "CHR ''-'' \<in> set (NewID r)" by (simp add: NewID_def Let_def)
  ultimately have "CHR ''-'' \<in> set (TrimSpace (NewID r))" using keeps by (simp add: TrimSpace_def)
  then show "\<not> blank (NewID r)" by auto
qed

lemma sent_id_ready: "sent_id e i \<Longrightarrow> \<not> blank i"
  using NewID_ready(2) by (auto simp: sent_id_def split: if_splits)

lemma utf8_with_id:
  assumes "utf8_json (wire_json (wire_email e))" "sent_id e i"
  shows "utf8_json (wire_json (wire_email (e\<lparr>cl_ID := i\<rparr>)))"
proof (cases "blank (cl_ID e)")
  case True
  then have "valid_utf8 i" using assms(2) NewID_ready(1) by (auto simp: sent_id_def)
  moreover have "valid_utf8 ''id''" by code_simp
  ultimately show ?thesis
    using assms(1) by (auto simp: wire_json_def wire_email_def omitempty_def ball_Un)
next
  case False
  then show ?thesis using assms by (simp add: sent_id_def)
qed

lemma depth_object: "(\<And>k v. (k, v) \<in> set ms \<Longrightarrow> depth v \<le> n) \<Longrightarrow> depth (JObj ms) \<le> Suc n"
  by (induction ms) (fastforce simp: split_beta)+

lemma depth_array: "(\<And>v. v \<in> set vs \<Longrightarrow> depth v \<le> n) \<Longrightarrow> depth (JArr vs) \<le> Suc n"
  by (induction vs) auto

lemma wire_attachment_shape: "numberless (wire_attachment_json a)" "depth (wire_attachment_json a) = 1"
  by (simp_all add: wire_attachment_json_def)

lemma target_shape: "numberless (target_json t)" "depth (target_json t) \<le> 2"
proof -
  have "depth (JObj (map (\<lambda>(k, v). (k, JStr v)) hs)) \<le> Suc 0" for hs
    by (rule depth_object) auto
  then show "depth (target_json t) \<le> 2"
    unfolding target_json_def numeral_2_eq_2 by (intro depth_object) (auto split: if_splits simp del: depth.simps(2))
qed (auto simp: target_json_def)

lemma callback_shape: "numberless (callback_json c)" "depth (callback_json c) \<le> 3"
  using target_shape depth_object [of _ 2]
  by (auto simp: callback_json_def omitempty_member_def split: option.splits)

lemma optional_members:
  "(k, v) \<in> set (omitempty key s) \<Longrightarrow> v = JStr s"
  "(k, v) \<in> set (omitempty_array key vs) \<Longrightarrow> v = JArr vs"
  "(k, v) \<in> set (omitempty_member key j) \<Longrightarrow> j = Some v"
  by (auto simp: omitempty_def omitempty_array_def omitempty_member_def split: if_splits option.splits)

lemma wire_member:
  assumes "wire_json m = JObj ms" "(k, v) \<in> set ms"
  obtains s where "v = JStr s" | "v = JNull" | xs where "v = JArr (map JStr xs)"
    | as where "v = JArr (map wire_attachment_json as)" | c where "v = callback_json c"
proof -
  from assms(2) show ?thesis
    unfolding assms(1) [unfolded wire_json_def json.inject, symmetric] set_append list.set
    by (elim UnE insertE emptyE) (auto dest!: optional_members split: if_splits intro: that)
qed

lemma wire_shape: "numberless (wire_json m)" "depth (wire_json m) \<le> 4" "container (wire_json m)"
proof -
  obtain ms where ms: "wire_json m = JObj ms" by (simp add: wire_json_def)
  have "numberless v \<and> depth v \<le> 3" if "(k, v) \<in> set ms" for k v
    using ms that
  proof (cases rule: wire_member)
    case (3 xs)
    have "depth (JArr (map JStr xs)) \<le> Suc 0" by (rule depth_array) auto
    then show ?thesis using 3 by (auto simp del: depth.simps)
  next
    case (4 as)
    have "depth (JArr (map wire_attachment_json as)) \<le> Suc 1"
      by (rule depth_array) (auto simp: wire_attachment_shape)
    then show ?thesis using 4 wire_attachment_shape(1) by (auto simp del: depth.simps)
  qed (use callback_shape in auto)
  then show "numberless (wire_json m)" "depth (wire_json m) \<le> 4"
    using depth_object [of ms 3] ms by (auto simp del: depth.simps)
qed (simp add: wire_json_def)

section \<open>Reading the message\<close>

lemma decode_members_then:
  "decode_members fs x a = (None, y) \<Longrightarrow> decode_members fs x (a @ b) = decode_members fs y b"
proof (induction a arbitrary: x)
  case (Cons m a)
  obtain k v where m: "m = (k, v)" by fastforce
  show ?case
  proof (cases "find_field fs k")
    case None
    then show ?thesis using Cons m by simp
  next
    case (Some f)
    obtain e z where f: "f x v = (e, z)" by fastforce
    obtain e' z' where r: "decode_members fs z a = (e', z')" by fastforce
    have "e = None" "e' = None" "z' = y"
      using Cons.prems m Some f r by (cases e; cases e'; auto split: if_splits)+
    then show ?thesis using Cons.IH [of z] m Some f r by simp
  qed
qed simp

lemma decode_member:
  "find_field fs k = Some f \<Longrightarrow> f x v = (None, y) \<Longrightarrow> decode_members fs x [(k, v)] = (None, y)"
  by simp

lemma email_field_lookup:
  "find_field email_fields ''id'' = Some (string_field (\<lambda>s d. d\<lparr>email_ID := s\<rparr>))"
  "find_field email_fields ''attachments'' = Some (inner_field email_Attachments (\<lambda>a d. d\<lparr>email_Attachments := a\<rparr>)
     (decode_pointer [] (decode_slice zero_attachment (decode_struct attachment_fields))))"
  "find_field email_fields ''body'' = Some (string_field (\<lambda>s d. d\<lparr>email_Body := s\<rparr>))"
  "find_field email_fields ''from'' = Some (string_field (\<lambda>s d. d\<lparr>email_From := s\<rparr>))"
  "find_field email_fields ''from_name'' = Some (string_field (\<lambda>s d. d\<lparr>email_FromName := s\<rparr>))"
  "find_field email_fields ''receiver'' = Some (inner_field email_Receiver (\<lambda>r d. d\<lparr>email_Receiver := r\<rparr>) UnmarshalJSON)"
  "find_field email_fields ''subject'' = Some (string_field (\<lambda>s d. d\<lparr>email_Subject := s\<rparr>))"
  "find_field email_fields ''cc'' = Some (inner_field email_Cc (\<lambda>r d. d\<lparr>email_Cc := r\<rparr>) UnmarshalJSON)"
  "find_field email_fields ''bcc'' = Some (inner_field email_Bcc (\<lambda>r d. d\<lparr>email_Bcc := r\<rparr>) UnmarshalJSON)"
  "find_field email_fields ''callback'' = Some (inner_field email_Callback (\<lambda>c d. d\<lparr>email_Callback := c\<rparr>)
     (decode_pointer zero_callback (decode_struct callback_fields)))"
  by (simp_all add: find_field_def email_fields_def)

lemma attachment_field_lookup:
  "find_field attachment_fields ''data'' = Some (string_field (\<lambda>s a. a\<lparr>att_Data := s\<rparr>))"
  "find_field attachment_fields ''name'' = Some (string_field (\<lambda>s a. a\<lparr>att_Name := s\<rparr>))"
  "find_field attachment_fields ''type'' = Some (string_field (\<lambda>s a. a\<lparr>att_Type := s\<rparr>))"
  "find_field attachment_fields ''decoder'' = Some (inner_field att_Decoder (\<lambda>d a. a\<lparr>att_Decoder := d\<rparr>)
     (decode_pointer [] (string_field (\<lambda>s _. s))))"
  by (simp_all add: find_field_def attachment_fields_def)

lemma callback_field_lookup:
  "find_field callback_fields ''success'' = Some (inner_field Success (\<lambda>t c. c\<lparr>Success := t\<rparr>)
     (decode_pointer zero_target (decode_struct target_fields)))"
  "find_field callback_fields ''failure'' = Some (inner_field Failure (\<lambda>t c. c\<lparr>Failure := t\<rparr>)
     (decode_pointer zero_target (decode_struct target_fields)))"
  "find_field target_fields ''url'' = Some (string_field (\<lambda>s t. t\<lparr>target_URL := s\<rparr>))"
  "find_field target_fields ''headers'' =
     Some (inner_field target_Headers (\<lambda>hs t. t\<lparr>target_Headers := hs\<rparr>) decode_string_map)"
  by (simp_all add: find_field_def callback_fields_def target_fields_def)

text \<open>The parts of a message, each read into what it was written from.\<close>

lemma decode_object: "decode_struct fs x (JObj ms) = decode_members fs x ms"
  by (simp add: decode_struct_def)

lemma update_new: "k \<notin> fst ` set hs \<Longrightarrow> AList.update k v hs = hs @ [(k, v)]"
  by (induction hs) auto

lemma decode_pairs_new:
  "distinct (map fst (hs @ kvs)) \<Longrightarrow> decode_pairs hs (map (\<lambda>(k, v). (k, JStr v)) kvs) = (None, hs @ kvs)"
  by (induction kvs arbitrary: hs) (auto simp: string_field_def update_new image_Un)

lemma decode_headers:
  "distinct (map fst hs) \<Longrightarrow>
   decode_string_map [] (JObj (map (\<lambda>(k, v). (k, JStr v)) (sort_key fst hs))) = (None, sort_key fst hs)"
  using decode_pairs_new [of "[]" "sort_key fst hs"]
  by (simp add: decode_string_map_def distinct_map inj_on_def)

definition sorted_target :: "CallbackTarget \<Rightarrow> CallbackTarget" where
  "sorted_target t = t\<lparr>target_Headers := sort_key fst (target_Headers t)\<rparr>"

definition sorted_callback :: "Callback \<Rightarrow> Callback" where
  "sorted_callback c = \<lparr>Success = map_option sorted_target (Success c), Failure = map_option sorted_target (Failure c)\<rparr>"

definition header_map :: "CallbackTarget \<Rightarrow> bool" where
  "header_map t \<longleftrightarrow> distinct (map fst (target_Headers t))"

lemma decode_target:
  "header_map t \<Longrightarrow> decode_struct target_fields zero_target (target_json t) = (None, sorted_target t)"
  by (simp add: target_json_def decode_object callback_field_lookup string_field_def inner_field_def
      zero_target_def sorted_target_def decode_headers header_map_def)

definition callback_maps :: "Callback option \<Rightarrow> bool" where
  "callback_maps c \<longleftrightarrow> (\<forall>cb t. c = Some cb \<and> (Success cb = Some t \<or> Failure cb = Some t) \<longrightarrow> header_map t)"

lemma target_json_not_null [simp]: "target_json t \<noteq> JNull" "callback_json c \<noteq> JNull" "wire_attachment_json a \<noteq> JNull"
  by (simp_all add: target_json_def callback_json_def wire_attachment_json_def)

lemma decode_callback:
  assumes "callback_maps (Some c)"
  shows "decode_struct callback_fields zero_callback (callback_json c) = (None, sorted_callback c)"
proof (cases "Success c"; cases "Failure c")
qed (use assms in \<open>auto simp: callback_json_def omitempty_member_def decode_object callback_field_lookup
      inner_field_def decode_pointer_def zero_callback_def sorted_callback_def callback_maps_def decode_target
      split: prod.split\<close>)

definition wire_to_attachment :: "wireAttachment \<Rightarrow> Attachment" where
  "wire_to_attachment a =
     \<lparr>att_Data = wa_Data a, att_Name = wa_Name a, att_Type = wa_Type a, att_Decoder = Some (wa_Decoder a)\<rparr>"

lemma decode_attachment:
  "decode_struct attachment_fields zero_attachment (wire_attachment_json a) = (None, wire_to_attachment a)"
  by (simp add: wire_attachment_json_def decode_object attachment_field_lookup string_field_def inner_field_def
      decode_pointer_def zero_attachment_def wire_to_attachment_def)

lemma decode_attachments:
  "decode_elements zero_attachment (decode_struct attachment_fields) [] (map wire_attachment_json as) =
     (None, map wire_to_attachment as)"
  by (induction as) (simp_all add: decode_attachment)

text \<open>What the server makes of a message.\<close>

definition received :: "wireEmail \<Rightarrow> SendEmailData" where
  "received m =
     \<lparr>email_ID = we_ID m,
      email_Attachments = (if we_Attachments m = [] then None else Some (map wire_to_attachment (we_Attachments m))),
      email_Body = we_Body m, email_From = we_From m, email_FromName = we_FromName m,
      email_Receiver = concat (map ParseRecipients (we_Receiver m)), email_Subject = we_Subject m,
      email_Cc = concat (map ParseRecipients (we_Cc m)), email_Bcc = concat (map ParseRecipients (we_Bcc m)),
      email_Callback = map_option sorted_callback (we_Callback m)\<rparr>"

lemma decode_recipients_member:
  assumes "find_field fs key = Some (inner_field get upd UnmarshalJSON)" "get x = []" "upd [] x = x"
  shows "decode_members fs x (omitempty_array key (map JStr rs)) = (None, upd (concat (map ParseRecipients rs)) x)"
  using assms
  by (cases "rs = []") (simp_all add: omitempty_array_def omitempty_member_def inner_field_def UnmarshalJSON_array)

lemma decode_text_member:
  assumes "find_field fs key = Some (string_field upd)" "upd [] x = x"
  shows "decode_members fs x (omitempty key s) = (None, upd s x)"
  using assms by (cases "s = []") (simp_all add: omitempty_def string_field_def)

lemma decode_receiver:
  "UnmarshalJSON [] (if rs = [] then JNull else JArr (map JStr rs)) = (None, concat (map ParseRecipients rs))"
proof (cases "rs = []")
  case True
  then show ?thesis by (simp add: UnmarshalJSON_def)
next
  case False
  then show ?thesis by (simp add: UnmarshalJSON_array)
qed

lemma decode_attachments_member:
  "email_Attachments d = None \<Longrightarrow>
   decode_members email_fields d (omitempty_array ''attachments'' (map wire_attachment_json as)) =
     (None, d\<lparr>email_Attachments := (if as = [] then None else Some (map wire_to_attachment as))\<rparr>)"
  by (cases "as = []")
    (simp_all add: omitempty_array_def omitempty_member_def email_field_lookup inner_field_def decode_pointer_def
      decode_slice_def decode_attachments)

lemma decode_callback_member:
  "email_Callback d = None \<Longrightarrow> callback_maps c \<Longrightarrow>
   decode_members email_fields d (omitempty_member ''callback'' (map_option callback_json c)) =
     (None, d\<lparr>email_Callback := map_option sorted_callback c\<rparr>)"
  by (cases c)
    (simp_all add: omitempty_member_def email_field_lookup inner_field_def decode_pointer_def decode_callback)

lemma decode_wire:
  assumes "callback_maps (we_Callback m)"
  shows "decode_email zero_email (wire_json m) = (None, received m)"
proof -
  note skip_text = decode_members_then [OF decode_text_member]
    and skip_recipients = decode_members_then [OF decode_recipients_member]
  have *: "decode_members email_fields d ((''receiver'', if rs = [] then JNull else JArr (map JStr rs)) # ms) =
      decode_members email_fields (d\<lparr>email_Receiver := concat (map ParseRecipients rs)\<rparr>) ms"
    if "email_Receiver d = []" for d rs ms
    using that decode_receiver [of rs]
    by (simp add: email_field_lookup inner_field_def split: prod.split)
  have str_member: "decode_members email_fields d ((k, JStr s) # ms) = decode_members email_fields (upd s d) ms"
    if "find_field email_fields k = Some (string_field upd)" for d k s ms upd
    using that by (simp add: string_field_def split: prod.split)
  show ?thesis
    unfolding decode_email_def wire_json_def decode_object received_def
    by (simp add: skip_text [OF email_field_lookup(1)] skip_text [OF email_field_lookup(5)]
        skip_recipients [OF email_field_lookup(8)] skip_recipients [OF email_field_lookup(9)]
        decode_members_then [OF decode_attachments_member] decode_callback_member * str_member [OF email_field_lookup(4)]
        str_member [OF email_field_lookup(7)] str_member [OF email_field_lookup(3)] zero_email_def assms
        del: decode_members.simps(2))
qed

section \<open>Properties\<close>

lemma read_message:
  assumes "utf8_json (wire_json m)" "callback_maps (we_Callback m)"
  shows "Unmarshal te decode_email zero_email (json_text (wire_json m)) = Inr (received m)"
    and "Decode_first te decode_email zero_email (json_text (wire_json m) @ t) = Inr (received m)"
proof -
  have "depth (wire_json m) \<le> maxNestingDepth"
    using wire_shape(2) [of m] by (simp add: maxNestingDepth_def)
  then show "Unmarshal te decode_email zero_email (json_text (wire_json m)) = Inr (received m)"
    "Decode_first te decode_email zero_email (json_text (wire_json m) @ t) = Inr (received m)"
    using wire_shape assms decode_wire [OF assms(2)]
    by (simp_all add: Unmarshal_json_text Decode_first_json_text cleaned_utf8 decode_value_def)
qed

definition plain_addresses :: "string list \<Rightarrow> bool" where
  "plain_addresses xs \<longleftrightarrow> list_all (\<lambda>a. CHR '','' \<notin> set a) xs"

lemma plain_recipients: "plain_addresses xs \<Longrightarrow> concat (map ParseRecipients (nonBlank xs)) = nonBlank xs"
proof (rule ParseRecipients_clean_list)
  assume plain: "plain_addresses xs"
  then have "CHR '','' \<notin> set a" if "a \<in> set (nonBlank xs)" for a
    using that TrimSpace_subset by (fastforce simp: nonBlank_def plain_addresses_def list_all_iff)
  then show "list_all clean_address (nonBlank xs)"
    using nonBlank_trimmed by (auto simp: list_all_iff clean_address_def)
qed

definition client_contents :: "Email \<Rightarrow> attachmentContent list" where
  "client_contents e =
     map (\<lambda>a. \<lparr>content_Name = cat_Name a, content_Type = contentType (cat_ContentType a),
               content_Content = cat_Content a\<rparr>) (cl_Attachments e)"

lemma decode_sent_attachments:
  "decode_each (map wire_to_attachment (map (\<lambda>a. \<lparr>wa_Name = cat_Name a, wa_Type = contentType (cat_ContentType a),
        wa_Data = EncodeToString (cat_Content a), wa_Decoder = ''base64''\<rparr>) as)) =
     map (\<lambda>a. \<lparr>content_Name = cat_Name a, content_Type = contentType (cat_ContentType a),
               content_Content = cat_Content a\<rparr>) as"
  by (induction as) (simp_all add: decodeAttachment_alt wire_to_attachment_def Base64_Decode_def)

lemma received_attachments: "decodeAttachments (received (wire_email e)) = client_contents e"
proof (cases "cl_Attachments e = []")
  case True
  then show ?thesis by (simp add: decodeAttachments_def received_def client_contents_def wire_email_def)
next
  case False
  then have "email_Attachments (received (wire_email e)) = Some (map wire_to_attachment (we_Attachments (wire_email e)))"
    by (simp add: received_def wire_email_def)
  then show ?thesis
    by (simp only: decodeAttachments_def client_contents_def option.case wire_email_def wireEmail.select_convs
        decode_sent_attachments)
qed

text \<open>What the server has of an email. It splits every address at its commas.\<close>

definition built_from :: "Email \<Rightarrow> SendEmailData \<Rightarrow> bool" where
  "built_from e d \<longleftrightarrow>
     DecodeString (email_Body d) = Inr (cl_HTML e) \<and> decodeAttachments d = client_contents e
     \<and> email_From d = TrimSpace (cl_From e) \<and> email_FromName d = TrimSpace (cl_FromName e)
     \<and> email_Receiver d = concat (map ParseRecipients (nonBlank (cl_To e)))
     \<and> email_Cc d = concat (map ParseRecipients (nonBlank (cl_Cc e)))
     \<and> email_Bcc d = concat (map ParseRecipients (nonBlank (cl_Bcc e)))
     \<and> email_Subject d = cl_Subject e \<and> email_ID d = cl_ID e
     \<and> email_Callback d = map_option sorted_callback (cl_Callback e)"

lemma received_built: "built_from e (received (wire_email e))"
  unfolding built_from_def received_attachments by (simp add: received_def wire_email_def)

text \<open>C17: What an application builds with the client library is what the server delivers. The JSON message
  of a valid email whose texts are valid UTF-8, read by the server from a queue or from an HTTP request, gives an
  email whose body decodes to the HTML, whose attachments decode to the original bytes, and whose sender, subject,
  id and callbacks are the ones given (the sender trimmed). The server splits every address at its commas: the
  recipients are the parts so obtained, and they are the addresses given (trimmed, blank ones left out) when no
  address has a comma; the email is then complete for every sender. (A header map names no header twice.)\<close>

theorem client_email_received:
  assumes "Validate e = None" "utf8_json (wire_json (wire_email e))" "callback_maps (cl_Callback e)"
  shows "\<exists>d. Unmarshal te decode_email zero_email (MarshalJSON e) = Inr d
    \<and> Decode_first te decode_email zero_email (MarshalJSON e) = Inr d
    \<and> DecodeString (email_Body d) = Inr (cl_HTML e) \<and> decodeAttachments d = client_contents e
    \<and> email_From d = TrimSpace (cl_From e) \<and> email_FromName d = TrimSpace (cl_FromName e)
    \<and> email_Receiver d = concat (map ParseRecipients (nonBlank (cl_To e)))
    \<and> email_Cc d = concat (map ParseRecipients (nonBlank (cl_Cc e)))
    \<and> email_Bcc d = concat (map ParseRecipients (nonBlank (cl_Bcc e)))
    \<and> (plain_addresses (cl_To e) \<longrightarrow>
        email_Receiver d = nonBlank (cl_To e) \<and> validateEmail (d\<lparr>email_Body := cl_HTML e\<rparr>) = None)
    \<and> (plain_addresses (cl_Cc e) \<longrightarrow> email_Cc d = nonBlank (cl_Cc e))
    \<and> (plain_addresses (cl_Bcc e) \<longrightarrow> email_Bcc d = nonBlank (cl_Bcc e))
    \<and> email_Subject d = cl_Subject e \<and> email_ID d = cl_ID e
    \<and> email_Callback d = map_option sorted_callback (cl_Callback e)"
proof (intro exI [of _ "received (wire_email e)"] conjI impI)
  have m: "callback_maps (we_Callback (wire_email e))" using assms(3) by (simp add: wire_email_def)
  show "Unmarshal te decode_email zero_email (MarshalJSON e) = Inr (received (wire_email e))"
    "Decode_first te decode_email zero_email (MarshalJSON e) = Inr (received (wire_email e))"
    using read_message(1) [OF assms(2) m] read_message(2) [OF assms(2) m, where t = "[]"]
    by (simp_all add: MarshalJSON_def)
  show "decodeAttachments (received (wire_email e)) = client_contents e" by (rule received_attachments)
  assume "plain_addresses (cl_To e)"
  then show "validateEmail (received (wire_email e)\<lparr>email_Body := cl_HTML e\<rparr>) = None"
    using assms(1) by (simp add: validateEmail_None Validate_None received_def wire_email_def plain_recipients)
qed (simp_all add: received_def wire_email_def plain_recipients)

text \<open>A display name with a comma, which the client accepts, comes apart.\<close>

lemma quoted_comma_split:
  "concat (map ParseRecipients (nonBlank [[CHR 0x22] @ ''Doe, Jane'' @ [CHR 0x22] @ '' <j@x.io>'']))
     = [[CHR 0x22] @ ''Doe'', ''Jane'' @ [CHR 0x22] @ '' <j@x.io>'']"
  by code_simp

section \<open>Witnesses\<close>

definition some_client_email :: Email where
  "some_client_email =
     \<lparr>cl_ID = ''7'', cl_From = '' a@x.io '', cl_FromName = [], cl_To = [''b@x.io'', '' ''], cl_Cc = [], cl_Bcc = [],
      cl_Subject = ''Hi'', cl_HTML = ''<p>'', cl_Attachments = [\<lparr>cat_Name = ''a'', cat_ContentType = [], cat_Content = ''x''\<rparr>],
      cl_Callback = None\<rparr>"

theorem client_email_received_witness:
  "\<exists>d. Unmarshal (\<lambda>s. s) decode_email zero_email (MarshalJSON some_client_email) = Inr d
     \<and> email_Receiver d = [''b@x.io''] \<and> email_From d = ''a@x.io''"
proof -
  have "Validate some_client_email = None" "utf8_json (wire_json (wire_email some_client_email))"
    "plain_addresses (cl_To some_client_email)"
    by code_simp+
  moreover have "callback_maps (cl_Callback some_client_email)"
    by (simp add: callback_maps_def some_client_email_def)
  moreover have "nonBlank (cl_To some_client_email) = [''b@x.io'']" "TrimSpace (cl_From some_client_email) = ''a@x.io''"
    by code_simp+
  ultimately show ?thesis
    using client_email_received [of some_client_email "\<lambda>s. s"] by auto
qed

end
