(* ===== verification/ClientHttp.thy ===== *)
theory ClientHttp
  imports Client HttpApi HttpSource
begin

text \<open>
  \<open>client/event.go\<close> and \<open>client/http.go\<close>: the delivery event as the client reads it, from a callback or
  from the answer of the HTTP source, and the sender that uses the HTTP source. A status and an error
  code are any strings here, as they are in Go. The time of an event is read by \<^const>\<open>lib_parse_time\<close>.
\<close>

section \<open>Events\<close>

record ClientEvent =
  ce_ID :: string
  ce_Subject :: string
  ce_Status :: string
  ce_ErrorCode :: string
  ce_Cause :: string
  ce_OccurredAt :: int

definition zero_event :: ClientEvent where
  "zero_event = \<lparr>ce_ID = [], ce_Subject = [], ce_Status = [], ce_ErrorCode = [], ce_Cause = [], ce_OccurredAt = ZeroTime\<rparr>"

text \<open>\<open>time.Time\<close>: a string that is a time; \<open>null\<close> leaves it alone.\<close>

definition time_field :: "(string \<Rightarrow> int option) \<Rightarrow> (int \<Rightarrow> 'a \<Rightarrow> 'a) \<Rightarrow> 'a decoder" where
  "time_field parse upd x v =
     (case v of
        JStr s \<Rightarrow> (case parse s of Some t \<Rightarrow> (None, upd t x) | None \<Rightarrow> (Some BadTime, x))
      | JNull \<Rightarrow> (None, x)
      | _ \<Rightarrow> (Some BadTime, x))"

definition event_fields :: "(string \<Rightarrow> int option) \<Rightarrow> (string \<times> ClientEvent decoder) list" where
  "event_fields parse =
     [(''id'', string_field (\<lambda>s e. e\<lparr>ce_ID := s\<rparr>)),
      (''subject'', string_field (\<lambda>s e. e\<lparr>ce_Subject := s\<rparr>)),
      (''status'', string_field (\<lambda>s e. e\<lparr>ce_Status := s\<rparr>)),
      (''errorCode'', string_field (\<lambda>s e. e\<lparr>ce_ErrorCode := s\<rparr>)),
      (''cause'', string_field (\<lambda>s e. e\<lparr>ce_Cause := s\<rparr>)),
      (''occurredAt'', time_field parse (\<lambda>t e. e\<lparr>ce_OccurredAt := t\<rparr>))]"

definition maxEventBytes :: nat where "maxEventBytes = 65536"

text \<open>\<open>ParseDeliveryEvent\<close> over the body of a callback request.\<close>

definition ParseDeliveryEvent :: "'a golib_scheme \<Rightarrow> string \<Rightarrow> goerr + ClientEvent" where
  "ParseDeliveryEvent lib body =
     (case Decode_first (lib_type_error lib) (decode_struct (event_fields (lib_parse_time lib))) zero_event
             (take maxEventBytes body) of
        Inl err \<Rightarrow> Inl (Wrapped ''decode delivery event: '' err)
      | Inr ev \<Rightarrow> Inr ev)"

section \<open>The HTTP sender\<close>

record HTTPConfig =
  hc_URL :: string
  hc_Token :: string
  hc_Timeout :: int

definition defaultHTTPTimeout :: int where "defaultHTTPTimeout = 60 * Second"

record HTTPSender =
  hs_url :: string
  hs_token :: string
  hs_timeout :: int

definition NewHTTPSender :: "HTTPConfig \<Rightarrow> goerr + HTTPSender" where
  "NewHTTPSender cfg =
     (if TrimSpace (hc_URL cfg) = [] \<or> TrimSpace (hc_Token cfg) = [] then
        Inl (Plain ''gomailer http sender requires URL and Token'')
      else
        Inr \<lparr>hs_url = TrimRight (hc_URL cfg) (CHR ''/'') @ ''/v1/emails'', hs_token = hc_Token cfg,
             hs_timeout = (if hc_Timeout cfg \<le> 0 then defaultHTTPTimeout else hc_Timeout cfg)\<rparr>)"

text \<open>\<open>*DeliveryError\<close> carries the event; any other error is a \<^typ>\<open>goerr\<close>.\<close>

datatype http_send_error = HttpSendFailed goerr | DeliveryFailed int ClientEvent

fun http_send_error_text :: "http_send_error \<Rightarrow> string" where
  "http_send_error_text (HttpSendFailed err) = Error_text err"
| "http_send_error_text (DeliveryFailed st ev) =
     ''gomailer returned '' @ Itoa st @ '' ('' @ ce_ErrorCode ev @ ''): '' @ ce_Cause ev"

definition decodeResponse :: "'a golib_scheme \<Rightarrow> http_response \<Rightarrow> ClientEvent \<times> http_send_error option" where
  "decodeResponse lib resp =
     (let raw = take maxEventBytes (rs_body resp);
          failed = (zero_event, Some (HttpSendFailed (Plain
            (''gomailer returned '' @ Itoa (rs_status resp) @ '': '' @ TrimSpace raw))))
      in case Unmarshal (lib_type_error lib) (decode_struct (event_fields (lib_parse_time lib))) zero_event raw of
           Inl err \<Rightarrow> failed
         | Inr ev \<Rightarrow>
             if ce_Status ev = [] then failed
             else if ce_Status ev \<noteq> ''sent'' then (ev, Some (DeliveryFailed (rs_status resp) ev))
             else (ev, None))"

definition HTTPSender_Deliver ::
  "'e env \<Rightarrow> HTTPSender \<Rightarrow> Email \<Rightarrow> 'e world \<Rightarrow> (ClientEvent \<times> http_send_error option) \<times> 'e world"
where
  "HTTPSender_Deliver E s email w =
     (case Prepare E email w of
        (Inl err, w1) \<Rightarrow> ((zero_event, Some (HttpSendFailed err)), w1)
      | (Inr e, w1) \<Rightarrow>
          (case NewRequest E ''POST'' (hs_url s) (MarshalJSON e) of
             Inl err \<Rightarrow> ((zero_event, Some (HttpSendFailed (Wrapped ''create request: '' err))), w1)
           | Inr req \<Rightarrow>
               (case call_http E
                       (set_headers [(''Content-Type'', ''application/json''),
                          (''Authorization'', ''Bearer '' @ hs_token s)] req) w1 of
                  (Inl err, w2) \<Rightarrow> ((zero_event, Some (HttpSendFailed (Wrapped ''call gomailer: '' err))), w2)
                | (Inr resp, w2) \<Rightarrow> (decodeResponse E resp, w2))))"

definition HTTPSender_Send :: "'e env \<Rightarrow> HTTPSender \<Rightarrow> Email \<Rightarrow> 'e world \<Rightarrow> http_send_error option \<times> 'e world" where
  "HTTPSender_Send E s email w = (let ((ev, err), w1) = HTTPSender_Deliver E s email w in (err, w1))"

text \<open>\<open>HealthCheck\<close> of the HTTP sender calls nothing.\<close>

definition HTTPSender_HealthCheck :: "HTTPSender \<Rightarrow> goerr option" where
  "HTTPSender_HealthCheck s = None"

section \<open>Reading an event back\<close>

definition client_event :: "DeliveryEvent \<Rightarrow> ClientEvent" where
  "client_event ev =
     \<lparr>ce_ID = event_ID ev, ce_Subject = event_Subject ev, ce_Status = status_text (event_Status ev),
      ce_ErrorCode = code_text (event_ErrorCode ev), ce_Cause = event_Cause ev,
      ce_OccurredAt = (case event_OccurredAt ev of None \<Rightarrow> ZeroTime | Some t \<Rightarrow> t)\<rparr>"

lemma event_field_lookup:
  "find_field (event_fields p) ''id'' = Some (string_field (\<lambda>s e. e\<lparr>ce_ID := s\<rparr>))"
  "find_field (event_fields p) ''subject'' = Some (string_field (\<lambda>s e. e\<lparr>ce_Subject := s\<rparr>))"
  "find_field (event_fields p) ''status'' = Some (string_field (\<lambda>s e. e\<lparr>ce_Status := s\<rparr>))"
  "find_field (event_fields p) ''errorCode'' = Some (string_field (\<lambda>s e. e\<lparr>ce_ErrorCode := s\<rparr>))"
  "find_field (event_fields p) ''cause'' = Some (string_field (\<lambda>s e. e\<lparr>ce_Cause := s\<rparr>))"
  "find_field (event_fields p) ''occurredAt'' = Some (time_field p (\<lambda>t e. e\<lparr>ce_OccurredAt := t\<rparr>))"
  by (simp_all add: find_field_def event_fields_def)

abbreviation event_time :: "DeliveryEvent \<Rightarrow> int" where
  "event_time ev \<equiv> (case event_OccurredAt ev of None \<Rightarrow> ZeroTime | Some t \<Rightarrow> t)"

lemma decode_event:
  assumes "p (RFC3339Nano (event_time ev)) = Some (event_time ev)"
  shows "decode_struct (event_fields p) zero_event (event_json ev) = (None, client_event ev)"
proof -
  note skip_text = decode_members_then [OF decode_text_member]
  have str_member: "decode_members (event_fields p) d ((k, JStr s) # ms) = decode_members (event_fields p) (upd s d) ms"
    if "find_field (event_fields p) k = Some (string_field upd)" for d k s ms upd
    using that by (simp add: string_field_def split: prod.split)
  have time: "decode_members (event_fields p) d [(''occurredAt'', JStr (RFC3339Nano (event_time ev)))] =
      (None, d\<lparr>ce_OccurredAt := event_time ev\<rparr>)" for d
    using assms by (simp add: event_field_lookup time_field_def)
  show ?thesis
    unfolding event_json_def decode_object client_event_def
    by (simp add: skip_text [OF event_field_lookup(1)] skip_text [OF event_field_lookup(4)]
        skip_text [OF event_field_lookup(5)] str_member [OF event_field_lookup(2)]
        str_member [OF event_field_lookup(3)] time zero_event_def del: decode_members.simps(2))
qed

lemma parse_json_line:
  assumes "numberless v" "depth v \<le> maxNestingDepth"
  shows "parse_document (json_text v @ [CHR 0x0A]) = Inr (cleaned v)"
proof -
  have "run initial (json_text v) = Inr (M (EndTop (cleaned v)) [] [])"
    using run_value [of v "[]" "[]"] assms by (simp add: initial_def)
  then show ?thesis
    by (simp add: parse_document_def run_append end_top_def json_space_def finish_def)
qed

text \<open>The answer of the HTTP source to a delivery is read back as its event.\<close>

lemma decode_answer:
  assumes "Marshal_event ev = Inr doc" "utf8_json (event_json ev)" "length doc \<le> maxEventBytes"
    and "lib_parse_time lib (RFC3339Nano (event_time ev)) = Some (event_time ev)"
  shows "decodeResponse lib \<lparr>rs_status = st, rs_body = sr_Body (writeJSON h st' (Marshal_event ev))\<rparr> =
     (client_event ev,
      if event_Status ev = StatusSent then None else Some (DeliveryFailed st (client_event ev)))"
proof -
  have doc_eq: "doc = json_text (event_json ev)"
    using assms(1) by (auto simp: Marshal_event_def Let_def split: if_splits)
  have "take maxEventBytes (doc @ [CHR 0x0A]) \<in> {doc, doc @ [CHR 0x0A]}"
    using assms(3) by (cases "length doc = maxEventBytes") auto
  moreover have "parse_document (doc @ [CHR 0x0A]) = Inr (event_json ev)" "parse_document doc = Inr (event_json ev)"
    using parse_json_line [of "event_json ev"] parse_json_text [of "event_json ev"] event_json_shape [of ev] assms(2)
    by (simp_all add: doc_eq cleaned_utf8 maxNestingDepth_def)
  ultimately have "Unmarshal te (decode_struct (event_fields (lib_parse_time lib))) zero_event (take maxEventBytes (doc @ [CHR 0x0A])) =
      Inr (client_event ev)" for te
    using decode_event [of "lib_parse_time lib" ev] assms(4) by (auto simp: Unmarshal_def decode_value_def)
  then show ?thesis
    using assms(1) by (cases "event_Status ev") (simp_all add: decodeResponse_def writeJSON_def client_event_def Let_def)
qed

text \<open>A client's request on the server: authorized by any configured key, and delivered as it was built.\<close>

lemma served_request:
  assumes "utf8_json (wire_json (wire_email e))" "callback_maps (cl_Callback e)"
    and "TrimSpace (cl_ID e) \<noteq> []" "int (length (MarshalJSON e)) \<le> http_MaxBodyBytes cfg"
    and "TrimSpace token \<in> set (http_Keys cfg)"
  shows "post_email code E cfg deliver_once \<lparr>sq_Authorization = ''Bearer '' @ token, sq_Body = MarshalJSON e\<rparr> w =
     (let (out, w') = deliver_once (received (wire_email e)) w
      in (writeJSON [] (statusFor out) (Marshal_event (out_Event out)), w'))"
proof -
  have "authorized (''Bearer '' @ token) (http_Keys cfg)"
    using assms(5) by (simp add: authorized_iff bearerPrefix_def TrimPrefix_def)
  moreover have "decode_request (lib_type_error E) (http_MaxBodyBytes cfg) (MarshalJSON e) = Inr (received (wire_email e))"
    using assms(4) read_message(2) [OF assms(1), where t = "[]"] assms(2)
    by (simp add: decode_request_def MarshalJSON_def wire_email_def)
  moreover have "email_ID (received (wire_email e)) = cl_ID e" by (simp add: received_def wire_email_def)
  ultimately show ?thesis
    using assms(3) by (simp add: post_email_handler requireBearer_def ServeHTTP_def)
qed

lemma DeliverOnce_status:
  assumes "DeliverOnce s d w = (out, w')"
  shows "event_Status (out_Event out) = StatusSent \<longleftrightarrow> out_Err out = None"
proof -
  obtain r w1 where send: "send s d w = (r, w1)" by fastforce
  have out: "out = fst (deliver s d 1 False w)" using assms by (simp add: DeliverOnce_def)
  show ?thesis
  proof (cases r)
    case None
    then show ?thesis using out send by (simp add: deliver_sent newEvent_def split: prod.splits)
  next
    case (Some err)
    then have "out = fst (handleFailure s d err 1 False w1)" using out send by (simp add: deliver_failed)
    then show ?thesis by (auto simp: handleFailure_err handleFailure_event newEvent_def split: prod.splits)
  qed
qed

section \<open>The two ends together\<close>

text \<open>What a server sees of a client's request, and a client of the server's response.\<close>

definition request_seen :: "http_request \<Rightarrow> server_request" where
  "request_seen req =
     \<lparr>sq_Authorization = (case map_of (rq_header req) ''Authorization'' of None \<Rightarrow> [] | Some v \<Rightarrow> v), sq_Body = rq_body req\<rparr>"

definition response_seen :: "server_response \<Rightarrow> http_response" where
  "response_seen resp = \<lparr>rs_status = sr_Status resp, rs_body = sr_Body resp\<rparr>"

text \<open>The network of the client takes a \<open>POST\<close> to \<open>url\<close> to a server that answers it with \<open>serve\<close>.\<close>

definition reaches :: "'e env \<Rightarrow> string \<Rightarrow> (server_request \<Rightarrow> server_response) \<Rightarrow> bool" where
  "reaches E url serve \<longleftrightarrow>
     (\<forall>req h. rq_method req = ''POST'' \<and> rq_url req = url \<longrightarrow>
        fst (http_do E req h) = Inr (response_seen (serve (request_seen req))))"

text \<open>An event that the client can read back: a time that JSON can write and \<open>time.Time\<close> reads back, at most the
  64 KiB that the client reads, and valid UTF-8.\<close>

definition readable_event :: "'a golib_scheme \<Rightarrow> DeliveryEvent \<Rightarrow> bool" where
  "readable_event lib ev \<longleftrightarrow>
     (\<exists>doc. Marshal_event ev = Inr doc \<and> length doc \<le> maxEventBytes) \<and> utf8_json (event_json ev)
     \<and> lib_parse_time lib (RFC3339Nano (event_time ev)) = Some (event_time ev)"

lemma Deliver_call:
  assumes "Prepare E e v = (Inr e1, v1)" "lib_url_error E (hs_url hs) = None" "reaches E (hs_url hs) serve"
  obtains req v' where "request_seen req = \<lparr>sq_Authorization = ''Bearer '' @ hs_token hs, sq_Body = MarshalJSON e1\<rparr>"
    and "trace v' = trace v @ [HttpCall req (Inr (response_seen (serve (request_seen req))))]"
    and "HTTPSender_Deliver E hs e v = (decodeResponse E (response_seen (serve (request_seen req))), v')"
proof -
  let ?req = "set_headers [(''Content-Type'', ''application/json''), (''Authorization'', ''Bearer '' @ hs_token hs)]
      \<lparr>rq_method = ''POST'', rq_url = hs_url hs, rq_header = [], rq_body = MarshalJSON e1\<rparr>"
  have seen: "request_seen ?req = \<lparr>sq_Authorization = ''Bearer '' @ hs_token hs, sq_Body = MarshalJSON e1\<rparr>"
    by (simp add: request_seen_def set_headers_def Header_Set_def canonical_names)
  obtain a v' where call: "call_http E ?req v1 = (a, v')" by fastforce
  have post: "rq_method ?req = ''POST''" "rq_url ?req = hs_url hs" by (simp_all add: set_headers_def)
  have "fst (http_do E ?req (hidden v1)) = a" using call by (simp add: call_http_def split: prod.splits)
  then have a: "a = Inr (response_seen (serve (request_seen ?req)))"
    using assms(3) post unfolding reaches_def by blast
  show thesis
  proof (rule that [of ?req v'])
    show "trace v' = trace v @ [HttpCall ?req (Inr (response_seen (serve (request_seen ?req))))]"
      using call_trace(1) [OF call] Prepare_valid(3) [OF assms(1)] by (simp only: a)
    show "HTTPSender_Deliver E hs e v = (decodeResponse E (response_seen (serve (request_seen ?req))), v')"
      using assms(1,2) call by (simp add: HTTPSender_Deliver_def NewRequest_def a)
  qed (rule seen)
qed

section \<open>Properties\<close>

text \<open>C19: The client's verdict is the outcome of the delivery. Sending a valid email with the HTTP client, with a
  token whose trimmed text is one of the keys of the server its requests reach, makes one request; the
  server delivers the email, with its id or a new one, exactly once and as it was built; and the client reads the event of
  that delivery back from the answer: it reports no error exactly when the email was sent, and otherwise a
  delivery error with the status of the answer and the event. This holds when the texts of the email are valid
  UTF-8, its message is within the server's limit, and the event is valid UTF-8 of at most the 64 KiB that the client reads.\<close>

theorem http_client_verdict:
  assumes "Prepare Ec e v = (Inr e1, v1)" "lib_url_error Ec (hs_url hs) = None"
    and "reaches Ec (hs_url hs) (\<lambda>rq. fst (post_email code E cfg (DeliverOnce s) rq w))"
    and "utf8_json (wire_json (wire_email e))" "callback_maps (cl_Callback e)"
    and "int (length (MarshalJSON e1)) \<le> http_MaxBodyBytes cfg" "TrimSpace (hs_token hs) \<in> set (http_Keys cfg)"
    and "DeliverOnce s (received (wire_email e1)) w = (out, w1)" "readable_event Ec (out_Event out)"
  shows "\<exists>v' rq resp. trace v' = trace v @ [HttpCall rq (Inr (response_seen resp))]
    \<and> post_email code E cfg (DeliverOnce s) (request_seen rq) w = (resp, w1)
    \<and> HTTPSender_Deliver Ec hs e v =
        ((client_event (out_Event out),
          if Sent out then None else Some (DeliveryFailed (statusFor out) (client_event (out_Event out)))), v')
    \<and> (fst (HTTPSender_Send Ec hs e v) = None \<longleftrightarrow> Sent out)"
proof -
  have e1: "e1 = e\<lparr>cl_ID := cl_ID e1\<rparr>" "sent_id e (cl_ID e1)" using Prepare_valid [OF assms(1)] Prepare_sent_id [OF assms(1)] by auto
  have wire: "utf8_json (wire_json (wire_email e1))" "callback_maps (cl_Callback e1)" "TrimSpace (cl_ID e1) \<noteq> []"
    using utf8_with_id [OF assms(4) e1(2)] assms(5) sent_id_ready [OF e1(2)] unfolding e1(1) [symmetric]
    by (simp_all, subst e1(1), simp)
  have served: "post_email code E cfg (DeliverOnce s) \<lparr>sq_Authorization = ''Bearer '' @ hs_token hs, sq_Body = MarshalJSON e1\<rparr> w =
      (writeJSON [] (statusFor out) (Marshal_event (out_Event out)), w1)"
    using served_request [OF wire assms(6,7), of code E "DeliverOnce s" w] assms(8) by simp
  obtain req v' where sent: "trace v' = trace v @ [HttpCall req (Inr (response_seen (writeJSON [] (statusFor out) (Marshal_event (out_Event out)))))]"
      "HTTPSender_Deliver Ec hs e v = (decodeResponse Ec (response_seen (writeJSON [] (statusFor out) (Marshal_event (out_Event out)))), v')"
    and req: "request_seen req = \<lparr>sq_Authorization = ''Bearer '' @ hs_token hs, sq_Body = MarshalJSON e1\<rparr>"
    by (rule Deliver_call [OF assms(1-3)]) (simp add: served [unfolded append_Cons append_Nil])
  obtain doc where doc: "Marshal_event (out_Event out) = Inr doc" "length doc \<le> maxEventBytes" "utf8_json (event_json (out_Event out))"
    "lib_parse_time Ec (RFC3339Nano (event_time (out_Event out))) = Some (event_time (out_Event out))"
    using assms(9) by (auto simp: readable_event_def)
  have "event_Status (out_Event out) = StatusSent \<longleftrightarrow> Sent out"
    using DeliverOnce_status [OF assms(8)] by (simp add: Sent_iff)
  then have "decodeResponse Ec (response_seen (writeJSON [] (statusFor out) (Marshal_event (out_Event out)))) =
      (client_event (out_Event out), if Sent out then None else Some (DeliveryFailed (statusFor out) (client_event (out_Event out))))"
    using decode_answer [OF doc(1,3,2,4), of "statusFor out" "[]" "statusFor out"] by (simp add: response_seen_def)
  with sent show ?thesis
    by (intro exI [of _ v'] exI [of _ req] exI [of _ "writeJSON [] (statusFor out) (Marshal_event (out_Event out))"])
      (simp add: served [unfolded append_Cons append_Nil] req HTTPSender_Send_def)
qed

section \<open>Witnesses\<close>

definition some_http_config :: HTTPAPIConfig where
  "some_http_config = \<lparr>http_Port = ''8080'', http_Keys = [''k1''], http_MaxBodyBytes = 1000\<rparr>"

text \<open>A network between the client and a server whose service is open.\<close>

definition some_network :: "unit env" where
  "some_network = quiet_env\<lparr>http_do := \<lambda>rq h. (Inr (response_seen (fst
     (post_email 307 quiet_env some_http_config (DeliverOnce open_service) (request_seen rq) some_world))), h)\<rparr>"

definition some_http_sender :: HTTPSender where
  "some_http_sender = \<lparr>hs_url = ''http://mail/v1/emails'', hs_token = ''k1'', hs_timeout = Second\<rparr>"

theorem http_client_verdict_witness:
  "fst (HTTPSender_Send some_network some_http_sender some_client_email some_world) = None"
proof -
  let ?d = "received (wire_email some_client_email)"
  obtain out w1 where out: "DeliverOnce open_service ?d some_world = (out, w1)" by fastforce
  have "send open_service ?d some_world = (None, some_world)"
    by code_simp
  then have ev: "out_Err out = None"
    "out_Event out = \<lparr>event_ID = ''7'', event_Subject = ''Hi'', event_Status = StatusSent, event_ErrorCode = CodeNone,
       event_Cause = [], event_OccurredAt = Some 0\<rparr>"
    using out by (auto simp: DeliverOnce_def deliver_def newEvent_def open_service_def received_def wire_email_def
        some_client_email_def Let_def)
  have time: "RFC3339Nano 0 = ''1970-01-01T00:00:00Z''" by code_simp
  have json: "event_json (out_Event out) = JObj [(''id'', JStr ''7''), (''subject'', JStr ''Hi''), (''status'', JStr ''sent''),
      (''occurredAt'', JStr ''1970-01-01T00:00:00Z'')]"
    by (simp add: ev event_json_def omitempty_def time)
  have "Year 0 = 1970" by code_simp
  then have "Marshal_event (out_Event out) = Inr (json_text (event_json (out_Event out)))"
    by (simp add: ev Marshal_event_def)
  moreover have "utf8_json (event_json (out_Event out))" unfolding json by code_simp
  moreover have "int (length (json_text (event_json (out_Event out)))) \<le> 65536" unfolding json by code_simp
  ultimately have readable: "readable_event some_network (out_Event out)"
    by (simp add: readable_event_def maxEventBytes_def some_network_def quiet_env_def ev)
  have "reaches some_network (hs_url some_http_sender)
      (\<lambda>rq. fst (post_email 307 quiet_env some_http_config (DeliverOnce open_service) rq some_world))"
    by (simp add: reaches_def some_network_def)
  moreover have "lib_url_error some_network (hs_url some_http_sender) = None"
    by (simp add: some_network_def quiet_env_def)
  moreover have "TrimSpace (cl_ID some_client_email) \<noteq> []" "Validate some_client_email = None" by code_simp+
  then have "Prepare some_network some_client_email some_world = (Inr some_client_email, some_world)"
    by (simp add: Prepare_def)
  moreover have email: "utf8_json (wire_json (wire_email some_client_email))"
    "int (length (MarshalJSON some_client_email)) \<le> http_MaxBodyBytes some_http_config"
    "TrimSpace (hs_token some_http_sender) \<in> set (http_Keys some_http_config)"
    by code_simp+
  moreover have "callback_maps (cl_Callback some_client_email)"
    by (simp add: callback_maps_def some_client_email_def)
  ultimately show ?thesis
    using http_client_verdict [OF _ _ _ email(1) _ email(2,3) out readable] ev by (auto simp: Sent_def)
qed

end
