(* ===== verification/ClientQueues.thy ===== *)
theory ClientQueues
  imports Client RabbitMQ
begin

text \<open>
  \<open>client/rabbitmq/sender.go\<close> and \<open>client/kafka/sender.go\<close>: the senders that hand an email to gomailer
  through a queue or a topic. The mutex of the RabbitMQ sender makes its operations atomic: one is a
  state change here. The bound on connecting and confirming is part of the environment's answers.
\<close>

section \<open>The RabbitMQ sender\<close>

record RabbitSenderConfig =
  rsc_URL :: string
  rsc_Queue :: string
  rsc_Timeout :: int

text \<open>\<open>rs_conn\<close> and \<open>rs_channel\<close> say whether the two pointers are set.\<close>

record RabbitSender =
  rs_cfg :: RabbitSenderConfig
  rs_conn :: bool
  rs_channel :: bool

definition defaultQueue :: string where "defaultQueue = ''mailer-service''"
definition defaultTimeout :: int where "defaultTimeout = 10 * Second"

definition NewRabbitSender :: "RabbitSenderConfig \<Rightarrow> goerr + RabbitSender" where
  "NewRabbitSender cfg =
     (if TrimSpace (rsc_URL cfg) = [] then Inl (Plain ''gomailer rabbitmq sender requires URL'')
      else
        (let cfg1 = (if rsc_Queue cfg = [] then cfg\<lparr>rsc_Queue := defaultQueue\<rparr> else cfg);
             cfg2 = (if rsc_Timeout cfg1 \<le> 0 then cfg1\<lparr>rsc_Timeout := defaultTimeout\<rparr> else cfg1)
         in Inr \<lparr>rs_cfg = cfg2, rs_conn = False, rs_channel = False\<rparr>))"

text \<open>\<open>p != nil && !p.IsClosed()\<close>: a pointer that is not set is not asked.\<close>

definition usable :: "'e env \<Rightarrow> bool \<Rightarrow> amqp_object \<Rightarrow> 'e world \<Rightarrow> bool \<times> 'e world" where
  "usable E set_pointer ob w =
     (if set_pointer then (let (closed, w1) = call_is_closed E ob w in (\<not> closed, w1)) else (False, w))"

definition amqp_error :: "goerr + bool \<Rightarrow> goerr option" where
  "amqp_error r = (case r of Inl err \<Rightarrow> Some err | Inr _ \<Rightarrow> None)"

definition close_if_usable ::
  "'e env \<Rightarrow> bool \<Rightarrow> amqp_object \<Rightarrow> amqp_command \<Rightarrow> 'e world \<Rightarrow> goerr option list \<times> 'e world"
where
  "close_if_usable E set_pointer ob close w =
     (let (live, w1) = usable E set_pointer ob w
      in if live then (let (r, w2) = call_amqp E close w1 in ([amqp_error r], w2)) else ([], w1))"

definition reset :: "'e env \<Rightarrow> RabbitSender \<Rightarrow> 'e world \<Rightarrow> goerr option \<times> RabbitSender \<times> 'e world" where
  "reset E s w =
     (let (es1, w1) = close_if_usable E (rs_channel s) AmqpChannelObject AmqpCloseChannel w;
          (es2, w2) = close_if_usable E (rs_conn s) AmqpConnection AmqpCloseConn w1
      in (join_errors (es1 @ es2), s\<lparr>rs_conn := False, rs_channel := False\<rparr>, w2))"

text \<open>The channel, its confirm mode and the queue of a new connection.\<close>

definition prepareChannel :: "'e env \<Rightarrow> string \<Rightarrow> 'e world \<Rightarrow> goerr option \<times> 'e world" where
  "prepareChannel E queue w =
     (case call_amqp E AmqpChannel w of
        (Inl err, w1) \<Rightarrow> (Some err, w1)
      | (Inr _, w1) \<Rightarrow>
          (case call_amqp E AmqpConfirm w1 of
             (Inl err, w2) \<Rightarrow> (Some err, w2)
           | (Inr _, w2) \<Rightarrow>
               (case call_amqp E (AmqpQueueDeclare queue True []) w2 of
                  (Inl err, w3) \<Rightarrow> (Some err, w3)
                | (Inr _, w3) \<Rightarrow> (None, w3))))"

definition reconnect :: "'e env \<Rightarrow> RabbitSender \<Rightarrow> 'e world \<Rightarrow> goerr option \<times> RabbitSender \<times> 'e world" where
  "reconnect E s w =
     (let (_, s1, w1) = reset E s w
      in case call_amqp E (AmqpDial (rsc_URL (rs_cfg s))) w1 of
           (Inl err, w2) \<Rightarrow> (Some (Wrapped ''connect to rabbitmq: '' err), s1, w2)
         | (Inr _, w2) \<Rightarrow>
             (case prepareChannel E (rsc_Queue (rs_cfg s)) w2 of
                (Some err, w3) \<Rightarrow>
                  (Some (Wrapped ''prepare rabbitmq channel: '' err), s1, snd (call_amqp E AmqpCloseConn w3))
              | (None, w3) \<Rightarrow> (None, s1\<lparr>rs_conn := True, rs_channel := True\<rparr>, w3)))"

definition ensureChannel :: "'e env \<Rightarrow> RabbitSender \<Rightarrow> 'e world \<Rightarrow> goerr option \<times> RabbitSender \<times> 'e world" where
  "ensureChannel E s w =
     (let (live, w1) = usable E (rs_channel s) AmqpChannelObject w
      in if \<not> live then reconnect E s w1
         else
           (let (live', w2) = usable E (rs_conn s) AmqpConnection w1
            in if live' then (None, s, w2) else reconnect E s w2))"

definition email_publishing :: "string \<Rightarrow> string \<Rightarrow> int \<Rightarrow> amqp_publishing" where
  "email_publishing ident body t =
     \<lparr>pub_Headers = [], pub_ContentType = ''application/json'', pub_Persistent = True, pub_MessageId = ident,
      pub_Timestamp = Some t, pub_Body = body\<rparr>"

definition publish :: "'e env \<Rightarrow> string \<Rightarrow> string \<Rightarrow> string \<Rightarrow> 'e world \<Rightarrow> goerr option \<times> 'e world" where
  "publish E queue ident body w =
     (let (t, w0) = call_clock E w
      in case call_amqp E (AmqpPublish queue (email_publishing ident body t)) w0 of
           (Inl err, w1) \<Rightarrow> (Some (Wrapped (''publish email '' @ ident @ '': '') err), w1)
         | (Inr _, w1) \<Rightarrow>
             (case call_amqp E AmqpWaitConfirm w1 of
                (Inl err, w2) \<Rightarrow> (Some (Wrapped (''confirm email '' @ ident @ '': '') err), w2)
              | (Inr acked, w2) \<Rightarrow>
                  (if acked then None else Some (Plain (''email '' @ ident @ '' was rejected by the broker'')), w2)))"

text \<open>\<open>Send\<close>. (Encoding an email never fails: it holds nothing but strings and byte lists.)\<close>

definition Rabbit_Send ::
  "'e env \<Rightarrow> RabbitSender \<Rightarrow> Email \<Rightarrow> 'e world \<Rightarrow> goerr option \<times> RabbitSender \<times> 'e world"
where
  "Rabbit_Send E s email w =
     (case Prepare E email w of
        (Inl err, w1) \<Rightarrow> (Some err, s, w1)
      | (Inr e, w1) \<Rightarrow>
          (case ensureChannel E s w1 of
             (Some err, s1, w2) \<Rightarrow> (Some err, s1, w2)
           | (None, s1, w2) \<Rightarrow>
               (case publish E (rsc_Queue (rs_cfg s1)) (cl_ID e) (MarshalJSON e) w2 of
                  (Some err, w3) \<Rightarrow> (Some err, snd (reset E s1 w3))
                | (None, w3) \<Rightarrow> (None, s1, w3))))"

definition Rabbit_HealthCheck ::
  "'e env \<Rightarrow> RabbitSender \<Rightarrow> 'e world \<Rightarrow> goerr option \<times> RabbitSender \<times> 'e world"
where
  "Rabbit_HealthCheck E s w =
     (case ensureChannel E s w of
        (Some err, s1, w1) \<Rightarrow> (Some err, s1, w1)
      | (None, s1, w1) \<Rightarrow>
          (case call_amqp E (AmqpQueueDeclarePassive (rsc_Queue (rs_cfg s1)) True) w1 of
             (Inl err, w2) \<Rightarrow>
               (Some (Wrapped (''gomailer queue '' @ rsc_Queue (rs_cfg s1) @ '' is not available: '') err),
                snd (reset E s1 w2))
           | (Inr _, w2) \<Rightarrow> (None, s1, w2)))"

definition Rabbit_Close :: "'e env \<Rightarrow> RabbitSender \<Rightarrow> 'e world \<Rightarrow> goerr option \<times> RabbitSender \<times> 'e world" where
  "Rabbit_Close E s w = reset E s w"

section \<open>The Kafka sender\<close>

record KafkaSenderConfig =
  ksc_Brokers :: "string list"
  ksc_Topic :: string
  ksc_Timeout :: int
  ksc_TLS :: bool
  ksc_SASLMechanism :: string
  ksc_SASLUser :: string
  ksc_SASLPass :: string

record KafkaSender =
  kse_topic :: string
  kse_timeout :: int

definition defaultTopic :: string where "defaultTopic = ''mailer-service''"

definition options :: "'a golib_scheme \<Rightarrow> KafkaSenderConfig \<Rightarrow> goerr + kgo_opt list" where
  "options L cfg =
     (let opts = [SeedBrokers (ksc_Brokers cfg)] @ (if ksc_TLS cfg then [DialTLS12] else []);
          user = ksc_SASLUser cfg; pass = ksc_SASLPass cfg
      in if ksc_SASLMechanism cfg = [] then Inr opts
         else if ksc_SASLMechanism cfg = ''plain'' then Inr (opts @ [SASLPlainAuth user pass])
         else if ksc_SASLMechanism cfg = ''scram-sha-256'' then Inr (opts @ [SASLSha256Auth user pass])
         else if ksc_SASLMechanism cfg = ''scram-sha-512'' then Inr (opts @ [SASLSha512Auth user pass])
         else Inl (Plain (''unsupported kafka SASL mechanism '' @ lib_quote L (ksc_SASLMechanism cfg))))"

definition NewKafkaSender :: "'e env \<Rightarrow> KafkaSenderConfig \<Rightarrow> 'e world \<Rightarrow> (goerr + KafkaSender) \<times> 'e world" where
  "NewKafkaSender E cfg w =
     (if ksc_Brokers cfg = [] then (Inl (Plain ''gomailer kafka sender requires brokers''), w)
      else
        (case options E cfg of
           Inl err \<Rightarrow> (Inl err, w)
         | Inr opts \<Rightarrow>
             (case call_kafka E (KafkaNewClient opts) w of
                (Some err, w1) \<Rightarrow> (Inl (Wrapped ''create kafka client: '' err), w1)
              | (None, w1) \<Rightarrow>
                  (Inr \<lparr>kse_topic = (if ksc_Topic cfg = [] then defaultTopic else ksc_Topic cfg),
                     kse_timeout = (if ksc_Timeout cfg \<le> 0 then defaultTimeout else ksc_Timeout cfg)\<rparr>, w1))))"

definition email_record :: "string \<Rightarrow> Email \<Rightarrow> kafka_record" where
  "email_record topic e =
     \<lparr>kr_Topic = topic, kr_Partition = 0, kr_Offset = 0, kr_Key = cl_ID e, kr_Value = MarshalJSON e, kr_Headers = []\<rparr>"

definition Kafka_Send :: "'e env \<Rightarrow> KafkaSender \<Rightarrow> Email \<Rightarrow> 'e world \<Rightarrow> goerr option \<times> 'e world" where
  "Kafka_Send E s email w =
     (case Prepare E email w of
        (Inl err, w1) \<Rightarrow> (Some err, w1)
      | (Inr e, w1) \<Rightarrow>
          (case call_kafka E (KafkaProduce (email_record (kse_topic s) e)) w1 of
             (Some err, w2) \<Rightarrow> (Some (Wrapped (''produce email '' @ cl_ID e @ '': '') err), w2)
           | (None, w2) \<Rightarrow> (None, w2)))"

definition Kafka_HealthCheck :: "'e env \<Rightarrow> KafkaSender \<Rightarrow> 'e world \<Rightarrow> goerr option \<times> 'e world" where
  "Kafka_HealthCheck E s w =
     (case call_kafka E KafkaPing w of
        (Some err, w1) \<Rightarrow> (Some (Wrapped ''kafka is not reachable: '' err), w1)
      | (None, w1) \<Rightarrow> (None, w1))"

definition Kafka_Close :: "'e env \<Rightarrow> KafkaSender \<Rightarrow> 'e world \<Rightarrow> goerr option \<times> 'e world" where
  "Kafka_Close E s w = (let (_, w1) = call_kafka E KafkaCloseClient w in (None, w1))"

section \<open>What the operations leave in the trace\<close>

text \<open>The events of handing a message over: its publish, and the broker's answer.\<close>

fun handover :: "event \<Rightarrow> bool" where
  "handover (AmqpCall (AmqpPublish q p) r) = True"
| "handover (AmqpCall AmqpWaitConfirm r) = True"
| "handover _ = False"

abbreviation idle :: "'e world \<Rightarrow> 'e world \<Rightarrow> bool" where
  "idle w w' \<equiv> appends (\<lambda>ev. \<not> handover ev) w w'"

lemma idle_call:
  assumes "call_amqp E c w = (r, w')" "\<not> handover (AmqpCall c r)"
  shows "idle w w'"
  by (rule appends_one [OF call_trace(3) [OF assms(1)]]) (rule assms(2))

lemma usable_idle: "usable E p ob w = (live, w') \<Longrightarrow> idle w w'"
  by (auto simp: usable_def dest!: call_trace(11) intro: appends_trace_eq split: prod.splits if_splits)

lemma close_if_usable_idle:
  assumes "close_if_usable E p ob c w = (es, w')" "\<And>r. \<not> handover (AmqpCall c r)"
  shows "idle w w'"
proof -
  obtain live w1 where u: "usable E p ob w = (live, w1)" by fastforce
  show ?thesis
    using assms u usable_idle [OF u] appends_trans [OF usable_idle [OF u] idle_call]
    by (auto simp: close_if_usable_def split: if_splits prod.splits)
qed

lemma reset_state: "reset E s w = (r, s', w') \<Longrightarrow> s' = s\<lparr>rs_conn := False, rs_channel := False\<rparr>"
  by (auto simp: reset_def split: prod.splits)

lemma reset_idle:
  assumes "reset E s w = (r, s', w')"
  shows "idle w w'"
proof -
  obtain es1 w1 where a: "close_if_usable E (rs_channel s) AmqpChannelObject AmqpCloseChannel w = (es1, w1)" by fastforce
  obtain es2 w2 where b: "close_if_usable E (rs_conn s) AmqpConnection AmqpCloseConn w1 = (es2, w2)" by fastforce
  have "idle w w1" "idle w1 w2" using close_if_usable_idle [OF a] close_if_usable_idle [OF b] by simp_all
  then have "idle w w2" by (rule appends_trans)
  then show ?thesis using assms a b by (simp add: reset_def)
qed

lemma prepareChannel_idle:
  assumes "prepareChannel E q w = (r, w')"
  shows "idle w w'"
proof -
  obtain a w1 where a: "call_amqp E AmqpChannel w = (a, w1)" by fastforce
  obtain b w2 where b: "call_amqp E AmqpConfirm w1 = (b, w2)" by fastforce
  obtain c w3 where c: "call_amqp E (AmqpQueueDeclare q True []) w2 = (c, w3)" by fastforce
  have i: "idle w w1" "idle w1 w2" "idle w2 w3" using idle_call [OF a] idle_call [OF b] idle_call [OF c] by simp_all
  then have "idle w w2" "idle w w3" by (metis appends_trans)+
  then show ?thesis
    using assms a b c i(1) by (auto simp: prepareChannel_def split: sum.splits)
qed

text \<open>A sender is either fully connected or not at all.\<close>

definition linked :: "RabbitSender \<Rightarrow> bool" where
  "linked s \<longleftrightarrow> rs_conn s \<and> rs_channel s"

definition unlinked :: "RabbitSender \<Rightarrow> bool" where
  "unlinked s \<longleftrightarrow> \<not> rs_conn s \<and> \<not> rs_channel s"

lemma reconnect_step:
  assumes "reconnect E s w = (r, s', w')"
  shows "idle w w'" "rs_cfg s' = rs_cfg s" "if r = None then linked s' else unlinked s'"
proof -
  obtain r1 s1 w1 where re: "reset E s w = (r1, s1, w1)" by (metis prod.collapse)
  obtain d w2 where di: "call_amqp E (AmqpDial (rsc_URL (rs_cfg s))) w1 = (d, w2)" by fastforce
  obtain p w3 where pr: "prepareChannel E (rsc_Queue (rs_cfg s)) w2 = (p, w3)" by fastforce
  obtain x w4 where cl: "call_amqp E AmqpCloseConn w3 = (x, w4)" by fastforce
  have i: "idle w w1" "idle w1 w2" "idle w2 w3" "idle w3 w4"
    using reset_idle [OF re] idle_call [OF di] prepareChannel_idle [OF pr] idle_call [OF cl] by simp_all
  then have i: "idle w w1" "idle w w2" "idle w w3" "idle w w4" by (metis appends_trans)+
  show "idle w w'"
    using assms re di pr cl i by (auto simp: reconnect_def split: sum.splits option.splits)
  show "rs_cfg s' = rs_cfg s" "if r = None then linked s' else unlinked s'"
    using assms re di pr cl reset_state [OF re]
    by (auto simp: reconnect_def linked_def unlinked_def split: sum.splits option.splits)
qed

lemma ensureChannel_step:
  assumes "ensureChannel E s w = (r, s', w')"
  shows "idle w w'" "rs_cfg s' = rs_cfg s" "if r = None then linked s' else unlinked s'"
proof -
  obtain a w1 where a: "usable E (rs_channel s) AmqpChannelObject w = (a, w1)" by fastforce
  obtain b w2 where b: "usable E (rs_conn s) AmqpConnection w1 = (b, w2)" by fastforce
  have set_pointers: "a \<longrightarrow> rs_channel s" "b \<longrightarrow> rs_conn s"
    using a b by (auto simp: usable_def split: if_splits)
  note i = usable_idle [OF a] usable_idle [OF b]
  have c: "(r, s', w') = (None, s, w2) \<and> a \<and> b \<or> reconnect E s w1 = (r, s', w') \<or> reconnect E s w2 = (r, s', w')"
    using assms a b by (auto simp: ensureChannel_def Let_def split: if_splits)
  show "idle w w'"
    using c i reconnect_step(1) [of E s _ r s' w'] by (auto intro: appends_trans)
  show "rs_cfg s' = rs_cfg s" "if r = None then linked s' else unlinked s'"
    using c set_pointers reconnect_step(2,3) [of E s _ r s' w'] by (auto simp: linked_def)
qed

text \<open>The publish fails, or the broker answers it.\<close>

lemma publish_step:
  assumes "publish E q i b w = (r, w')"
  obtains (failed) t err where "r \<noteq> None" "trace w' = trace w @ [AmqpCall (AmqpPublish q (email_publishing i b t)) (Inl err)]"
  | (answered) t x c where
    "trace w' = trace w @ [AmqpCall (AmqpPublish q (email_publishing i b t)) (Inr x), AmqpCall AmqpWaitConfirm c]"
    "r = None \<longleftrightarrow> c = Inr True"
proof -
  obtain t w0 where t: "call_clock E w = (t, w0)" by fastforce
  obtain p w1 where p: "call_amqp E (AmqpPublish q (email_publishing i b t)) w0 = (p, w1)" by fastforce
  obtain c w2 where c: "call_amqp E AmqpWaitConfirm w1 = (c, w2)" by fastforce
  note tr = call_trace(6) [OF t] call_trace(3) [OF p] call_trace(3) [OF c]
  show thesis
  proof (cases p)
    case (Inl err)
    then show thesis using assms t p tr by (intro failed [of t err]) (auto simp: publish_def)
  next
    case (Inr x)
    then show thesis using assms t p c tr
      by (intro answered [of t x c]) (auto simp: publish_def split: sum.splits if_splits)
  qed
qed

section \<open>The contract of a queue sender\<close>

text \<open>An email that is not valid is refused before anything happens. Any other is sent with its own id or
  a new one, and reported as sent exactly when the broker confirmed that it has the message: \<open>handed s e
  evs\<close> says that the calls \<open>evs\<close> hand over the message of \<open>e\<close>.\<close>

locale queue_sender =
  fixes send_op :: "'s \<Rightarrow> Email \<Rightarrow> 'e world \<Rightarrow> goerr option \<times> 's \<times> 'e world"
    and handed :: "'s \<Rightarrow> Email \<Rightarrow> event list \<Rightarrow> bool"
  assumes invalid_refused: "Validate e \<noteq> None \<Longrightarrow> send_op s e w = (Validate e, s, w)"
    and sent_iff_handed:
      "Validate e = None \<Longrightarrow> send_op s e w = (r, s', w') \<Longrightarrow>
       \<exists>i evs. trace w' = trace w @ evs \<and> sent_id e i
         \<and> (r = None \<longleftrightarrow> handed s (e\<lparr>cl_ID := i\<rparr>) evs)"

context queue_sender
begin

lemma sent_valid: "send_op s e w = (None, s', w') \<Longrightarrow> Validate e = None"
  using invalid_refused [of e s w] by (metis fst_conv)

lemma sent_handed:
  "send_op s e w = (None, s', w') \<Longrightarrow>
   Validate e = None \<and> (\<exists>i evs. trace w' = trace w @ evs \<and> handed s (e\<lparr>cl_ID := i\<rparr>) evs)"
  using sent_valid [of s e w s' w'] sent_iff_handed [of e s w None s' w'] by auto

end

definition rabbit_handed :: "RabbitSender \<Rightarrow> Email \<Rightarrow> event list \<Rightarrow> bool" where
  "rabbit_handed s e evs \<longleftrightarrow>
     (\<exists>t x. filter handover evs =
        [AmqpCall (AmqpPublish (rsc_Queue (rs_cfg s)) (email_publishing (cl_ID e) (MarshalJSON e) t)) (Inr x),
         AmqpCall AmqpWaitConfirm (Inr True)])"

text \<open>The broker did not confirm the message: there was no publish, one that failed, or one without a positive
  answer.\<close>

definition rabbit_refused :: "RabbitSender \<Rightarrow> Email \<Rightarrow> event list \<Rightarrow> bool" where
  "rabbit_refused s e evs \<longleftrightarrow>
     (let publish = \<lambda>t. AmqpCall (AmqpPublish (rsc_Queue (rs_cfg s)) (email_publishing (cl_ID e) (MarshalJSON e) t))
      in filter handover evs = [] \<or> (\<exists>t err. filter handover evs = [publish t (Inl err)])
       \<or> (\<exists>t x c. filter handover evs = [publish t (Inr x), AmqpCall AmqpWaitConfirm c] \<and> c \<noteq> Inr True))"

lemma refused_not_handed: "rabbit_refused s e evs \<Longrightarrow> \<not> rabbit_handed s d evs"
  by (auto simp: rabbit_refused_def rabbit_handed_def Let_def)

definition kafka_handed :: "KafkaSender \<Rightarrow> Email \<Rightarrow> event list \<Rightarrow> bool" where
  "kafka_handed s e evs \<longleftrightarrow> evs = [KafkaCall (KafkaProduce (email_record (kse_topic s) e)) None]"

lemma Prepare_invalid: "Validate e \<noteq> None \<Longrightarrow> \<exists>err. Prepare E e w = (Inl err, w) \<and> Validate e = Some err"
  by (auto simp: Prepare_def)

lemma Prepare_total:
  assumes "Validate e = None"
  obtains e' w' where "Prepare E e w = (Inr e', w')"
proof -
  have "fst (Prepare E e w) = Inr e \<or> (\<exists>i. fst (Prepare E e w) = Inr (e\<lparr>cl_ID := i\<rparr>))"
    using assms by (auto simp: Prepare_def split: prod.split)
  then show thesis using that by (metis prod.collapse)
qed

text \<open>The channel comes first, then at most one publish; a failure of either leaves the sender unlinked.\<close>

lemma Rabbit_Send_step:
  assumes "Rabbit_Send E s e w = (r, s', w')" "Validate e = None"
  obtains i evs where "trace w' = trace w @ evs" "sent_id e i" "rs_cfg s' = rs_cfg s"
    and "r = None \<and> rabbit_handed s (e\<lparr>cl_ID := i\<rparr>) evs \<and> linked s'
      \<or> r \<noteq> None \<and> rabbit_refused s (e\<lparr>cl_ID := i\<rparr>) evs \<and> unlinked s'"
proof -
  obtain e1 w1 where p: "Prepare E e w = (Inr e1, w1)" using Prepare_total [OF assms(2)] .
  note e1 = Prepare_valid [OF p] and i = Prepare_sent_id [OF p]
  obtain c s1 w2 where c: "ensureChannel E s w1 = (c, s1, w2)" by (metis prod.collapse)
  note cs = ensureChannel_step [OF c]
  from cs(1) obtain evs1 where evs1: "trace w2 = trace w @ evs1" "filter handover evs1 = []"
    using e1(3) by (auto simp: appends_def list_all_iff filter_empty_conv)
  note done_with = that [where i = "cl_ID e1", unfolded e1(2) [symmetric]]
  show thesis
  proof (cases c)
    case (Some err)
    then have "r = Some err" "s' = s1" "w' = w2" using assms(1) p c by (simp_all add: Rabbit_Send_def)
    then show thesis using done_with [of evs1] i evs1 cs Some by (simp add: rabbit_refused_def)
  next
    case None
    obtain q w3 where q: "publish E (rsc_Queue (rs_cfg s1)) (cl_ID e1) (MarshalJSON e1) w2 = (q, w3)" by fastforce
    obtain z s2 w4 where z: "reset E s1 w3 = (z, s2, w4)" by (metis prod.collapse)
    from reset_idle [OF z] obtain evs3 where evs3: "trace w4 = trace w3 @ evs3" "filter handover evs3 = []"
      by (auto simp: appends_def list_all_iff filter_empty_conv)
    have ends: "if q = None then r = None \<and> s' = s1 \<and> w' = w3 else r \<noteq> None \<and> s' = s2 \<and> w' = w4"
      using assms(1) p c q z None by (cases q) (auto simp: Rabbit_Send_def)
    have s2: "unlinked s2" "rs_cfg s2 = rs_cfg s" using reset_state [OF z] cs(2) by (simp_all add: unlinked_def)
    from q show thesis
    proof (cases rule: publish_step)
      case (failed t err)
      then show thesis using done_with [of "evs1 @ _ # evs3"] i evs1 evs3 cs(2) ends s2 by (simp add: rabbit_refused_def) blast
    next
      case (answered t x a)
      show thesis
      proof (cases "a = Inr True")
        case True
        then show thesis using done_with [of "evs1 @ [_, _]"] answered i evs1 cs None ends by (simp add: rabbit_handed_def) blast
      next
        case False
        then show thesis using done_with [of "evs1 @ _ # _ # evs3"] answered i evs1 evs3 cs(2) ends s2
          by (simp add: rabbit_refused_def) blast
      qed
    qed
  qed
qed

interpretation rabbit_sender: queue_sender "Rabbit_Send E" rabbit_handed for E :: "'e env"
proof unfold_locales
  fix e s and w :: "'e world"
  assume "Validate e \<noteq> None"
  then show "Rabbit_Send E s e w = (Validate e, s, w)"
    using Prepare_invalid [of e E w] by (auto simp: Rabbit_Send_def)
next
  fix e s r s' and w w' :: "'e world"
  assume "Validate e = None" "Rabbit_Send E s e w = (r, s', w')"
  then show "\<exists>i evs. trace w' = trace w @ evs \<and> sent_id e i \<and> (r = None \<longleftrightarrow> rabbit_handed s (e\<lparr>cl_ID := i\<rparr>) evs)"
    using Rabbit_Send_step [of E s e w r s' w'] refused_not_handed by metis
qed

text \<open>The Kafka sender has no state of its own.\<close>

definition Kafka_Send_state ::
  "'e env \<Rightarrow> KafkaSender \<Rightarrow> Email \<Rightarrow> 'e world \<Rightarrow> goerr option \<times> KafkaSender \<times> 'e world"
where
  "Kafka_Send_state E s e w = (let (r, w') = Kafka_Send E s e w in (r, s, w'))"

interpretation kafka_sender: queue_sender "Kafka_Send_state E" kafka_handed for E :: "'e env"
proof unfold_locales
  fix e s and w :: "'e world"
  assume "Validate e \<noteq> None"
  then show "Kafka_Send_state E s e w = (Validate e, s, w)"
    using Prepare_invalid [of e E w] by (auto simp: Kafka_Send_def Kafka_Send_state_def)
next
  fix e s r s' and w w' :: "'e world"
  assume v: "Validate e = None" and send: "Kafka_Send_state E s e w = (r, s', w')"
  obtain e1 w1 where p: "Prepare E e w = (Inr e1, w1)" using Prepare_total [OF v] .
  obtain k w2 where k: "call_kafka E (KafkaProduce (email_record (kse_topic s) e1)) w1 = (k, w2)" by fastforce
  have "w' = w2" "r = None \<longleftrightarrow> k = None"
    using send p k by (auto simp: Kafka_Send_state_def Kafka_Send_def split: option.splits)
  moreover have "trace w2 = trace w @ [KafkaCall (KafkaProduce (email_record (kse_topic s) e1)) k]"
    using call_trace(4) [OF k] Prepare_valid(3) [OF p] by simp
  ultimately show "\<exists>i evs. trace w' = trace w @ evs \<and> sent_id e i \<and> (r = None \<longleftrightarrow> kafka_handed s (e\<lparr>cl_ID := i\<rparr>) evs)"
    using Prepare_valid(2) [OF p] Prepare_sent_id [OF p] by (intro exI [of _ "cl_ID e1"]) (auto simp: kafka_handed_def)
qed

section \<open>Properties\<close>

text \<open>C18: A RabbitMQ sender publishes an email at most once and reports it as sent exactly when the broker confirmed
  it. An email that is not valid is refused without a call. For any other, with its own id or a new one when it has
  none, a send that succeeds made one publish, of the persistent message of the email to the configured
  queue, and the broker confirmed it; the sender stays connected. A send that fails made no publish, or one that failed,
  or one that the broker did not confirm; the sender forgets the connection, so the next send opens a new one.\<close>

theorem rabbit_send_confirmed:
  assumes "Rabbit_Send E s e w = (r, s', w')"
  shows "if Validate e \<noteq> None then r = Validate e \<and> s' = s \<and> w' = w
    else \<exists>i evs. trace w' = trace w @ evs \<and> sent_id e i
      \<and> (if r = None then rabbit_handed s (e\<lparr>cl_ID := i\<rparr>) evs \<and> linked s'
         else rabbit_refused s (e\<lparr>cl_ID := i\<rparr>) evs \<and> unlinked s')"
proof (cases "Validate e")
  case None
  show ?thesis using Rabbit_Send_step [OF assms None] None by (metis option.distinct(1))
next
  case (Some err)
  then show ?thesis using rabbit_sender.invalid_refused [of e E s w] assms by simp
qed

text \<open>The delivery of a published message.\<close>

definition delivery_of :: "nat \<Rightarrow> amqp_publishing \<Rightarrow> delivery" where
  "delivery_of tag p =
     \<lparr>msg_Tag = tag, msg_Headers = pub_Headers p, msg_ContentType = pub_ContentType p, msg_MessageId = pub_MessageId p,
      msg_Timestamp = pub_Timestamp p, msg_Body = pub_Body p\<rparr>"

text \<open>From the client's queue to the service: when the RabbitMQ sender reports an email with an id as
  sent, the broker holds one message for it, and a consumer that is given that message hands the service
  the email it was built from, as its first attempt, and settles the message with the service's outcome.\<close>

lemma queued_email_attempted:
  assumes "Rabbit_Send E s e w = (None, s', w')" "\<not> blank (cl_ID e)"
    and "utf8_json (wire_json (wire_email e))" "callback_maps (cl_Callback e)"
  shows "\<exists>evs p x. trace w' = trace w @ evs
    \<and> filter handover evs = [AmqpCall (AmqpPublish (rsc_Queue (rs_cfg s)) p) (Inr x), AmqpCall AmqpWaitConfirm (Inr True)]
    \<and> process_delivery E' t (Handle te (Deliver svc)) (delivery_of tag p) v =
        (let (out, v1) = Deliver svc (received (wire_email e)) 1 v in apply_outcome E' t (delivery_of tag p) 1 out v1)"
proof -
  have valid: "Validate e = None" using rabbit_sender.sent_valid [OF assms(1)] .
  obtain i evs where evs: "trace w' = trace w @ evs" "i = cl_ID e" "rabbit_handed s (e\<lparr>cl_ID := i\<rparr>) evs"
    using rabbit_sender.sent_iff_handed [OF valid assms(1)] assms(2) by (auto simp: sent_id_def)
  have "Handle te (Deliver svc) (MarshalJSON e) 1 v = Deliver svc (received (wire_email e)) 1 v"
    using read_message(1) [OF assms(3)] assms(4) by (simp add: Handle_def MarshalJSON_def wire_email_def)
  then have "process_delivery E' t (Handle te (Deliver svc)) (delivery_of tag (email_publishing (cl_ID e) (MarshalJSON e) at)) v =
      (let (out, v1) = Deliver svc (received (wire_email e)) 1 v
       in apply_outcome E' t (delivery_of tag (email_publishing (cl_ID e) (MarshalJSON e) at)) 1 out v1)" for at
    by (simp add: process_delivery_def delivery_of_def email_publishing_def attemptOf_def)
  then show ?thesis using evs by (auto simp: rabbit_handed_def)
qed

section \<open>Witnesses\<close>

definition some_rabbit_sender :: RabbitSender where
  "some_rabbit_sender =
     \<lparr>rs_cfg = \<lparr>rsc_URL = ''amqp://h'', rsc_Queue = ''q'', rsc_Timeout = Second\<rparr>, rs_conn = False, rs_channel = False\<rparr>"

lemma some_send:
  "\<exists>w'. Rabbit_Send quiet_env some_rabbit_sender some_client_email some_world =
     (None, some_rabbit_sender\<lparr>rs_conn := True, rs_channel := True\<rparr>, w')"
proof -
  have "Validate some_client_email = None" by code_simp
  moreover have "\<not> blank (cl_ID some_client_email)" by code_simp
  ultimately have "Prepare quiet_env some_client_email some_world = (Inr some_client_email, some_world)"
    by (simp add: Prepare_def)
  then show ?thesis
    by (simp add: Rabbit_Send_def ensureChannel_def reconnect_def reset_def close_if_usable_def usable_def prepareChannel_def
        publish_def call_amqp_def call_clock_def quiet_env_def some_rabbit_sender_def)
qed

theorem rabbit_send_confirmed_witness:
  "\<exists>i. rabbit_handed some_rabbit_sender (some_client_email\<lparr>cl_ID := i\<rparr>)
     (trace (snd (snd (Rabbit_Send quiet_env some_rabbit_sender some_client_email some_world))))"
proof -
  obtain w' where w': "Rabbit_Send quiet_env some_rabbit_sender some_client_email some_world =
     (None, some_rabbit_sender\<lparr>rs_conn := True, rs_channel := True\<rparr>, w')" using some_send by blast
  have "Validate some_client_email = None" by code_simp
  then show ?thesis using rabbit_send_confirmed [OF w'] w' by (auto simp: some_world_def)
qed

lemma queued_email_attempted_example:
  "\<exists>p x. filter handover (trace (snd (snd (Rabbit_Send quiet_env some_rabbit_sender some_client_email some_world)))) =
     [AmqpCall (AmqpPublish ''q'' p) (Inr x), AmqpCall AmqpWaitConfirm (Inr True)]"
proof -
  obtain w' where w': "Rabbit_Send quiet_env some_rabbit_sender some_client_email some_world =
     (None, some_rabbit_sender\<lparr>rs_conn := True, rs_channel := True\<rparr>, w')" using some_send by blast
  have "\<not> blank (cl_ID some_client_email)" "utf8_json (wire_json (wire_email some_client_email))" by code_simp+
  moreover have "callback_maps (cl_Callback some_client_email)"
    by (simp add: callback_maps_def some_client_email_def)
  moreover have "rsc_Queue (rs_cfg some_rabbit_sender) = ''q''" by (simp add: some_rabbit_sender_def)
  ultimately show ?thesis
    using queued_email_attempted [OF w', of quiet_env "newTopology [] []" "\<lambda>s. s" busy_service 0 some_world] w'
    by (simp add: some_world_def) blast
qed

end
