(* ===== verification/ClientTransport.thy ===== *)
theory ClientTransport
  imports ClientHttp ClientQueues
begin

text \<open>
  \<open>client/transport/transport.go\<close>, \<open>client/sender.go\<close> and \<open>client/error_code.go\<close>: the sender of the client
  library chosen by configuration, and the error codes as a client sees them.
\<close>

section \<open>The sender interface\<close>

datatype ClientSender = RabbitClient RabbitSender | KafkaClient KafkaSender | HttpClient HTTPSender

fun Sender_Send ::
  "'e env \<Rightarrow> ClientSender \<Rightarrow> Email \<Rightarrow> 'e world \<Rightarrow> http_send_error option \<times> ClientSender \<times> 'e world"
where
  "Sender_Send E (RabbitClient s) e w =
     (let (r, s1, w1) = Rabbit_Send E s e w in (map_option HttpSendFailed r, RabbitClient s1, w1))"
| "Sender_Send E (KafkaClient s) e w =
     (let (r, w1) = Kafka_Send E s e w in (map_option HttpSendFailed r, KafkaClient s, w1))"
| "Sender_Send E (HttpClient s) e w = (let (r, w1) = HTTPSender_Send E s e w in (r, HttpClient s, w1))"

fun Sender_HealthCheck :: "'e env \<Rightarrow> ClientSender \<Rightarrow> 'e world \<Rightarrow> goerr option \<times> ClientSender \<times> 'e world" where
  "Sender_HealthCheck E (RabbitClient s) w =
     (let (r, s1, w1) = Rabbit_HealthCheck E s w in (r, RabbitClient s1, w1))"
| "Sender_HealthCheck E (KafkaClient s) w = (let (r, w1) = Kafka_HealthCheck E s w in (r, KafkaClient s, w1))"
| "Sender_HealthCheck E (HttpClient s) w = (HTTPSender_HealthCheck s, HttpClient s, w)"

fun Sender_Close :: "'e env \<Rightarrow> ClientSender \<Rightarrow> 'e world \<Rightarrow> goerr option \<times> ClientSender \<times> 'e world" where
  "Sender_Close E (RabbitClient s) w = (let (r, s1, w1) = Rabbit_Close E s w in (r, RabbitClient s1, w1))"
| "Sender_Close E (KafkaClient s) w = (let (r, w1) = Kafka_Close E s w in (r, KafkaClient s, w1))"
| "Sender_Close E (HttpClient s) w = (None, HttpClient s, w)"

section \<open>Configuration\<close>

record TransportConfig =
  tc_Transport :: string
  tc_RabbitMQ :: RabbitSenderConfig
  tc_Kafka :: KafkaSenderConfig
  tc_HTTP :: HTTPConfig

definition NewTransport :: "'e env \<Rightarrow> TransportConfig \<Rightarrow> 'e world \<Rightarrow> (goerr + ClientSender) \<times> 'e world" where
  "NewTransport E cfg w =
     (if tc_Transport cfg \<in> {''rabbitmq'', []} then
        (case NewRabbitSender (tc_RabbitMQ cfg) of Inl err \<Rightarrow> Inl err | Inr s \<Rightarrow> Inr (RabbitClient s), w)
      else if tc_Transport cfg = ''kafka'' then
        (case NewKafkaSender E (tc_Kafka cfg) w of
           (Inl err, w1) \<Rightarrow> (Inl err, w1)
         | (Inr s, w1) \<Rightarrow> (Inr (KafkaClient s), w1))
      else if tc_Transport cfg = ''http'' then
        (case NewHTTPSender (tc_HTTP cfg) of Inl err \<Rightarrow> Inl err | Inr s \<Rightarrow> Inr (HttpClient s), w)
      else (Inl (Plain (''unknown gomailer transport '' @ lib_quote E (tc_Transport cfg) @ '' (rabbitmq, kafka or http)'')), w))"

definition env_var :: "getenv \<Rightarrow> string \<Rightarrow> string" where
  "env_var g key = TrimSpace (g key)"

fun list_items :: "string list \<Rightarrow> string list" where
  "list_items [] = []"
| "list_items (item # items) =
     (let trimmed = TrimSpace item in if trimmed \<noteq> [] then trimmed # list_items items else list_items items)"

definition list_env :: "string \<Rightarrow> string list" where
  "list_env v = list_items (Split (CHR '','') v)"

definition durationEnv :: "'a golib_scheme \<Rightarrow> getenv \<Rightarrow> string \<Rightarrow> goerr + int" where
  "durationEnv L g key =
     (let v = env_var g key;
          bad = Inl (Plain (key @ '' must be a positive duration, got '' @ lib_quote L v))
      in if v = [] then Inr 0
         else
           (case lib_parse_duration L v of
              None \<Rightarrow> bad
            | Some d \<Rightarrow> if d \<le> 0 then bad else Inr d))"

text \<open>\<open>strings.EqualFold(v, "true")\<close>: no letter outside ASCII folds to one of these four.\<close>

definition EqualFold_true :: "string \<Rightarrow> bool" where
  "EqualFold_true v \<longleftrightarrow> map ascii_lower v = ''true''"

definition FromEnv :: "'a golib_scheme \<Rightarrow> getenv \<Rightarrow> goerr + TransportConfig" where
  "FromEnv L g =
     (case durationEnv L g ''GOMAILER_TIMEOUT'' of
        Inl err \<Rightarrow> Inl err
      | Inr timeout \<Rightarrow>
          Inr \<lparr>tc_Transport = ToLower (env_var g ''GOMAILER_TRANSPORT''),
            tc_RabbitMQ =
              \<lparr>rsc_URL = env_var g ''GOMAILER_RABBITMQ_URL'', rsc_Queue = env_var g ''GOMAILER_RABBITMQ_QUEUE'',
               rsc_Timeout = timeout\<rparr>,
            tc_Kafka =
              \<lparr>ksc_Brokers = list_env (env_var g ''GOMAILER_KAFKA_BROKERS''), ksc_Topic = env_var g ''GOMAILER_KAFKA_TOPIC'',
               ksc_Timeout = timeout, ksc_TLS = EqualFold_true (env_var g ''GOMAILER_KAFKA_TLS''),
               ksc_SASLMechanism = ToLower (env_var g ''GOMAILER_KAFKA_SASL_MECHANISM''),
               ksc_SASLUser = env_var g ''GOMAILER_KAFKA_SASL_USER'', ksc_SASLPass = env_var g ''GOMAILER_KAFKA_SASL_PASS''\<rparr>,
            tc_HTTP =
              \<lparr>hc_URL = env_var g ''GOMAILER_HTTP_URL'', hc_Token = env_var g ''GOMAILER_HTTP_TOKEN'', hc_Timeout = timeout\<rparr>\<rparr>)"

section \<open>Error codes\<close>

text \<open>An error code is any string for the client; these are the ones it names.\<close>

definition client_codes :: "string list" where
  "client_codes =
     [''message_invalid_json'', ''message_invalid_body'', ''message_missing_sender'', ''message_missing_receiver'',
      ''message_missing_subject'', ''message_missing_body'', ''smtp_connection_failed'', ''smtp_authorization_denied'',
      ''smtp_sender_rejected'', ''smtp_receiver_rejected'', ''smtp_message_rejected'', ''smtp_temporary_failure'',
      ''api_connection_failed'', ''api_authorization_denied'', ''api_sender_not_allowed'', ''api_invalid_receiver'',
      ''api_invalid_attachment'', ''api_invalid_request'', ''api_quota_exceeded'', ''api_rate_limited'',
      ''api_provider_unavailable'', ''api_unexpected_response'', ''unknown_error'']"

definition client_Retryable :: "string \<Rightarrow> bool" where
  "client_Retryable c \<longleftrightarrow>
     c \<in> {''api_connection_failed'', ''api_rate_limited'', ''api_provider_unavailable'', ''smtp_connection_failed'',
          ''smtp_temporary_failure''}"

section \<open>Well-formed senders\<close>

text \<open>A sender knows where to send to, waits a positive time, and has both of its pointers or none.\<close>

fun wf_sender :: "ClientSender \<Rightarrow> bool" where
  "wf_sender (RabbitClient s) \<longleftrightarrow>
     \<not> blank (rsc_URL (rs_cfg s)) \<and> rsc_Queue (rs_cfg s) \<noteq> [] \<and> 0 < rsc_Timeout (rs_cfg s) \<and> (linked s \<or> unlinked s)"
| "wf_sender (KafkaClient s) \<longleftrightarrow> kse_topic s \<noteq> [] \<and> 0 < kse_timeout s"
| "wf_sender (HttpClient s) \<longleftrightarrow> suffix ''/v1/emails'' (hs_url s) \<and> \<not> blank (hs_token s) \<and> 0 < hs_timeout s"

lemma reset_wf: "reset E s w = (r, s', w') \<Longrightarrow> unlinked s' \<and> rs_cfg s' = rs_cfg s"
  by (auto dest: reset_state simp: unlinked_def)

lemma ensureChannel_wf:
  assumes "ensureChannel E s w = (r, s', w')"
  shows "rs_cfg s' = rs_cfg s \<and> (linked s' \<or> unlinked s')"
  using ensureChannel_step(2,3) [OF assms] by (auto split: if_splits)

lemma Rabbit_Send_wf:
  assumes "Rabbit_Send E s e w = (r, s', w')" "linked s \<or> unlinked s"
  shows "rs_cfg s' = rs_cfg s \<and> (linked s' \<or> unlinked s')"
proof (cases "Validate e")
  case None
  then show ?thesis using Rabbit_Send_step [OF assms(1) None] by metis
next
  case (Some err)
  then show ?thesis using rabbit_sender.invalid_refused [of e E s w] assms by simp
qed

lemma Rabbit_HealthCheck_wf:
  assumes "Rabbit_HealthCheck E s w = (r, s', w')"
  shows "rs_cfg s' = rs_cfg s \<and> (linked s' \<or> unlinked s')"
proof -
  obtain c s1 w1 where c: "ensureChannel E s w = (c, s1, w1)" by (metis prod.collapse)
  obtain a w2 where a: "call_amqp E (AmqpQueueDeclarePassive (rsc_Queue (rs_cfg s1)) True) w1 = (a, w2)" by fastforce
  obtain z s2 w3 where z: "reset E s1 w2 = (z, s2, w3)" by (metis prod.collapse)
  have "s' = s1 \<or> s' = s2"
    using assms c a z by (auto simp: Rabbit_HealthCheck_def split: option.splits sum.splits)
  then show ?thesis using ensureChannel_wf [OF c] reset_wf [OF z] by auto
qed

text \<open>What a constructor builds is well formed, and stays so whatever is called on it.\<close>

lemma new_sender_wf:
  assumes "NewTransport E cfg w = (Inr s, w')"
  shows "wf_sender s"
proof -
  have "wf_sender (RabbitClient s)" if "NewRabbitSender c = Inr s" for c s
    using that
    by (auto simp: NewRabbitSender_def Let_def unlinked_def defaultQueue_def defaultTimeout_def split: if_splits)
  moreover have "wf_sender (KafkaClient s)" if "NewKafkaSender E c w = (Inr s, w')" for c s
    using that
    by (auto simp: NewKafkaSender_def defaultTopic_def defaultTimeout_def split: if_splits sum.splits prod.splits option.splits)
  moreover have "wf_sender (HttpClient s)" if "NewHTTPSender c = Inr s" for c s
    using that by (auto simp: NewHTTPSender_def defaultHTTPTimeout_def suffix_def split: if_splits)
  ultimately show ?thesis
    using assms by (auto simp: NewTransport_def split: if_splits sum.splits prod.splits)
qed

lemma operations_wf:
  assumes "wf_sender s"
  shows "Sender_Send E s e w = (r, s', w') \<Longrightarrow> wf_sender s'"
    and "Sender_HealthCheck E s w = (h, s', w') \<Longrightarrow> wf_sender s'"
    and "Sender_Close E s w = (c, s', w') \<Longrightarrow> wf_sender s'"
proof -
  show "Sender_Send E s e w = (r, s', w') \<Longrightarrow> wf_sender s'"
    using assms by (cases s) (auto split: prod.splits dest!: Rabbit_Send_wf)
  show "Sender_HealthCheck E s w = (h, s', w') \<Longrightarrow> wf_sender s'"
    using assms by (cases s) (auto split: prod.splits dest!: Rabbit_HealthCheck_wf)
  show "Sender_Close E s w = (c, s', w') \<Longrightarrow> wf_sender s'"
    using assms by (cases s) (auto simp: Rabbit_Close_def split: prod.splits dest!: reset_wf)
qed

text \<open>The operations of an application on its sender, in any order.\<close>

datatype client_call = CallSend Email | CallHealthCheck | CallClose

fun client_step :: "'e env \<Rightarrow> client_call \<Rightarrow> ClientSender \<times> 'e world \<Rightarrow> ClientSender \<times> 'e world" where
  "client_step E (CallSend e) (s, w) = snd (Sender_Send E s e w)"
| "client_step E CallHealthCheck (s, w) = snd (Sender_HealthCheck E s w)"
| "client_step E CallClose (s, w) = snd (Sender_Close E s w)"

lemma client_step_wf: "wf_sender s \<Longrightarrow> wf_sender (fst (client_step E c (s, w)))"
  by (cases c) (auto intro: operations_wf simp: prod_eq_iff)

lemma client_calls_wf: "wf_sender s \<Longrightarrow> wf_sender (fst (fold (client_step E) cs (s, w)))"
proof (induction cs arbitrary: s w)
  case (Cons c cs)
  then show ?case using client_step_wf [of s E c w] by (cases "client_step E c (s, w)") simp
qed simp

section \<open>Properties\<close>

text \<open>C27: A sender of the client library is well formed for life. Whatever the configuration, if it is
  accepted the sender knows where to send (a URL or address that is not blank, a queue or topic with the
  default filled in, the path of the API), its timeout is positive, and after any sequence of sends, health
  checks and closes, whatever the broker or the server answered, that is still so, and a RabbitMQ sender
  holds a connection and a channel or neither.\<close>

theorem client_sender_wf:
  assumes "NewTransport E cfg w = (Inr s, w1)"
  shows "wf_sender (fst (fold (client_step E) cs (s, w1)))"
  using client_calls_wf [OF new_sender_wf [OF assms]] .

text \<open>An email that is not valid is refused by every transport in the same way: with the error of the
  validation, without a call and without a change of the sender.\<close>

lemma client_refuses_invalid:
  assumes "Validate e = Some err"
  shows "Sender_Send E s e w = (Some (HttpSendFailed err), s, w)"
proof (cases s)
  case (RabbitClient x)
  then show ?thesis using rabbit_sender.invalid_refused [of e E x w] assms by simp
next
  case (KafkaClient x)
  then show ?thesis using kafka_sender.invalid_refused [of e E x w] assms by (simp add: Kafka_Send_state_def split: prod.splits)
next
  case (HttpClient x)
  then show ?thesis using assms by (simp add: HTTPSender_Send_def HTTPSender_Deliver_def Prepare_def)
qed

text \<open>The client names exactly the codes that the service reports.\<close>

lemma client_codes_complete:
  "code \<in> set client_codes \<longleftrightarrow> (\<exists>c. c \<noteq> CodeNone \<and> code = code_text c)"
  unfolding ex_code by (auto simp: all_codes_def client_codes_def)

text \<open>A client and the service agree on what is temporary: an error code read from an event is
  retryable for the client exactly when it is the text of a code the service retries.\<close>

lemma client_retryable_agrees:
  "client_Retryable code \<longleftrightarrow> (\<exists>c. code = code_text c \<and> Retryable c)"
  unfolding ex_code by (auto simp: all_codes_def client_Retryable_def)

section \<open>Witnesses\<close>

lemma client_refuses_invalid_example:
  "\<exists>err. Sender_Send quiet_env (RabbitClient some_rabbit_sender) (some_client_email\<lparr>cl_HTML := []\<rparr>) some_world =
     (Some (HttpSendFailed err), RabbitClient some_rabbit_sender, some_world)"
proof -
  have "Validate (some_client_email\<lparr>cl_HTML := []\<rparr>) \<noteq> None" by code_simp
  then show ?thesis using client_refuses_invalid [of "some_client_email\<lparr>cl_HTML := []\<rparr>"] by blast
qed

theorem client_sender_wf_witness:
  "\<exists>g cfg. FromEnv quiet_env g = Inr cfg
     \<and> (\<exists>s w1. NewTransport quiet_env cfg some_world = (Inr s, w1)
         \<and> wf_sender (fst (fold (client_step quiet_env) [CallSend some_client_email, CallClose] (s, w1))))"
proof -
  let ?g = "env_of [(''GOMAILER_TRANSPORT'', ''HTTP''), (''GOMAILER_HTTP_URL'', ''http://m''), (''GOMAILER_HTTP_TOKEN'', ''k1'')]"
  have t: "TrimSpace [] = []" "TrimSpace ''HTTP'' = ''HTTP''" "TrimSpace ''http://m'' = ''http://m''" "ToLower ''HTTP'' = ''http''"
    "TrimSpace ''k1'' = ''k1''"
    by code_simp+
  obtain cfg where cfg: "FromEnv quiet_env ?g = Inr cfg" "tc_Transport cfg = ''http''"
    "hc_URL (tc_HTTP cfg) = ''http://m''" "hc_Token (tc_HTTP cfg) = ''k1''"
    using t by (simp add: FromEnv_def durationEnv_def env_var_def env_of_def)
  obtain s w1 where s: "NewTransport quiet_env cfg some_world = (Inr s, w1)"
    using cfg t by (simp add: NewTransport_def NewHTTPSender_def)
  show ?thesis using cfg(1) s client_sender_wf [OF s] by blast
qed

end
