(* ===== verification/RabbitSource.thy ===== *)
theory RabbitSource
  imports RabbitMQ
begin

text \<open>
  The RabbitMQ source as a whole: \<open>Consume\<close> of \<open>rabbitmq_consumer.go\<close>, which reconnects whenever the
  consume loop drops, and \<open>Run\<close>, \<open>Ready\<close> and \<open>Name\<close> of \<open>rabbitmq_source.go\<close>. What the loops receive is
  given as one list of events for each connection.
\<close>

section \<open>Consume\<close>

text \<open>\<^const>\<open>None\<close>: a reconnection is still being tried after \<open>n\<close> attempts. \<^const>\<open>Waiting\<close>: the events
  given are used up and the loop waits for the next one. \<open>ctx.Err()\<close> is read again for the result.\<close>

fun Consume ::
  "nat \<Rightarrow> 'e env \<Rightarrow> rabbit_consumer \<Rightarrow> 'e Handler \<Rightarrow> loop_event list list \<Rightarrow> 'e world
    \<Rightarrow> (loop_result \<times> rabbit_consumer \<times> 'e world) option"
where
  "Consume n E c h [] w = Some (Waiting, c, w)"
| "Consume n E c h (evs # drops) w =
     (case consumeLoop E c h evs w of
        (Waiting, w1) \<Rightarrow> Some (Waiting, c, w1)
      | (Panicked, w1) \<Rightarrow> Some (Panicked, c, w1)
      | (Returned err, w1) \<Rightarrow>
          (case call_ctx_err E w1 of
             (Some _, w2) \<Rightarrow> (let (ctxErr, w3) = call_ctx_err E w2 in Some (Returned ctxErr, c, w3))
           | (None, w2) \<Rightarrow>
               (case Connect n E (c\<lparr>rc_ready := False\<rparr>) w2 of
                  None \<Rightarrow> None
                | Some (Some reconnectErr, c1, w3) \<Rightarrow> Some (Returned (Some reconnectErr), c1, w3)
                | Some (None, c1, w3) \<Rightarrow> Consume n E c1 h drops w3)))"

section \<open>Run\<close>

definition RabbitSource_Name :: string where "RabbitSource_Name = ''rabbitmq''"

definition RabbitSource_Ready :: "rabbit_consumer \<Rightarrow> bool" where
  "RabbitSource_Ready c = rc_ready c"

text \<open>\<open>Close\<close> is deferred once the first connection stands: it runs however \<open>Consume\<close> ends.\<close>

definition RabbitSource_Run ::
  "nat \<Rightarrow> 'e env \<Rightarrow> rabbit_consumer \<Rightarrow> 'e Handler \<Rightarrow> loop_event list list \<Rightarrow> 'e world
    \<Rightarrow> (loop_result \<times> rabbit_consumer \<times> 'e world) option"
where
  "RabbitSource_Run n E c h conns w =
     (case Connect n E c w of
        None \<Rightarrow> None
      | Some (Some err, c1, w1) \<Rightarrow> Some (Returned (Some err), c1, w1)
      | Some (None, c1, w1) \<Rightarrow>
          (case Consume n E c1 h conns w1 of
             None \<Rightarrow> None
           | Some (Waiting, c2, w2) \<Rightarrow> Some (Waiting, c2, w2)
           | Some (Returned err, c2, w2) \<Rightarrow> (let (c3, w3) = Close E c2 w2 in Some (Returned err, c3, w3))
           | Some (Panicked, c2, w2) \<Rightarrow> (let (c3, w3) = Close E c2 w2 in Some (Panicked, c3, w3))))"

section \<open>What connecting changes\<close>

lemma dialAndOpen_consumer:
  assumes "dialAndOpen E c w = (r, c', w')"
  shows "c' = (if r = None then c\<lparr>rc_open := True\<rparr> else c)"
  using assms by (auto simp: dialAndOpen_def split: prod.splits sum.splits option.splits)

lemma connect_loop_consumer:
  "connect_loop n E b c w = Some (r, c', w') \<Longrightarrow>
     rc_topology c' = rc_topology c \<and> rc_config c' = rc_config c
     \<and> c' = c \<or> rc_topology c' = rc_topology c \<and> rc_config c' = rc_config c \<and> r = None \<and> rc_open c' \<and> rc_ready c'"
proof (induction n arbitrary: b c w)
  case (Suc n)
  obtain d c1 w1 where d: "dialAndOpen E c w = (d, c1, w1)" by (metis prod_cases3)
  note c1 = dialAndOpen_consumer [OF d]
  show ?case
  proof (cases d)
    case None
    then show ?thesis using Suc.prems d c1 by auto
  next
    case (Some err)
    then show ?thesis
      using Suc.prems d c1 by (auto split: prod.splits bool.splits dest: Suc.IH)
  qed
qed simp

section \<open>The context\<close>

text \<open>What the documentation of \<open>context\<close> promises: reading \<open>Err\<close> changes nothing, and once \<open>Done\<close> is
  closed \<open>Err\<close> is not nil.\<close>

definition context_laws :: "'e env \<Rightarrow> bool" where
  "context_laws E \<longleftrightarrow>
     (\<forall>e. snd (ctx_err E e) = e) \<and> (\<forall>d e e'. sleep E d e = (False, e') \<longrightarrow> fst (ctx_err E e') \<noteq> None)"

text \<open>The context has ended with \<open>err\<close> in this world.\<close>

definition ended :: "'e env \<Rightarrow> goerr \<Rightarrow> 'e world \<Rightarrow> bool" where
  "ended E err w \<longleftrightarrow> ctx_err E (hidden w) = (Some err, hidden w)"

lemma ctx_err_pure:
  assumes "context_laws E" "call_ctx_err E w = (r, w')"
  shows "w' = w" "fst (ctx_err E (hidden w)) = r" "r = Some err \<Longrightarrow> ended E err w"
proof -
  have s: "snd (ctx_err E (hidden w)) = hidden w" using assms(1) by (simp add: context_laws_def)
  show "w' = w" using assms(2) s by (cases "ctx_err E (hidden w)") (auto simp: call_ctx_err_def)
  show "fst (ctx_err E (hidden w)) = r" using assms(2) by (auto simp: call_ctx_err_def split: prod.splits)
  then show "r = Some err \<Longrightarrow> ended E err w" using s by (simp add: ended_def prod_eq_iff)
qed

lemma sleep_ended:
  assumes "context_laws E" "call_sleep E d w = (False, w')"
  shows "fst (call_ctx_err E w') \<noteq> None"
proof -
  obtain e' where "sleep E d (hidden w) = (False, e')" "hidden w' = e'"
    using assms(2) by (auto simp: call_sleep_def record_call_def split: prod.splits)
  moreover then have "fst (ctx_err E e') \<noteq> None" using assms(1) by (auto simp: context_laws_def)
  ultimately show ?thesis by (cases "ctx_err E e'") (simp add: call_ctx_err_def)
qed

text \<open>Connecting returns with a connection, or because the context ended.\<close>

lemma connect_loop_returned:
  assumes "context_laws E"
  shows "connect_loop n E b c w = Some (r, c', w') \<Longrightarrow>
     rc_topology c' = rc_topology c
     \<and> (case r of None \<Rightarrow> rc_open c' \<and> rc_ready c' | Some err \<Rightarrow> c' = c \<and> ended E err w')"
proof (induction n arbitrary: b c w)
  case (Suc n)
  obtain d c1 w1 where d: "dialAndOpen E c w = (d, c1, w1)" by (metis prod_cases3)
  note c1 = dialAndOpen_consumer [OF d]
  show ?case
  proof (cases d)
    case None
    then show ?thesis using Suc.prems d c1 by auto
  next
    case (Some err)
    obtain alive w2 where s: "call_sleep E b w1 = (alive, w2)" by fastforce
    show ?thesis
    proof (cases alive)
      case True
      then have "connect_loop n E (min (b * 2) maxBackoff) c w2 = Some (r, c', w')"
        using Suc.prems d c1 Some s by simp
      then show ?thesis by (rule Suc.IH)
    next
      case False
      obtain e w3 where e: "call_ctx_err E w2 = (e, w3)" by fastforce
      have "e \<noteq> None" using sleep_ended [OF assms, of b w1 w2] s False e by simp
      then show ?thesis
        using Suc.prems d c1 Some s False e ctx_err_pure [OF assms e] by auto
    qed
  qed
qed simp

lemma Consume_returned:
  assumes "context_laws E"
  shows "Consume n E c h conns w = Some (Returned r, c', w') \<Longrightarrow> \<exists>err. r = Some err \<and> ended E err w'"
proof (induction conns arbitrary: c w)
  case (Cons evs drops)
  obtain res w1 where l: "consumeLoop E c h evs w = (res, w1)" by fastforce
  then obtain e where res: "res = Returned e" using Cons.prems by (cases res) auto
  obtain x w2 where x: "call_ctx_err E w1 = (x, w2)" by fastforce
  note x' = ctx_err_pure [OF assms x]
  show ?case
  proof (cases x)
    case None
    obtain q c1 w3 where q: "Connect n E (c\<lparr>rc_ready := False\<rparr>) w2 = Some (q, c1, w3)"
      using Cons.prems l res x None by (auto split: option.splits)
    then show ?thesis
      using Cons l res x None connect_loop_returned [OF assms, of n initialBackoff _ w2 q c1 w3]
      by (cases q) (auto simp: Connect_def)
  next
    case (Some err)
    then have "r = Some err" "w' = w1" using Cons.prems l res x x'(1) by auto
    moreover have "ended E err w1" using ctx_err_pure(3) [OF assms x Some] .
    ultimately show ?thesis by blast
  qed
qed simp

section \<open>The loop never panics\<close>

lemma Consume_topology:
  "Consume n E c h conns w = Some (r, c', w') \<Longrightarrow> rc_topology c' = rc_topology c"
proof (induction conns arbitrary: c w)
  case (Cons evs drops)
  then show ?case
    by (auto simp: Connect_def split: prod.splits loop_result.splits option.splits
        dest!: connect_loop_consumer)
qed simp

context handler
begin

lemma consumeLoop_no_panic:
  assumes "valid_policy pol" "rc_topology c = newTopology q (Delays pol)"
  shows "fst (consumeLoop E c handle evs w) \<noteq> Panicked"
  using consume_no_panic [OF assms(1)] assms(2) by (simp add: consumeLoop_def split: prod.split sum.split)

lemma Consume_no_panic:
  "valid_policy pol \<Longrightarrow> rc_topology c = newTopology q (Delays pol) \<Longrightarrow>
   Consume n E c handle conns w \<noteq> Some (Panicked, c', w')"
proof (induction conns arbitrary: c w)
  case (Cons evs drops)
  obtain res w1 where l: "consumeLoop E c handle evs w = (res, w1)" by fastforce
  have "res \<noteq> Panicked" using consumeLoop_no_panic [OF Cons.prems, of E evs w] l by simp
  moreover have "rc_topology c1 = newTopology q (Delays pol)" if "Connect n E (c\<lparr>rc_ready := False\<rparr>) w2 = Some (x, c1, w3)" for x c1 w2 w3
    using connect_loop_consumer [of n E initialBackoff "c\<lparr>rc_ready := False\<rparr>" w2 x c1 w3] that Cons.prems(2)
    by (auto simp: Connect_def)
  ultimately show ?case
    using l Cons by (auto split: loop_result.splits prod.splits option.splits)
qed simp

end

section \<open>When connecting succeeds\<close>

text \<open>The world before attempt \<open>k\<close>, when all attempts before it failed and were slept on.\<close>

fun before_attempt :: "'e env \<Rightarrow> rabbit_consumer \<Rightarrow> nat \<Rightarrow> 'e world \<Rightarrow> 'e world" where
  "before_attempt E c 0 w = w"
| "before_attempt E c (Suc k) w =
     snd (call_sleep E (reconnect_wait k) (snd (snd (dialAndOpen E c (before_attempt E c k w)))))"

definition attempt_succeeds :: "'e env \<Rightarrow> rabbit_consumer \<Rightarrow> nat \<Rightarrow> 'e world \<Rightarrow> bool" where
  "attempt_succeeds E c k w \<longleftrightarrow> fst (dialAndOpen E c (before_attempt E c k w)) = None"

definition context_ends :: "'e env \<Rightarrow> rabbit_consumer \<Rightarrow> nat \<Rightarrow> 'e world \<Rightarrow> bool" where
  "context_ends E c k w \<longleftrightarrow>
     \<not> fst (call_sleep E (reconnect_wait k) (snd (snd (dialAndOpen E c (before_attempt E c k w)))))"

lemma connect_loop_reaches:
  "attempt_succeeds E c k w \<or> context_ends E c k w \<Longrightarrow> i \<le> k \<Longrightarrow>
   \<exists>r c' w'. connect_loop (Suc k - i) E (reconnect_wait i) c (before_attempt E c i w) = Some (r, c', w')"
proof (induction "k - i" arbitrary: i)
  case 0
  then have i: "i = k" by simp
  obtain d c1 w1 where d: "dialAndOpen E c (before_attempt E c k w) = (d, c1, w1)" by (metis prod_cases3)
  obtain alive w2 where s: "call_sleep E (reconnect_wait k) w1 = (alive, w2)" by fastforce
  show ?case
    using 0(2) d s i by (cases d) (auto simp: attempt_succeeds_def context_ends_def split: prod.split)
next
  case (Suc m)
  then have i: "i < k" "Suc k - i = Suc (Suc k - Suc i)" by simp_all
  obtain d c1 w1 where d: "dialAndOpen E c (before_attempt E c i w) = (d, c1, w1)" by (metis prod_cases3)
  obtain alive w2 where s: "call_sleep E (reconnect_wait i) w1 = (alive, w2)" by fastforce
  have next_try: "before_attempt E c (Suc i) w = w2" using d s by simp
  show ?case
  proof (cases d)
    case None
    then show ?thesis using d i by simp
  next
    case (Some err)
    then have "c1 = c" using dialAndOpen_consumer [OF d] by simp
    then show ?thesis
      using Suc.hyps(1) [of "Suc i"] Suc.hyps(2) Suc.prems d s i Some next_try
      by (cases alive) (simp_all add: reconnect_wait_Suc split: prod.split)
  qed
qed

section \<open>Connections\<close>

text \<open>The connections a trace opens and does not close.\<close>

fun open_links :: "event list \<Rightarrow> int" where
  "open_links [] = 0"
| "open_links (AmqpCall (AmqpDial u) (Inr b) # evs) = 1 + open_links evs"
| "open_links (AmqpCall AmqpCloseConn r # evs) = open_links evs - 1"
| "open_links (_ # evs) = open_links evs"

lemma open_links_append [simp]: "open_links (a @ b) = open_links a + open_links b"
  by (induction a rule: open_links.induct) auto

lemma open_links_channel: "list_all on_channel evs \<Longrightarrow> open_links evs = 0"
  by (induction evs rule: open_links.induct) (auto simp: on_channel_def)

lemma dialAndOpen_links:
  assumes "dialAndOpen E c w = (r, c', w')"
  shows "open_links (trace w') = open_links (trace w) + (if r = None then 1 else 0)"
proof -
  obtain d w1 where d: "call_amqp E (AmqpDial (rabbit_URL (rc_config c))) w = (d, w1)" by fastforce
  obtain o' w2 where oc: "openChannel E (rc_topology c) w1 = (o', w2)" by fastforce
  obtain x w3 where cl: "call_amqp E AmqpCloseConn w2 = (x, w3)" by fastforce
  have "open_links (trace w2) = open_links (trace w1)"
    using openChannel_on_channel [OF oc] by (auto simp: appends_def open_links_channel)
  then show ?thesis
    using assms d oc cl call_trace(3) [OF d] call_trace(3) [OF cl]
    by (cases d; cases o') (auto simp: dialAndOpen_def)
qed

lemma connect_loop_links:
  assumes "context_laws E"
  shows "connect_loop n E b c w = Some (r, c', w') \<Longrightarrow>
     open_links (trace w') = open_links (trace w) + (if r = None then 1 else 0)"
proof (induction n arbitrary: b c w)
  case (Suc n)
  obtain d c1 w1 where d: "dialAndOpen E c w = (d, c1, w1)" by (metis prod_cases3)
  note l = dialAndOpen_links [OF d]
  show ?case
  proof (cases d)
    case None
    then show ?thesis using Suc.prems d l by auto
  next
    case (Some err)
    obtain alive w2 where s: "call_sleep E b w1 = (alive, w2)" by fastforce
    have l2: "open_links (trace w2) = open_links (trace w1)" using call_trace(5) [OF s] by simp
    show ?thesis
    proof (cases alive)
      case True
      then have "connect_loop n E (min (b * 2) maxBackoff) c1 w2 = Some (r, c', w')"
        using Suc.prems d Some s by simp
      from Suc.IH [OF this] show ?thesis using l l2 Some by simp
    next
      case False
      obtain e w3 where e: "call_ctx_err E w2 = (e, w3)" by fastforce
      have "e \<noteq> None" using sleep_ended [OF assms, of b w1 w2] s False e by simp
      then show ?thesis using Suc.prems d Some s e False l l2 call_trace(8) [OF e] by auto
    qed
  qed
qed simp

section \<open>Properties\<close>

text \<open>The RabbitMQ source built for the service's policy never panics: whatever the broker answers and
  delivers, over any number of dropped connections, every retry the service asks for has a declared
  queue.\<close>

lemma rabbit_source_never_panics:
  assumes "valid_policy (policy s)"
  shows "RabbitSource_Run n E (NewConsumer cfg (policy s)) (Handle te (Deliver s)) conns w \<noteq> Some (Panicked, c', w')"
proof -
  let ?c = "NewConsumer cfg (policy s)"
  have "rc_topology c1 = newTopology (rabbit_Queue cfg) (Delays (policy s))" if "Connect n E ?c w = Some (r, c1, w1)" for r c1 w1
    using connect_loop_consumer [of n E initialBackoff ?c w r c1 w1] that by (auto simp: Connect_def NewConsumer_def)
  then show ?thesis
    using mailer_consumer.Consume_no_panic [OF assms]
    by (auto simp: RabbitSource_Run_def Let_def split: option.splits prod.splits loop_result.splits)
qed

text \<open>C15: The RabbitMQ source ends only with the context, never because of the broker: under what the
  documentation of \<open>context\<close> promises, whenever its \<open>Run\<close> returns, through any number of failed or
  dropped connections, the result is the error of the context, which has ended, and the source is no
  longer ready.\<close>

theorem rabbit_source_ends_with_context:
  assumes "context_laws E" "RabbitSource_Run n E (NewConsumer cfg pol) h conns w = Some (Returned r, c', w')"
  shows "(\<exists>err v. r = Some err \<and> ended E err v) \<and> \<not> RabbitSource_Ready c'"
proof -
  let ?c = "NewConsumer cfg pol"
  obtain q c1 w1 where q: "Connect n E ?c w = Some (q, c1, w1)"
    using assms(2) by (auto simp: RabbitSource_Run_def split: option.splits)
  note con = connect_loop_returned [OF assms(1) q [unfolded Connect_def]]
  show ?thesis
  proof (cases q)
    case None
    then obtain res c2 w2 where res: "Consume n E c1 h conns w1 = Some (res, c2, w2)"
      using assms(2) q by (auto simp: RabbitSource_Run_def split: option.splits)
    obtain c3 w3 where cl: "Close E c2 w2 = (c3, w3)" by fastforce
    have "res = Returned r" "c' = c3"
      using assms(2) q res cl None by (auto simp: RabbitSource_Run_def split: loop_result.splits)
    moreover have "\<not> rc_ready c3" using cl by (auto simp: Close_def)
    ultimately show ?thesis
      using Consume_returned [OF assms(1), of n c1 h conns w1 r c2 w2] res by (auto simp: RabbitSource_Ready_def)
  next
    case (Some err)
    then have "r = Some err" "c' = ?c" "ended E err w1" using assms(2) q con by (auto simp: RabbitSource_Run_def)
    then show ?thesis by (auto simp: RabbitSource_Ready_def NewConsumer_def)
  qed
qed

text \<open>C16: Connecting always comes to an end when it can: as soon as an attempt succeeds, or the context
  ends during the wait after an attempt, \<open>Connect\<close> has returned with that attempt; it has a connection and is
  ready, or it reports the error of the context.\<close>

theorem connect_returns:
  assumes "context_laws E" "attempt_succeeds E c k w \<or> context_ends E c k w"
  shows "\<exists>r c' w'. Connect (Suc k) E c w = Some (r, c', w')
    \<and> (case r of None \<Rightarrow> rc_open c' \<and> rc_ready c' | Some err \<Rightarrow> ended E err w')"
proof -
  have "initialBackoff = reconnect_wait 0"
    by (simp add: reconnect_wait_def initialBackoff_def maxBackoff_def)
  then obtain r c' w' where "connect_loop (Suc k) E initialBackoff c w = Some (r, c', w')"
    using connect_loop_reaches [OF assms(2), of 0] by auto
  then show ?thesis
    using connect_loop_returned [OF assms(1)] by (fastforce simp: Connect_def split: option.splits)
qed

text \<open>A channel that is lost while its connection lives costs a connection: when the messages channel
  closes, the consumer reconnects without closing the connection it holds, so each such drop leaves at
  least one connection more open than before.\<close>

lemma dropped_channel_keeps_connection:
  assumes "context_laws E" "rc_open c" "Consume n E c h [[ChannelClosed], []] w = Some (Waiting, c', w')"
  shows "open_links (trace w) + 1 \<le> open_links (trace w')"
proof -
  have loop: "open_links (trace v') = open_links (trace v)"
    if "consumeLoop E d h evs v = (res, v')" "evs = [ChannelClosed] \<or> evs = []" for d evs v res v'
    using that by (auto simp: consumeLoop_def split: if_splits prod.splits sum.splits dest!: call_trace(3))
  have again: "\<exists>x. Connect n E x v = Some (None, d, v') \<Longrightarrow> open_links (trace v') = open_links (trace v) + 1" for v d v'
    using connect_loop_links [OF assms(1)] by (fastforce simp: Connect_def)
  have "\<exists>e. fst (consumeLoop E c h [ChannelClosed] w) = Returned e"
    using assms(2) by (simp add: consumeLoop_def split: sum.split prod.split)
  then obtain e w1 where l: "consumeLoop E c h [ChannelClosed] w = (Returned e, w1)" by (metis prod.collapse)
  obtain x w2 where x: "call_ctx_err E w1 = (x, w2)" by fastforce
  then have none: "x = None" using assms(3) l by (cases x) (auto split: prod.splits)
  then obtain c1 w3 where con: "Connect n E (c\<lparr>rc_ready := False\<rparr>) w2 = Some (None, c1, w3)"
    using assms(3) l x by (auto split: option.splits)
  have rest: "Consume n E c1 h [[]] w3 = Some (Waiting, c', w')" using assms(3) l x con none by simp
  have "open_links (trace w3) = open_links (trace w) + 1"
    using loop [OF l] call_trace(8) [OF x] again con by metis
  moreover have "open_links (trace w3) \<le> open_links (trace w')"
  proof -
    obtain res w4 where l2: "consumeLoop E c1 h [] w3 = (res, w4)" by fastforce
    note k = loop [OF l2]
    show ?thesis
    proof (cases res)
      case (Returned e2)
      obtain y w5 where y: "call_ctx_err E w4 = (y, w5)" by fastforce
      then have "y = None" using rest l2 Returned by (cases y) (auto split: prod.splits)
      then obtain c2 where "Connect n E (c1\<lparr>rc_ready := False\<rparr>) w5 = Some (None, c2, w')"
        using rest l2 Returned y by (auto split: option.splits)
      then show ?thesis using k call_trace(8) [OF y] again by fastforce
    qed (use rest l2 k in auto)
  qed
  ultimately show ?thesis by simp
qed

section \<open>Witnesses\<close>

definition mail_consumer :: rabbit_consumer where
  "mail_consumer = NewConsumer \<lparr>rabbit_URL = ''amqp'', rabbit_Queue = ''q''\<rparr> DefaultRetryPolicy"

text \<open>A broker that refuses every command, and a context that ends during the first wait.\<close>

definition down_env :: "unit env" where
  "down_env = quiet_env\<lparr>amqp_do := (\<lambda>c e. (Inl (Plain ''refused''), e)), sleep := (\<lambda>d e. (False, e)),
     ctx_err := (\<lambda>e. (Some Canceled, e))\<rparr>"

lemma witness_laws: "context_laws quiet_env" "context_laws down_env"
  by (simp_all add: context_laws_def quiet_env_def down_env_def)

lemma down_run:
  "\<exists>w'. RabbitSource_Run 1 down_env mail_consumer h conns some_world = Some (Returned (Some Canceled), mail_consumer, w')"
  by (simp add: RabbitSource_Run_def Connect_def dialAndOpen_def call_amqp_def call_sleep_def call_ctx_err_def
      down_env_def quiet_env_def record_call_def)

theorem rabbit_source_ends_with_context_witness:
  "\<exists>err v. ended down_env err v"
proof -
  obtain w' where "RabbitSource_Run 1 down_env mail_consumer (Handle (\<lambda>s. s) (Deliver busy_service)) [] some_world =
      Some (Returned (Some Canceled), mail_consumer, w')" using down_run by blast
  then show ?thesis
    using rabbit_source_ends_with_context [OF witness_laws(2)] unfolding mail_consumer_def by metis
qed

theorem connect_returns_witness:
  "\<exists>r c' w'. Connect 1 down_env mail_consumer some_world = Some (r, c', w')"
proof -
  have "context_ends down_env mail_consumer 0 some_world"
    by (simp add: context_ends_def call_sleep_def down_env_def)
  then show ?thesis using connect_returns [OF witness_laws(2), of mail_consumer 0 some_world] by auto
qed

lemma dropped_channel_keeps_connection_example:
  "\<exists>c' w'. Consume 1 quiet_env (mail_consumer\<lparr>rc_open := True\<rparr>) (Handle (\<lambda>s. s) (Deliver busy_service))
       [[ChannelClosed], []] some_world = Some (Waiting, c', w') \<and> 1 \<le> open_links (trace w')"
proof -
  let ?c = "mail_consumer\<lparr>rc_open := True\<rparr>"
  let ?h = "Handle (\<lambda>s. s) (Deliver busy_service)"
  have call: "call_amqp quiet_env c w = (Inr True, record_call (AmqpCall c (Inr True)) () w)" for c w
    by (simp add: call_amqp_def quiet_env_def)
  have retry: "fst (declare_retry quiet_env t ds w) = None" for t ds w
    by (induction ds arbitrary: w) (simp_all add: call)
  have dial: "\<exists>w'. dialAndOpen quiet_env c w = (None, c\<lparr>rc_open := True\<rparr>, w')" for c w
    by (auto simp: dialAndOpen_def openChannel_def declare_topology_def call split: prod.split option.split
        dest!: arg_cong [of _ _ fst] simp add: retry)
  have con: "\<exists>c' w'. Connect 1 quiet_env c w = Some (None, c', w') \<and> rc_open c'" for c w
  proof -
    obtain w' where "dialAndOpen quiet_env c w = (None, c\<lparr>rc_open := True\<rparr>, w')" using dial by blast
    then show ?thesis by (simp add: Connect_def)
  qed
  have ctx: "call_ctx_err quiet_env w = (None, w)" for w by (simp add: call_ctx_err_def quiet_env_def)
  obtain w1 where l: "consumeLoop quiet_env ?c ?h [ChannelClosed] some_world =
      (Returned (Some (Plain ''messages channel closed'')), w1)"
    by (simp add: consumeLoop_def call)
  obtain c2 w2 where c2: "Connect 1 quiet_env (?c\<lparr>rc_ready := False\<rparr>) w1 = Some (None, c2, w2)" "rc_open c2"
    using con by blast
  obtain w' where "consumeLoop quiet_env c2 ?h [] w2 = (Waiting, w')" using c2(2) by (simp add: consumeLoop_def call)
  then have "Consume 1 quiet_env ?c ?h [[ChannelClosed], []] some_world = Some (Waiting, c2, w')"
    using l c2 ctx by simp
  then show ?thesis using dropped_channel_keeps_connection [OF witness_laws(1)] by (force simp: some_world_def)
qed

end
