(* ===== verification/Runner.thy ===== *)
theory Runner
  imports RabbitSource Kafka HttpSource Senders "HOL-Library.Multiset"
begin

text \<open>
  The program as a whole: the sources of \<open>application/bean/sources.go\<close> with their readiness, the HTTP
  listener of \<open>httpapi/server.go\<close>, the health server of \<open>infrastructure/health\<close>, and the runner of
  \<open>application/runner\<close>, which starts them all and stops them all. The runner is a step relation: its
  goroutines interleave in any order.
\<close>

section \<open>The HTTP listener and the health server\<close>

record http_server =
  hsv_addr :: string
  hsv_cfg :: HTTPAPIConfig
  hsv_ready :: bool

definition NewHTTPServer :: "HTTPAPIConfig \<Rightarrow> http_server" where
  "NewHTTPServer cfg = \<lparr>hsv_addr = CHR '':'' # http_Port cfg, hsv_cfg = cfg, hsv_ready = False\<rparr>"

text \<open>How serving ends: the context ends and \<open>Shutdown\<close> returns, or the server stops by itself, closed or
  with an error.\<close>

datatype serve_end = ShutDown "goerr option" | ServeClosed | ServeFailed goerr

text \<open>\<open>Run\<close>, up to serving and from its end.\<close>

definition http_listen :: "goerr option \<Rightarrow> http_server \<Rightarrow> goerr + http_server" where
  "http_listen listener s =
     (case listener of
        Some err \<Rightarrow> Inl (Wrapped (''http source: listen on '' @ hsv_addr s @ '': '') err)
      | None \<Rightarrow> Inr (s\<lparr>hsv_ready := True\<rparr>))"

fun http_serve_result :: "serve_end \<Rightarrow> goerr option" where
  "http_serve_result (ShutDown r) = r"
| "http_serve_result ServeClosed = None"
| "http_serve_result (ServeFailed err) = Some (Wrapped ''http source: '' err)"

definition http_Run :: "goerr option \<Rightarrow> serve_end \<Rightarrow> http_server \<Rightarrow> goerr option \<times> http_server" where
  "http_Run listener fin s =
     (case http_listen listener s of
        Inl err \<Rightarrow> (Some err, s)
      | Inr s1 \<Rightarrow> (http_serve_result fin, s1\<lparr>hsv_ready := False\<rparr>))"

definition health_addr :: "getenv \<Rightarrow> string" where
  "health_addr g =
     (let port = g ''HEALTH_PORT'' in CHR '':'' # (if port = [] then ''8080'' else port))"

fun health_Start :: "serve_end \<Rightarrow> goerr option" where
  "health_Start (ShutDown r) = r"
| "health_Start ServeClosed = None"
| "health_Start (ServeFailed err) = Some err"

section \<open>Sources\<close>

datatype Source = RabbitMQSource rabbit_consumer | KafkaMailSource KafkaSource | HTTPSource http_server

fun Source_Name :: "Source \<Rightarrow> string" where
  "Source_Name (RabbitMQSource c) = RabbitSource_Name"
| "Source_Name (KafkaMailSource s) = ''kafka''"
| "Source_Name (HTTPSource s) = ''http''"

fun Source_Ready :: "Source \<Rightarrow> bool" where
  "Source_Ready (RabbitMQSource c) = RabbitSource_Ready c"
| "Source_Ready (KafkaMailSource s) = ks_ready s"
| "Source_Ready (HTTPSource s) = hsv_ready s"

text \<open>\<open>newSource\<close>: a missing RabbitMQ variable ends the process inside \<^const>\<open>NewRabbitMQConfig\<close>, any other
  error is returned.\<close>

datatype boot_error = Fatal goerr | Refused goerr

definition newSource :: "'a golib_scheme \<Rightarrow> getenv \<Rightarrow> RetryPolicy \<Rightarrow> string \<Rightarrow> boot_error + Source" where
  "newSource L g pol name =
     (if name = ''rabbitmq'' then
        (case NewRabbitMQConfig g of
           Inl err \<Rightarrow> Inl (Fatal err)
         | Inr cfg \<Rightarrow> Inr (RabbitMQSource (NewConsumer cfg pol)))
      else if name = ''kafka'' then
        (case NewKafkaConfig L g of
           Inl err \<Rightarrow> Inl (Refused err)
         | Inr cfg \<Rightarrow> Inr (KafkaMailSource (NewKafkaSource cfg pol)))
      else if name = ''http'' then
        (case NewHTTPAPIConfig L g of
           Inl err \<Rightarrow> Inl (Refused err)
         | Inr cfg \<Rightarrow> Inr (HTTPSource (NewHTTPServer cfg)))
      else Inl (Refused (Plain (''unsupported source '' @ lib_quote L name))))"

text \<open>\<open>InitSources\<close>: an \<open>Inl\<close> is the text with which the process ends.\<close>

fun init_each :: "'a golib_scheme \<Rightarrow> getenv \<Rightarrow> RetryPolicy \<Rightarrow> Source list \<Rightarrow> string list \<Rightarrow> goerr + Source list" where
  "init_each L g pol sources [] = Inr sources"
| "init_each L g pol sources (name # names) =
     (case newSource L g pol name of
        Inl (Fatal err) \<Rightarrow> Inl err
      | Inl (Refused err) \<Rightarrow> Inl (Wrapped (''Failed to initialize source '' @ name @ '': '') err)
      | Inr source \<Rightarrow> init_each L g pol (sources @ [source]) names)"

definition InitSources :: "'a golib_scheme \<Rightarrow> getenv \<Rightarrow> RetryPolicy \<Rightarrow> goerr + Source list" where
  "InitSources L g pol =
     (case Sources L g of
        Inl err \<Rightarrow> Inl (Wrapped ''Invalid sources: '' err)
      | Inr names \<Rightarrow> init_each L g pol [] names)"

text \<open>What \<open>main\<close> sets up before it runs the sources: the service, whose policy the sources share. An
  \<open>Inl\<close> ends the process.\<close>

definition main_setup :: "'e env \<Rightarrow> getenv \<Rightarrow> goerr + 'e service \<times> Source list" where
  "main_setup E g =
     (case InitMailer E g of
        Inl err \<Rightarrow> Inl err
      | Inr service \<Rightarrow>
          (case InitSources E g (policy service) of
             Inl err \<Rightarrow> Inl err
           | Inr sources \<Rightarrow> Inr (service, sources)))"

section \<open>Readiness\<close>

fun every_ready :: "Source list \<Rightarrow> bool" where
  "every_ready [] = True"
| "every_ready (source # r) = (if \<not> Source_Ready source then False else every_ready r)"

definition Readiness_Ready :: "Source list \<Rightarrow> bool" where
  "Readiness_Ready r \<longleftrightarrow> every_ready r \<and> length r > 0"

text \<open>\<open>healthz\<close> and \<open>readyz\<close>, as status and body: \<open>Fprintln\<close> ends the body with a line feed.\<close>

definition healthz :: "int \<times> string" where
  "healthz = (200, ''ok'' @ [CHR 0x0A])"

definition readyz :: "Source list \<Rightarrow> int \<times> string" where
  "readyz r =
     (if Readiness_Ready r then (200, ''ready'' @ [CHR 0x0A]) else (503, ''not ready'' @ [CHR 0x0A]))"

text \<open>The routes of the health server, for every method.\<close>

definition health_Handler :: "Source list \<Rightarrow> (int \<times> string) route list" where
  "health_Handler r = [(None, OnePath ''/healthz'', healthz), (None, OnePath ''/readyz'', readyz r)]"

definition health_answer :: "int \<Rightarrow> Source list \<Rightarrow> string \<Rightarrow> string \<Rightarrow> int \<times> string" where
  "health_answer code r m path =
     (case ServeMux code (health_Handler r) m path of
        Inl resp \<Rightarrow> (sr_Status resp, sr_Body resp)
      | Inr answer \<Rightarrow> answer)"

section \<open>The runner\<close>

text \<open>A goroutine of the runner: running its task, about to cancel the others after it recorded the failure
  of its task, or done with the task's result.\<close>

datatype goroutine = Running | Failing goerr | Finished "goerr option"

record runner =
  tasks :: "(string \<times> goroutine) list"
  cancelled :: bool
  failures :: "goerr list"

definition runner_start :: "string list \<Rightarrow> runner" where
  "runner_start names = \<lparr>tasks = map (\<lambda>n. (n, Running)) names, cancelled = False, failures = []\<rparr>"

text \<open>\<open>err != nil && !errors.Is(err, context.Canceled)\<close>.\<close>

definition is_failure :: "goerr option \<Rightarrow> bool" where
  "is_failure r \<longleftrightarrow> (case r of None \<Rightarrow> False | Some err \<Rightarrow> \<not> is_canceled err)"

text \<open>\<open>may_return n c r\<close>: the task \<open>n\<close> can return \<open>r\<close> when its context is cancelled (\<open>c\<close>) or not. The
  context is cancelled by a failure, or from outside by a signal.\<close>

inductive runner_step :: "(string \<Rightarrow> bool \<Rightarrow> goerr option \<Rightarrow> bool) \<Rightarrow> runner \<Rightarrow> runner \<Rightarrow> bool"
  for may_return :: "string \<Rightarrow> bool \<Rightarrow> goerr option \<Rightarrow> bool"
where
  returns: "i < length (tasks s) \<Longrightarrow> tasks s ! i = (n, Running) \<Longrightarrow> may_return n (cancelled s) r \<Longrightarrow> \<not> is_failure r \<Longrightarrow>
     runner_step may_return s (s\<lparr>tasks := (tasks s)[i := (n, Finished r)]\<rparr>)"
| fails: "i < length (tasks s) \<Longrightarrow> tasks s ! i = (n, Running) \<Longrightarrow> may_return n (cancelled s) (Some err) \<Longrightarrow>
     is_failure (Some err) \<Longrightarrow>
     runner_step may_return s
       (s\<lparr>tasks := (tasks s)[i := (n, Failing err)], failures := failures s @ [Wrapped (n @ '': '') err]\<rparr>)"
| cancels: "i < length (tasks s) \<Longrightarrow> tasks s ! i = (n, Failing err) \<Longrightarrow>
     runner_step may_return s (s\<lparr>tasks := (tasks s)[i := (n, Finished (Some err))], cancelled := True\<rparr>)"
| signal: "\<not> cancelled s \<Longrightarrow> runner_step may_return s (s\<lparr>cancelled := True\<rparr>)"

inductive_cases runner_stepE: "runner_step may_return s s'"

text \<open>\<open>wg.Wait()\<close> returns, and the result of \<open>Run\<close>.\<close>

definition all_done :: "runner \<Rightarrow> bool" where
  "all_done s \<longleftrightarrow> list_all (\<lambda>(n, t). \<exists>r. t = Finished r) (tasks s)"

definition Run_result :: "runner \<Rightarrow> goerr option" where
  "Run_result s = join_errors (map Some (failures s))"

text \<open>The tasks that \<open>Run\<close> starts.\<close>

definition runner_names :: "Source list \<Rightarrow> string list" where
  "runner_names sources = ''health'' # map Source_Name sources"

section \<open>Invariant\<close>

text \<open>The errors a goroutine has recorded.\<close>

fun recorded :: "string \<times> goroutine \<Rightarrow> goerr list" where
  "recorded (n, Running) = []"
| "recorded (n, Failing err) = [Wrapped (n @ '': '') err]"
| "recorded (n, Finished None) = []"
| "recorded (n, Finished (Some err)) = (if is_canceled err then [] else [Wrapped (n @ '': '') err])"

fun sound_task :: "bool \<Rightarrow> string \<times> goroutine \<Rightarrow> bool" where
  "sound_task c (n, Running) = True"
| "sound_task c (n, Failing err) = (\<not> is_canceled err)"
| "sound_task c (n, Finished r) = (is_failure r \<longrightarrow> c)"

definition runner_inv :: "string list \<Rightarrow> runner \<Rightarrow> bool" where
  "runner_inv names s \<longleftrightarrow>
     map fst (tasks s) = names
     \<and> mset (failures s) = mset (concat (map recorded (tasks s)))
     \<and> list_all (sound_task (cancelled s)) (tasks s)"

lemma update_split:
  assumes "i < length xs" "xs ! i = x"
  obtains a b where "xs = a @ x # b" "\<And>y. xs[i := y] = a @ y # b"
proof (rule that [of "take i xs" "drop (Suc i) xs"])
  show "xs = take i xs @ x # drop (Suc i) xs" using id_take_nth_drop [OF assms(1)] assms(2) by simp
  show "xs[i := y] = take i xs @ y # drop (Suc i) xs" for y using upd_conv_take_nth_drop [OF assms(1)] .
qed

lemma sound_task_cancelled: "list_all (sound_task c) ts \<Longrightarrow> list_all (sound_task True) ts"
proof (induction ts)
  case (Cons t ts)
  then show ?case by (cases t rule: recorded.cases) auto
qed simp

lemma no_failures_recorded:
  assumes "runner_inv names s"
  shows "failures s = [] \<longleftrightarrow> concat (map recorded (tasks s)) = []"
proof -
  have "mset (failures s) = mset (concat (map recorded (tasks s)))" using assms by (simp add: runner_inv_def)
  then show ?thesis by (metis mset_zero_iff)
qed

lemma runner_inv_start: "runner_inv names (runner_start names)"
  by (induction names) (simp_all add: runner_inv_def runner_start_def comp_def)

lemma runner_inv_step:
  assumes "runner_step R s s'" "runner_inv names s"
  shows "runner_inv names s'"
  using assms(1)
proof cases
  case (returns i n r)
  then obtain a b where ab: "tasks s = a @ (n, Running) # b" "\<And>y. (tasks s)[i := y] = a @ y # b"
    using update_split by metis
  then show ?thesis using assms(2) returns by (cases r) (auto simp: runner_inv_def is_failure_def)
next
  case (fails i n err)
  then obtain a b where ab: "tasks s = a @ (n, Running) # b" "\<And>y. (tasks s)[i := y] = a @ y # b"
    using update_split by metis
  then show ?thesis using assms(2) fails by (auto simp: runner_inv_def is_failure_def)
next
  case (cancels i n err)
  then obtain a b where ab: "tasks s = a @ (n, Failing err) # b" "\<And>y. (tasks s)[i := y] = a @ y # b"
    using update_split by metis
  then show ?thesis using assms(2) cancels sound_task_cancelled [of "cancelled s"]
    by (auto simp: runner_inv_def)
next
  case signal
  then show ?thesis using assms(2) sound_task_cancelled by (auto simp: runner_inv_def)
qed

lemma runner_inv_reachable: "(runner_step R)\<^sup>*\<^sup>* (runner_start names) s \<Longrightarrow> runner_inv names s"
  by (induction rule: rtranclp_induct) (auto intro: runner_inv_start runner_inv_step)

section \<open>Progress\<close>

text \<open>What is left to do: each goroutine has at most two steps, and the context is cancelled once from
  outside.\<close>

fun work :: "string \<times> goroutine \<Rightarrow> nat" where
  "work (n, Running) = 2"
| "work (n, Failing err) = 1"
| "work (n, Finished r) = 0"

definition remaining :: "runner \<Rightarrow> nat" where
  "remaining s = sum_list (map work (tasks s)) + (if cancelled s then 0 else 1)"

lemma runner_step_work: "runner_step R s s' \<Longrightarrow> remaining s' < remaining s"
proof (erule runner_stepE)
qed (auto elim!: update_split simp: remaining_def)

lemma runner_steps_bounded: "(runner_step R ^^ k) s s' \<Longrightarrow> remaining s' + k \<le> remaining s"
proof (induction k arbitrary: s')
  case (Suc k)
  then obtain s1 where "(runner_step R ^^ k) s s1" "runner_step R s1 s'" by auto
  then show ?case using Suc.IH [of s1] runner_step_work [of R s1 s'] by simp
qed simp

lemma remaining_start: "remaining (runner_start names) = 2 * length names + 1"
  by (induction names) (simp_all add: remaining_def runner_start_def comp_def)

text \<open>The contract of the tasks: a task whose context is cancelled can return.\<close>

locale stoppable =
  fixes may_return :: "string \<Rightarrow> bool \<Rightarrow> goerr option \<Rightarrow> bool"
  assumes returns_when_cancelled: "\<exists>r. may_return n True r"

context stoppable
begin

lemma running_can_return:
  assumes "cancelled s" "(n, Running) \<in> set (tasks s)"
  shows "\<exists>s'. runner_step may_return s s' \<and> tasks s' \<noteq> tasks s"
proof -
  have changed: "(tasks s)[i := (n, t)] \<noteq> tasks s" if "i < length (tasks s)" "tasks s ! i = (n, Running)" "t \<noteq> Running" for i t
    using that by (metis nth_list_update_eq prod.inject)
  obtain i where i: "i < length (tasks s)" "tasks s ! i = (n, Running)" using assms(2) by (auto simp: in_set_conv_nth)
  obtain r where r: "may_return n True r" using returns_when_cancelled by blast
  show ?thesis
  proof (cases "is_failure r")
    case True
    then obtain err where "r = Some err" by (auto simp: is_failure_def split: option.splits)
    then show ?thesis using runner_step.fails [OF i, of may_return err] r assms(1) True changed [OF i, of "Failing err"]
      by fastforce
  next
    case False
    then show ?thesis using runner_step.returns [OF i, of may_return r] r assms(1) changed [OF i, of "Finished r"]
      by fastforce
  qed
qed

end

lemma failing_can_cancel:
  assumes "(n, Failing err) \<in> set (tasks s)"
  shows "\<exists>s'. runner_step R s s' \<and> tasks s' \<noteq> tasks s"
proof -
  obtain i where i: "i < length (tasks s)" "tasks s ! i = (n, Failing err)" using assms by (auto simp: in_set_conv_nth)
  then have "(tasks s)[i := (n, Finished (Some err))] \<noteq> tasks s" by (metis nth_list_update_eq prod.inject goroutine.distinct(5))
  then show ?thesis using runner_step.cancels [OF i, of R] by fastforce
qed

text \<open>A recorded failure has cancelled the context, or is about to.\<close>

lemma failure_cancels:
  assumes "runner_inv names s" "failures s \<noteq> []"
  shows "cancelled s \<or> (\<exists>n err. (n, Failing err) \<in> set (tasks s))"
proof -
  have "concat (map recorded (tasks s)) \<noteq> []" using no_failures_recorded [OF assms(1)] assms(2) by simp
  then obtain t where t: "t \<in> set (tasks s)" "recorded t \<noteq> []" by auto
  moreover have "sound_task (cancelled s) t" using assms(1) t(1) by (auto simp: runner_inv_def list_all_iff)
  ultimately show ?thesis
    by (cases t rule: recorded.cases) (auto simp: is_failure_def split: if_splits)
qed

lemma not_done_cases:
  assumes "\<not> all_done s"
  obtains n where "(n, Running) \<in> set (tasks s)" | n err where "(n, Failing err) \<in> set (tasks s)"
proof -
  obtain n t where t: "(n, t) \<in> set (tasks s)" "\<nexists>r. t = Finished r"
    using assms by (auto simp: all_done_def list_all_iff)
  then show thesis using that by (cases t) auto
qed

text \<open>What the tasks of the program can return. Only the end of the context makes a server shut down; a
  RabbitMQ source returns nothing but the error of its context, which the runner cancels; a Kafka source
  may fail in any way.\<close>

definition stops_by :: "bool \<Rightarrow> serve_end \<Rightarrow> bool" where
  "stops_by c fin \<longleftrightarrow> c \<or> (\<nexists>r. fin = ShutDown r)"

definition task_returns :: "string \<Rightarrow> bool \<Rightarrow> goerr option \<Rightarrow> bool" where
  "task_returns n c r \<longleftrightarrow>
     (if n = ''health'' then \<exists>fin. stops_by c fin \<and> r = health_Start fin
      else if n = ''http'' then \<exists>listener fin cfg. stops_by c fin \<and> r = fst (http_Run listener fin (NewHTTPServer cfg))
      else if n = ''rabbitmq'' then c \<and> r = Some Canceled
      else True)"

interpretation program_tasks: stoppable task_returns
proof unfold_locales
  fix n
  have "stops_by True (ShutDown None)" "health_Start (ShutDown None) = None" by (simp_all add: stops_by_def)
  moreover have "fst (http_Run None (ShutDown None) s) = None" for s by (simp add: http_Run_def http_listen_def)
  ultimately show "\<exists>r. task_returns n True r" unfolding task_returns_def by metis
qed

section \<open>What InitSources builds\<close>

lemma newSource_Name: "newSource L g pol name = Inr s \<Longrightarrow> Source_Name s = name \<and> \<not> Source_Ready s"
  by (auto simp: newSource_def RabbitSource_Name_def RabbitSource_Ready_def NewConsumer_def NewKafkaSource_def
      NewHTTPServer_def split: if_splits sum.splits)

lemma init_each_names:
  "init_each L g pol ss names = Inr ss' \<Longrightarrow>
   \<exists>new. ss' = ss @ new \<and> map Source_Name new = names \<and> list_all (\<lambda>s. \<not> Source_Ready s) new"
proof (induction L g pol ss names rule: init_each.induct)
  case (2 L g pol ss name names)
  then obtain s where s: "newSource L g pol name = Inr s" by (auto split: sum.splits boot_error.splits)
  then obtain new where "ss' = (ss @ [s]) @ new" "map Source_Name new = names" "list_all (\<lambda>s. \<not> Source_Ready s) new"
    using 2 by auto
  then show ?case using newSource_Name [OF s] by (intro exI [of _ "s # new"]) simp
qed simp

lemma every_ready_iff: "every_ready r \<longleftrightarrow> list_all Source_Ready r"
  by (induction r) auto

lemma newSource_rabbit: "newSource L g pol name = Inr (RabbitMQSource c) \<Longrightarrow> \<exists>cfg. c = NewConsumer cfg pol"
  by (auto simp: newSource_def split: if_splits sum.splits)

lemma init_each_built:
  "init_each L g pol ss names = Inr ss' \<Longrightarrow> s \<in> set ss' \<Longrightarrow> s \<in> set ss \<or> (\<exists>name. newSource L g pol name = Inr s)"
  by (induction L g pol ss names rule: init_each.induct) (auto split: sum.splits boot_error.splits)

lemma InitMailer_policy:
  assumes "InitMailer E g = Inr s" "MaxDelay (policy s) \<le> 2 ^ 62"
  shows "valid_policy (policy s)"
proof -
  obtain r where r: "NewRetryConfig E g = Inr r" "policy s = retry_policy r"
    using assms(1) by (auto simp: InitMailer_def NewService_def split: sum.splits)
  then show ?thesis using retry_config_policy [OF r(1)] assms(2) by (simp add: retry_policy_def)
qed

section \<open>Properties\<close>

text \<open>C12: The program as it is set up never panics in its RabbitMQ source: whatever the configuration, as
  long as its cap on the retry wait is below 2^62 ns (146 years), and whatever the broker answers and
  delivers over any number of dropped connections, every retry that the service asks for has a queue that
  the source has declared.\<close>

theorem main_never_panics:
  assumes "main_setup E g = Inr (s, ss)" "RabbitMQSource c \<in> set ss" "MaxDelay (policy s) \<le> 2 ^ 62"
  shows "RabbitSource_Run n E c (Handle te (Deliver s)) conns w \<noteq> Some (Panicked, c', w')"
proof -
  obtain "InitMailer E g = Inr s" "InitSources E g (policy s) = Inr ss"
    using assms(1) by (auto simp: main_setup_def split: sum.splits)
  moreover then obtain cfg where "c = NewConsumer cfg (policy s)"
    using assms(2) init_each_built [of E g "policy s" "[]" _ ss] newSource_rabbit
    by (fastforce simp: InitSources_def split: sum.splits)
  ultimately show ?thesis using rabbit_source_never_panics InitMailer_policy assms(3) by metis
qed

text \<open>C14: The result of the program tells what failed, whatever the interleaving: once every goroutine is
  done, the errors that \<open>Run\<close> joins are, up to their order, those of exactly the tasks whose result is
  neither nil nor a cancelled context, each under the name of its task; so the result is nil when and only
  when no task failed, and after a failure the context had been cancelled.\<close>

theorem runner_outcome:
  assumes "(runner_step R)\<^sup>*\<^sup>* (runner_start names) s" "all_done s"
  shows "map fst (tasks s) = names
    \<and> mset (failures s) = mset [Wrapped (n @ '': '') err. (n, Finished (Some err)) \<leftarrow> tasks s, \<not> is_canceled err]
    \<and> (Run_result s = None \<longleftrightarrow> list_all (\<lambda>(n, t). \<forall>r. t = Finished r \<longrightarrow> \<not> is_failure r) (tasks s))
    \<and> (cancelled s \<or> Run_result s = None)"
proof -
  note inv = runner_inv_reachable [OF assms(1)]
  have fin: "list_all (\<lambda>(n, t). \<exists>r. t = Finished r) (tasks s)" using assms(2) by (simp add: all_done_def)
  have rec: "concat (map recorded ts) = [Wrapped (n @ '': '') err. (n, Finished (Some err)) \<leftarrow> ts, \<not> is_canceled err]"
    if "list_all (\<lambda>(n, t). \<exists>r. t = Finished r) ts" for ts
    using that
  proof (induction ts)
    case (Cons t ts)
    then show ?case by (cases t rule: recorded.cases) auto
  qed simp
  have none: "concat (map recorded ts) = [] \<longleftrightarrow> list_all (\<lambda>(n, t). \<forall>r. t = Finished r \<longrightarrow> \<not> is_failure r) ts"
    if "list_all (\<lambda>(n, t). \<exists>r. t = Finished r) ts" for ts
    using that
  proof (induction ts)
    case (Cons t ts)
    then show ?case by (cases t rule: recorded.cases) (auto simp: is_failure_def)
  qed simp
  have res: "Run_result s = None \<longleftrightarrow> list_all (\<lambda>(n, t). \<forall>r. t = Finished r \<longrightarrow> \<not> is_failure r) (tasks s)"
    using no_failures_recorded [OF inv] none [OF fin] by (simp add: Run_result_def)
  have "cancelled s" if bad: "\<not> list_all (\<lambda>(n, t). \<forall>r. t = Finished r \<longrightarrow> \<not> is_failure r) (tasks s)"
  proof -
    obtain n r where "(n, Finished r) \<in> set (tasks s)" "is_failure r" using bad by (auto simp: list_all_iff)
    then show ?thesis using inv by (fastforce simp: runner_inv_def list_all_iff)
  qed
  then show ?thesis using inv rec [OF fin] res by (auto simp: runner_inv_def)
qed

text \<open>C13: The program stops. Every execution of the runner is finite, with at most two steps for each task
  and one for the signal; and once the context is cancelled or an error has been recorded, some goroutine
  can move on until all are done, provided that every task returns when its context is cancelled.\<close>

theorem runner_stops:
  assumes "(runner_step R ^^ k) (runner_start names) s" "\<forall>n. \<exists>r. R n True r"
  shows "k \<le> 2 * length names + 1
    \<and> (all_done s \<or> (\<exists>s'. runner_step R s s' \<and> tasks s' \<noteq> tasks s) \<or> (\<not> cancelled s \<and> failures s = []))"
proof
  show "k \<le> 2 * length names + 1" using runner_steps_bounded [OF assms(1)] by (simp add: remaining_start)
  have tasks: "stoppable R" using assms(2) by unfold_locales blast
  have inv: "runner_inv names s" using assms(1) relpowp_imp_rtranclp runner_inv_reachable by metis
  show "all_done s \<or> (\<exists>s'. runner_step R s s' \<and> tasks s' \<noteq> tasks s) \<or> (\<not> cancelled s \<and> failures s = [])"
  proof (cases "all_done s")
    case False
    then show ?thesis
      using not_done_cases [OF False] failing_can_cancel [of _ _ s R] failure_cancels [OF inv]
        stoppable.running_can_return [OF tasks, of s] by metis
  qed simp
qed

lemma health_paths:
  "path_segments ''/healthz'' = [''healthz'']" "path_segments ''/readyz'' = [''readyz'']"
  "cleanPath ''/healthz'' = ''/healthz''" "cleanPath ''/readyz'' = ''/readyz''"
  by code_simp+

lemma health_answers:
  "health_answer code r m path =
     (if path = ''*'' then (400, [])
      else if m \<noteq> ''CONNECT'' \<and> cleanPath path \<noteq> path
        then (code, sr_Body (http_Redirect code m (cleanPath path)))
      else if path_segments path = [''healthz''] then healthz
      else if path_segments path = [''readyz''] then readyz r
      else (404, ''404 page not found'' @ [CHR 0x0A]))"
proof -
  have "list_all leaf_route (health_Handler r)"
    by (simp add: health_Handler_def leaf_route_def health_paths)
  from leaf_mux [OF this] show ?thesis
    by (simp add: health_answer_def health_Handler_def match_route_def health_paths http_Error_def)
qed

text \<open>C28: What the program starts with: the sources that are built are those of the configuration, in its
  order, so at least one, none twice, and the HTTP source unless it is disabled; none of them is ready, so
  the health server answers 503 to \<open>/readyz\<close>, and from then on it answers 200 when and only when every source is
  ready, whatever the method. On \<open>/healthz\<close> it always answers 200. Of the other paths it redirects one that is not
  clean to its clean form (except for \<open>CONNECT\<close>), and answers 404 for one that is neither of the two (whose letters
  may be written as percent escapes).\<close>

theorem service_boot:
  assumes "InitSources L g pol = Inr ss"
  shows "Sources L g = Inr (map Source_Name ss) \<and> ss \<noteq> [] \<and> distinct (map Source_Name ss)
    \<and> (''http'' \<in> Source_Name ` set ss \<longleftrightarrow> \<not> isTrue (envOrDefault g ''HTTP_API_DISABLED'' ''false''))
    \<and> list_all (\<lambda>s. \<not> Source_Ready s) ss \<and> fst (health_answer code ss m ''/readyz'') = 503
    \<and> (fst (health_answer code later m ''/readyz'') = 200 \<longleftrightarrow> later \<noteq> [] \<and> list_all Source_Ready later)
    \<and> fst (health_answer code later m ''/healthz'') = 200
    \<and> (path \<noteq> ''*'' \<longrightarrow>
       (if m \<noteq> ''CONNECT'' \<and> cleanPath path \<noteq> path
        then health_answer code later m path = (code, sr_Body (http_Redirect code m (cleanPath path)))
        else path_segments path \<notin> {[''healthz''], [''readyz'']} \<longrightarrow> fst (health_answer code later m path) = 404))"
proof -
  have answers: "health_answer code r m ''/readyz'' = readyz r" "health_answer code r m ''/healthz'' = healthz" for r
    by (simp_all add: health_answers health_paths)
  obtain names where names: "Sources L g = Inr names" "init_each L g pol [] names = Inr ss"
    using assms by (auto simp: InitSources_def split: sum.splits)
  then have ss: "map Source_Name ss = names" "list_all (\<lambda>s. \<not> Source_Ready s) ss"
    using init_each_names [OF names(2)] by auto
  note sound = configured_sources [OF names(1)]
  have ne: "ss \<noteq> []" using sound ss(1) by auto
  then have "\<not> every_ready ss" using ss(2) by (cases ss) auto
  moreover have "set names = Source_Name ` set ss" using ss(1) by auto
  ultimately show ?thesis
    using names(1) ss sound ne answers
    by (auto simp: readyz_def healthz_def Readiness_Ready_def every_ready_iff health_answers [of code later m path])
qed

section \<open>Witnesses\<close>

text \<open>The Kafka source fails, its goroutine cancels the context, and the health server shuts down.\<close>

definition stopped_runner :: runner where
  "stopped_runner =
     \<lparr>tasks = [(''health'', Finished None), (''kafka'', Finished (Some (Plain ''no brokers'')))], cancelled = True,
      failures = [Wrapped ''kafka: '' (Plain ''no brokers'')]\<rparr>"

lemma stopped_run: "(runner_step task_returns ^^ 3) (runner_start [''health'', ''kafka'']) stopped_runner"
proof -
  let ?e = "Plain ''no brokers''"
  let ?s0 = "runner_start [''health'', ''kafka'']"
  let ?s1 = "\<lparr>tasks = [(''health'', Running), (''kafka'', Failing ?e)], cancelled = False, failures = [Wrapped ''kafka: '' ?e]\<rparr>"
  let ?s2 = "\<lparr>tasks = [(''health'', Running), (''kafka'', Finished (Some ?e))], cancelled = True, failures = [Wrapped ''kafka: '' ?e]\<rparr>"
  have "runner_step task_returns ?s0 ?s1"
    using runner_step.fails [of 1 ?s0 "''kafka''" task_returns ?e]
    by (simp add: runner_start_def task_returns_def is_failure_def)
  moreover have "runner_step task_returns ?s1 ?s2"
    using runner_step.cancels [of 1 ?s1 "''kafka''" ?e task_returns] by simp
  moreover have "task_returns ''health'' True None"
    by (simp add: task_returns_def stops_by_def exI [of _ "ShutDown None"])
  then have "runner_step task_returns ?s2 stopped_runner"
    using runner_step.returns [of 0 ?s2 "''health''" task_returns None] by (simp add: is_failure_def stopped_runner_def)
  ultimately show ?thesis by (auto simp: numeral_3_eq_3)
qed

theorem runner_outcome_witness:
  "mset (failures stopped_runner) = {#Wrapped ''kafka: '' (Plain ''no brokers'')#} \<and> Run_result stopped_runner \<noteq> None"
proof -
  have "all_done stopped_runner" by (simp add: all_done_def stopped_runner_def)
  from runner_outcome [OF relpowp_imp_rtranclp [OF stopped_run] this] show ?thesis
    by (auto simp: stopped_runner_def is_failure_def)
qed

theorem runner_stops_witness: "(3 :: nat) \<le> 2 * length [''health'', ''kafka''] + 1 \<and> all_done stopped_runner"
  using runner_stops [OF stopped_run] program_tasks.returns_when_cancelled by (simp add: all_done_def stopped_runner_def)

theorem service_boot_witness:
  "\<exists>ss. InitSources plain_lib (env_of [(''HTTP_API_DISABLED'', ''1''), (''RABBITMQ_USER'', ''u''), (''RABBITMQ_PASS'', ''p''),
      (''RABBITMQ_HOST'', ''h'')]) DefaultRetryPolicy = Inr ss \<and> map Source_Name ss = [''rabbitmq'']
     \<and> fst (health_answer 307 ss ''GET'' ''/readyz'') = 503"
proof -
  let ?g = "env_of [(''HTTP_API_DISABLED'', ''1''), (''RABBITMQ_USER'', ''u''), (''RABBITMQ_PASS'', ''p''), (''RABBITMQ_HOST'', ''h'')]"
  have names: "Sources plain_lib ?g = Inr [''rabbitmq'']" by code_simp
  obtain cfg where "NewRabbitMQConfig ?g = Inr cfg"
    by (simp add: NewRabbitMQConfig_def getRequiredEnv_def getEnvOrDefault_def env_of_def Let_def)
  then obtain ss where ss: "InitSources plain_lib ?g DefaultRetryPolicy = Inr ss"
    using names by (simp add: InitSources_def newSource_def)
  from service_boot [OF ss] names show ?thesis using ss by auto
qed

definition rabbit_settings :: getenv where
  "rabbit_settings = env_of [(''SMTP_SERVER'', ''smtp''), (''SMTP_SERVER_PORT'', ''465''), (''SMTP_SERVER_USER'', ''u''),
     (''SMTP_SERVER_PASS'', ''p''), (''HTTP_API_DISABLED'', ''1''), (''RABBITMQ_USER'', ''u''), (''RABBITMQ_PASS'', ''p''),
     (''RABBITMQ_HOST'', ''h'')]"

theorem main_never_panics_witness:
  "\<exists>s c. main_setup quiet_env rabbit_settings = Inr (s, [RabbitMQSource c]) \<and>
     \<not> (\<exists>c' w'. RabbitSource_Run 9 quiet_env c (Handle (\<lambda>s. s) (Deliver s)) [[Message some_delivery], [CtxDone]] some_world
     = Some (Panicked, c', w'))"
proof -
  have "NewMailerSettings quiet_env rabbit_settings = Inr \<lparr>set_Transport = ''smtp'', set_APIClient = []\<rparr>"
    "HTTPClientTimeout quiet_env rabbit_settings = Inr (15 * Second)"
    "NewSMTPConfig quiet_env rabbit_settings = Inr \<lparr>smtp_Host = ''smtp'', smtp_Port = 465, smtp_Username = ''u'', smtp_Password = ''p''\<rparr>"
    and retry: "NewRetryConfig quiet_env rabbit_settings =
       Inr \<lparr>retry_MaxAttempts = 5, retry_BaseDelay = 30 * Second, retry_MaxDelay = 10 * Minute\<rparr>"
    by code_simp+
  then obtain s where s: "InitMailer quiet_env rabbit_settings = Inr s" "MaxDelay (policy s) = 10 * Minute"
    by (simp add: InitMailer_def newSender_def NewService_def retry_policy_def)
  have "Sources quiet_env rabbit_settings = Inr [''rabbitmq'']" by code_simp
  moreover obtain cfg where "NewRabbitMQConfig rabbit_settings = Inr cfg"
    by (simp add: NewRabbitMQConfig_def getRequiredEnv_def getEnvOrDefault_def rabbit_settings_def env_of_def Let_def)
  ultimately obtain c where m: "main_setup quiet_env rabbit_settings = Inr (s, [RabbitMQSource c])"
    using s by (simp add: main_setup_def InitSources_def newSource_def)
  have "RabbitSource_Run 9 quiet_env c (Handle (\<lambda>s. s) (Deliver s)) [[Message some_delivery], [CtxDone]] some_world
      \<noteq> Some (Panicked, c', w')" for c' w'
    by (rule main_never_panics [OF m]) (simp_all add: s(2))
  with m show ?thesis by blast
qed

end
