(* ===== verification/Ledger.thy ===== *)
theory Ledger
  imports Content Consumer
begin

text \<open>
  A ledger of a run: one entry for each message that a source handed to the service, in order, with the calls
  that handling it made and what became of the message. Both queue sources are audited against such a ledger:
  theories \<open>Custody\<close> (RabbitMQ) and \<open>KafkaCustody\<close>.
\<close>

section \<open>Entries\<close>

text \<open>A message is finished, or left with its broker, or replaced by a copy that the broker took.\<close>

datatype 'c custody = Concluded | GivenBack | Moved 'c

type_synonym ('m, 'c) ledger = "('m \<times> event list \<times> 'c custody) list"

definition made :: "('m, 'c) ledger \<Rightarrow> event list" where
  "made L = concat (map (\<lambda>(m, calls, c). calls) L)"

definition copies :: "('m, 'c) ledger \<Rightarrow> 'c list" where
  "copies L = concat (map (\<lambda>(m, calls, c). case c of Moved x \<Rightarrow> [x] | _ \<Rightarrow> []) L)"

definition parted :: "('m, 'c) ledger \<Rightarrow> 'm list" where
  "parted L = map fst (filter (\<lambda>(m, calls, c). c \<noteq> GivenBack) L)"

definition given_back :: "('m, 'c) ledger \<Rightarrow> 'm list" where
  "given_back L = map fst (filter (\<lambda>(m, calls, c). c = GivenBack) L)"

lemma ledger_append [simp]:
  "made (L @ L') = made L @ made L'" "copies (L @ L') = copies L @ copies L'"
  "parted (L @ L') = parted L @ parted L'" "given_back (L @ L') = given_back L @ given_back L'"
  by (simp_all add: made_def copies_def parted_def given_back_def)

lemma ledger_nothing [simp]: "made [] = []" "copies [] = []" "parted [] = []" "given_back [] = []"
  by (simp_all add: made_def copies_def parted_def given_back_def)

lemma ledger_entry [simp]:
  "made [(m, calls, c)] = calls" "copies [(m, calls, c)] = (case c of Moved x \<Rightarrow> [x] | _ \<Rightarrow> [])"
  "parted [(m, calls, c)] = (if c = GivenBack then [] else [m])"
  "given_back [(m, calls, c)] = (if c = GivenBack then [m] else [])"
  by (simp_all add: made_def copies_def parted_def given_back_def)

section \<open>The contract of an audit\<close>

text \<open>\<open>booked L evs\<close> says that the events of a part of a run are those of its ledger. Parts of a run follow one
  another, and events that concern no message need no entry.\<close>

locale audit =
  fixes booked :: "('m, 'c) ledger \<Rightarrow> event list \<Rightarrow> bool"
    and unconcerned :: "event \<Rightarrow> bool"
  assumes booked_append: "booked L a \<Longrightarrow> booked L' b \<Longrightarrow> booked (L @ L') (a @ b)"
    and booked_nothing: "list_all unconcerned evs \<Longrightarrow> booked [] evs"

text \<open>From one world of the run to another, with entries that are what they say.\<close>

definition audited ::
  "(('m, 'c) ledger \<Rightarrow> event list \<Rightarrow> bool) \<Rightarrow> ('m \<times> event list \<times> 'c custody \<Rightarrow> bool) \<Rightarrow> 'e world \<Rightarrow> ('m, 'c) ledger
     \<Rightarrow> 'e world \<Rightarrow> bool"
where
  "audited booked entry w L w' \<longleftrightarrow> (\<exists>new. trace w' = trace w @ new \<and> booked L new \<and> list_all entry L)"

context audit
begin

lemma audited_trans:
  "audited booked entry w L w1 \<Longrightarrow> audited booked entry w1 L' w2 \<Longrightarrow> audited booked entry w (L @ L') w2"
  by (fastforce simp: audited_def intro: booked_append)

lemma audited_silent: "appends unconcerned w w' \<Longrightarrow> audited booked entry w [] w'"
  by (auto simp: appends_def audited_def intro: booked_nothing)

lemma audited_same: "trace w' = trace w \<Longrightarrow> audited booked entry w [] w'"
  by (rule audited_silent [OF appends_trace_eq])

lemma audited_after: "audited booked entry w L w1 \<Longrightarrow> appends unconcerned w1 w2 \<Longrightarrow> audited booked entry w L w2"
  by (drule audited_trans [OF _ audited_silent]) simp_all

lemma audited_before: "appends unconcerned w w1 \<Longrightarrow> audited booked entry w1 L w2 \<Longrightarrow> audited booked entry w L w2"
  by (drule audited_trans [OF audited_silent, rotated]) simp_all

end

section \<open>Handlers that only call a transport\<close>

text \<open>A handling of a message, with the calls it made.\<close>

definition handling :: "(string \<Rightarrow> int \<Rightarrow> 'e world \<Rightarrow> Outcome \<times> 'e world) \<Rightarrow> string \<Rightarrow> int \<Rightarrow> event list \<Rightarrow> Outcome \<Rightarrow> bool" where
  "handling h body n calls out \<longleftrightarrow> (\<exists>u u'. h body n u = (out, u') \<and> trace u' = trace u @ calls)"

locale quiet_handler = handler +
  assumes only_transport: "handle body n w = (out, w') \<Longrightarrow> appends transport_event w w'"

context quiet_handler
begin

lemma handler_calls:
  assumes "handle body n w = (out, w')"
  obtains calls where "trace w' = trace w @ calls" "list_all transport_event calls" "handling handle body n calls out"
  using only_transport [OF assms] assms unfolding appends_def handling_def by blast

end

section \<open>Finished messages\<close>

text \<open>The calls are those of a delivery that sent the email of the message, or whose failure callback took
  the failure.\<close>

definition finished :: "(string \<Rightarrow> string) \<Rightarrow> 'e service \<Rightarrow> string \<Rightarrow> int \<Rightarrow> event list \<Rightarrow> bool" where
  "finished te s body n calls \<longleftrightarrow>
     (\<exists>d u. Unmarshal te decode_email zero_email body = Inr d
        \<and> trace (snd (Deliver s d n u)) = trace u @ calls
        \<and> (fst (send s d u) = None \<or> failure_answer s d u = Some True))"

lemma done_finished:
  assumes "handling (Handle te (Deliver s)) body n calls out" "out_Action out = ActionDone"
  shows "finished te s body n calls"
proof -
  obtain u u' where h: "Handle te (Deliver s) body n u = (out, u')" "trace u' = trace u @ calls"
    using assms(1) by (auto simp: handling_def)
  then obtain d where d: "Unmarshal te decode_email zero_email body = Inr d"
    using assms(2) by (auto simp: Handle_def Let_def split: sum.splits)
  with h have deliver: "Deliver s d n u = (out, u')" by (simp add: Handle_def)
  then have "out_Action (fst (Deliver s d n u)) = ActionDone" using assms(2) by simp
  then have "fst (send s d u) = None \<or> failure_answer s d u = Some True"
    using decide_done by (fastforce simp: Deliver_decides)
  with d deliver h(2) show ?thesis unfolding finished_def by (intro exI [of _ d] exI [of _ u]) simp
qed

end
