(* ===== verification/Custody.thy ===== *)
theory Custody
  imports Ledger Runner ClientQueues
begin

text \<open>
  What the RabbitMQ source makes of the messages it is given, seen as a whole: its run is audited against a
  ledger with one entry for every message it takes over all its connections, so no message is lost.
\<close>

section \<open>The services the program builds\<close>

lemma newEvent_quiet:
  assumes "\<And>w. trace (snd (now s w)) = trace w" "newEvent s d st cause w = (ev, w')"
  shows "trace w' = trace w"
  using assms newEvent_fields(6) [OF assms(2)] by simp

lemma handleFailure_quiet:
  assumes "\<And>w. trace (snd (now s w)) = trace w"
    and "\<And>t ev w r w'. notifier s t ev w = (r, w') \<Longrightarrow> appends transport_event w w'"
    and "handleFailure s d err n c w = (out, w')"
  shows "appends transport_event w w'"
proof -
  obtain ev w1 where ev: "newEvent s d StatusFailed (Some err) w = (ev, w1)" by fastforce
  have i: "appends transport_event w w1" by (rule appends_trace_eq [OF newEvent_quiet [OF assms(1) ev]])
  show ?thesis
    using assms(3) ev i
    by (auto simp: handleFailure_def split: if_splits option.splits prod.splits
        dest!: assms(2) intro: appends_trans [OF i])
qed

lemma Deliver_quiet:
  assumes "sender_contract (sender s)" "\<And>w. trace (snd (now s w)) = trace w"
    and "\<And>t ev w r w'. notifier s t ev w = (r, w') \<Longrightarrow> appends transport_event w w'"
    and "Deliver s d n w = (out, w')"
  shows "appends transport_event w w'"
proof -
  obtain r w1 where send: "send s d w = (r, w1)" by fastforce
  have i: "appends transport_event w w1" by (rule sender_contract.send_appends [OF assms(1) send refl])
  show ?thesis
  proof (cases r)
    case None
    obtain ev w2 where ev: "newEvent s d StatusSent None w1 = (ev, w2)" by fastforce
    have j: "appends transport_event w w2"
      by (rule appends_trans [OF i appends_trace_eq [OF newEvent_quiet [OF assms(2) ev]]])
    show ?thesis
    proof (cases "usableTarget (email_Callback d) Success")
      case None': None
      then show ?thesis using assms(4) send None ev j by (simp add: Deliver_def deliver_def notifySuccess_def)
    next
      case (Some t)
      obtain x w3 where x: "notifier s t ev w2 = (x, w3)" by fastforce
      then show ?thesis
        using assms(4) send None ev Some appends_trans [OF j assms(3) [OF x]]
        by (simp add: Deliver_def deliver_def notifySuccess_def)
    qed
  next
    case (Some err)
    then have "handleFailure s d err n (CanRetry (policy s) n) w1 = (out, w')"
      using assms(4) send by (simp add: Deliver_def deliver_failed)
    then have "appends transport_event w1 w'" by (rule handleFailure_quiet [rotated 2]) (use assms(2,3) in auto)
    then show ?thesis by (rule appends_trans [OF i])
  qed
qed

lemma service_quiet:
  assumes "sender_contract snd'"
  shows "quiet_handler (Handle te (Deliver (NewService E snd' (Notify E) p))) p"
proof -
  let ?s = "NewService E snd' (Notify E) p"
  have "handler (Handle te (Deliver ?s)) p"
    using mailer_consumer.handler_axioms [of te ?s] by (simp add: NewService_def)
  moreover have "appends transport_event w w'" if h: "Handle te (Deliver ?s) body n w = (out, w')" for body n w out w'
  proof (cases "Unmarshal te decode_email zero_email body")
    case (Inl err)
    then show ?thesis using h by (simp add: Handle_def)
  next
    case (Inr d)
    then have "Deliver ?s d n w = (out, w')" using h by (simp add: Handle_def)
    moreover have "trace (snd (now ?s v)) = trace v" for v
      using call_trace(6) [of E v] by (simp add: NewService_def) (metis prod.collapse)
    moreover have "appends transport_event v v'" if "notifier ?s t ev v = (r, v')" for t ev v r v'
      using that Notify_appends by (simp add: NewService_def)
    ultimately show ?thesis
      using Deliver_quiet [of ?s] assms by (simp add: NewService_def)
  qed
  ultimately show ?thesis by (simp add: quiet_handler_def quiet_handler_axioms_def)
qed

interpretation smtp_mailer: quiet_handler "Handle te (Deliver (NewService E (smtpSender_Send E cfg) (Notify E) p))" p
  for te and E :: "'e env" and cfg p
  by (rule service_quiet [OF smtp.sender_contract_axioms])

interpretation resend_mailer: quiet_handler "Handle te (Deliver (NewService E (resendSender_Send E cfg) (Notify E) p))" p
  for te and E :: "'e env" and cfg p
  by (rule service_quiet [OF resend.sender_contract_axioms])

lemma InitMailer_quiet:
  assumes "InitMailer E g = Inr s"
  shows "quiet_handler (Handle te (Deliver s)) (policy s)"
proof -
  obtain snd' retry where "sender_contract snd'" "s = NewService E snd' (Notify E) (retry_policy retry)"
    using InitMailer_parts [OF assms] by metis
  then show ?thesis using service_quiet [of snd' te E "retry_policy retry"] by (simp add: NewService_def)
qed

section \<open>Messages in the trace\<close>

text \<open>The commands that decide where a message is: publishing and confirming a copy, acknowledging and
  requeueing a delivery.\<close>

fun custody_command :: "amqp_command \<Rightarrow> bool" where
  "custody_command (AmqpPublish q p) = True"
| "custody_command AmqpWaitConfirm = True"
| "custody_command (AmqpAck tag) = True"
| "custody_command (AmqpNack tag requeue) = True"
| "custody_command _ = False"

definition aside :: "event \<Rightarrow> bool" where
  "aside ev \<longleftrightarrow> \<not> transport_event ev \<and> (\<forall>c r. ev = AmqpCall c r \<longrightarrow> \<not> custody_command c)"

text \<open>The copies that the broker confirmed: of each publish that was sent, those whose wait was answered
  with an acknowledgement. The first argument is the publish that waits for its confirmation.\<close>

fun vouched :: "(string \<times> amqp_publishing) option \<Rightarrow> event list \<Rightarrow> (string \<times> amqp_publishing) list" where
  "vouched pending [] = []"
| "vouched pending (ev # evs) =
     (case ev of
        AmqpCall c r \<Rightarrow>
          (case c of
             AmqpPublish q p \<Rightarrow> vouched (if isl r then None else Some (q, p)) evs
           | AmqpWaitConfirm \<Rightarrow> (if r = Inr True then (case pending of None \<Rightarrow> [] | Some x \<Rightarrow> [x]) else []) @ vouched None evs
           | _ \<Rightarrow> vouched pending evs)
      | _ \<Rightarrow> vouched pending evs)"

text \<open>The delivery tags that are acknowledged and requeued.\<close>

definition acked :: "event list \<Rightarrow> nat list" where
  "acked evs = concat (map (\<lambda>ev. case ev of AmqpCall (AmqpAck tag) r \<Rightarrow> [tag] | _ \<Rightarrow> []) evs)"

definition requeued :: "event list \<Rightarrow> nat list" where
  "requeued evs = concat (map (\<lambda>ev. case ev of AmqpCall (AmqpNack tag True) r \<Rightarrow> [tag] | _ \<Rightarrow> []) evs)"

lemma acked_append: "acked (a @ b) = acked a @ acked b" "requeued (a @ b) = requeued a @ requeued b"
  by (simp_all add: acked_def requeued_def)

lemma trace_none [simp]:
  "acked [] = []" "requeued [] = []"
  by (simp_all add: acked_def requeued_def)

lemma acked_Cons: "acked (ev # evs) = acked [ev] @ acked evs" "requeued (ev # evs) = requeued [ev] @ requeued evs"
  by (simp_all add: acked_def requeued_def)

lemma other_event:
  assumes "\<forall>c r. ev = AmqpCall c r \<longrightarrow> \<not> custody_command c"
  shows "vouched p (ev # evs) = vouched p evs" "acked (ev # evs) = acked evs" "requeued (ev # evs) = requeued evs"
proof -
  have "vouched p (ev # evs) = vouched p evs \<and> acked [ev] = [] \<and> requeued [ev] = []"
  proof (cases "\<exists>c r. ev = AmqpCall c r")
    case True
    then obtain c r where "ev = AmqpCall c r" by blast
    then show ?thesis using assms by (cases c) (simp_all add: acked_def requeued_def)
  next
    case False
    then show ?thesis by (cases ev) (simp_all add: acked_def requeued_def)
  qed
  then show "vouched p (ev # evs) = vouched p evs" "acked (ev # evs) = acked evs" "requeued (ev # evs) = requeued evs"
    using acked_Cons [of ev evs] by simp_all
qed

lemma aside_events:
  "list_all aside evs \<Longrightarrow>
   filter transport_event evs = [] \<and> vouched p (evs @ rest) = vouched p rest \<and> acked evs = [] \<and> requeued evs = []"
  by (induction evs) (simp_all add: aside_def other_event del: vouched.simps)

lemma transport_events:
  "list_all transport_event evs \<Longrightarrow>
   filter transport_event evs = evs \<and> vouched p (evs @ rest) = vouched p rest \<and> acked evs = [] \<and> requeued evs = []"
proof (induction evs)
  case (Cons ev evs)
  then have "\<forall>c r. ev = AmqpCall c r \<longrightarrow> \<not> custody_command c" by auto
  with Cons show ?case by (simp add: other_event [of ev] del: vouched.simps)
qed simp

text \<open>The events of a ledger: the calls of its entries, in their order and no other; the confirmed copies of
  the messages moved; the tags of those that are gone acknowledged, and of those returned requeued.\<close>

definition rabbit_booked :: "(delivery, string \<times> amqp_publishing) ledger \<Rightarrow> event list \<Rightarrow> bool" where
  "rabbit_booked L evs \<longleftrightarrow>
     filter transport_event evs = made L \<and> (\<forall>rest. vouched None (evs @ rest) = copies L @ vouched None rest)
     \<and> acked evs = map msg_Tag (parted L) \<and> requeued evs = map msg_Tag (given_back L)"

interpretation rabbit: audit rabbit_booked aside
  by unfold_locales (auto simp: rabbit_booked_def acked_append aside_events)

text \<open>What an entry says: its message was handled with its calls, and the outcome asks for nothing to be
  published, or for the copy that was confirmed, or for one that was not.\<close>

fun rabbit_entry :: "topology \<Rightarrow> 'e Handler \<Rightarrow> delivery \<times> event list \<times> (string \<times> amqp_publishing) custody \<Rightarrow> bool" where
  "rabbit_entry t h (m, calls, c) \<longleftrightarrow>
     (\<exists>out failedAt. handling h (msg_Body m) (attemptOf (msg_Headers m)) calls out
        \<and> (out_Action out = ActionRetry \<longrightarrow> retryQueue t (out_RetryIn out) \<noteq> None)
        \<and> (case c of
             Concluded \<Rightarrow> out_Action out = ActionDone
           | Moved x \<Rightarrow> target_of t m (attemptOf (msg_Headers m)) out failedAt = Some x
           | GivenBack \<Rightarrow> out_Action out \<noteq> ActionDone))"

declare rabbit_entry.simps [simp del]

abbreviation rabbit_audited ::
  "topology \<Rightarrow> 'e Handler \<Rightarrow> 'e world \<Rightarrow> (delivery, string \<times> amqp_publishing) ledger \<Rightarrow> 'e world \<Rightarrow> bool"
where
  "rabbit_audited t h \<equiv> audited rabbit_booked (rabbit_entry t h)"

lemma target_None: "target_of t m n out failedAt = None \<longleftrightarrow> out_Action out = ActionDone"
  by (simp add: target_of_def split: Action.split)

text \<open>Settling a message is one of three things: it is acknowledged and nothing is published; the broker
  confirmed its copy and it is acknowledged; or it is requeued and no copy of it was confirmed.\<close>

lemma settles_booked:
  assumes "settles m target evs"
  obtains (finished) "target = None" "rabbit_booked [(m, [], Concluded)] evs"
    | (moved) x where "target = Some x" "rabbit_booked [(m, [], Moved x)] evs"
    | (refused) "target \<noteq> None" "rabbit_booked [(m, [], GivenBack)] evs"
proof (cases target)
  case None
  then show thesis using assms finished by (auto simp: settles_def rabbit_booked_def acked_def requeued_def)
next
  case (Some x)
  obtain q p where x: "x = (q, p)" by fastforce
  consider r a where "evs = [AmqpCall (AmqpPublish q p) (Inr r), AmqpCall AmqpWaitConfirm (Inr True), AmqpCall (AmqpAck (msg_Tag m)) a]"
    | r c a where "c \<noteq> Inr True"
        "evs = [AmqpCall (AmqpPublish q p) (Inr r), AmqpCall AmqpWaitConfirm c, AmqpCall (AmqpNack (msg_Tag m) True) a]"
    | err a where "evs = [AmqpCall (AmqpPublish q p) (Inl err), AmqpCall (AmqpNack (msg_Tag m) True) a]"
    using assms Some x by (auto simp: settles_def)
  then show thesis
  proof cases
    case 1
    then show thesis using moved [of x] Some x by (simp add: rabbit_booked_def acked_def requeued_def)
  next
    case 2
    then show thesis using refused Some by (simp add: rabbit_booked_def acked_def requeued_def)
  next
    case 3
    then show thesis using refused Some by (simp add: rabbit_booked_def acked_def requeued_def)
  qed
qed

lemma calls_booked:
  assumes "list_all transport_event calls" "rabbit_booked [(m, [], c)] evs"
  shows "rabbit_booked [(m, calls, c)] (calls @ evs)"
  using transport_events [OF assms(1)] assms(2) by (simp add: rabbit_booked_def acked_append)

section \<open>Deliveries and connections\<close>

text \<open>The messages of a connection that the loop takes: those before it drops.\<close>

fun delivered :: "loop_event list \<Rightarrow> delivery list" where
  "delivered (Message m # evs) = m # delivered evs"
| "delivered evs = []"

context quiet_handler
begin

lemma process_audited:
  assumes "process_delivery E t handle m w = Some w'"
  shows "\<exists>calls c. rabbit_audited t handle w [(m, calls, c)] w'"
proof -
  obtain out w1 where h: "handle (msg_Body m) (attemptOf (msg_Headers m)) w = (out, w1)" by fastforce
  then have app: "apply_outcome E t m (attemptOf (msg_Headers m)) out w1 = Some w'"
    using assms by (simp add: process_delivery_def)
  then have queue: "out_Action out = ActionRetry \<longrightarrow> retryQueue t (out_RetryIn out) \<noteq> None"
    by (auto simp: apply_outcome_def split: option.splits)
  obtain calls where calls: "trace w1 = trace w @ calls" "list_all transport_event calls"
    and handled: "handling handle (msg_Body m) (attemptOf (msg_Headers m)) calls out"
    using handler_calls [OF h] .
  define target where "target = target_of t m (attemptOf (msg_Headers m)) out (fst (call_clock E w1))"
  obtain evs where evs: "trace w' = trace w1 @ evs" "settles m target evs"
    using apply_outcome_settles [OF app] unfolding target_def by blast
  from evs(2) obtain c where c: "rabbit_booked [(m, [], c)] evs"
    "case c of Concluded \<Rightarrow> target = None | Moved x \<Rightarrow> target = Some x | GivenBack \<Rightarrow> target \<noteq> None"
    by (cases rule: settles_booked) auto
  have "rabbit_entry t handle (m, calls, c)"
    unfolding rabbit_entry.simps using handled queue c(2)
    by (intro exI [of _ out] exI [of _ "fst (call_clock E w1)"]) (cases c; simp add: target_def target_None)
  then have "rabbit_audited t handle w [(m, calls, c)] w'"
    unfolding audited_def using calls_booked [OF calls(2) c(1)] calls(1) evs(1)
    by (intro exI [of _ "calls @ evs"]) simp
  then show ?thesis by blast
qed

lemma consume_events_audited:
  "consume_events E t handle evs w = (res, w') \<Longrightarrow> res \<noteq> Panicked \<Longrightarrow>
   \<exists>L. map fst L = delivered evs \<and> rabbit_audited t handle w L w'"
proof (induction evs arbitrary: w)
  case Nil
  then show ?case by (auto intro: rabbit.audited_same)
next
  case (Cons e evs)
  show ?case
  proof (cases e)
    case (Message m)
    then obtain w1 where w1: "process_delivery E t handle m w = Some w1"
      using Cons.prems by (cases "process_delivery E t handle m w") auto
    obtain calls c where first: "rabbit_audited t handle w [(m, calls, c)] w1"
      using process_audited [OF w1] by blast
    obtain L where L: "map fst L = delivered evs" "rabbit_audited t handle w1 L w'"
      using Cons.IH [of w1] Cons.prems Message w1 by auto
    show ?thesis
      using rabbit.audited_trans [OF first L(2)] L(1) Message by (intro exI [of _ "(m, calls, c) # L"]) simp
  next
    case (ConnClosed x)
    then show ?thesis using Cons.prems rabbit.audited_same [of w' w] by (cases x) auto
  qed (use Cons.prems rabbit.audited_same [of w' w] in \<open>auto split: prod.splits dest!: call_trace(8)\<close>)
qed

end

section \<open>Connecting touches no message\<close>

abbreviation silent :: "'e world \<Rightarrow> 'e world \<Rightarrow> bool" where
  "silent \<equiv> appends aside"

lemma silent_command: "call_amqp E c w = (r, w') \<Longrightarrow> \<not> custody_command c \<Longrightarrow> silent w w'"
  by (auto dest!: call_trace(3) intro!: appends_one simp: aside_def)

lemma silent_reads:
  "call_ctx_err E w = (r, w') \<Longrightarrow> silent w w'" "call_sleep E d w = (b, w') \<Longrightarrow> silent w w'"
  by (auto dest!: call_trace(5,8) intro: appends_trace_eq appends_one simp: aside_def)

lemma dialAndOpen_silent:
  assumes "dialAndOpen E c w = (r, c', w')"
  shows "silent w w'"
proof -
  obtain d w1 where d: "call_amqp E (AmqpDial (rabbit_URL (rc_config c))) w = (d, w1)" by fastforce
  obtain o' w2 where oc: "openChannel E (rc_topology c) w1 = (o', w2)" by fastforce
  obtain x w3 where cl: "call_amqp E AmqpCloseConn w2 = (x, w3)" by fastforce
  have "aside ev" if "on_channel ev" for ev
  proof -
    have "\<not> custody_command cm" if "channel_command cm" for cm
      using that by (cases cm) simp_all
    then show ?thesis using that by (auto simp: on_channel_def aside_def)
  qed
  then have "silent w1 w2" using openChannel_on_channel [OF oc] appends_mono by blast
  moreover have "silent w w1" "silent w2 w3" using silent_command [OF d] silent_command [OF cl] by simp_all
  ultimately show ?thesis
    using assms d oc cl by (auto simp: dialAndOpen_def split: sum.splits option.splits intro: appends_trans)
qed

lemma connect_loop_silent: "connect_loop n E b c w = Some (r, c', w') \<Longrightarrow> silent w w'"
proof (induction n arbitrary: b c w)
  case (Suc n)
  obtain d c1 w1 where d: "dialAndOpen E c w = (d, c1, w1)" by (metis prod_cases3)
  obtain alive w2 where s: "call_sleep E b w1 = (alive, w2)" by fastforce
  obtain e w3 where e: "call_ctx_err E w2 = (e, w3)" by fastforce
  note steps = appends_trans [OF dialAndOpen_silent [OF d] silent_reads(2) [OF s]]
  show ?case
  proof (cases "d = None \<or> \<not> alive")
    case True
    then show ?thesis
      using Suc.prems d s e dialAndOpen_silent [OF d] appends_trans [OF steps silent_reads(1) [OF e]] by (cases d) auto
  next
    case False
    then have "connect_loop n E (min (b * 2) maxBackoff) c1 w2 = Some (r, c', w')"
      using Suc.prems d s by auto
    from appends_trans [OF steps Suc.IH [OF this]] show ?thesis .
  qed
qed simp

lemma Connect_silent: "Connect n E c w = Some (r, c', w') \<Longrightarrow> silent w w'"
  unfolding Connect_def by (rule connect_loop_silent)

lemma Connect_topology: "Connect n E c w = Some (None, c', w') \<Longrightarrow> rc_topology c' = rc_topology c"
  using connect_loop_consumer by (fastforce simp: Connect_def)

lemma Close_silent:
  assumes "Close E c w = (c', w')"
  shows "silent w w'"
proof -
  obtain a w1 where a: "call_amqp E AmqpCloseChannel w = (a, w1)" by fastforce
  obtain b w2 where b: "call_amqp E AmqpCloseConn w1 = (b, w2)" by fastforce
  show ?thesis
    using assms a b silent_command [OF a] appends_trans [OF silent_command [OF a] silent_command [OF b]]
    by (auto simp: Close_def)
qed

section \<open>Over all connections\<close>

text \<open>The messages taken in a run, one list for each connection: all those that came before the connection
  dropped, or none when the consumer could not be registered.\<close>

definition taken :: "loop_event list list \<Rightarrow> delivery list list \<Rightarrow> bool" where
  "taken conns mss \<longleftrightarrow> list_all2 (\<lambda>evs ms. ms = [] \<or> ms = delivered evs) (take (length mss) conns) mss"

lemma taken_none [simp]: "taken conns []"
  by (simp add: taken_def)

lemma taken_Cons: "ms = [] \<or> ms = delivered evs \<Longrightarrow> taken drops mss \<Longrightarrow> taken (evs # drops) (ms # mss)"
  by (simp add: taken_def)

context quiet_handler
begin

lemma consumeLoop_audited:
  assumes "consumeLoop E c handle evs w = (res, w')" "res \<noteq> Panicked"
  shows "\<exists>L. (map fst L = [] \<or> map fst L = delivered evs) \<and> rabbit_audited (rc_topology c) handle w L w'"
proof (cases "rc_open c")
  case True
  obtain r w1 where r: "call_amqp E (AmqpConsume (rabbit_Queue (rc_config c))) w = (r, w1)" by fastforce
  have start: "silent w w1" using silent_command [OF r] by simp
  show ?thesis
  proof (cases r)
    case (Inl err)
    then show ?thesis using assms True r rabbit.audited_silent [OF start] by (auto simp: consumeLoop_def)
  next
    case (Inr b)
    then have "consume_events E (rc_topology c) handle evs w1 = (res, w')"
      using assms True r by (simp add: consumeLoop_def)
    from consume_events_audited [OF this assms(2)] show ?thesis
      using rabbit.audited_before [OF start] by blast
  qed
next
  case False
  then show ?thesis using assms rabbit.audited_same [of w' w] by (auto simp: consumeLoop_def)
qed

lemma Consume_audited:
  "Consume n E c handle conns w = Some (res, c', w') \<Longrightarrow> res \<noteq> Panicked \<Longrightarrow>
   \<exists>mss L. taken conns mss \<and> map fst L = concat mss \<and> rabbit_audited (rc_topology c) handle w L w'"
proof (induction conns arbitrary: c w)
  case Nil
  then show ?case using rabbit.audited_same [of w' w] by (intro exI [of _ "[]"]) auto
next
  case (Cons evs drops)
  obtain x w1 where l: "consumeLoop E c handle evs w = (x, w1)" by fastforce
  then have "x \<noteq> Panicked" using Cons.prems by auto
  from consumeLoop_audited [OF l this] obtain L where
    L: "map fst L = [] \<or> map fst L = delivered evs" "rabbit_audited (rc_topology c) handle w L w1" by blast
  obtain e w2 where e: "call_ctx_err E w1 = (e, w2)" by fastforce
  obtain e3 w3 where e3: "call_ctx_err E w2 = (e3, w3)" by fastforce
  note reads = silent_reads(1) [OF e] appends_trans [OF silent_reads(1) [OF e] silent_reads(1) [OF e3]]
  have here: ?case if "silent w1 w'"
    using taken_Cons [OF L(1) taken_none] rabbit.audited_after [OF L(2) that]
    by (intro exI [of _ "[map fst L]"] exI [of _ L]) simp
  show ?case
  proof (cases "\<exists>err. x = Returned err \<and> e = None")
    case False
    then have "silent w1 w'"
      using Cons.prems l e e3 reads by (auto split: loop_result.splits option.splits)
    then show ?thesis by (rule here)
  next
    case True
    then obtain r c1 w4 where con: "Connect n E (c\<lparr>rc_ready := False\<rparr>) w2 = Some (r, c1, w4)"
      using Cons.prems l e by (auto split: option.splits)
    note gap = appends_trans [OF reads(1) Connect_silent [OF con]]
    show ?thesis
    proof (cases r)
      case (Some err)
      then show ?thesis using here gap Cons.prems l e con True by auto
    next
      case None
      then have next_conn: "Consume n E c1 handle drops w4 = Some (res, c', w')"
        using Cons.prems l e con True by auto
      with Cons.IH [OF next_conn Cons.prems(2)] obtain mss L' where
        rest: "taken drops mss" "map fst L' = concat mss" "rabbit_audited (rc_topology c) handle w4 L' w'"
        using Connect_topology con None by fastforce
      show ?thesis
        using taken_Cons [OF L(1) rest(1)] rest(2)
          rabbit.audited_trans [OF L(2) rabbit.audited_before [OF gap rest(3)]]
        by (intro exI [of _ "map fst L # mss"] exI [of _ "L @ L'"]) simp
    qed
  qed
qed

lemma Run_audited:
  assumes "RabbitSource_Run n E c handle conns w = Some (res, c', w')" "res \<noteq> Panicked"
  shows "\<exists>mss L. taken conns mss \<and> map fst L = concat mss \<and> rabbit_audited (rc_topology c) handle w L w'"
proof -
  obtain r c1 w1 where con: "Connect n E c w = Some (r, c1, w1)"
    using assms by (auto simp: RabbitSource_Run_def split: option.splits)
  note start = Connect_silent [OF con]
  show ?thesis
  proof (cases r)
    case (Some err)
    then show ?thesis using assms con rabbit.audited_silent [OF start]
      by (intro exI [of _ "[]"]) (auto simp: RabbitSource_Run_def)
  next
    case None
    then obtain x c2 w2 where x: "Consume n E c1 handle conns w1 = Some (x, c2, w2)"
      using assms con by (auto simp: RabbitSource_Run_def split: option.splits)
    obtain c3 w3 where cl: "Close E c2 w2 = (c3, w3)" by fastforce
    have x_ok: "x \<noteq> Panicked" and fin: "silent w2 w'"
      using assms con x cl None Close_silent [OF cl] by (auto simp: RabbitSource_Run_def split: loop_result.splits)
    from Consume_audited [OF x x_ok] obtain mss L where
      L: "taken conns mss" "map fst L = concat mss" "rabbit_audited (rc_topology c) handle w1 L w2"
      using Connect_topology con None by fastforce
    then show ?thesis using rabbit.audited_after [OF rabbit.audited_before [OF start L(3)] fin] by blast
  qed
qed

end

section \<open>Properties\<close>

text \<open>A copy of a message in a queue that keeps it for later.\<close>

definition kept :: "topology \<Rightarrow> delivery \<Rightarrow> string \<times> amqp_publishing \<Rightarrow> bool" where
  "kept t m = (\<lambda>(q, p). pub_Body p = msg_Body m \<and> pub_MessageId p = msg_MessageId m \<and> pub_Persistent p
     \<and> (q = t_deadLetter t \<or> (\<exists>d. retryQueue t d = Some q)))"

lemma target_kept:
  assumes "target_of t m n out failedAt = Some x" "out_Action out = ActionRetry \<longrightarrow> retryQueue t (out_RetryIn out) \<noteq> None"
  shows "kept t m x"
  using assms by (cases "out_Action out") (auto simp: target_of_def kept_def publishing_def)

text \<open>What the entry of a message says of the message.\<close>

definition custody_of ::
  "(string \<Rightarrow> string) \<Rightarrow> 'e service \<Rightarrow> topology \<Rightarrow> delivery \<Rightarrow> event list \<Rightarrow> (string \<times> amqp_publishing) custody \<Rightarrow> bool"
where
  "custody_of te s t m calls c \<longleftrightarrow>
     (case c of
        Concluded \<Rightarrow> finished te s (msg_Body m) (attemptOf (msg_Headers m)) calls
      | Moved x \<Rightarrow> kept t m x
      | GivenBack \<Rightarrow> True)"

lemma entry_custody: "rabbit_entry t (Handle te (Deliver s)) (m, calls, c) \<Longrightarrow> custody_of te s t m calls c"
  by (auto simp: rabbit_entry.simps custody_of_def target_None split: custody.splits intro: done_finished dest: target_kept)

text \<open>C2: The service loses no message: over any run of its RabbitMQ source, through any number of dropped
  connections and whatever the broker, the provider and the callbacks answer, there is a ledger with one entry
  for every message it takes, in order. The HTTP and SMTP calls of the run are those of the entries, one
  after the other and no others. A message is concluded, and then the calls of its entry sent its email or got
  its failure taken by its callback; or it is moved, and then the broker has confirmed a persistent
  copy with its id and body in a retry queue or the dead-letter queue; or it is given back. What is
  acknowledged are exactly the concluded and the moved messages, what is requeued those given back, and what
  the broker confirmed are the copies of the moved ones.\<close>

theorem rabbit_loses_nothing:
  assumes "InitMailer E g = Inr s" "MaxDelay (policy s) \<le> 2 ^ 62"
    and "RabbitSource_Run n E (NewConsumer cfg (policy s)) (Handle te (Deliver s)) conns w = Some (res, c', w')"
  shows "\<exists>new mss L. trace w' = trace w @ new \<and> taken conns mss \<and> map fst L = concat mss
    \<and> filter transport_event new = made L
    \<and> (\<forall>(m, calls, c) \<in> set L. custody_of te s (newTopology (rabbit_Queue cfg) (Delays (policy s))) m calls c)
    \<and> vouched None new = copies L
    \<and> acked new = map msg_Tag (parted L) \<and> requeued new = map msg_Tag (given_back L)"
proof -
  let ?t = "newTopology (rabbit_Queue cfg) (Delays (policy s))"
  have "res \<noteq> Panicked"
    using rabbit_source_never_panics [OF InitMailer_policy [OF assms(1,2)]] assms(3) by blast
  then obtain mss L where L: "taken conns mss" "map fst L = concat mss" "rabbit_audited ?t (Handle te (Deliver s)) w L w'"
    using quiet_handler.Run_audited [OF InitMailer_quiet [OF assms(1)] assms(3)] by (auto simp: NewConsumer_def)
  then obtain new where new: "trace w' = trace w @ new" "rabbit_booked L new" "list_all (rabbit_entry ?t (Handle te (Deliver s))) L"
    by (auto simp: audited_def)
  have "vouched None new = copies L" using new(2) unfolding rabbit_booked_def by (metis append_Nil2 vouched.simps(1))
  with L new show ?thesis
    unfolding rabbit_booked_def list_all_iff using entry_custody by (intro exI [of _ new] exI [of _ mss] exI [of _ L]) fastforce
qed

section \<open>Witnesses\<close>

text \<open>A broker that carries out every command and confirms every publish.\<close>

definition confirming :: "'e env \<Rightarrow> bool" where
  "confirming E \<longleftrightarrow> (\<forall>c e. fst (amqp_do E c e) = Inr True)"

lemma quiet_confirming [simp]: "confirming quiet_env"
  by (simp add: confirming_def quiet_env_def)

lemma confirming_call:
  assumes "confirming E"
  obtains w' where "call_amqp E c w = (Inr True, w')" "trace w' = trace w @ [AmqpCall c (Inr True)]"
proof -
  have "fst (call_amqp E c w) = Inr True"
    using assms by (simp add: confirming_def call_amqp_def split: prod.split) (metis fst_conv)
  then show thesis using that [of "snd (call_amqp E c w)"] call_amqp_trace [of E c w] by (metis prod.collapse)
qed

lemma confirming_declare_retry: "confirming E \<Longrightarrow> fst (declare_retry E t ds w) = None"
proof (induction ds arbitrary: w)
  case (Cons d ds)
  obtain w1 where "call_amqp E (AmqpQueueDeclare (retryQueueName (t_queue t) d) True (retry_args t d)) w = (Inr True, w1)"
    using confirming_call [OF Cons.prems] by metis
  then show ?case using Cons by simp
qed simp

lemma confirming_Connect:
  assumes "confirming E"
  shows "\<exists>c' w'. Connect (Suc n) E c w = Some (None, c', w') \<and> rc_open c'"
proof -
  have step: "\<exists>v'. call_amqp E k v = (Inr True, v')" for k v using confirming_call [OF assms] by metis
  have "fst (declare_topology E t v) = None" for t v
    using step confirming_declare_retry [OF assms]
    by (auto simp: declare_topology_def split: sum.splits prod.splits) (metis Pair_inject Inr_not_Inl)+
  then have "fst (openChannel E t v) = None" for t v
    using step by (auto simp: openChannel_def split: sum.splits prod.splits option.splits)
      (metis Pair_inject Inr_not_Inl fst_conv option.distinct(1))+
  then have "fst (dialAndOpen E c w) = None"
    using step by (auto simp: dialAndOpen_def split: sum.splits prod.splits option.splits)
      (metis Pair_inject Inr_not_Inl fst_conv option.distinct(1))+
  then obtain c' w' where "dialAndOpen E c w = (None, c', w')" by (metis prod.collapse)
  then show ?thesis using dialAndOpen_consumer [of E c w None c' w'] by (simp add: Connect_def)
qed

lemma smtp_service_policy: "\<exists>s. InitMailer quiet_env smtp_settings = Inr s \<and> policy s = DefaultRetryPolicy"
proof -
  obtain s where s: "InitMailer quiet_env smtp_settings = Inr s" using smtp_service by blast
  have "NewRetryConfig quiet_env smtp_settings =
       Inr \<lparr>retry_MaxAttempts = 5, retry_BaseDelay = 30 * Second, retry_MaxDelay = 10 * Minute\<rparr>" by code_simp
  then have "policy s = DefaultRetryPolicy"
    using s by (auto simp: InitMailer_def NewService_def retry_policy_def DefaultRetryPolicy_def split: sum.splits)
  with s show ?thesis by blast
qed

lemma confirming_Run:
  assumes "confirming E"
  shows "\<exists>res c' w'. RabbitSource_Run (Suc n) E c h [map Message ms] w = Some (res, c', w')"
proof -
  obtain c1 w1 where con: "Connect (Suc n) E c w = Some (None, c1, w1)" "rc_open c1"
    using confirming_Connect [OF assms] by metis
  have "fst (consume_events E t h (map Message ms) v) \<in> {Waiting, Panicked}" for t v
    by (induction ms arbitrary: v) (auto split: option.split)
  moreover obtain v where "call_amqp E (AmqpConsume (rabbit_Queue (rc_config c1))) w1 = (Inr True, v)"
    using confirming_call [OF assms] by metis
  ultimately have "fst (consumeLoop E c1 h (map Message ms) w1) \<in> {Waiting, Panicked}"
    using con(2) by (simp add: consumeLoop_def)
  then obtain x w2 where "consumeLoop E c1 h (map Message ms) w1 = (x, w2)" "x = Waiting \<or> x = Panicked"
    by (metis insertE prod.collapse singletonD)
  then show ?thesis using con by (auto simp: RabbitSource_Run_def split: prod.split)
qed

theorem rabbit_loses_nothing_witness:
  "\<exists>s res c' w' mss (L :: (delivery, string \<times> amqp_publishing) ledger). InitMailer quiet_env smtp_settings = Inr s
    \<and> RabbitSource_Run 1 quiet_env (NewConsumer \<lparr>rabbit_URL = ''amqp'', rabbit_Queue = ''q''\<rparr> (policy s))
        (Handle (\<lambda>e. e) (Deliver s)) [[Message some_delivery, Message some_delivery]] some_world = Some (res, c', w')
    \<and> map fst L = concat mss \<and> filter transport_event (trace w') = made L \<and> vouched None (trace w') = copies L
    \<and> acked (trace w') = map msg_Tag (parted L)"
proof -
  obtain s where s: "InitMailer quiet_env smtp_settings = Inr s" "MaxDelay (policy s) \<le> 2 ^ 62"
    using smtp_service_policy by (auto simp: DefaultRetryPolicy_def)
  obtain res c' w' where run: "RabbitSource_Run 1 quiet_env (NewConsumer \<lparr>rabbit_URL = ''amqp'', rabbit_Queue = ''q''\<rparr> (policy s))
        (Handle (\<lambda>e. e) (Deliver s)) [[Message some_delivery, Message some_delivery]] some_world = Some (res, c', w')"
    using confirming_Run [OF quiet_confirming, of 0 _ _ "[some_delivery, some_delivery]"] by fastforce
  from rabbit_loses_nothing [OF s run] obtain new mss and L :: "(delivery, string \<times> amqp_publishing) ledger" where
    "trace w' = trace some_world @ new" "map fst L = concat mss" "filter transport_event new = made L"
    "acked new = map msg_Tag (parted L)" "vouched None new = copies L" by (elim exE conjE) (rule that)
  then have "map fst L = concat mss" "filter transport_event (trace w') = made L" "acked (trace w') = map msg_Tag (parted L)" "vouched None (trace w') = copies L"
    by (simp_all add: some_world_def)
  then show ?thesis using s(1) run by blast
qed

end
