(* ===== verification/KafkaCustody.thy ===== *)
theory KafkaCustody
  imports Custody
begin

text \<open>
  What the Kafka source makes of the records it polls, seen as a whole: over any interleaving of its two
  loops, its run is audited against a ledger with one entry for every record it handled. (What it does not
  commit may be skipped: theorem \<open>unresolved_record_skipped\<close> of theory \<open>Kafka\<close>.)
\<close>

section \<open>The records in a trace\<close>

text \<open>Every record offered in a commit, whatever the broker answers, and every record polled; \<^const>\<open>produced\<close>
  are the records the broker took.\<close>

definition offered :: "event list \<Rightarrow> kafka_record list" where
  "offered evs = concat (map (\<lambda>ev. case ev of KafkaCall (KafkaCommit rs) r \<Rightarrow> rs | _ \<Rightarrow> []) evs)"

definition polled :: "event list \<Rightarrow> kafka_record list" where
  "polled evs = concat (map (\<lambda>ev. case ev of KafkaPolled topic rs \<Rightarrow> rs | _ \<Rightarrow> []) evs)"

lemma offered_append [simp]: "offered (a @ b) = offered a @ offered b" "polled (a @ b) = polled a @ polled b"
  by (simp_all add: offered_def polled_def)

lemma offered_simps [simp]:
  "offered [] = []" "polled [] = []"
  "offered (KafkaCall c r # evs) = (case c of KafkaCommit rs \<Rightarrow> rs | _ \<Rightarrow> []) @ offered evs"
  "polled (KafkaCall c r # evs) = polled evs" "offered (KafkaPolled topic rs # evs) = offered evs"
  "polled (KafkaPolled topic rs # evs) = rs @ polled evs" "offered (Slept d # evs) = offered evs" "polled (Slept d # evs) = polled evs"
  by (simp_all add: offered_def polled_def split: kafka_command.split)

definition no_record :: "event \<Rightarrow> bool" where
  "no_record ev \<longleftrightarrow> \<not> transport_event ev \<and> offered [ev] = [] \<and> polled [ev] = [] \<and> produced [ev] = []"

lemma no_records:
  "list_all no_record evs \<Longrightarrow> filter transport_event evs = [] \<and> offered evs = [] \<and> polled evs = [] \<and> produced evs = []"
proof (induction evs)
  case (Cons ev evs)
  then show ?case
    using offered_append [of "[ev]" evs] produced_append [of "[ev]" evs] by (simp add: no_record_def)
qed simp

lemma transport_records:
  "list_all transport_event evs \<Longrightarrow>
   filter transport_event evs = evs \<and> offered evs = [] \<and> polled evs = [] \<and> produced evs = []"
proof (induction evs)
  case (Cons ev evs)
  then show ?case by (cases ev) (simp_all add: offered_def polled_def)
qed simp

text \<open>The events of a ledger: the calls of its entries, in their order and no other; what is committed are the
  records that are gone, what is produced the copies of those moved, and every entry is of a record that was
  polled.\<close>

definition kafka_booked :: "(kafka_record, kafka_record) ledger \<Rightarrow> event list \<Rightarrow> bool" where
  "kafka_booked L evs \<longleftrightarrow>
     filter transport_event evs = made L \<and> offered evs = parted L \<and> produced evs = copies L
     \<and> subseq (map fst L) (polled evs)"

interpretation kafka: audit kafka_booked no_record
  by unfold_locales (auto simp: kafka_booked_def no_records intro: list_emb_append_mono)

fun kafka_entry :: "kafkaTopics \<Rightarrow> 'e Handler \<Rightarrow> kafka_record \<times> event list \<times> kafka_record custody \<Rightarrow> bool" where
  "kafka_entry ts h (r, calls, c) \<longleftrightarrow>
     (\<exists>out t. handling h (kr_Value r) (kafkaAttempt (kr_Headers r)) calls out
        \<and> (case c of
             Concluded \<Rightarrow> out_Action out = ActionDone
           | Moved x \<Rightarrow> kafka_copy ts r (kafkaAttempt (kr_Headers r)) out t = Some x
           | GivenBack \<Rightarrow> out_Action out \<noteq> ActionDone))"

declare kafka_entry.simps [simp del]

abbreviation kafka_audited ::
  "kafkaTopics \<Rightarrow> 'e Handler \<Rightarrow> 'e world \<Rightarrow> (kafka_record, kafka_record) ledger \<Rightarrow> 'e world \<Rightarrow> bool"
where
  "kafka_audited ts h \<equiv> audited kafka_booked (kafka_entry ts h)"

section \<open>Batches, rounds and loops\<close>

lemma waitUntilDue_silent: "waitUntilDue E due w = (b, w') \<Longrightarrow> appends no_record w w'"
  by (auto simp: waitUntilDue_def Let_def no_record_def split: prod.splits if_splits
      dest!: call_trace(5,6) intro: appends_trace_eq appends_one)

text \<open>A batch neither polls nor commits: its ledger says what it has resolved.\<close>

definition batch_booked :: "(kafka_record, kafka_record) ledger \<Rightarrow> event list \<Rightarrow> bool" where
  "batch_booked L evs \<longleftrightarrow>
     filter transport_event evs = made L \<and> offered evs = [] \<and> polled evs = [] \<and> produced evs = copies L"

interpretation batch: audit batch_booked no_record
  by unfold_locales (auto simp: batch_booked_def no_records)

abbreviation batch_audited ::
  "kafkaTopics \<Rightarrow> 'e Handler \<Rightarrow> 'e world \<Rightarrow> (kafka_record, kafka_record) ledger \<Rightarrow> 'e world \<Rightarrow> bool"
where
  "batch_audited ts h \<equiv> audited batch_booked (kafka_entry ts h)"

text \<open>It stops at the first record that it cannot resolve: the records of its ledger are the first of the batch,
  those it resolved followed by at most one that it did not.\<close>

definition in_order :: "(kafka_record, kafka_record) ledger \<Rightarrow> kafka_record list \<Rightarrow> bool" where
  "in_order L rs \<longleftrightarrow> prefix (map fst L) rs \<and> map fst L = parted L @ given_back L \<and> length (given_back L) \<le> 1"

lemma in_order_none [simp]: "in_order [] rs"
  by (simp add: in_order_def)

lemma in_order_one: "in_order [(r, calls, c)] (r # rs)"
  by (simp add: in_order_def)

lemma in_order_more: "c \<noteq> GivenBack \<Longrightarrow> in_order L rs \<Longrightarrow> in_order ((r, calls, c) # L) (r # rs)"
  using ledger_append(3,4) [of "[(r, calls, c)]" L] by (auto simp: in_order_def)

context quiet_handler
begin

text \<open>One record: it is handled, and then concluded, moved, or left alone.\<close>

lemma record_audited:
  assumes "handle (kr_Value r) (kafkaAttempt (kr_Headers r)) w = (out, w1)"
    and "kafka_apply E ts r (kafkaAttempt (kr_Headers r)) out w1 = (err, w2)"
  shows "\<exists>calls c. batch_audited ts handle w [(r, calls, c)] w2 \<and> (c = GivenBack \<longleftrightarrow> err \<noteq> None)"
proof -
  obtain calls where calls: "trace w1 = trace w @ calls" "list_all transport_event calls"
    and handled: "handling handle (kr_Value r) (kafkaAttempt (kr_Headers r)) calls out"
    using handler_calls [OF assms(1)] .
  note plain = transport_records [OF calls(2)]
  show ?thesis
  proof (cases "out_Action out = ActionDone")
    case True
    then have "err = None" "trace w2 = trace w @ calls" using assms(2) calls(1) by (simp_all add: kafka_apply_def)
    then show ?thesis
      using True plain handled
      by (intro exI [of _ calls] exI [of _ Concluded]) (auto simp: audited_def batch_booked_def kafka_entry.simps)
  next
    case False
    then obtain t c where c: "kafka_copy ts r (kafkaAttempt (kr_Headers r)) out t = Some c"
      "trace w2 = trace w1 @ [KafkaCall (KafkaProduce c) err]"
      using kafka_apply_trace [OF assms(2)] by auto
    let ?c = "if err = None then Moved c else GivenBack"
    have "kafka_entry ts handle (r, calls, ?c)"
      using handled c(1) False by (auto simp: kafka_entry.simps)
    moreover have "batch_booked [(r, calls, ?c)] (calls @ [KafkaCall (KafkaProduce c) err])"
      using plain by (cases err) (simp_all add: batch_booked_def)
    ultimately have "batch_audited ts handle w [(r, calls, ?c)] w2"
      unfolding audited_def using calls(1) c(2) by (intro exI [of _ "calls @ [KafkaCall (KafkaProduce c) err]"]) simp
    then show ?thesis by (intro exI [of _ calls] exI [of _ ?c]) simp
  qed
qed

lemma batch_audit:
  "processBatch E ts handle waitDue rs w = (res, w') \<Longrightarrow>
   \<exists>L. batch_audited ts handle w L w' \<and> res = parted L \<and> in_order L rs"
proof (induction rs arbitrary: w res)
  case Nil
  then show ?case using batch.audited_same [of w' w] by (intro exI [of _ "[]"]) simp
next
  case (Cons r rs)
  obtain b w1 where due:
    "(if waitDue then waitUntilDue E (kafkaNotBefore (kr_Headers r)) w else (True, w)) = (b, w1)" by fastforce
  obtain out w2 where h: "handle (kr_Value r) (kafkaAttempt (kr_Headers r)) w1 = (out, w2)" by fastforce
  obtain err w3 where app: "kafka_apply E ts r (kafkaAttempt (kr_Headers r)) out w2 = (err, w3)" by fastforce
  have start: "appends no_record w w1" using due waitUntilDue_silent by (auto split: if_splits)
  show ?case
  proof (cases b)
    case False
    then show ?thesis using Cons.prems due batch.audited_silent [OF start] by (intro exI [of _ "[]"]) simp
  next
    case True
    obtain calls c where first: "batch_audited ts handle w [(r, calls, c)] w3" "c = GivenBack \<longleftrightarrow> err \<noteq> None"
      using record_audited [OF h app] batch.audited_before [OF start] by blast
    show ?thesis
    proof (cases err)
      case None
      then obtain res' where res': "processBatch E ts handle waitDue rs w3 = (res', w')" "res = r # res'"
        using Cons.prems due h app True by (auto split: prod.splits)
      from Cons.IH [OF this(1)] obtain L where
        "batch_audited ts handle w3 L w'" "res' = parted L" "in_order L rs" by blast
      then show ?thesis
        using batch.audited_trans [OF first(1)] first(2) None res'(2) ledger_append(3) [of "[(r, calls, c)]" L]
        by (intro exI [of _ "(r, calls, c) # L"]) (auto intro: in_order_more)
    next
      case (Some e)
      then have "res = []" "w' = w3" using Cons.prems due h app True by simp_all
      then show ?thesis using first Some in_order_one by (intro exI [of _ "[(r, calls, c)]"]) simp
    qed
  qed
qed

text \<open>A round polls, works on the batch, commits what was resolved if there is any, and lets the group rebalance.\<close>

lemma round_steps:
  assumes "consume_round E topic handle waitDue s w = (res, w')"
  shows "\<exists>rs L new tail e. trace w' = trace w @ [KafkaPolled topic rs] @ new @ tail @ [KafkaCall KafkaAllowRebalance e]
    \<and> batch_booked L new \<and> list_all (kafka_entry (ks_topics s) handle) L \<and> in_order L rs
    \<and> (if parted L = [] then tail = [] else \<exists>e'. tail = [KafkaCall (KafkaCommit (parted L)) e'])
    \<and> (isl res \<longrightarrow> L = [])"
proof -
  let ?ts = "ks_topics s"
  obtain fs w1 where poll: "call_kafka_poll E topic w = (fs, w1)" by fastforce
  obtain err w2 where ctx: "call_ctx_err E w1 = (err, w2)" by fastforce
  obtain done_rs w3 where batch: "processBatch E ?ts handle waitDue (fe_Records fs) w2 = (done_rs, w3)" by fastforce
  obtain e1 w4 where commit: "call_kafka E (KafkaCommit done_rs) w3 = (e1, w4)" by fastforce
  let ?w = "if done_rs = [] then w3 else w4"
  obtain e w5 where allow: "call_kafka E KafkaAllowRebalance ?w = (e, w5)" by fastforce
  obtain err' w2' where ctx': "call_ctx_err E w2 = (err', w2')" by fastforce
  obtain e' w6 where allow': "call_kafka E KafkaAllowRebalance w2' = (e', w6)" by fastforce
  have tr2: "trace w2 = trace w @ [KafkaPolled topic (fe_Records fs)]"
    using call_trace(10) [OF poll] call_trace(8) [OF ctx] by simp
  show ?thesis
  proof (cases "err \<noteq> None \<or> fe_Closed fs")
    case True
    then have "w' = w6" using assms poll ctx ctx' allow' by (auto simp: consume_round_def)
    then show ?thesis using tr2 call_trace(8) [OF ctx'] call_trace(4) [OF allow']
      by (intro exI [of _ "fe_Records fs"] exI [of _ "[]"] exI [of _ e']) (simp add: batch_booked_def)
  next
    case False
    then have w': "w' = w5" "\<not> isl res" using assms poll ctx batch commit allow by (auto simp: consume_round_def Let_def)
    obtain L new where L: "trace w3 = trace w2 @ new" "batch_booked L new" "list_all (kafka_entry ?ts handle) L"
      "done_rs = parted L" "in_order L (fe_Records fs)"
      using batch_audit [OF batch] by (auto simp: audited_def)
    show ?thesis
      using tr2 L w' call_trace(4) [OF commit] call_trace(4) [OF allow]
      by (intro exI [of _ "fe_Records fs"] exI [of _ L] exI [of _ new]
          exI [of _ "if done_rs = [] then [] else [KafkaCall (KafkaCommit done_rs) e1]"] exI [of _ e]) simp
  qed
qed

lemma round_booked:
  assumes "batch_booked L new" "in_order L rs"
    and "if parted L = [] then tail = [] else \<exists>e'. tail = [KafkaCall (KafkaCommit (parted L)) e']"
  shows "kafka_booked L ([KafkaPolled topic rs] @ new @ tail @ [KafkaCall KafkaAllowRebalance e])"
  using assms prefix_imp_subseq [of "map fst L" rs]
  by (auto simp: kafka_booked_def batch_booked_def in_order_def split: if_splits)

lemma round_audited: "consume_round E topic handle waitDue s w = (res, w') \<Longrightarrow> \<exists>L. kafka_audited (ks_topics s) handle w L w'"
  using round_steps round_booked unfolding audited_def by metis

lemma loops_audited:
  "run_loops sched E handle s m r w = (res, s', w') \<Longrightarrow> \<exists>L. kafka_audited (ks_topics s) handle w L w'"
proof (induction sched arbitrary: s m r w)
  case Nil
  then show ?case using kafka.audited_same [of w' w] by auto
next
  case (Cons retry sched)
  show ?case
  proof (cases "(if retry then r else m) \<noteq> None")
    case True
    then show ?thesis using Cons by simp
  next
    case False
    obtain x w1 where x: "consume_round E (if retry then kt_retry (ks_topics s) else kt_main (ks_topics s)) handle retry s w = (x, w1)"
      by fastforce
    have "\<exists>L. kafka_audited (ks_topics s) handle w1 L w'"
    proof (cases x)
      case (Inl err)
      then show ?thesis using Cons.IH Cons.prems False x by (auto split: if_splits)
    next
      case (Inr s1)
      then have "ks_topics s1 = ks_topics s"
        using x by (auto simp: consume_round_def Let_def split: prod.splits if_splits)
      then show ?thesis using Cons.IH [of s1 m r w1] Cons.prems False x Inr by auto
    qed
    with round_audited [OF x] show ?thesis by (blast intro: kafka.audited_trans)
  qed
qed

end

section \<open>Starting and stopping\<close>

lemma kafka_silent:
  assumes "call_kafka E c w = (r, w')" "case c of KafkaCommit rs \<Rightarrow> False | KafkaProduce x \<Rightarrow> False | _ \<Rightarrow> True"
  shows "appends no_record w w'"
  by (rule appends_one [OF call_trace(4) [OF assms(1)]]) (use assms(2) in \<open>cases c; simp add: no_record_def\<close>)

lemma close_silent: "appends no_record w (snd (call_kafka E KafkaCloseClient w))"
  by (rule kafka_silent [OF prod.collapse [symmetric]]) simp

lemma try_connect_silent:
  assumes "try_connect E s w = (r, w')"
  shows "appends no_record w w'"
proof -
  obtain p w1 where p: "call_kafka E KafkaPing w = (p, w1)" by fastforce
  obtain x w2 where x: "ensure E (ks_topics s) (kafka_Partitions (ks_cfg s)) (kafka_Replication (ks_cfg s)) w1 = (x, w2)" by fastforce
  have "appends no_record w w1" using kafka_silent [OF p] by simp
  moreover have "appends no_record w1 w2"
    using x by (auto simp: ensure_def no_record_def offered_def polled_def split: prod.splits sum.splits
        dest!: call_trace(9) intro: appends_one)
  ultimately show ?thesis
    using assms p x by (auto simp: try_connect_def split: option.splits if_splits intro: appends_trans)
qed

lemma kafka_connect_silent: "kafka_connect n E b s w = Some (r, w') \<Longrightarrow> appends no_record w w'"
proof (induction n arbitrary: b w)
  case (Suc n)
  obtain t w1 where t: "try_connect E s w = (t, w1)" by fastforce
  obtain alive w2 where sl: "call_sleep E b w1 = (alive, w2)" by fastforce
  note i = try_connect_silent [OF t]
  have "appends no_record w1 w2" by (rule appends_one [OF call_trace(5) [OF sl]]) (simp add: no_record_def)
  note j = appends_trans [OF i this]
  show ?case
  proof (cases "t = None \<or> \<not> alive")
    case True
    then show ?thesis
      using Suc.prems t sl i j
      by (cases t) (auto dest!: call_trace(8) intro: appends_trans [OF j] appends_trace_eq)
  next
    case False
    then have "kafka_connect n E (min (b * 2) maxBackoff) s w2 = Some (r, w')" using Suc.prems t sl by auto
    from appends_trans [OF j Suc.IH [OF this]] show ?thesis .
  qed
qed simp

lemma newConsumer_silent:
  assumes "newConsumer E s grp topic w = (r, w')"
  shows "appends no_record w w'"
proof -
  obtain x w1 where x: "call_kafka E (KafkaNewClient (consumer_options s grp topic)) w = (x, w1)" by fastforce
  have "w' = w1" using assms x by (auto simp: newConsumer_def split: option.splits)
  then show ?thesis using kafka_silent [OF x] by simp
qed

context quiet_handler
begin

lemma Run_audited:
  assumes "Run n sched E handle s w = (res, s', w')"
  shows "\<exists>L. kafka_audited (ks_topics s) handle w L w'"
proof -
  let ?s = "s\<lparr>ks_ready := True\<rparr>"
  let ?close = "\<lambda>v. snd (call_kafka E KafkaCloseClient v)"
  obtain p w1 where p: "call_kafka E (KafkaNewClient (kafkaClientOptions (ks_cfg s))) w = (p, w1)" by fastforce
  have i1: "appends no_record w w1" using kafka_silent [OF p] by simp
  have close: "appends no_record w v \<Longrightarrow> appends no_record w (?close v)" for v
    using close_silent appends_trans by blast
  show ?thesis
  proof (cases "p = None \<and> (\<exists>w2. kafka_connect n E initialBackoff s w1 = Some (None, w2))")
    case False
    then have "appends no_record w w'"
      using assms p i1 close kafka_connect_silent [of n E initialBackoff s w1] appends_trans [OF i1]
      by (auto simp: Run_def split: option.splits)
    then show ?thesis using kafka.audited_silent by blast
  next
    case True
    then obtain w2 where w2: "p = None" "kafka_connect n E initialBackoff s w1 = Some (None, w2)" by blast
    obtain a w3 where a: "newConsumer E s (kafka_GroupID (ks_cfg s)) (kt_main (ks_topics s)) w2 = (a, w3)" by fastforce
    obtain b w4 where b: "newConsumer E s (kafka_GroupID (ks_cfg s) @ ''-retry'') (kt_retry (ks_topics s)) w3 = (b, w4)" by fastforce
    have i3: "appends no_record w w3"
      using appends_trans [OF appends_trans [OF i1 kafka_connect_silent [OF w2(2)]] newConsumer_silent [OF a]] .
    note i4 = appends_trans [OF i3 newConsumer_silent [OF b]]
    obtain x y s1 w5 where l: "run_loops sched E handle ?s None None w4 = ((x, y), s1, w5)" by (metis prod.collapse)
    obtain L where L: "kafka_audited (ks_topics s) handle w L w5"
      using loops_audited [OF l] kafka.audited_before [OF i4] by auto
    show ?thesis
    proof (cases "a = None \<and> b = None")
      case False
      then have "appends no_record w w'"
        using assms p w2 a b close i3 i4 by (auto simp: Run_def split: option.splits)
      then show ?thesis using kafka.audited_silent by blast
    next
      case True
      then have "w' = w5 \<or> w' = ?close (?close (?close w5))"
        using assms p w2 a b l by (auto simp: Run_def split: option.splits)
      moreover have "appends no_record v (?close (?close (?close v)))" for v
        using close_silent appends_trans by metis
      ultimately show ?thesis using L kafka.audited_after [OF L] by metis
    qed
  qed
qed

end

section \<open>Properties\<close>

text \<open>A copy of a record in a topic that keeps it for later.\<close>

definition kafka_kept :: "kafkaTopics \<Rightarrow> kafka_record \<Rightarrow> kafka_record \<Rightarrow> bool" where
  "kafka_kept ts r c \<longleftrightarrow>
     kr_Key c = kr_Key r \<and> kr_Value c = kr_Value r \<and> kr_Topic c \<in> {kt_retry ts, kt_deadLetter ts}"

definition kafka_custody_of ::
  "(string \<Rightarrow> string) \<Rightarrow> 'e service \<Rightarrow> kafkaTopics \<Rightarrow> kafka_record \<Rightarrow> event list \<Rightarrow> kafka_record custody \<Rightarrow> bool"
where
  "kafka_custody_of te s ts r calls c \<longleftrightarrow>
     (case c of
        Concluded \<Rightarrow> finished te s (kr_Value r) (kafkaAttempt (kr_Headers r)) calls
      | Moved x \<Rightarrow> kafka_kept ts r x
      | GivenBack \<Rightarrow> True)"

lemma kafka_copy_kept: "kafka_copy ts r n out t = Some c \<Longrightarrow> kafka_kept ts r c"
  using kafka_copy_fields [of ts r n out t c] by (simp add: kafka_kept_def)

lemma kafka_entry_custody: "kafka_entry ts (Handle te (Deliver s)) (r, calls, c) \<Longrightarrow> kafka_custody_of te s ts r calls c"
  by (auto simp: kafka_entry.simps kafka_custody_of_def split: custody.splits intro: done_finished kafka_copy_kept)

text \<open>C10: A round of the Kafka loop commits only what it resolved: it polls, handles the records from the first
  on, in order, and stops at the first one that it cannot resolve. The records before that one, each
  concluded or moved to a copy that the broker took, are committed with a single call, that one and all
  after it are not, and rebalances are allowed again at the end of the round. A round that ends the loop
  handles nothing.\<close>

theorem round_commits_resolved_prefix:
  assumes "InitMailer E g = Inr s" "consume_round E topic (Handle te (Deliver s)) waitDue src w = (res, w')"
  shows "\<exists>rs L new tail e. trace w' = trace w @ [KafkaPolled topic rs] @ new @ tail @ [KafkaCall KafkaAllowRebalance e]
    \<and> prefix (parted L @ given_back L) rs \<and> map fst L = parted L @ given_back L \<and> length (given_back L) \<le> 1
    \<and> (\<forall>(r, calls, c) \<in> set L. kafka_custody_of te s (ks_topics src) r calls c)
    \<and> filter transport_event new = made L \<and> produced new = copies L \<and> offered new = []
    \<and> (if parted L = [] then tail = [] else \<exists>e'. tail = [KafkaCall (KafkaCommit (parted L)) e'])
    \<and> (isl res \<longrightarrow> L = [])"
proof -
  obtain rs L new tail e where L: "trace w' = trace w @ [KafkaPolled topic rs] @ new @ tail @ [KafkaCall KafkaAllowRebalance e]"
    "batch_booked L new" "list_all (kafka_entry (ks_topics src) (Handle te (Deliver s))) L" "in_order L rs"
    "if parted L = [] then tail = [] else \<exists>e'. tail = [KafkaCall (KafkaCommit (parted L)) e']" "isl res \<longrightarrow> L = []"
    using quiet_handler.round_steps [OF InitMailer_quiet [OF assms(1)] assms(2)] by blast
  have "\<forall>(r, calls, c) \<in> set L. kafka_custody_of te s (ks_topics src) r calls c"
    using L(3) kafka_entry_custody by (fastforce simp: list_all_iff)
  moreover have "prefix (parted L @ given_back L) rs" using L(4) by (metis in_order_def)
  ultimately show ?thesis using L unfolding batch_booked_def in_order_def by blast
qed

text \<open>C4: What the Kafka source commits is accounted for: over any run, with any interleaving of its two
  loops and whatever the broker, the provider and the callbacks answer, there is a ledger with one entry for
  every record it handled. The records are some of those polled, in order, and the HTTP and SMTP calls of
  the run are those of the entries, one after the other and no others. The records it commits are exactly those
  that are concluded, where the calls of the entry sent the email or got its failure taken by its
  callback, and those that are moved, of which the broker took a copy with the same key and value in
  the retry or the dead-letter topic; and it produces nothing but these copies.\<close>

theorem kafka_commits_accounted:
  assumes "InitMailer E g = Inr s" "Run n sched E (Handle te (Deliver s)) (NewKafkaSource cfg (policy s)) w = (res, s', w')"
  shows "\<exists>new L. trace w' = trace w @ new \<and> subseq (map fst L) (polled new)
    \<and> filter transport_event new = made L
    \<and> (\<forall>(r, calls, c) \<in> set L. kafka_custody_of te s (newKafkaTopics (kafka_Topic cfg)) r calls c)
    \<and> offered new = parted L \<and> produced new = copies L"
proof -
  obtain L where "kafka_audited (newKafkaTopics (kafka_Topic cfg)) (Handle te (Deliver s)) w L w'"
    using quiet_handler.Run_audited [OF InitMailer_quiet [OF assms(1)] assms(2)] by (auto simp: NewKafkaSource_def)
  then obtain new where "trace w' = trace w @ new" "kafka_booked L new"
    "list_all (kafka_entry (newKafkaTopics (kafka_Topic cfg)) (Handle te (Deliver s))) L"
    by (auto simp: audited_def)
  then show ?thesis
    unfolding kafka_booked_def list_all_iff using kafka_entry_custody by (intro exI [of _ new] exI [of _ L]) fastforce
qed

section \<open>Witnesses\<close>

lemma refusing_service: "\<exists>s. InitMailer refusing_env smtp_settings = Inr s"
proof -
  have "NewMailerSettings refusing_env smtp_settings = Inr \<lparr>set_Transport = ''smtp'', set_APIClient = []\<rparr>"
    "HTTPClientTimeout refusing_env smtp_settings = Inr (15 * Second)"
    "NewSMTPConfig refusing_env smtp_settings = Inr \<lparr>smtp_Host = ''smtp'', smtp_Port = 465, smtp_Username = ''u'', smtp_Password = ''p''\<rparr>"
    "NewRetryConfig refusing_env smtp_settings =
       Inr \<lparr>retry_MaxAttempts = 5, retry_BaseDelay = 30 * Second, retry_MaxDelay = 10 * Minute\<rparr>"
    by code_simp+
  then show ?thesis by (simp add: InitMailer_def newSender_def)
qed

theorem round_commits_resolved_prefix_witness:
  "\<exists>s w' L rs. InitMailer refusing_env smtp_settings = Inr s
    \<and> snd (consume_round refusing_env ''mail'' (Handle (\<lambda>e. e) (Deliver s)) False mail_source counting_world) = w'
    \<and> prefix (parted L @ given_back L) rs \<and> produced (trace w') = copies (L :: (kafka_record, kafka_record) ledger)"
proof -
  obtain s where s: "InitMailer refusing_env smtp_settings = Inr s" using refusing_service by blast
  obtain res w' where run: "consume_round refusing_env ''mail'' (Handle (\<lambda>e. e) (Deliver s)) False mail_source counting_world = (res, w')"
    by fastforce
  from round_commits_resolved_prefix [OF s run] obtain rs new tail e and L :: "(kafka_record, kafka_record) ledger" where
    L: "trace w' = trace counting_world @ [KafkaPolled ''mail'' rs] @ new @ tail @ [KafkaCall KafkaAllowRebalance e]"
    "prefix (parted L @ given_back L) rs" "produced new = copies L"
    "if parted L = [] then tail = [] else \<exists>e'. tail = [KafkaCall (KafkaCommit (parted L)) e']"
    by (elim exE conjE) (rule that)
  have "produced tail = []" using L(4) by (auto split: if_splits)
  then have "produced (trace w') = copies L" using L(1,3) by (simp add: counting_world_def)
  with s run L(2) show ?thesis by (metis snd_conv)
qed

text \<open>Two rounds over a broker that hands out two records and refuses the copy of the first.\<close>

theorem kafka_commits_accounted_witness:
  "\<exists>s res s' w' (L :: (kafka_record, kafka_record) ledger). InitMailer refusing_env smtp_settings = Inr s
    \<and> Run 1 [False, False] refusing_env (Handle (\<lambda>e. e) (Deliver s)) (NewKafkaSource (ks_cfg mail_source) (policy s)) counting_world
      = (res, s', w') \<and> offered (trace w') = parted L \<and> produced (trace w') = copies L"
proof -
  obtain s where s: "InitMailer refusing_env smtp_settings = Inr s" using refusing_service by blast
  obtain res s' w' where run: "Run 1 [False, False] refusing_env (Handle (\<lambda>e. e) (Deliver s))
      (NewKafkaSource (ks_cfg mail_source) (policy s)) counting_world = (res, s', w')" by (metis prod.collapse)
  from kafka_commits_accounted [OF s run] obtain new and L :: "(kafka_record, kafka_record) ledger" where
    "trace w' = trace counting_world @ new" "offered new = parted L" "produced new = copies L"
    by (elim exE conjE) (rule that)
  then have "offered (trace w') = parted L" "produced (trace w') = copies L"
    by (simp_all add: counting_world_def)
  with s run show ?thesis by blast
qed

end
