(* ===== verification/KafkaSteps.thy ===== *)
theory KafkaSteps
  imports KafkaCustody
begin

text \<open>
  The two goroutines of the Kafka source at a finer grain: a step of a loop is a poll, the wait for a record to
  be due, the handling of one record with its copy, or the commit; the steps of the loops interleave in any order.
  The rounds of theory \<open>Kafka\<close> are runs of these steps, and what is committed is accounted for in every one of them.
\<close>

section \<open>Steps of a loop\<close>

text \<open>Where a loop is: before a poll; with the records left of its batch and those it has resolved; with a
  record that is due; at the end of its round; returned.\<close>

datatype phase =
    Polling
  | Batch "kafka_record list" "kafka_record list"
  | Due kafka_record "kafka_record list" "kafka_record list"
  | Ending "kafka_record list"
  | Ended "goerr option"

text \<open>The body of \<open>consume\<close> and the callback of \<open>processBatch\<close>, cut at the calls that may take long. The loop of
  the retry topic is the one that waits.\<close>

fun loop_step ::
  "'e env \<Rightarrow> 'e Handler \<Rightarrow> bool \<Rightarrow> KafkaSource \<Rightarrow> phase \<Rightarrow> 'e world \<Rightarrow> KafkaSource \<times> phase \<times> 'e world"
where
  "loop_step E h retry s Polling w =
     (let (fs, w1) = call_kafka_poll E (if retry then kt_retry (ks_topics s) else kt_main (ks_topics s)) w;
          (err, w2) = call_ctx_err E w1
      in if err \<noteq> None \<or> fe_Closed fs
         then (let (ctxErr, w3) = call_ctx_err E w2 in (s, Ended ctxErr, snd (call_kafka E KafkaAllowRebalance w3)))
         else (s\<lparr>ks_ready := \<not> fe_Errors fs\<rparr>, Batch (fe_Records fs) [], w2))"
| "loop_step E h retry s (Batch [] resolved) w = (s, Ending resolved, w)"
| "loop_step E h retry s (Batch (r # todo) resolved) w =
     (case (if retry then waitUntilDue E (kafkaNotBefore (kr_Headers r)) w else (True, w)) of
        (False, w1) \<Rightarrow> (s, Ending resolved, w1)
      | (True, w1) \<Rightarrow> (s, Due r todo resolved, w1))"
| "loop_step E h retry s (Due r todo resolved) w =
     (let attempt = kafkaAttempt (kr_Headers r); (out, w1) = h (kr_Value r) attempt w
      in case kafka_apply E (ks_topics s) r attempt out w1 of
           (Some _, w2) \<Rightarrow> (s, Ending resolved, w2)
         | (None, w2) \<Rightarrow> (s, Batch todo (resolved @ [r]), w2))"
| "loop_step E h retry s (Ending resolved) w =
     (let w1 = (if resolved = [] then w else snd (call_kafka E (KafkaCommit resolved) w))
      in (s, Polling, snd (call_kafka E KafkaAllowRebalance w1)))"
| "loop_step E h retry s (Ended err) w = (s, Ended err, w)"

text \<open>Both loops: \<open>sched\<close> says which of them takes the next step.\<close>

fun run_steps ::
  "bool list \<Rightarrow> 'e env \<Rightarrow> 'e Handler \<Rightarrow> KafkaSource \<Rightarrow> phase \<Rightarrow> phase \<Rightarrow> 'e world
     \<Rightarrow> KafkaSource \<times> phase \<times> phase \<times> 'e world"
where
  "run_steps [] E h s m r w = (s, m, r, w)"
| "run_steps (retry # sched) E h s m r w =
     (let (s1, p, w1) = loop_step E h retry s (if retry then r else m) w
      in run_steps sched E h s1 (if retry then m else p) (if retry then p else r) w1)"

lemma run_steps_append:
  "run_steps (a @ b) E h s m r w = (let (s1, m1, r1, w1) = run_steps a E h s m r w in run_steps b E h s1 m1 r1 w1)"
  by (induction a arbitrary: s m r w) (auto simp: Let_def split: prod.split)

lemma loop_step_topics: "loop_step E h retry s p w = (s', p', w') \<Longrightarrow> ks_topics s' = ks_topics s"
  by (induction E h retry s p w rule: loop_step.induct) (auto simp: Let_def split: prod.splits if_splits bool.splits option.splits)

section \<open>Rounds are runs of steps\<close>

text \<open>Steps of one loop alone.\<close>

definition alone :: "bool \<Rightarrow> 'e env \<Rightarrow> 'e Handler \<Rightarrow> KafkaSource \<times> phase \<times> 'e world \<Rightarrow> KafkaSource \<times> phase \<times> 'e world \<Rightarrow> bool" where
  "alone retry E h x y \<longleftrightarrow> (\<lambda>(s, p, w) z. z = loop_step E h retry s p w)\<^sup>*\<^sup>* x y"

lemma alone_trans: "alone b E h x y \<Longrightarrow> alone b E h y z \<Longrightarrow> alone b E h x z"
  unfolding alone_def by (rule rtranclp_trans)

lemma alone_step: "loop_step E h b s p w = z \<Longrightarrow> alone b E h (s, p, w) z"
  unfolding alone_def by (rule r_into_rtranclp) simp

lemma alone_run:
  assumes "alone b E h (s, p, w) (s', p', w')"
  obtains n where
    "run_steps (replicate n b) E h s (if b then q else p) (if b then p else q) w = (s', if b then q else p', if b then p' else q, w')"
proof -
  have "\<exists>n. run_steps (replicate n b) E h s (if b then q else p) (if b then p else q) w
      = (s', if b then q else p', if b then p' else q, w')"
    using assms unfolding alone_def
  proof (induction "(s, p, w)" arbitrary: s p w rule: converse_rtranclp_induct)
    case base
    show ?case by (rule exI [of _ 0]) simp
  next
    case (step z)
    obtain s1 p1 w1 where z: "z = (s1, p1, w1)" by (cases z) auto
    from step(3) [OF this] obtain n where "run_steps (replicate n b) E h s1 (if b then q else p1) (if b then p1 else q) w1
      = (s', if b then q else p', if b then p' else q, w')" by blast
    moreover have "loop_step E h b s p w = (s1, p1, w1)" using step(1) z by simp
    ultimately show ?case by (intro exI [of _ "Suc n"]) (simp split: if_splits)
  qed
  then show thesis using that by blast
qed

lemma batch_alone:
  "processBatch E (ks_topics s) h retry rs w = (res, w') \<Longrightarrow>
   alone retry E h (s, Batch rs resolved, w) (s, Ending (resolved @ res), w')"
proof (induction rs arbitrary: w res resolved)
  case Nil
  then show ?case by (auto intro: alone_step)
next
  case (Cons r rs)
  obtain b w1 where due:
    "(if retry then waitUntilDue E (kafkaNotBefore (kr_Headers r)) w else (True, w)) = (b, w1)" by fastforce
  obtain out w2 where h: "h (kr_Value r) (kafkaAttempt (kr_Headers r)) w1 = (out, w2)" by fastforce
  obtain err w3 where app: "kafka_apply E (ks_topics s) r (kafkaAttempt (kr_Headers r)) out w2 = (err, w3)" by fastforce
  show ?case
  proof (cases b)
    case False
    then show ?thesis using Cons.prems due by (auto intro: alone_step)
  next
    case True
    have ready: "alone retry E h (s, Batch (r # rs) resolved, w) (s, Due r rs resolved, w1)"
      using due True by (intro alone_step) simp
    show ?thesis
    proof (cases err)
      case None
      then obtain res' where res': "processBatch E (ks_topics s) h retry rs w3 = (res', w')" "res = r # res'"
        using Cons.prems due h app True by (auto split: prod.splits)
      have "alone retry E h (s, Due r rs resolved, w1) (s, Batch rs (resolved @ [r]), w3)"
        using h app None by (intro alone_step) simp
      with ready Cons.IH [OF res'(1), of "resolved @ [r]"] show ?thesis
        using res'(2) by (auto intro: alone_trans)
    next
      case (Some e)
      then have "alone retry E h (s, Due r rs resolved, w1) (s, Ending resolved, w3)" "res = []" "w' = w3"
        using Cons.prems due h app True by (auto intro: alone_step)
      with ready show ?thesis by (auto intro: alone_trans)
    qed
  qed
qed

lemma round_alone:
  assumes "consume_round E (if retry then kt_retry (ks_topics s) else kt_main (ks_topics s)) h retry s w = (res, w')"
  shows "alone retry E h (s, Polling, w) (case res of Inl err \<Rightarrow> (s, Ended err, w') | Inr s1 \<Rightarrow> (s1, Polling, w'))"
proof -
  let ?topic = "if retry then kt_retry (ks_topics s) else kt_main (ks_topics s)"
  obtain fs w1 where poll: "call_kafka_poll E ?topic w = (fs, w1)" by fastforce
  obtain err w2 where ctx: "call_ctx_err E w1 = (err, w2)" by fastforce
  obtain err' w2' where ctx': "call_ctx_err E w2 = (err', w2')" by fastforce
  let ?s = "s\<lparr>ks_ready := \<not> fe_Errors fs\<rparr>"
  obtain done_rs w3 where batch: "processBatch E (ks_topics s) h retry (fe_Records fs) w2 = (done_rs, w3)" by fastforce
  show ?thesis
  proof (cases "err \<noteq> None \<or> fe_Closed fs")
    case True
    then have "loop_step E h retry s Polling w = (case res of Inl err \<Rightarrow> (s, Ended err, w') | Inr s1 \<Rightarrow> (s1, Polling, w'))"
      using assms poll ctx ctx' by (auto simp: consume_round_def)
    then show ?thesis by (rule alone_step)
  next
    case False
    have "alone retry E h (?s, Batch (fe_Records fs) [], w2) (?s, Ending done_rs, w3)"
      using batch_alone [of E ?s h retry "fe_Records fs" w2 done_rs w3 "[]"] batch by simp
    moreover have "alone retry E h (s, Polling, w) (?s, Batch (fe_Records fs) [], w2)"
      using poll ctx False by (intro alone_step) auto
    moreover have "alone retry E h (?s, Ending done_rs, w3) (case res of Inl err \<Rightarrow> (s, Ended err, w') | Inr s1 \<Rightarrow> (s1, Polling, w'))"
      using assms poll ctx batch False by (intro alone_step) (auto simp: consume_round_def Let_def)
    ultimately show ?thesis by (blast intro: alone_trans)
  qed
qed

text \<open>A loop that has returned, or is about to poll.\<close>

definition resting :: "goerr option option \<Rightarrow> phase" where
  "resting x = (case x of None \<Rightarrow> Polling | Some err \<Rightarrow> Ended err)"

definition held :: "phase \<Rightarrow> kafka_record list" where
  "held p = (case p of Batch todo resolved \<Rightarrow> resolved | Due r todo resolved \<Rightarrow> resolved | Ending resolved \<Rightarrow> resolved | _ \<Rightarrow> [])"

definition to_come :: "phase \<Rightarrow> kafka_record list" where
  "to_come p = (case p of Batch todo resolved \<Rightarrow> todo | Due r todo resolved \<Rightarrow> r # todo | _ \<Rightarrow> [])"

text \<open>For every order of rounds, as the model of \<open>Run\<close> interleaves them, there is an order of steps with the same calls
  that leaves the source, both loops and the world the same: what holds of all runs of steps holds of all rounds.\<close>

lemma rounds_run:
  "run_loops sched E h s m r w = ((m', r'), s', w') \<Longrightarrow>
   \<exists>fine. run_steps fine E h s (resting m) (resting r) w = (s', resting m', resting r', w')"
proof (induction sched arbitrary: s m r w)
  case Nil
  then show ?case by (intro exI [of _ "[]"]) simp
next
  case (Cons retry sched)
  show ?case
  proof (cases "(if retry then r else m) \<noteq> None")
    case True
    then show ?thesis using Cons by simp
  next
    case False
    obtain x w1 where x: "consume_round E (if retry then kt_retry (ks_topics s) else kt_main (ks_topics s)) h retry s w = (x, w1)"
      by fastforce
    obtain s2 p where sp: "(case x of Inl err \<Rightarrow> (s, Ended err, w1) | Inr s1 \<Rightarrow> (s1, Polling, w1)) = (s2, p, w1)"
      by (cases x) auto
    obtain n where n: "run_steps (replicate n retry) E h s (resting m) (resting r) w
        = (s2, if retry then resting m else p, if retry then p else resting r, w1)"
      using alone_run [of retry E h s Polling w s2 p w1 "if retry then resting m else resting r"] round_alone [OF x] False
      unfolding sp by (auto simp: resting_def split: if_splits)
    obtain m2 r2 where rest: "run_loops sched E h s2 m2 r2 w1 = ((m', r'), s', w')"
      "resting m2 = (if retry then resting m else p)" "resting r2 = (if retry then p else resting r)"
      using Cons.prems False x sp by (cases x; cases retry; auto simp: resting_def)
    obtain fine where "run_steps fine E h s2 (resting m2) (resting r2) w1 = (s', resting m', resting r', w')"
      using Cons.IH [OF rest(1)] by blast
    with n rest(2,3) show ?thesis
      by (intro exI [of _ "replicate n retry @ fine"]) (simp add: run_steps_append)
  qed
qed

section \<open>The account of a run\<close>

text \<open>\<open>h\<close> and \<open>p\<close> are the records resolved and not yet offered, and those not yet handled, before the events;
  \<open>h'\<close> and \<open>p'\<close> after them.\<close>

definition accounted ::
  "kafkaTopics \<Rightarrow> 'e Handler \<Rightarrow> kafka_record multiset \<times> kafka_record multiset \<Rightarrow> 'e world
     \<Rightarrow> kafka_record multiset \<times> kafka_record multiset \<Rightarrow> 'e world \<Rightarrow> bool"
where
  "accounted ts h before w after w' \<longleftrightarrow>
     (\<exists>new (L :: (kafka_record, kafka_record) ledger). trace w' = trace w @ new
        \<and> filter transport_event new = made L \<and> produced new = copies L \<and> list_all (kafka_entry ts h) L
        \<and> mset (offered new) + fst after = fst before + mset (parted L)
        \<and> mset (map fst L) + snd after \<subseteq># snd before + mset (polled new))"

lemma accounted_trans:
  assumes "accounted ts h a w b w1" and "accounted ts h b w1 c w2"
  shows "accounted ts h a w c w2"
proof -
  obtain new L where 1: "trace w1 = trace w @ new" "filter transport_event new = made L" "produced new = copies L"
    "list_all (kafka_entry ts h) L" "mset (offered new) + fst b = fst a + mset (parted L)"
    "mset (map fst L) + snd b \<subseteq># snd a + mset (polled new)"
    using assms(1) unfolding accounted_def by (elim exE conjE) (rule that)
  obtain new' L' where 2: "trace w2 = trace w1 @ new'" "filter transport_event new' = made L'" "produced new' = copies L'"
    "list_all (kafka_entry ts h) L'" "mset (offered new') + fst c = fst b + mset (parted L')"
    "mset (map fst L') + snd c \<subseteq># snd b + mset (polled new')"
    using assms(2) unfolding accounted_def by (elim exE conjE) (rule that)
  have "mset (offered new) + mset (offered new') + fst c = fst a + mset (parted L) + mset (parted L')"
    using 1(5) 2(5) by (metis add.assoc add.commute)
  moreover have "mset (map fst L) + mset (map fst L') + snd c \<subseteq># snd a + mset (polled new) + mset (polled new')"
  proof -
    have "mset (map fst L) + (mset (map fst L') + snd c) \<subseteq># mset (map fst L) + (snd b + mset (polled new'))"
      using 2(6) by (rule subset_mset.add_left_mono)
    also have "\<dots> = (mset (map fst L) + snd b) + mset (polled new')" by (simp add: add.assoc)
    also have "\<dots> \<subseteq># (snd a + mset (polled new)) + mset (polled new')" using 1(6) by (rule subset_mset.add_right_mono)
    finally show ?thesis by (simp add: add.assoc)
  qed
  ultimately show ?thesis
    unfolding accounted_def using 1(1-4) 2(1-4)
    by (intro exI [of _ "new @ new'"] exI [of _ "L @ L'"]) (simp add: add.assoc)
qed

lemma accounted_frame:
  assumes "accounted ts h (a, b) w (a', b') w'"
  shows "accounted ts h (a + x, b + y) w (a' + x, b' + y) w'"
proof -
  obtain new L where 1: "trace w' = trace w @ new" "filter transport_event new = made L" "produced new = copies L"
    "list_all (kafka_entry ts h) L" "mset (offered new) + a' = a + mset (parted L)"
    "mset (map fst L) + b' \<subseteq># b + mset (polled new)"
    using assms unfolding accounted_def fst_conv snd_conv by (elim exE conjE) (rule that)
  have "mset (offered new) + (a' + x) = (a + x) + mset (parted L)"
    unfolding add.assoc [symmetric] 1(5) by (simp add: ac_simps)
  moreover have "mset (map fst L) + (b' + y) \<subseteq># (b + y) + mset (polled new)"
    using subset_mset.add_right_mono [OF 1(6), of y] by (simp add: ac_simps)
  ultimately show ?thesis unfolding accounted_def using 1(1-4) by auto
qed

lemma accounted_events:
  assumes "trace w' = trace w @ new" "filter transport_event new = []" "produced new = []"
    and "mset (offered new) + fst b = fst a" and "snd b \<subseteq># snd a + mset (polled new)"
  shows "accounted ts h a w b w'"
  unfolding accounted_def using assms by (intro exI [of _ new] exI [of _ "[]"]) simp

lemma accounted_silent:
  assumes "appends no_record w w'" and "fst b = fst a" and "snd b \<subseteq># snd a"
  shows "accounted ts h a w b w'"
proof -
  obtain new where new: "trace w' = trace w @ new" "list_all no_record new" using assms(1) by (auto simp: appends_def)
  from no_records [OF new(2)] show ?thesis by (intro accounted_events [OF new(1)]) (simp_all add: assms(2,3))
qed

abbreviation load :: "phase \<Rightarrow> kafka_record multiset \<times> kafka_record multiset" where
  "load p \<equiv> (mset (held p), mset (to_come p))"

lemma load_simps [simp]:
  "held Polling = []" "held (Batch todo resolved) = resolved" "held (Due x todo resolved) = resolved"
  "held (Ending resolved) = resolved" "held (Ended err) = []"
  "to_come Polling = []" "to_come (Batch todo resolved) = todo" "to_come (Due x todo resolved) = x # todo"
  "to_come (Ending resolved) = []" "to_come (Ended err) = []"
  by (simp_all add: held_def to_come_def)

context quiet_handler
begin

lemma due_accounted:
  assumes "loop_step E handle retry s (Due r todo resolved) w = (s', p', w')"
  shows "accounted (ks_topics s) handle (load (Due r todo resolved)) w (load p') w'"
proof -
  obtain out w1 where h: "handle (kr_Value r) (kafkaAttempt (kr_Headers r)) w = (out, w1)" by fastforce
  obtain err w2 where app: "kafka_apply E (ks_topics s) r (kafkaAttempt (kr_Headers r)) out w1 = (err, w2)" by fastforce
  obtain calls c where "batch_audited (ks_topics s) handle w [(r, calls, c)] w2" and c: "c = GivenBack \<longleftrightarrow> err \<noteq> None"
    using record_audited [OF h app] by blast
  then obtain new where new: "trace w2 = trace w @ new" "batch_booked [(r, calls, c)] new" "kafka_entry (ks_topics s) handle (r, calls, c)"
    by (auto simp: audited_def)
  have p': "w' = w2" "p' = (if err = None then Batch todo (resolved @ [r]) else Ending resolved)"
    using assms h app by (auto split: option.splits)
  show ?thesis
    unfolding accounted_def p' using new c
    by (intro exI [of _ new] exI [of _ "[(r, calls, c)]"]) (auto simp: batch_booked_def)
qed

lemma step_accounted:
  assumes "loop_step E handle retry s p w = (s', p', w')"
  shows "accounted (ks_topics s) handle (load p) w (load p') w'"
proof (cases p)
  case Polling
  obtain fs w1 where poll: "call_kafka_poll E (if retry then kt_retry (ks_topics s) else kt_main (ks_topics s)) w = (fs, w1)" by fastforce
  obtain err w2 where ctx: "call_ctx_err E w1 = (err, w2)" by fastforce
  obtain err' w3 where ctx': "call_ctx_err E w2 = (err', w3)" by fastforce
  obtain e w4 where allow: "call_kafka E KafkaAllowRebalance w3 = (e, w4)" by fastforce
  note tr = call_trace(10) [OF poll] call_trace(8) [OF ctx] call_trace(8) [OF ctx'] call_trace(4) [OF allow]
  show ?thesis
  proof (cases "err \<noteq> None \<or> fe_Closed fs")
    case True
    then have "w' = w4" "p' = Ended err'" using assms Polling poll ctx ctx' allow by auto
    then show ?thesis unfolding Polling using tr by (intro accounted_events) (simp, simp_all)
  next
    case False
    then have "w' = w2" "p' = Batch (fe_Records fs) []" using assms Polling poll ctx by auto
    then show ?thesis unfolding Polling using tr by (intro accounted_events) (simp, simp_all)
  qed
next
  case (Batch todo resolved)
  show ?thesis
  proof (cases todo)
    case Nil
    then show ?thesis using assms Batch appends_trace_eq [of w' w] by (auto intro: accounted_silent)
  next
    case (Cons r rs)
    obtain b w1 where due: "(if retry then waitUntilDue E (kafkaNotBefore (kr_Headers r)) w else (True, w)) = (b, w1)" by fastforce
    then have "appends no_record w w1" using waitUntilDue_silent by (auto split: if_splits)
    then show ?thesis using assms Batch Cons due by (cases b) (auto intro: accounted_silent)
  qed
next
  case (Due r todo resolved)
  then show ?thesis using due_accounted assms by blast
next
  case (Ending resolved)
  obtain e1 w1 where commit: "call_kafka E (KafkaCommit resolved) w = (e1, w1)" by fastforce
  obtain e2 w2 where allow: "call_kafka E KafkaAllowRebalance (if resolved = [] then w else w1) = (e2, w2)" by fastforce
  have "w' = w2" "p' = Polling" using assms Ending commit allow by (auto simp: Let_def split: if_splits)
  then show ?thesis
    unfolding Ending using call_trace(4) [OF commit] call_trace(4) [OF allow]
    by (intro accounted_events [of w' w
        "(if resolved = [] then [] else [KafkaCall (KafkaCommit resolved) e1]) @ [KafkaCall KafkaAllowRebalance e2]"]) auto
next
  case (Ended err)
  then show ?thesis using assms appends_trace_eq [of w' w] by (auto intro: accounted_silent)
qed

lemma steps_accounted:
  "run_steps sched E handle s m r w = (s', m', r', w') \<Longrightarrow>
   accounted (ks_topics s) handle (mset (held m) + mset (held r), mset (to_come m) + mset (to_come r)) w
     (mset (held m') + mset (held r'), mset (to_come m') + mset (to_come r')) w'"
proof (induction sched arbitrary: s m r w)
  case Nil
  then show ?case by (auto intro: accounted_silent simp: appends_trace_eq)
next
  case (Cons retry sched)
  obtain s1 p w1 where step: "loop_step E handle retry s (if retry then r else m) w = (s1, p, w1)" by (metis prod.collapse)
  let ?m = "if retry then m else p" and ?r = "if retry then p else r"
  have "accounted (ks_topics s) handle (mset (held m) + mset (held r), mset (to_come m) + mset (to_come r)) w
     (mset (held ?m) + mset (held ?r), mset (to_come ?m) + mset (to_come ?r)) w1"
    using accounted_frame [OF step_accounted [OF step], of "mset (held (if retry then m else r))"
        "mset (to_come (if retry then m else r))"] by (cases retry) (simp_all add: ac_simps)
  moreover have "accounted (ks_topics s) handle (mset (held ?m) + mset (held ?r), mset (to_come ?m) + mset (to_come ?r)) w1
     (mset (held m') + mset (held r'), mset (to_come m') + mset (to_come r')) w'"
    using Cons.IH [of s1 ?m ?r w1] Cons.prems step loop_step_topics [OF step] by simp
  ultimately show ?case by (rule accounted_trans)
qed

end

section \<open>Properties\<close>

text \<open>C11: What Kafka commits is accounted for however the two loops interleave, record by record: at every moment
  there is a ledger with one entry for every record handled so far, by either loop, whose calls are the HTTP
  and SMTP calls made so far, in order, and whose copies are the records produced, in order. The records
  offered in a commit so far, and those a loop holds as resolved, are together exactly the records of the ledger
  that are concluded or moved, each as often as it was handled; so nothing is committed before its
  email is sent, its failure taken or its copy produced, and nothing resolved is dropped. The records of the ledger,
  and those the loops have not reached yet, are among those polled.\<close>

theorem kafka_steps_accounted:
  assumes "InitMailer E g = Inr s"
    and "run_steps sched E (Handle te (Deliver s)) src Polling Polling w = (src', m, r, w')"
  shows "\<exists>new L. trace w' = trace w @ new \<and> filter transport_event new = made L \<and> produced new = copies L
    \<and> (\<forall>(x, calls, c) \<in> set L. kafka_custody_of te s (ks_topics src) x calls c)
    \<and> mset (offered new @ held m @ held r) = mset (parted L)
    \<and> mset (map fst L @ to_come m @ to_come r) \<subseteq># mset (polled new)"
proof -
  obtain new L where "trace w' = trace w @ new" "filter transport_event new = made L" "produced new = copies L"
    "list_all (kafka_entry (ks_topics src) (Handle te (Deliver s))) L"
    "mset (offered new) + (mset (held m) + mset (held r)) = mset (parted L)"
    "mset (map fst L) + (mset (to_come m) + mset (to_come r)) \<subseteq># mset (polled new)"
    using quiet_handler.steps_accounted [OF InitMailer_quiet [OF assms(1)] assms(2)] by (auto simp: accounted_def)
  then show ?thesis
    unfolding list_all_iff using kafka_entry_custody by (intro exI [of _ new] exI [of _ L]) fastforce
qed

section \<open>Witnesses\<close>

text \<open>The two loops take turns: each polls, then each works on its batch.\<close>

theorem kafka_steps_accounted_witness:
  "\<exists>s src' m r w' (L :: (kafka_record, kafka_record) ledger). InitMailer refusing_env smtp_settings = Inr s
    \<and> run_steps [False, True, True, False, True, False, False, True, False] refusing_env (Handle (\<lambda>e. e) (Deliver s)) mail_source
        Polling Polling counting_world = (src', m, r, w')
    \<and> mset (offered (trace w') @ held m @ held r) = mset (parted L) \<and> produced (trace w') = copies L"
proof -
  obtain s where s: "InitMailer refusing_env smtp_settings = Inr s" using refusing_service by blast
  obtain src' m r w' where run: "run_steps [False, True, True, False, True, False, False, True, False] refusing_env
      (Handle (\<lambda>e. e) (Deliver s)) mail_source Polling Polling counting_world = (src', m, r, w')" by (metis prod.collapse)
  from kafka_steps_accounted [OF s run] obtain new and L :: "(kafka_record, kafka_record) ledger" where
    "trace w' = trace counting_world @ new" "mset (offered new @ held m @ held r) = mset (parted L)" "produced new = copies L"
    by (elim exE conjE) (rule that)
  then have "mset (offered (trace w') @ held m @ held r) = mset (parted L)" "produced (trace w') = copies L"
    by (simp_all add: counting_world_def)
  with s run show ?thesis by blast
qed

end
