(* ===== verification/Circulation.thy ===== *)
theory Circulation
  imports Ledger
begin

text \<open>
  A message that circulates between a broker and the service: it is delivered, and delivered again for as long
  as it is given back or goes on as a copy. The theory \<open>Lifetime\<close> shows that the messages of either broker do so
  within bounds.
\<close>

section \<open>Deliveries of a message\<close>

text \<open>What one delivery makes of a message of type \<^typ>\<open>'m\<close>, and where several have led. The dead letter is of
  type \<^typ>\<open>'c\<close>; \<^const>\<open>None\<close> is a panic.\<close>

datatype ('m, 'c) fate = Settled | Buried 'c | Onward 'm | Again

datatype ('m, 'c) rest = Circulating 'm | AtRest | DeadLettered 'c | Crashed

text \<open>Up to \<open>n\<close> deliveries, with the number of those after which the message came again.\<close>

fun circulate :: "nat \<Rightarrow> ('m \<Rightarrow> 'w \<Rightarrow> (('m, 'c) fate \<times> 'w) option) \<Rightarrow> 'm \<Rightarrow> 'w \<Rightarrow> ('m, 'c) rest \<times> nat \<times> 'w" where
  "circulate 0 f m w = (Circulating m, 0, w)"
| "circulate (Suc n) f m w =
     (case f m w of
        None \<Rightarrow> (Crashed, 0, w)
      | Some (Settled, w1) \<Rightarrow> (AtRest, 0, w1)
      | Some (Buried c, w1) \<Rightarrow> (DeadLettered c, 0, w1)
      | Some (Onward m', w1) \<Rightarrow> circulate n f m' w1
      | Some (Again, w1) \<Rightarrow> (let (r, k, w2) = circulate n f m w1 in (r, Suc k, w2)))"

lemma circulate_never_again:
  "(\<And>m w w'. f m w \<noteq> Some (Again, w')) \<Longrightarrow> circulate n f m w = (r, k, w') \<Longrightarrow> k = 0"
proof (induction n arbitrary: m w)
  case (Suc n)
  show ?case
  proof (cases "f m w")
    case (Some x)
    obtain d w1 where x: "x = (d, w1)" by fastforce
    show ?thesis using Suc Some x by (cases d) auto
  qed (use Suc in simp)
qed simp

section \<open>The contract of a broker and its source\<close>

text \<open>A delivery does not panic. A copy that goes on has the content of its message and fewer attempts left.
  \<open>ended\<close> and \<open>buried\<close> are the evidence of the two ends in the events of the deliveries.\<close>

locale circulation =
  fixes deliver_op :: "'m \<Rightarrow> 'e world \<Rightarrow> (('m, 'c) fate \<times> 'e world) option"
    and left :: "'m \<Rightarrow> nat"
    and content :: "'m \<Rightarrow> 'k"
    and ended :: "'k \<Rightarrow> event list \<Rightarrow> bool"
    and buried :: "'k \<Rightarrow> 'c \<Rightarrow> event list \<Rightarrow> bool"
  assumes never_crashes: "deliver_op m w \<noteq> None"
    and delivery_step:
      "deliver_op m w = Some (f, w') \<Longrightarrow>
       \<exists>new. trace w' = trace w @ new
         \<and> (case f of
              Settled \<Rightarrow> ended (content m) new
            | Buried c \<Rightarrow> buried (content m) c new
            | Onward m' \<Rightarrow> content m' = content m \<and> left m' < left m
            | Again \<Rightarrow> True)
         \<and> (\<forall>k c rest. (ended k rest \<longrightarrow> ended k (new @ rest)) \<and> (buried k c rest \<longrightarrow> buried k c (new @ rest)))"

context circulation
begin

text \<open>The message either has come to an end, or it is still on its way, and then each delivery took one of its
  attempts or was one after which it came again.\<close>

definition led_to :: "nat \<Rightarrow> 'm \<Rightarrow> ('m, 'c) rest \<Rightarrow> nat \<Rightarrow> event list \<Rightarrow> bool" where
  "led_to n m r k new \<longleftrightarrow>
     (case r of
        Circulating m' \<Rightarrow> content m' = content m \<and> n \<le> left m + k
      | AtRest \<Rightarrow> ended (content m) new
      | DeadLettered c \<Rightarrow> buried (content m) c new
      | Crashed \<Rightarrow> False)"

lemma led_to_step:
  assumes "led_to n m' r k rest" "content m' = content m" "n \<le> left m' + k \<Longrightarrow> Suc n \<le> left m + k'"
    and "\<forall>c x. (ended c rest \<longrightarrow> ended c (new @ rest)) \<and> (buried c x rest \<longrightarrow> buried c x (new @ rest))"
  shows "led_to (Suc n) m r k' (new @ rest)"
  using assms by (auto simp: led_to_def split: rest.splits)

lemma circulate_led_to:
  "circulate n deliver_op m w = (r, k, w') \<Longrightarrow> \<exists>new. trace w' = trace w @ new \<and> led_to n m r k new"
proof (induction n arbitrary: m w r k)
  case 0
  then show ?case by (auto simp: led_to_def)
next
  case (Suc n)
  obtain f w1 where f: "deliver_op m w = Some (f, w1)" using never_crashes [of m w] by fastforce
  obtain new where new: "trace w1 = trace w @ new"
    "case f of Settled \<Rightarrow> ended (content m) new | Buried c \<Rightarrow> buried (content m) c new
       | Onward m' \<Rightarrow> content m' = content m \<and> left m' < left m | Again \<Rightarrow> True"
    "\<forall>c x rest. (ended c rest \<longrightarrow> ended c (new @ rest)) \<and> (buried c x rest \<longrightarrow> buried c x (new @ rest))"
    using delivery_step [OF f] by blast
  have goes_on: ?case
    if next_one: "circulate n deliver_op m' w1 = (r, k', w')" and m': "content m' = content m"
      and count: "n \<le> left m' + k' \<Longrightarrow> Suc n \<le> left m + k" for m' k'
  proof -
    obtain rest where rest: "trace w' = trace w1 @ rest" "led_to n m' r k' rest"
      using Suc.IH [OF next_one] by blast
    have "led_to (Suc n) m r k (new @ rest)" by (rule led_to_step [OF rest(2) m' count]) (use new(3) in auto)
    then show ?thesis using new(1) rest(1) by (intro exI [of _ "new @ rest"]) simp
  qed
  show ?case
  proof (cases f)
    case (Onward m')
    then show ?thesis using goes_on [of m' k] new(2) Suc.prems f by simp
  next
    case Again
    then obtain k' where "circulate n deliver_op m w1 = (r, k', w')" "k = Suc k'"
      using Suc.prems f by (auto split: prod.splits)
    then show ?thesis using goes_on [of m k'] by simp
  qed (use Suc.prems f new in \<open>auto simp: led_to_def\<close>)
qed

lemmas circulate_leads = circulate_led_to [unfolded led_to_def]

text \<open>So enough deliveries bring it to an end.\<close>

lemma circulation_ends:
  assumes "circulate n deliver_op m w = (r, k, w')" "left m + k < n"
  shows "\<exists>new. trace w' = trace w @ new \<and> (r = AtRest \<and> ended (content m) new \<or> (\<exists>c. r = DeadLettered c \<and> buried (content m) c new))"
  using circulate_led_to [OF assms(1)] assms(2) by (fastforce simp: led_to_def split: rest.splits)

end

section \<open>Circulation that can be counted\<close>

text \<open>Where the trace shows that a message was given back, the number of these is read off the trace.\<close>

locale counted_circulation = circulation deliver_op left content ended buried
  for deliver_op :: "'m \<Rightarrow> 'e world \<Rightarrow> (('m, 'c) fate \<times> 'e world) option"
    and left and content :: "'m \<Rightarrow> 'k" and ended buried +
  fixes came_back :: "event list \<Rightarrow> nat"
  assumes nothing_came_back: "came_back [] = 0"
    and step_came_back:
      "deliver_op m w = Some (f, w') \<Longrightarrow> trace w' = trace w @ new \<Longrightarrow>
       came_back (new @ rest) = (if f = Again then 1 else 0) + came_back rest"

context counted_circulation
begin

lemma circulate_came_back:
  "circulate n deliver_op m w = (r, k, w') \<Longrightarrow> trace w' = trace w @ new \<Longrightarrow> k = came_back new"
proof (induction n arbitrary: m w r k new)
  case 0
  then show ?case by (simp add: nothing_came_back)
next
  case (Suc n)
  obtain f w1 where f: "deliver_op m w = Some (f, w1)" using never_crashes [of m w] by fastforce
  obtain a where a: "trace w1 = trace w @ a" using delivery_step [OF f] by blast
  note first = step_came_back [OF f a]
  have goes_on: "k' + (if f = Again then 1 else 0) = came_back new"
    if next_one: "circulate n deliver_op m' w1 = (r, k', w')" for m' k'
  proof -
    obtain b where b: "trace w' = trace w1 @ b" using circulate_led_to [OF next_one] by blast
    then have "new = a @ b" using a Suc.prems(2) by simp
    then show ?thesis using Suc.IH [OF next_one b] first [of b] by simp
  qed
  show ?case
  proof (cases f)
    case (Onward m')
    then show ?thesis using goes_on [of m' k] Suc.prems f by simp
  next
    case Again
    then show ?thesis using goes_on [of m] Suc.prems f by (auto split: prod.splits)
  qed (use Suc.prems f a first [of "[]"] in \<open>auto simp: nothing_came_back\<close>)
qed

end

end
