(* ===== verification/Lifetime.thy ===== *)
theory Lifetime
  imports Circulation KafkaCustody
begin

text \<open>
  The life of one message between its broker and the source: it is delivered, and delivered again for as long
  as the source gives it back or leaves a copy of it for a retry, until its email was sent, its failure
  callback took the failure, or it lies among the dead letters. The broker's part is a parameter: the delivery
  it makes of a copy when its time is up.
\<close>

section \<open>RabbitMQ\<close>

text \<open>What becomes of a delivery is read off the calls that the source made: a copy that the broker confirmed
  goes on in place of the message, and a message that was requeued comes again.\<close>

definition delivery_fate ::
  "'e env \<Rightarrow> topology \<Rightarrow> 'e Handler \<Rightarrow> (amqp_publishing \<Rightarrow> delivery) \<Rightarrow> delivery \<Rightarrow> 'e world
     \<Rightarrow> ((delivery, amqp_publishing) fate \<times> 'e world) option"
where
  "delivery_fate E t h redeliver m w =
     (case process_delivery E t h m w of
        None \<Rightarrow> None
      | Some w1 \<Rightarrow>
          (let new = drop (length (trace w)) (trace w1)
           in Some (case vouched None new of
                (q, p) # _ \<Rightarrow> if q = t_deadLetter t then Buried p else Onward (redeliver p)
              | [] \<Rightarrow> if requeued new = [] then Settled else Again, w1)))"

definition life ::
  "nat \<Rightarrow> 'e env \<Rightarrow> topology \<Rightarrow> 'e Handler \<Rightarrow> (amqp_publishing \<Rightarrow> delivery) \<Rightarrow> delivery \<Rightarrow> 'e world
     \<Rightarrow> (delivery, amqp_publishing) rest \<times> 'e world"
where
  "life n E t h redeliver m w =
     (let (r, k, w') = circulate n (delivery_fate E t h redeliver) m w in (r, w'))"

text \<open>What a broker that dead-letters an expired message promises: the body, the id and the header of the
  source are kept. It may add headers and choose the tag.\<close>

definition redelivers :: "(amqp_publishing \<Rightarrow> delivery) \<Rightarrow> bool" where
  "redelivers redeliver \<longleftrightarrow>
     (\<forall>p. msg_Body (redeliver p) = pub_Body p \<and> msg_MessageId (redeliver p) = pub_MessageId p
        \<and> map_of (msg_Headers (redeliver p)) headerAttempt = map_of (pub_Headers p) headerAttempt)"

lemma redelivers_delivery_of: "redelivers (delivery_of tag)"
  by (simp add: redelivers_def delivery_of_def)

definition attempts_left :: "RetryPolicy \<Rightarrow> int \<Rightarrow> nat" where
  "attempts_left pol attempt = nat (MaxAttempts pol - attempt)"

lemma attempts_left_next: "n < MaxAttempts pol \<Longrightarrow> attempts_left pol (n + 1) < attempts_left pol n"
  by (simp add: attempts_left_def)

text \<open>The end of a message in the events of its deliveries: the last calls to the provider and the callbacks
  are those of handling it, for good.\<close>

definition concluded_by :: "'e Handler \<Rightarrow> string \<Rightarrow> event list \<Rightarrow> bool" where
  "concluded_by h body new \<longleftrightarrow>
     (\<exists>n calls out. handling h body n calls out \<and> out_Action out = ActionDone \<and> suffix calls (filter transport_event new))"

lemma concluded_later: "concluded_by h body rest \<Longrightarrow> concluded_by h body (new @ rest)"
  unfolding concluded_by_def filter_append by (blast intro: suffix_appendI)

lemma concluded_now:
  "handling h body n calls out \<Longrightarrow> out_Action out = ActionDone \<Longrightarrow> filter transport_event new = calls \<Longrightarrow> concluded_by h body new"
  by (auto simp: concluded_by_def)

definition rabbit_buried :: "topology \<Rightarrow> string \<times> string \<Rightarrow> amqp_publishing \<Rightarrow> event list \<Rightarrow> bool" where
  "rabbit_buried t content p new \<longleftrightarrow>
     pub_Body p = fst content \<and> pub_MessageId p = snd content \<and> (t_deadLetter t, p) \<in> set (vouched None new)"

context quiet_handler
begin

text \<open>A copy that is not a dead letter is the next attempt.\<close>

lemma target_next:
  assumes "handling handle (msg_Body m) (attemptOf (msg_Headers m)) calls out"
    and "target_of t m (attemptOf (msg_Headers m)) out failedAt = Some (q, p)" "q \<noteq> t_deadLetter t"
    and "int64_range (MaxAttempts pol)"
  shows "attempts_left pol (attemptOf (pub_Headers p)) < attempts_left pol (attemptOf (msg_Headers m))"
proof -
  obtain u u' where h: "handle (msg_Body m) (attemptOf (msg_Headers m)) u = (out, u')"
    using assms(1) by (auto simp: handling_def)
  have retry: "out_Action out = ActionRetry"
    using assms(2,3) by (auto simp: target_of_def split: Action.splits)
  have le: "attemptOf (msg_Headers m) + 1 \<le> MaxAttempts pol" by (rule next_attempt_allowed [OF h retry])
  moreover have "1 \<le> attemptOf (msg_Headers m)" by (rule attempt_positive)
  ultimately have "attemptOf (pub_Headers p) = attemptOf (msg_Headers m) + 1"
    using assms(2,4) retry by (auto simp: target_of_def publishing_def attemptOf_def int64_range_def)
  then show ?thesis using attempts_left_next [of "attemptOf (msg_Headers m)" pol] le by simp
qed

lemma delivery_fate_entry:
  assumes "delivery_fate E t handle redeliver m w = Some (f, w')"
  obtains new calls c where "trace w' = trace w @ new" "rabbit_booked [(m, calls, c)] new" "rabbit_entry t handle (m, calls, c)"
    and "f = (case c of
        Concluded \<Rightarrow> Settled
      | GivenBack \<Rightarrow> Again
      | Moved (q, p) \<Rightarrow> if q = t_deadLetter t then Buried p else Onward (redeliver p))"
proof -
  obtain w1 where w1: "process_delivery E t handle m w = Some w1"
    using assms by (auto simp: delivery_fate_def split: option.splits)
  then obtain new calls c where new: "trace w1 = trace w @ new" "rabbit_booked [(m, calls, c)] new" "rabbit_entry t handle (m, calls, c)"
    using process_audited [OF w1] by (auto simp: audited_def)
  have "vouched None new = copies [(m, calls, c)]" "requeued new = map msg_Tag (given_back [(m, calls, c)])"
    using new(2) unfolding rabbit_booked_def by (metis append_Nil2 vouched.simps(1))+
  then have "w' = w1" "f = (case c of
        Concluded \<Rightarrow> Settled
      | GivenBack \<Rightarrow> Again
      | Moved (q, p) \<Rightarrow> if q = t_deadLetter t then Buried p else Onward (redeliver p))"
    using assms w1 new(1) by (auto simp: delivery_fate_def Let_def split: custody.splits prod.splits)
  then show thesis using that new by blast
qed

lemma rabbit_evidence:
  assumes "delivery_fate E t handle redeliver m w = Some (f, w')" "redelivers redeliver" "int64_range (MaxAttempts pol)"
  shows "\<exists>new. trace w' = trace w @ new
    \<and> (case f of
         Settled \<Rightarrow> concluded_by handle (fst (msg_Body m, msg_MessageId m)) new
       | Buried p \<Rightarrow> rabbit_buried t (msg_Body m, msg_MessageId m) p new
       | Onward m' \<Rightarrow> (msg_Body m', msg_MessageId m') = (msg_Body m, msg_MessageId m)
           \<and> attempts_left pol (attemptOf (msg_Headers m')) < attempts_left pol (attemptOf (msg_Headers m))
       | Again \<Rightarrow> True)
    \<and> (\<forall>x p rest. (concluded_by handle (fst x) rest \<longrightarrow> concluded_by handle (fst x) (new @ rest))
         \<and> (rabbit_buried t x p rest \<longrightarrow> rabbit_buried t x p (new @ rest)))"
proof -
  obtain new calls c where new: "trace w' = trace w @ new" "rabbit_booked [(m, calls, c)] new" "rabbit_entry t handle (m, calls, c)"
    and f: "f = (case c of Concluded \<Rightarrow> Settled | GivenBack \<Rightarrow> Again
        | Moved (q, p) \<Rightarrow> if q = t_deadLetter t then Buried p else Onward (redeliver p))"
    using assms(1) by (rule delivery_fate_entry)
  have booked: "filter transport_event new = calls" "\<And>rest. vouched None (new @ rest) = copies [(m, calls, c)] @ vouched None rest"
    using new(2) by (simp_all add: rabbit_booked_def)
  obtain out failedAt where out: "handling handle (msg_Body m) (attemptOf (msg_Headers m)) calls out"
    "case c of Concluded \<Rightarrow> out_Action out = ActionDone
       | Moved x \<Rightarrow> target_of t m (attemptOf (msg_Headers m)) out failedAt = Some x | GivenBack \<Rightarrow> out_Action out \<noteq> ActionDone"
    "out_Action out = ActionRetry \<longrightarrow> retryQueue t (out_RetryIn out) \<noteq> None"
    using new(3) by (auto simp: rabbit_entry.simps)
  have later: "(concluded_by handle (fst x) rest \<longrightarrow> concluded_by handle (fst x) (new @ rest))
      \<and> (rabbit_buried t x p rest \<longrightarrow> rabbit_buried t x p (new @ rest))" for x p rest
    using booked(2) concluded_later by (auto simp: rabbit_buried_def)
  show ?thesis
  proof (cases c)
    case (Moved x)
    obtain k p where x: "x = (k, p)" by fastforce
    have copy: "pub_Body p = msg_Body m" "pub_MessageId p = msg_MessageId m"
      using target_kept [OF _ out(3)] out(2) Moved x by (auto simp: kept_def)
    have "attempts_left pol (attemptOf (pub_Headers p)) < attempts_left pol (attemptOf (msg_Headers m))" if "k \<noteq> t_deadLetter t"
      using target_next [OF out(1) _ that assms(3)] out(2) Moved x by simp
    then show ?thesis
      using f Moved x copy booked(2) [of "[]"] new(1) later assms(2)
      by (intro exI [of _ new]) (auto simp: rabbit_buried_def redelivers_def attemptOf_def)
  next
    case Concluded
    then show ?thesis using f concluded_now [OF out(1) _ booked(1)] out(2) new(1) later by (intro exI [of _ new]) simp
  qed (use f new(1) later in auto)
qed

lemma rabbit_circulation:
  assumes "valid_policy pol" "int64_range (MaxAttempts pol)" "redelivers redeliver"
  shows "counted_circulation (delivery_fate E (newTopology q (Delays pol)) handle redeliver)
    (\<lambda>m. attempts_left pol (attemptOf (msg_Headers m))) (\<lambda>m. (msg_Body m, msg_MessageId m))
    (\<lambda>x. concluded_by handle (fst x)) (rabbit_buried (newTopology q (Delays pol))) (\<lambda>new. length (requeued new))"
proof unfold_locales
  fix m :: delivery and w :: "'a world"
  obtain out v where "handle (msg_Body m) (attemptOf (msg_Headers m)) w = (out, v)" by fastforce
  then have "process_delivery E (newTopology q (Delays pol)) handle m w \<noteq> None"
    using apply_retry_defined [OF assms(1) attempt_positive] by (fastforce simp: process_delivery_def)
  then show "delivery_fate E (newTopology q (Delays pol)) handle redeliver m w \<noteq> None"
    by (auto simp: delivery_fate_def Let_def)
next
  fix m :: delivery and f new rest and w w' :: "'a world"
  let ?t = "newTopology q (Delays pol)"
  assume step: "delivery_fate E ?t handle redeliver m w = Some (f, w')" "trace w' = trace w @ new"
  from step(1) show "length (requeued (new @ rest)) = (if f = Again then 1 else 0) + length (requeued rest)"
  proof (rule delivery_fate_entry)
    fix new' calls c
    assume entry: "trace w' = trace w @ new'" "rabbit_booked [(m, calls, c)] new'"
      and f: "f = (case c of Concluded \<Rightarrow> Settled | GivenBack \<Rightarrow> Again
        | Moved (q, p) \<Rightarrow> if q = t_deadLetter ?t then Buried p else Onward (redeliver p))"
    have "requeued new = map msg_Tag (given_back [(m, calls, c)])"
      using entry step(2) by (simp add: rabbit_booked_def)
    then show ?thesis using f by (cases c) (auto simp: acked_append split: if_splits)
  qed
next
  show "length (requeued []) = 0" by simp
qed (rule rabbit_evidence [OF _ assms(3,2)])

end

section \<open>Kafka\<close>

text \<open>A record that is polled alone, by the loop of its topic. A broker that offers it again after it was not
  committed is what an uncommitted offset promises (unless a later record is committed past it: theorem
  \<open>unresolved_record_skipped\<close> of theory \<open>Kafka\<close>).\<close>

definition record_fate ::
  "'e env \<Rightarrow> kafkaTopics \<Rightarrow> 'e Handler \<Rightarrow> (kafka_record \<Rightarrow> kafka_record) \<Rightarrow> kafka_record \<Rightarrow> 'e world
     \<Rightarrow> ((kafka_record, kafka_record) fate \<times> 'e world) option"
where
  "record_fate E ts h redeliver r w =
     (let (resolved, w1) = processBatch E ts h (kr_Topic r = kt_retry ts) [r] w;
          new = drop (length (trace w)) (trace w1)
      in Some (if resolved = [] then Again
               else (case produced new of
                       c # _ \<Rightarrow> if kr_Topic c = kt_deadLetter ts then Buried c else Onward (redeliver c)
                     | [] \<Rightarrow> Settled), w1))"

definition record_life ::
  "nat \<Rightarrow> 'e env \<Rightarrow> kafkaTopics \<Rightarrow> 'e Handler \<Rightarrow> (kafka_record \<Rightarrow> kafka_record) \<Rightarrow> kafka_record \<Rightarrow> 'e world
     \<Rightarrow> (kafka_record, kafka_record) rest \<times> nat \<times> 'e world"
where
  "record_life n E ts h redeliver r w = circulate n (record_fate E ts h redeliver) r w"

text \<open>A consumer gets what was produced; the broker chooses partition and offset.\<close>

definition kafka_redelivers :: "(kafka_record \<Rightarrow> kafka_record) \<Rightarrow> bool" where
  "kafka_redelivers redeliver \<longleftrightarrow>
     (\<forall>c. kr_Topic (redeliver c) = kr_Topic c \<and> kr_Key (redeliver c) = kr_Key c \<and> kr_Value (redeliver c) = kr_Value c
        \<and> kr_Headers (redeliver c) = kr_Headers c)"

lemma kafka_redelivers_at: "kafka_redelivers (kr_Offset_update (\<lambda>_. off))"
  by (simp add: kafka_redelivers_def)

definition kafka_buried :: "kafkaTopics \<Rightarrow> string \<times> string \<Rightarrow> kafka_record \<Rightarrow> event list \<Rightarrow> bool" where
  "kafka_buried ts content c new \<longleftrightarrow>
     kr_Value c = fst content \<and> kr_Key c = snd content \<and> kr_Topic c = kt_deadLetter ts \<and> c \<in> set (produced new)"

context quiet_handler
begin

lemma kafka_copy_next:
  assumes "handling handle (kr_Value r) (kafkaAttempt (kr_Headers r)) calls out"
    and "kafka_copy ts r (kafkaAttempt (kr_Headers r)) out t = Some c" "kr_Topic c \<noteq> kt_deadLetter ts"
    and "int64_range (MaxAttempts pol)"
  shows "attempts_left pol (kafkaAttempt (kr_Headers c)) < attempts_left pol (kafkaAttempt (kr_Headers r))"
proof -
  obtain u u' where h: "handle (kr_Value r) (kafkaAttempt (kr_Headers r)) u = (out, u')"
    using assms(1) by (auto simp: handling_def)
  have retry: "out_Action out = ActionRetry"
    using kafka_copy_fields(3) [OF assms(2)] assms(3) by (simp split: if_splits)
  have le: "kafkaAttempt (kr_Headers r) + 1 \<le> MaxAttempts pol" by (rule next_attempt_allowed [OF h retry])
  moreover have pos: "1 \<le> kafkaAttempt (kr_Headers r)" by (rule kafkaAttempt_positive)
  ultimately have "kafkaAttempt (kr_Headers c) = kafkaAttempt (kr_Headers r) + 1"
    using kafka_copy_attempt [OF assms(2) pos] retry assms(4) by (auto simp: int64_range_def)
  then show ?thesis using attempts_left_next [of "kafkaAttempt (kr_Headers r)" pol] le by simp
qed

lemma kafka_evidence:
  assumes "record_fate E ts handle redeliver r w = Some (f, w')" "kafka_redelivers redeliver" "int64_range (MaxAttempts pol)"
  shows "\<exists>new. trace w' = trace w @ new
    \<and> (case f of
         Settled \<Rightarrow> concluded_by handle (fst (kr_Value r, kr_Key r)) new
       | Buried c \<Rightarrow> kafka_buried ts (kr_Value r, kr_Key r) c new
       | Onward r' \<Rightarrow> (kr_Value r', kr_Key r') = (kr_Value r, kr_Key r)
           \<and> attempts_left pol (kafkaAttempt (kr_Headers r')) < attempts_left pol (kafkaAttempt (kr_Headers r))
       | Again \<Rightarrow> True)
    \<and> (\<forall>x c rest. (concluded_by handle (fst x) rest \<longrightarrow> concluded_by handle (fst x) (new @ rest))
         \<and> (kafka_buried ts x c rest \<longrightarrow> kafka_buried ts x c (new @ rest)))"
proof -
  obtain res w1 where batch: "processBatch E ts handle (kr_Topic r = kt_retry ts) [r] w = (res, w1)" by fastforce
  obtain L new where L: "trace w1 = trace w @ new" "batch_booked L new" "list_all (kafka_entry ts handle) L"
    "res = parted L" "prefix (map fst L) [r]"
    using batch_audit [OF batch] unfolding audited_def in_order_def by blast
  have w': "w' = w1" using assms(1) batch by (simp add: record_fate_def Let_def del: processBatch.simps)
  have f: "f = (if res = [] then Again
      else (case produced new of c # _ \<Rightarrow> if kr_Topic c = kt_deadLetter ts then Buried c else Onward (redeliver c) | [] \<Rightarrow> Settled))"
    using assms(1) batch L(1) by (auto simp: record_fate_def Let_def simp del: processBatch.simps)
  have later: "(concluded_by handle (fst x) rest \<longrightarrow> concluded_by handle (fst x) (new @ rest))
      \<and> (kafka_buried ts x c rest \<longrightarrow> kafka_buried ts x c (new @ rest))" for x c rest
    using concluded_later [of handle "fst x" rest new] by (simp add: kafka_buried_def)
  show ?thesis
  proof (cases "res = []")
    case True
    then show ?thesis using f L(1) w' later by auto
  next
    case False
    then obtain calls c where entry: "L = [(r, calls, c)]" "c \<noteq> GivenBack"
      using L(4,5) by (cases L) (auto simp: parted_def split: if_splits)
    then obtain out t where out: "handling handle (kr_Value r) (kafkaAttempt (kr_Headers r)) calls out"
      "case c of Concluded \<Rightarrow> out_Action out = ActionDone
         | Moved x \<Rightarrow> kafka_copy ts r (kafkaAttempt (kr_Headers r)) out t = Some x | GivenBack \<Rightarrow> out_Action out \<noteq> ActionDone"
      using L(3) by (auto simp: kafka_entry.simps)
    have booked: "filter transport_event new = calls" "produced new = copies [(r, calls, c)]"
      using L(2) entry by (simp_all add: batch_booked_def)
    show ?thesis
    proof (cases c)
      case (Moved x)
      then have x: "kafka_copy ts r (kafkaAttempt (kr_Headers r)) out t = Some x" using out(2) by simp
      then show ?thesis
        using f False Moved booked(2) L(1) w' later kafka_copy_next [OF out(1) x _ assms(3)] kafka_copy_fields(1,2) [OF x] assms(2)
        by (intro exI [of _ new]) (auto simp: kafka_buried_def kafka_redelivers_def)
    next
      case Concluded
      then show ?thesis
        using f False concluded_now [OF out(1) _ booked(1)] out(2) booked(2) L(1) w' later by (intro exI [of _ new]) simp
    qed (use entry in simp)
  qed
qed

lemma kafka_circulation:
  assumes "int64_range (MaxAttempts pol)" "kafka_redelivers redeliver"
  shows "circulation (record_fate E ts handle redeliver) (\<lambda>r. attempts_left pol (kafkaAttempt (kr_Headers r)))
    (\<lambda>r. (kr_Value r, kr_Key r)) (\<lambda>x. concluded_by handle (fst x)) (kafka_buried ts)"
proof unfold_locales
  show "record_fate E ts handle redeliver r w \<noteq> None" for r w
    by (simp add: record_fate_def Let_def split: prod.split)
qed (rule kafka_evidence [OF _ assms(2,1)])

end

section \<open>The sources of the program\<close>

text \<open>With the retry policy the program starts from.\<close>

lemma default_policy: "valid_policy DefaultRetryPolicy" "int64_range (MaxAttempts DefaultRetryPolicy)"
  by (simp_all add: valid_policy_def DefaultRetryPolicy_def int64_range_def)

interpretation default_rabbit: counted_circulation
    "delivery_fate E (newTopology q (Delays DefaultRetryPolicy))
       (Handle te (Deliver (NewService E (smtpSender_Send E cfg) (Notify E) DefaultRetryPolicy))) (delivery_of tag)"
    "\<lambda>m. attempts_left DefaultRetryPolicy (attemptOf (msg_Headers m))" "\<lambda>m. (msg_Body m, msg_MessageId m)"
    "\<lambda>x. concluded_by (Handle te (Deliver (NewService E (smtpSender_Send E cfg) (Notify E) DefaultRetryPolicy))) (fst x)"
    "rabbit_buried (newTopology q (Delays DefaultRetryPolicy))" "\<lambda>new. length (requeued new)"
  for E :: "'e env" and q te cfg tag
  by (rule smtp_mailer.rabbit_circulation [OF default_policy redelivers_delivery_of])

interpretation default_kafka: circulation
    "record_fate E ts (Handle te (Deliver (NewService E (smtpSender_Send E cfg) (Notify E) DefaultRetryPolicy)))
       (kr_Offset_update (\<lambda>_. off))"
    "\<lambda>r. attempts_left DefaultRetryPolicy (kafkaAttempt (kr_Headers r))" "\<lambda>r. (kr_Value r, kr_Key r)"
    "\<lambda>x. concluded_by (Handle te (Deliver (NewService E (smtpSender_Send E cfg) (Notify E) DefaultRetryPolicy))) (fst x)"
    "kafka_buried ts"
  for E :: "'e env" and ts te cfg off
  by (rule smtp_mailer.kafka_circulation [OF default_policy(2) kafka_redelivers_at])

lemma Atoi_range: "Atoi s = Some v \<Longrightarrow> int64_range v"
  by (auto simp: Atoi_def Let_def split: if_splits)

lemma InitMailer_attempts:
  assumes "InitMailer E g = Inr s"
  shows "int64_range (MaxAttempts (policy s))" "1 \<le> MaxAttempts (policy s)"
proof -
  obtain c where c: "NewRetryConfig E g = Inr c" "policy s = retry_policy c"
    using assms by (auto simp: InitMailer_def NewService_def split: sum.splits)
  then have "positiveInt E g ''MAILER_MAX_ATTEMPTS'' 5 = Inr (retry_MaxAttempts c)"
    by (auto simp: NewRetryConfig_def split: sum.splits if_splits)
  then have "int64_range (retry_MaxAttempts c) \<and> 1 \<le> retry_MaxAttempts c"
    by (auto simp: positiveInt_def Let_def int64_range_def split: if_splits option.splits dest!: Atoi_range)
  then show "int64_range (MaxAttempts (policy s))" "1 \<le> MaxAttempts (policy s)" using c by (simp_all add: retry_policy_def)
qed

text \<open>A message has ended when the last calls to the provider and its callbacks are those of a delivery that
  sent its email, or whose failure callback took the failure.\<close>

definition ended_by :: "(string \<Rightarrow> string) \<Rightarrow> 'e service \<Rightarrow> string \<Rightarrow> event list \<Rightarrow> bool" where
  "ended_by te s body new \<longleftrightarrow> (\<exists>n calls. finished te s body n calls \<and> suffix calls (filter transport_event new))"

lemma concluded_ended: "concluded_by (Handle te (Deliver s)) body new \<Longrightarrow> ended_by te s body new"
  unfolding concluded_by_def ended_by_def using done_finished by blast

text \<open>Where \<open>n\<close> deliveries of a message lead.\<close>

definition rabbit_leads ::
  "(string \<Rightarrow> string) \<Rightarrow> 'e service \<Rightarrow> string \<Rightarrow> delivery \<Rightarrow> nat \<Rightarrow> (delivery, amqp_publishing) rest \<Rightarrow> event list \<Rightarrow> bool"
where
  "rabbit_leads te s q m n r new \<longleftrightarrow>
    (case r of
       Circulating m' \<Rightarrow>
         msg_Body m' = msg_Body m \<and> msg_MessageId m' = msg_MessageId m
         \<and> n \<le> attempts_left (policy s) (attemptOf (msg_Headers m)) + length (requeued new)
     | AtRest \<Rightarrow> ended_by te s (msg_Body m) new
     | DeadLettered p \<Rightarrow>
         pub_Body p = msg_Body m \<and> pub_MessageId p = msg_MessageId m \<and> (q @ ''.dlq'', p) \<in> set (vouched None new)
     | Crashed \<Rightarrow> False)"

lemma rabbit_led_to:
  assumes "InitMailer E g = Inr s" "MaxDelay (policy s) \<le> 2 ^ 62" "redelivers redeliver"
    and "life n E (newTopology q (Delays (policy s))) (Handle te (Deliver s)) redeliver m w = (r, w')"
  shows "\<exists>new. trace w' = trace w @ new \<and> rabbit_leads te s q m n r new"
proof -
  obtain k where "circulate n (delivery_fate E (newTopology q (Delays (policy s))) (Handle te (Deliver s)) redeliver) m w = (r, k, w')"
    using assms(4) by (auto simp: life_def split: prod.splits)
  note run = this
  note counted = quiet_handler.rabbit_circulation [OF InitMailer_quiet [OF assms(1)] InitMailer_policy [OF assms(1,2)]
      InitMailer_attempts(1) [OF assms(1)] assms(3)]
  obtain new where new: "trace w' = trace w @ new"
    "case r of
       Circulating m' \<Rightarrow> (msg_Body m', msg_MessageId m') = (msg_Body m, msg_MessageId m)
         \<and> n \<le> attempts_left (policy s) (attemptOf (msg_Headers m)) + k
     | AtRest \<Rightarrow> concluded_by (Handle te (Deliver s)) (fst (msg_Body m, msg_MessageId m)) new
     | DeadLettered p \<Rightarrow> rabbit_buried (newTopology q (Delays (policy s))) (msg_Body m, msg_MessageId m) p new
     | Crashed \<Rightarrow> False"
    using circulation.circulate_leads [OF counted_circulation.axioms(1) [OF counted] run] by blast
  moreover have "k = length (requeued new)" by (rule counted_circulation.circulate_came_back [OF counted run new(1)])
  ultimately show ?thesis
    using concluded_ended by (intro exI [of _ new]) (auto simp: rabbit_leads_def rabbit_buried_def newTopology_def split: rest.splits)
qed

definition kafka_leads ::
  "(string \<Rightarrow> string) \<Rightarrow> 'e service \<Rightarrow> string \<Rightarrow> kafka_record \<Rightarrow> nat \<Rightarrow> (kafka_record, kafka_record) rest \<Rightarrow> nat \<Rightarrow> event list \<Rightarrow> bool"
where
  "kafka_leads te s topic r n x k new \<longleftrightarrow>
    (case x of
       Circulating r' \<Rightarrow>
         kr_Value r' = kr_Value r \<and> kr_Key r' = kr_Key r
         \<and> n \<le> attempts_left (policy s) (kafkaAttempt (kr_Headers r)) + k
     | AtRest \<Rightarrow> ended_by te s (kr_Value r) new
     | DeadLettered c \<Rightarrow>
         kr_Value c = kr_Value r \<and> kr_Key c = kr_Key r \<and> kr_Topic c = topic @ ''.dlq'' \<and> c \<in> set (produced new)
     | Crashed \<Rightarrow> False)"

lemma kafka_led_to:
  assumes "InitMailer E g = Inr s" "kafka_redelivers redeliver"
    and "record_life n E (newKafkaTopics topic) (Handle te (Deliver s)) redeliver r w = (x, k, w')"
  shows "\<exists>new. trace w' = trace w @ new \<and> kafka_leads te s topic r n x k new"
proof -
  note circ = quiet_handler.kafka_circulation [OF InitMailer_quiet [OF assms(1)] InitMailer_attempts(1) [OF assms(1)] assms(2)]
  obtain new where new: "trace w' = trace w @ new"
    "case x of
       Circulating r' \<Rightarrow> (kr_Value r', kr_Key r') = (kr_Value r, kr_Key r)
         \<and> n \<le> attempts_left (policy s) (kafkaAttempt (kr_Headers r)) + k
     | AtRest \<Rightarrow> concluded_by (Handle te (Deliver s)) (fst (kr_Value r, kr_Key r)) new
     | DeadLettered c \<Rightarrow> kafka_buried (newKafkaTopics topic) (kr_Value r, kr_Key r) c new
     | Crashed \<Rightarrow> False"
    using circulation.circulate_leads [OF circ assms(3) [unfolded record_life_def]] by blast
  then show ?thesis
    using concluded_ended by (intro exI [of _ new]) (auto simp: kafka_leads_def kafka_buried_def newKafkaTopics_def split: rest.splits)
qed

section \<open>Properties\<close>

text \<open>C3: Every message comes to rest. Deliver a message, and go on delivering whatever the source sends back
  or leaves in a retry queue: after more deliveries than the attempts it has left and the refusals of the
  broker it is no longer on its way. Then the last calls made to the provider and the callbacks sent its email
  or got its failure taken by its callback, or the broker has confirmed a copy of it, with its id and body,
  in the dead-letter queue. The source never panics on the way, and whatever circulates is the same message.\<close>

theorem message_comes_to_rest:
  assumes "InitMailer E g = Inr s" "MaxDelay (policy s) \<le> 2 ^ 62" "redelivers redeliver"
    and "life n E (newTopology q (Delays (policy s))) (Handle te (Deliver s)) redeliver m w = (r, w')"
  shows "\<exists>new. trace w' = trace w @ new \<and>
    (case r of
       Circulating m' \<Rightarrow>
         msg_Body m' = msg_Body m \<and> msg_MessageId m' = msg_MessageId m
         \<and> n \<le> attempts_left (policy s) (attemptOf (msg_Headers m)) + length (requeued new)
     | AtRest \<Rightarrow> ended_by te s (msg_Body m) new
     | DeadLettered p \<Rightarrow>
         pub_Body p = msg_Body m \<and> pub_MessageId p = msg_MessageId m \<and> (q @ ''.dlq'', p) \<in> set (vouched None new)
     | Crashed \<Rightarrow> False)"
  using rabbit_led_to [OF assms] unfolding rabbit_leads_def .

text \<open>C7: Over Kafka every request comes to rest as well, if the broker offers a record again that was not
  committed: after more deliveries than the attempts it has left and the times it was left uncommitted
  it is no longer on its way. Then the last calls made to the provider and the callbacks sent its email or
  got its failure taken by its callback, or the broker has taken a copy of it, with its key and value, in the
  dead-letter topic. Whatever circulates is the same request.\<close>

theorem kafka_request_comes_to_rest:
  assumes "InitMailer E g = Inr s" "kafka_redelivers redeliver"
    and "record_life n E (newKafkaTopics topic) (Handle te (Deliver s)) redeliver r w = (x, k, w')"
  shows "\<exists>new. trace w' = trace w @ new \<and>
    (case x of
       Circulating r' \<Rightarrow>
         kr_Value r' = kr_Value r \<and> kr_Key r' = kr_Key r
         \<and> n \<le> attempts_left (policy s) (kafkaAttempt (kr_Headers r)) + k
     | AtRest \<Rightarrow> ended_by te s (kr_Value r) new
     | DeadLettered c \<Rightarrow>
         kr_Value c = kr_Value r \<and> kr_Key c = kr_Key r \<and> kr_Topic c = topic @ ''.dlq'' \<and> c \<in> set (produced new)
     | Crashed \<Rightarrow> False)"
  using kafka_led_to [OF assms] unfolding kafka_leads_def .

section \<open>Witnesses\<close>

text \<open>With a broker that confirms every publish nothing is requeued: six deliveries are enough for a message
  of the default policy.\<close>

theorem message_comes_to_rest_witness:
  "\<exists>s r w'. InitMailer quiet_env smtp_settings = Inr s
    \<and> life 6 quiet_env (newTopology ''q'' (Delays (policy s))) (Handle (\<lambda>e. e) (Deliver s)) (delivery_of 9) some_delivery some_world
      = (r, w') \<and> r \<noteq> Crashed"
proof -
  obtain s where s: "InitMailer quiet_env smtp_settings = Inr s" "MaxDelay (policy s) \<le> 2 ^ 62"
    using smtp_service_policy by (auto simp: DefaultRetryPolicy_def)
  obtain r w' where r: "life 6 quiet_env (newTopology ''q'' (Delays (policy s))) (Handle (\<lambda>e. e) (Deliver s)) (delivery_of 9)
      some_delivery some_world = (r, w')" by fastforce
  from message_comes_to_rest [OF s redelivers_delivery_of r] have "r \<noteq> Crashed" by auto
  with s(1) r show ?thesis by blast
qed

theorem kafka_request_comes_to_rest_witness:
  "\<exists>s x k w'. InitMailer quiet_env smtp_settings = Inr s
    \<and> record_life 6 quiet_env (newKafkaTopics ''mail'') (Handle (\<lambda>e. e) (Deliver s)) (kr_Offset_update (\<lambda>_. 7))
        (record_at 0 ''k'') some_world = (x, k, w') \<and> x \<noteq> Crashed"
proof -
  obtain s where s: "InitMailer quiet_env smtp_settings = Inr s" using smtp_service_policy by blast
  obtain x k w' where run: "record_life 6 quiet_env (newKafkaTopics ''mail'') (Handle (\<lambda>e. e) (Deliver s))
      (kr_Offset_update (\<lambda>_. 7)) (record_at 0 ''k'') some_world = (x, k, w')" by (metis prod.collapse)
  from kafka_request_comes_to_rest [OF s kafka_redelivers_at run] have "x \<noteq> Crashed" by auto
  with s run show ?thesis by blast
qed

end
