(* ===== verification/Journey.thy ===== *)
theory Journey
  imports Lifetime ClientQueues
begin

text \<open>
  From end to end: what becomes of an email that an application hands to a queue sender of the client
  library, once the service takes it from the queue. The client (\<open>ClientQueues\<close>), the encoding and decoding of
  the message (\<open>Client\<close>, \<open>Consumer\<close>), the source with its retries (\<open>Lifetime\<close>) and the service meet here.
\<close>

section \<open>Emails\<close>

text \<open>An email is settled when the last calls to the provider and the callbacks are those of a delivery that sent
  it, or whose failure callback took the failure.\<close>

definition email_settled :: "'e service \<Rightarrow> SendEmailData \<Rightarrow> event list \<Rightarrow> bool" where
  "email_settled s d new \<longleftrightarrow>
     (\<exists>n u calls. trace (snd (Deliver s d n u)) = trace u @ calls
        \<and> (fst (send s d u) = None \<or> failure_answer s d u = Some True)
        \<and> suffix calls (filter transport_event new))"

lemma ended_settled:
  assumes "ended_by te s body new" "Unmarshal te decode_email zero_email body = Inr d"
  shows "email_settled s d new"
  using assms unfolding ended_by_def finished_def email_settled_def by fastforce

text \<open>What the service reads from the message of an email.\<close>

lemma client_message_read:
  assumes "utf8_json (wire_json (wire_email e))" "callback_maps (cl_Callback e)"
  shows "Unmarshal te decode_email zero_email (MarshalJSON e) = Inr (received (wire_email e))"
  using read_message(1) [OF assms(1)] assms(2) by (simp add: MarshalJSON_def wire_email_def)

section \<open>Properties\<close>

text \<open>C5: An email whose texts are valid UTF-8 (and whose callbacks name no header twice) and that the RabbitMQ client
  reports as sent is dealt with by every service the program builds (with a retry cap of at most 2^62 ns): under
  its id, or a new one if it has none, the broker holds one confirmed message for it, and whoever delivers
  that message to the service, and goes on with what the source sends back or leaves in a retry queue, has after as
  many deliveries as the policy has attempts, and one more for each refusal of the broker, either the email
  sent or its failure taken by its callback, or a confirmed copy of the message in the dead-letter queue, under the
  same id. The email is the one given, its addresses split at their commas (\<open>built_from\<close>).\<close>

theorem rabbit_email_comes_to_rest:
  assumes "Rabbit_Send Ec c e v = (None, c', v')"
    and "utf8_json (wire_json (wire_email e))" "callback_maps (cl_Callback e)"
    and "InitMailer E g = Inr s" "MaxDelay (policy s) \<le> 2 ^ 62" "redelivers redeliver" "q = rsc_Queue (rs_cfg c)"
  shows "\<exists>i d evs p x. sent_id e i \<and> built_from (e\<lparr>cl_ID := i\<rparr>) d \<and> trace v' = trace v @ evs
    \<and> filter handover evs = [AmqpCall (AmqpPublish q p) (Inr x), AmqpCall AmqpWaitConfirm (Inr True)]
    \<and> pub_MessageId p = i \<and> Unmarshal te decode_email zero_email (pub_Body p) = Inr d
    \<and> (\<forall>n tag w r w'.
         life n E (newTopology q (Delays (policy s))) (Handle te (Deliver s)) redeliver (delivery_of tag p) w = (r, w') \<longrightarrow>
         (\<exists>new. trace w' = trace w @ new
            \<and> (nat (MaxAttempts (policy s)) + length (requeued new) \<le> n \<longrightarrow>
                 r = AtRest \<and> email_settled s d new
               \<or> (\<exists>dead. r = DeadLettered dead \<and> pub_Body dead = pub_Body p \<and> pub_MessageId dead = i
                    \<and> (q @ ''.dlq'', dead) \<in> set (vouched None new)))))"
proof -
  have valid: "Validate e = None" using rabbit_sender.sent_valid [OF assms(1)] .
  obtain i evs where i: "sent_id e i" and sent: "trace v' = trace v @ evs" "rabbit_handed c (e\<lparr>cl_ID := i\<rparr>) evs"
    using rabbit_sender.sent_iff_handed [OF valid assms(1)] by auto
  let ?e = "e\<lparr>cl_ID := i\<rparr>"
  obtain t x where handed: "filter handover evs = [AmqpCall (AmqpPublish q (email_publishing i (MarshalJSON ?e) t)) (Inr x),
       AmqpCall AmqpWaitConfirm (Inr True)]"
    using sent(2) assms(7) by (auto simp: rabbit_handed_def)
  let ?p = "email_publishing i (MarshalJSON ?e) t"
  have read: "Unmarshal te decode_email zero_email (MarshalJSON ?e) = Inr (received (wire_email ?e))"
    using client_message_read [OF utf8_with_id [OF assms(2) i]] assms(3) by simp
  have p: "msg_Body (delivery_of tag ?p) = MarshalJSON ?e" "msg_MessageId (delivery_of tag ?p) = i"
    "attemptOf (msg_Headers (delivery_of tag ?p)) = 1" for tag
    by (simp_all add: delivery_of_def email_publishing_def attemptOf_def)
  have "\<exists>new. trace w' = trace w @ new
      \<and> (nat (MaxAttempts (policy s)) + length (requeued new) \<le> n \<longrightarrow>
           r = AtRest \<and> email_settled s (received (wire_email ?e)) new
         \<or> (\<exists>dead. r = DeadLettered dead \<and> pub_Body dead = MarshalJSON ?e \<and> pub_MessageId dead = i
              \<and> (q @ ''.dlq'', dead) \<in> set (vouched None new)))"
    if life: "life n E (newTopology q (Delays (policy s))) (Handle te (Deliver s)) redeliver (delivery_of tag ?p) w = (r, w')"
    for n tag w r w'
  proof -
    obtain new where "trace w' = trace w @ new" "rabbit_leads te s q (delivery_of tag ?p) n r new"
      using rabbit_led_to [OF assms(4-6) life] by blast
    then show ?thesis
      using p InitMailer_attempts(2) [OF assms(4)] ended_settled [OF _ read]
      by (intro exI [of _ new]) (auto simp: rabbit_leads_def attempts_left_def split: rest.splits)
  qed
  moreover have "pub_Body ?p = MarshalJSON ?e" "pub_MessageId ?p = i" by (simp_all add: email_publishing_def)
  ultimately show ?thesis
    using i sent(1) handed read received_built [of ?e]
    by (intro exI [of _ i] exI [of _ "received (wire_email ?e)"] exI [of _ evs] exI [of _ ?p] exI [of _ x]) simp
qed

text \<open>C6: An email whose texts are valid UTF-8 (and whose callbacks name no header twice) and that the Kafka client
  reports as sent is dealt with by every service the program builds: under its id, or
  a new one if it has none, the broker has taken one record for it, and whoever delivers that record to
  the service, and goes on with what the source leaves uncommitted or produces to the retry topic, has after as
  many deliveries as the policy has attempts, and one more for each time it was left uncommitted, either the
  email sent or its failure taken by its callback, or the broker has taken a copy of the record in the
  dead-letter topic. The email is the one given, its addresses split at their commas (\<open>built_from\<close>).\<close>

theorem kafka_email_comes_to_rest:
  assumes "Kafka_Send Ec c e v = (None, v')"
    and "utf8_json (wire_json (wire_email e))" "callback_maps (cl_Callback e)"
    and "InitMailer E g = Inr s" "kafka_redelivers redeliver" "topic = kse_topic c"
  shows "\<exists>i d m. sent_id e i \<and> built_from (e\<lparr>cl_ID := i\<rparr>) d \<and> trace v' = trace v @ [KafkaCall (KafkaProduce m) None]
    \<and> kr_Topic m = topic \<and> kr_Key m = i \<and> Unmarshal te decode_email zero_email (kr_Value m) = Inr d
    \<and> (\<forall>n w r k w'.
         record_life n E (newKafkaTopics topic) (Handle te (Deliver s)) redeliver (redeliver m) w = (r, k, w') \<longrightarrow>
         (\<exists>new. trace w' = trace w @ new
            \<and> (nat (MaxAttempts (policy s)) + k \<le> n \<longrightarrow>
                 r = AtRest \<and> email_settled s d new
               \<or> (\<exists>dead. r = DeadLettered dead \<and> kr_Value dead = kr_Value m \<and> kr_Key dead = i
                    \<and> kr_Topic dead = topic @ ''.dlq'' \<and> dead \<in> set (produced new)))))"
proof -
  have send: "Kafka_Send_state Ec c e v = (None, c, v')" using assms(1) by (simp add: Kafka_Send_state_def)
  obtain i where i: "sent_id e i" and sent: "trace v' = trace v @ [KafkaCall (KafkaProduce (email_record topic (e\<lparr>cl_ID := i\<rparr>))) None]"
    using kafka_sender.sent_iff_handed [OF kafka_sender.sent_valid [OF send] send] assms(6) by (auto simp: kafka_handed_def)
  let ?e = "e\<lparr>cl_ID := i\<rparr>" and ?m = "email_record topic (e\<lparr>cl_ID := i\<rparr>)"
  have read: "Unmarshal te decode_email zero_email (MarshalJSON ?e) = Inr (received (wire_email ?e))"
    using client_message_read [OF utf8_with_id [OF assms(2) i]] assms(3) by simp
  have m: "kr_Value (redeliver ?m) = MarshalJSON ?e" "kr_Key (redeliver ?m) = i" "kafkaAttempt (kr_Headers (redeliver ?m)) = 1"
    using assms(5) by (simp_all add: kafka_redelivers_def email_record_def kafkaAttempt_def Atoi_Nil)
  have "\<exists>new. trace w' = trace w @ new
      \<and> (nat (MaxAttempts (policy s)) + k \<le> n \<longrightarrow>
           r = AtRest \<and> email_settled s (received (wire_email ?e)) new
         \<or> (\<exists>dead. r = DeadLettered dead \<and> kr_Value dead = MarshalJSON ?e \<and> kr_Key dead = i
              \<and> kr_Topic dead = topic @ ''.dlq'' \<and> dead \<in> set (produced new)))"
    if life: "record_life n E (newKafkaTopics topic) (Handle te (Deliver s)) redeliver (redeliver ?m) w = (r, k, w')"
    for n w r k w'
  proof -
    obtain new where "trace w' = trace w @ new" "kafka_leads te s topic (redeliver ?m) n r k new"
      using kafka_led_to [OF assms(4,5) life] by blast
    then show ?thesis
      using m InitMailer_attempts(2) [OF assms(4)] ended_settled [OF _ read]
      by (intro exI [of _ new]) (auto simp: kafka_leads_def attempts_left_def split: rest.splits)
  qed
  moreover have "kr_Topic ?m = topic" "kr_Key ?m = i" "kr_Value ?m = MarshalJSON ?e" by (simp_all add: email_record_def)
  ultimately show ?thesis
    using i sent read received_built [of ?e]
    by (intro exI [of _ i] exI [of _ "received (wire_email ?e)"] exI [of _ ?m]) simp
qed

section \<open>Witnesses\<close>

lemma some_email_ready:
  "utf8_json (wire_json (wire_email some_client_email))" "callback_maps (cl_Callback some_client_email)"
proof -
  show "utf8_json (wire_json (wire_email some_client_email))" by code_simp
  show "callback_maps (cl_Callback some_client_email)" by (simp add: callback_maps_def some_client_email_def)
qed

text \<open>A broker that confirms every publish never gets a message back.\<close>

lemma confirming_move:
  assumes "confirming E"
  shows "\<exists>evs. trace (moveTo E q m hs w) = trace w @ evs \<and> requeued evs = []"
proof -
  obtain w1 where w1: "call_amqp E (AmqpPublish q (publishing m hs)) w = (Inr True, w1)"
      "trace w1 = trace w @ [AmqpCall (AmqpPublish q (publishing m hs)) (Inr True)]"
    by (rule confirming_call [OF assms])
  obtain w2 where w2: "call_amqp E AmqpWaitConfirm w1 = (Inr True, w2)" "trace w2 = trace w1 @ [AmqpCall AmqpWaitConfirm (Inr True)]"
    by (rule confirming_call [OF assms])
  show ?thesis using w1 w2
    by (simp add: moveTo_def publishConfirmed_def ack_def call_amqp_trace requeued_def)
qed

lemma confirming_keeps:
  assumes "confirming E" "delivery_fate E t (Handle te (Deliver s)) redeliver m w = Some (Again, w')" "InitMailer E' g = Inr s"
  shows False
proof -
  have q: "quiet_handler (Handle te (Deliver s)) (policy s)" by (rule InitMailer_quiet [OF assms(3)])
  obtain out w1 where h: "Handle te (Deliver s) (msg_Body m) (attemptOf (msg_Headers m)) w = (out, w1)" by fastforce
  obtain calls where calls: "trace w1 = trace w @ calls" "list_all transport_event calls"
    by (rule quiet_handler.handler_calls [OF q h])
  have app: "apply_outcome E t m (attemptOf (msg_Headers m)) out w1 = Some w'"
    using assms(2) h by (auto simp: delivery_fate_def process_delivery_def Let_def split: option.splits)
  obtain evs where evs: "trace w' = trace w1 @ evs" "requeued evs = []"
  proof (cases "out_Action out")
    case ActionDone
    then show thesis using app that by (auto simp: apply_outcome_def ack_def call_amqp_trace requeued_def)
  next
    case ActionRetry
    then obtain q hs where "w' = moveTo E q m hs w1"
      using app by (auto simp: apply_outcome_def split: option.splits)
    then show thesis using that confirming_move [OF assms(1), of q m hs w1] by auto
  next
    case ActionDeadLetter
    obtain ts w2 where clock: "call_clock E w1 = (ts, w2)" by fastforce
    then obtain q hs where "w' = moveTo E q m hs w2"
      using app ActionDeadLetter by (auto simp: apply_outcome_def)
    then show thesis using that confirming_move [OF assms(1), of q m hs w2] call_trace(6) [OF clock] by auto
  qed
  have "requeued (calls @ evs) = []" using transport_events [OF calls(2)] evs(2) by (simp add: acked_append)
  then show False
    using assms(2) calls(1) evs(1) h app
    by (auto simp: delivery_fate_def process_delivery_def Let_def split: list.splits if_splits)
qed

theorem rabbit_email_comes_to_rest_witness:
  "\<exists>s p r w'. InitMailer quiet_env smtp_settings = Inr s
    \<and> life 5 quiet_env (newTopology ''q'' (Delays (policy s))) (Handle (\<lambda>t. t) (Deliver s)) (delivery_of 9)
         (delivery_of 1 p) some_world = (r, w') \<and> (r = AtRest \<or> (\<exists>d. r = DeadLettered d))"
proof -
  obtain s where s: "InitMailer quiet_env smtp_settings = Inr s" "MaxDelay (policy s) \<le> 2 ^ 62" "MaxAttempts (policy s) = 5"
    using smtp_service_policy by (auto simp: DefaultRetryPolicy_def)
  obtain c' v' where send: "Rabbit_Send quiet_env some_rabbit_sender some_client_email some_world = (None, c', v')"
    using some_send by blast
  have q: "''q'' = rsc_Queue (rs_cfg some_rabbit_sender)" by (simp add: some_rabbit_sender_def)
  from rabbit_email_comes_to_rest [OF send some_email_ready s(1,2) redelivers_delivery_of [of 9] q, of "\<lambda>t. t"]
  obtain d p where p: "\<forall>n tag w r w'. life n quiet_env (newTopology ''q'' (Delays (policy s))) (Handle (\<lambda>t. t) (Deliver s))
      (delivery_of 9) (delivery_of tag p) w = (r, w') \<longrightarrow>
      (\<exists>new. trace w' = trace w @ new \<and> (nat (MaxAttempts (policy s)) + length (requeued new) \<le> n \<longrightarrow>
         r = AtRest \<and> email_settled s d new \<or> (\<exists>dead. r = DeadLettered dead)))"
    by (elim exE conjE) (rule that, blast)
  obtain r k w' where run: "circulate 5 (delivery_fate quiet_env (newTopology ''q'' (Delays (policy s))) (Handle (\<lambda>t. t) (Deliver s))
      (delivery_of 9)) (delivery_of 1 p) some_world = (r, k, w')" by (metis prod.collapse)
  have "k = 0" by (rule circulate_never_again [OF _ run]) (use confirming_keeps [OF quiet_confirming _ s(1)] in blast)
  note counted = quiet_handler.rabbit_circulation [OF InitMailer_quiet [OF s(1)] InitMailer_policy [OF s(1,2)]
      InitMailer_attempts(1) [OF s(1)] redelivers_delivery_of [of 9]]
  have life: "life 5 quiet_env (newTopology ''q'' (Delays (policy s))) (Handle (\<lambda>t. t) (Deliver s)) (delivery_of 9)
      (delivery_of 1 p) some_world = (r, w')"
    using run by (simp add: life_def)
  obtain new where new: "trace w' = trace some_world @ new"
    "nat 5 + length (requeued new) \<le> 5 \<longrightarrow> r = AtRest \<or> (\<exists>d. r = DeadLettered d)"
    using p [rule_format, OF life] s(3) by auto
  have "length (requeued new) = 0"
    using counted_circulation.circulate_came_back [OF counted run new(1)] \<open>k = 0\<close> by simp
  with new(2) life s(1) show ?thesis by auto
qed

lemma some_kafka_send: "\<exists>v'. Kafka_Send quiet_env \<lparr>kse_topic = ''mail'', kse_timeout = Second\<rparr> some_client_email some_world = (None, v')"
proof -
  have "Validate some_client_email = None" "\<not> blank (cl_ID some_client_email)" by code_simp+
  then show ?thesis by (simp add: Kafka_Send_def Prepare_def call_kafka_def quiet_env_def)
qed

lemma quiet_resolves: "\<exists>w'. processBatch quiet_env ts h waitDue [r] w = ([r], w')"
proof -
  obtain w1 where due: "(if waitDue then waitUntilDue quiet_env (kafkaNotBefore (kr_Headers r)) w else (True, w)) = (True, w1)"
    by (cases waitDue; cases "sat64 (kafkaNotBefore (kr_Headers r)) \<le> 0") (auto simp: waitUntilDue_def Let_def quiet_calls)
  obtain out w2 where h: "h (kr_Value r) (kafkaAttempt (kr_Headers r)) w1 = (out, w2)" by fastforce
  obtain w3 where "kafka_apply quiet_env ts r (kafkaAttempt (kr_Headers r)) out w2 = (None, w3)"
    by (cases "out_Action out") (simp_all add: kafka_apply_def kafka_copy_def quiet_calls quiet_kafka)
  with due h show ?thesis by simp
qed

theorem kafka_email_comes_to_rest_witness:
  "\<exists>s m r w'. InitMailer quiet_env smtp_settings = Inr s
    \<and> record_life 5 quiet_env (newKafkaTopics ''mail'') (Handle (\<lambda>t. t) (Deliver s)) (kr_Offset_update (\<lambda>_. 7))
         m some_world = (r, 0, w') \<and> (r = AtRest \<or> (\<exists>d. r = DeadLettered d))"
proof -
  obtain s where s: "InitMailer quiet_env smtp_settings = Inr s" "MaxAttempts (policy s) = 5"
    using smtp_service_policy by (auto simp: DefaultRetryPolicy_def)
  obtain v' where send: "Kafka_Send quiet_env \<lparr>kse_topic = ''mail'', kse_timeout = Second\<rparr> some_client_email some_world = (None, v')"
    using some_kafka_send by blast
  from kafka_email_comes_to_rest [OF send some_email_ready s(1) kafka_redelivers_at [of 7] refl, of "\<lambda>t. t"]
  obtain d m where m: "\<forall>n w r k w'. record_life n quiet_env (newKafkaTopics ''mail'') (Handle (\<lambda>t. t) (Deliver s))
      (kr_Offset_update (\<lambda>_. 7)) (kr_Offset_update (\<lambda>_. 7) m) w = (r, k, w') \<longrightarrow>
      (\<exists>new. trace w' = trace w @ new \<and> (nat (MaxAttempts (policy s)) + k \<le> n \<longrightarrow>
         r = AtRest \<and> email_settled s d new \<or> (\<exists>dead. r = DeadLettered dead)))"
    unfolding KafkaSender.select_convs by (elim exE conjE) (rule that, blast)
  obtain r k w' where run: "record_life 5 quiet_env (newKafkaTopics ''mail'') (Handle (\<lambda>t. t) (Deliver s))
      (kr_Offset_update (\<lambda>_. 7)) (kr_Offset_update (\<lambda>_. 7) m) some_world = (r, k, w')" by (metis prod.collapse)
  have "record_fate quiet_env (newKafkaTopics ''mail'') (Handle (\<lambda>t. t) (Deliver s)) (kr_Offset_update (\<lambda>_. 7)) r' u
      \<noteq> Some (Again, u')" for r' u u'
    using quiet_resolves [of "newKafkaTopics ''mail''" "Handle (\<lambda>t. t) (Deliver s)" "kr_Topic r' = kt_retry (newKafkaTopics ''mail'')" r' u]
    by (auto simp: record_fate_def Let_def simp del: processBatch.simps split: list.splits if_splits)
  then have "k = 0" by (rule circulate_never_again [OF _ run [unfolded record_life_def]])
  with m [rule_format, OF run] run s show ?thesis by auto
qed

end
