(* ===== verification/Console.thy ===== *)
theory Console
  imports ClientQueues Kafka
begin

text \<open>
  The development console's side of a message: \<open>.dev/console/internal/message\<close> (the form and the email it
  builds), \<open>internal/queue\<close> (its publishers), and how \<open>internal/monitor\<close> reads a dead letter of Kafka. The
  console builds the messages of the service independently of the client library.
\<close>

section \<open>Form and email\<close>

record console_file =
  file_Name :: string
  file_Type :: string
  file_Content :: string

record console_form =
  fm_Channel :: string
  fm_ID :: string
  fm_From :: string
  fm_To :: string
  fm_Cc :: string
  fm_Bcc :: string
  fm_Subject :: string
  fm_HTML :: string
  fm_Format :: string
  fm_Files :: "console_file list"
  fm_InvalidBody :: bool
  fm_SuccessCallbackEnabled :: bool
  fm_SuccessCallbackURL :: string
  fm_FailureCallbackEnabled :: bool
  fm_FailureCallbackURL :: string
  fm_CallbackAuthorization :: string

text \<open>The values the \<open>any\<close> of \<open>Receiver\<close>, \<open>Cc\<close> and \<open>Bcc\<close> takes. Attachments have the members of those of
  the client library.\<close>

datatype recipients_value = NoRecipients | RecipientList "string list" | RecipientText string

record ConsoleEmail =
  co_ID :: string
  co_From :: string
  co_Receiver :: recipients_value
  co_Cc :: recipients_value
  co_Bcc :: recipients_value
  co_Subject :: string
  co_Body :: string
  co_Attachments :: "wireAttachment list"
  co_Callback :: "Callback option"

section \<open>Building\<close>

definition invalidBody :: string where
  "invalidBody = ''not-valid-base64!!!''"

text \<open>\<open>addressSeparator.Split(list, -1)\<close>: the pieces between the runs of separators.\<close>

definition is_separator :: "char \<Rightarrow> bool" where
  "is_separator c \<longleftrightarrow> c \<in> {CHR '','', CHR '';'', CHR 0x0A}"

function separator_split :: "string \<Rightarrow> string list" where
  "separator_split s =
     (let rest = dropWhile (\<lambda>c. \<not> is_separator c) s
      in takeWhile (\<lambda>c. \<not> is_separator c) s # (if rest = [] then [] else separator_split (dropWhile is_separator rest)))"
  by pat_completeness auto
termination
proof (relation "measure length")
  fix s rest :: string
  assume rest: "rest = dropWhile (\<lambda>c. \<not> is_separator c) s" "rest \<noteq> []"
  from rest(2) obtain c cs where c: "rest = c # cs" by (meson list.exhaust)
  then have "is_separator c" using rest hd_dropWhile [of "\<lambda>c. \<not> is_separator c" s] by (metis list.sel(1))
  then have "length (dropWhile is_separator rest) \<le> length cs" using c by (simp add: length_dropWhile_le)
  moreover have "length rest \<le> length s" using rest(1) by (simp add: length_dropWhile_le)
  ultimately show "(dropWhile is_separator rest, s) \<in> measure length" using c by simp
qed simp

declare separator_split.simps [simp del]

definition SplitAddresses :: "string \<Rightarrow> string list" where
  "SplitAddresses l = filter (\<lambda>a. a \<noteq> []) (map TrimSpace (separator_split l))"

definition console_validate :: "console_form \<Rightarrow> goerr option" where
  "console_validate form =
     (if TrimSpace (fm_From form) = [] then Some (Plain ''sender (from) is required'')
      else if SplitAddresses (fm_To form) = [] then Some (Plain ''at least one recipient (to) is required'')
      else if TrimSpace (fm_Subject form) = [] then Some (Plain ''subject is required'')
      else if \<not> fm_InvalidBody form \<and> TrimSpace (fm_HTML form) = [] then Some (Plain ''HTML body is required'')
      else if fm_SuccessCallbackEnabled form \<and> TrimSpace (fm_SuccessCallbackURL form) = []
      then Some (Plain ''success callback URL is required'')
      else if fm_FailureCallbackEnabled form \<and> TrimSpace (fm_FailureCallbackURL form) = []
      then Some (Plain ''failure callback URL is required'')
      else None)"

definition encodeRecipients :: "string list \<Rightarrow> string \<Rightarrow> recipients_value" where
  "encodeRecipients addresses format =
     (if addresses = [] then NoRecipients
      else if format = ''string'' then RecipientText (Join addresses '', '')
      else RecipientList addresses)"

definition encodeBody :: "console_form \<Rightarrow> string" where
  "encodeBody form = (if fm_InvalidBody form then invalidBody else EncodeToString (fm_HTML form))"

definition encodeFiles :: "console_file list \<Rightarrow> wireAttachment list" where
  "encodeFiles files =
     map (\<lambda>f. \<lparr>wa_Name = file_Name f, wa_Type = contentType (file_Type f), wa_Data = EncodeToString (file_Content f),
       wa_Decoder = ''base64''\<rparr>) files"

definition buildTarget :: "bool \<Rightarrow> string \<Rightarrow> string \<Rightarrow> CallbackTarget option" where
  "buildTarget enabled url authorization =
     (if \<not> enabled then None
      else
        (let auth = TrimSpace authorization
         in Some \<lparr>target_URL = TrimSpace url,
              target_Headers = (if auth \<noteq> [] then [(''Authorization'', auth)] else [])\<rparr>))"

definition buildCallback :: "console_form \<Rightarrow> Callback option" where
  "buildCallback form =
     (let callback =
            \<lparr>Success = buildTarget (fm_SuccessCallbackEnabled form) (fm_SuccessCallbackURL form) (fm_CallbackAuthorization form),
             Failure = buildTarget (fm_FailureCallbackEnabled form) (fm_FailureCallbackURL form) (fm_CallbackAuthorization form)\<rparr>
      in if Success callback = None \<and> Failure callback = None then None else Some callback)"

definition Build :: "console_form \<Rightarrow> ('w \<Rightarrow> string \<times> 'w) \<Rightarrow> 'w \<Rightarrow> (goerr + ConsoleEmail) \<times> 'w" where
  "Build form newID w =
     (case console_validate form of
        Some err \<Rightarrow> (Inl err, w)
      | None \<Rightarrow>
          (let email =
                 \<lparr>co_ID = TrimSpace (fm_ID form), co_From = TrimSpace (fm_From form),
                  co_Receiver = encodeRecipients (SplitAddresses (fm_To form)) (fm_Format form),
                  co_Cc = encodeRecipients (SplitAddresses (fm_Cc form)) (fm_Format form),
                  co_Bcc = encodeRecipients (SplitAddresses (fm_Bcc form)) (fm_Format form),
                  co_Subject = TrimSpace (fm_Subject form), co_Body = encodeBody form,
                  co_Attachments = encodeFiles (fm_Files form), co_Callback = buildCallback form\<rparr>
           in if co_ID email = [] then (let (i, w1) = newID w in (Inr (email\<lparr>co_ID := i\<rparr>), w1))
              else (Inr email, w)))"

section \<open>The message\<close>

fun recipients_json :: "recipients_value \<Rightarrow> json" where
  "recipients_json NoRecipients = JNull"
| "recipients_json (RecipientList rs) = JArr (map JStr rs)"
| "recipients_json (RecipientText s) = JStr s"

definition omitempty_any :: "string \<Rightarrow> recipients_value \<Rightarrow> (string \<times> json) list" where
  "omitempty_any key v = (if v = NoRecipients then [] else [(key, recipients_json v)])"

definition console_json :: "ConsoleEmail \<Rightarrow> json" where
  "console_json e =
     JObj (omitempty ''id'' (co_ID e) @ [(''from'', JStr (co_From e)), (''receiver'', recipients_json (co_Receiver e))]
       @ omitempty_any ''cc'' (co_Cc e) @ omitempty_any ''bcc'' (co_Bcc e)
       @ [(''subject'', JStr (co_Subject e)), (''body'', JStr (co_Body e))]
       @ omitempty_array ''attachments'' (map wire_attachment_json (co_Attachments e))
       @ omitempty_member ''callback'' (map_option callback_json (co_Callback e)))"

section \<open>Publishers\<close>

record console_publisher =
  cp_url :: string
  cp_queue :: string

definition NewPublisher :: "string \<Rightarrow> string \<Rightarrow> console_publisher" where
  "NewPublisher url queue = \<lparr>cp_url = url, cp_queue = queue\<rparr>"

text \<open>\<open>Publish\<close> over a connection of its own; the channel and the connection are closed in the end.\<close>

definition publish_declared :: "'e env \<Rightarrow> string \<Rightarrow> ConsoleEmail \<Rightarrow> 'e world \<Rightarrow> goerr option \<times> 'e world" where
  "publish_declared E queue e w =
     (case call_amqp E (AmqpQueueDeclare queue True []) w of
        (Inl err, w1) \<Rightarrow> (Some (Wrapped (''declare queue '' @ queue @ '': '') err), w1)
      | (Inr _, w1) \<Rightarrow>
          (let (t, w2) = call_clock E w1;
               (r, w3) = call_amqp E (AmqpPublish queue (email_publishing (co_ID e) (json_text (console_json e)) t)) w2
           in (amqp_error r, w3)))"

definition withChannel ::
  "'e env \<Rightarrow> console_publisher \<Rightarrow> ('e world \<Rightarrow> goerr option \<times> 'e world) \<Rightarrow> 'e world \<Rightarrow> goerr option \<times> 'e world"
where
  "withChannel E p fn w =
     (case call_amqp E (AmqpDial (cp_url p)) w of
        (Inl err, w1) \<Rightarrow> (Some (Wrapped ''connect to RabbitMQ: '' err), w1)
      | (Inr _, w1) \<Rightarrow>
          (case call_amqp E AmqpChannel w1 of
             (Inl err, w2) \<Rightarrow> (Some (Wrapped ''open channel: '' err), snd (call_amqp E AmqpCloseConn w2))
           | (Inr _, w2) \<Rightarrow>
               (let (r, w3) = fn w2
                in (r, snd (call_amqp E AmqpCloseConn (snd (call_amqp E AmqpCloseChannel w3)))))))"

definition Publisher_Publish ::
  "'e env \<Rightarrow> console_publisher \<Rightarrow> ConsoleEmail \<Rightarrow> 'e world \<Rightarrow> goerr option \<times> 'e world"
where
  "Publisher_Publish E p e w = withChannel E p (publish_declared E (cp_queue p) e) w"

definition NewKafkaPublisher :: "'e env \<Rightarrow> string list \<Rightarrow> string \<Rightarrow> 'e world \<Rightarrow> (goerr + string) \<times> 'e world" where
  "NewKafkaPublisher E brokers topic w =
     (case call_kafka E (KafkaNewClient [SeedBrokers brokers]) w of
        (Some err, w1) \<Rightarrow> (Inl (Wrapped ''create kafka producer: '' err), w1)
      | (None, w1) \<Rightarrow> (Inr topic, w1))"

definition KafkaPublisher_Publish :: "'e env \<Rightarrow> string \<Rightarrow> ConsoleEmail \<Rightarrow> 'e world \<Rightarrow> goerr option \<times> 'e world" where
  "KafkaPublisher_Publish E topic e w =
     (case call_kafka E (KafkaProduce \<lparr>kr_Topic = topic, kr_Partition = 0, kr_Offset = 0, kr_Key = co_ID e,
             kr_Value = json_text (console_json e), kr_Headers = []\<rparr>) w of
        (Some err, w1) \<Rightarrow> (Some (Wrapped ''produce to kafka: '' err), w1)
      | (None, w1) \<Rightarrow> (None, w1))"

section \<open>Dead letters of Kafka (internal/monitor/kafka.go)\<close>

record DeadLetter =
  dl_Source :: string
  dl_MessageID :: string
  dl_Attempt :: int
  dl_ErrorCode :: string
  dl_Cause :: string
  dl_FailedAt :: int
  dl_Payload :: string

text \<open>The number that \<open>strconv.Atoi\<close> returns, with or without an error: 0 for a text that is not a number,
  the nearest value for one that is out of range.\<close>

definition Atoi_value :: "string \<Rightarrow> int" where
  "Atoi_value s =
     (let neg = prefix ''-'' s; ds = (if neg \<or> prefix ''+'' s then tl s else s);
          v = (if neg then - int (digits_value ds) else int (digits_value ds))
      in if ds = [] \<or> \<not> list_all is_digit ds then 0 else max (- (2 ^ 63)) (min v (2 ^ 63 - 1)))"

text \<open>The headers as a map, in which the last of two equal keys wins, and a missing key is empty.\<close>

definition header_value :: "(string \<times> string) list \<Rightarrow> string \<Rightarrow> string" where
  "header_value hs key = (case map_of (rev hs) key of None \<Rightarrow> [] | Some v \<Rightarrow> v)"

text \<open>\<open>parse\<close> is \<open>time.Parse(time.RFC3339, _)\<close>.\<close>

definition deadLetterFromRecord :: "(string \<Rightarrow> int option) \<Rightarrow> kafka_record \<Rightarrow> DeadLetter" where
  "deadLetterFromRecord parse r =
     (let h = header_value (kr_Headers r)
      in \<lparr>dl_Source = ''kafka'', dl_MessageID = kr_Key r, dl_Attempt = Atoi_value (h ''x-attempt''),
          dl_ErrorCode = h ''x-error-code'', dl_Cause = h ''x-error-cause'',
          dl_FailedAt = (case parse (h ''x-failed-at'') of None \<Rightarrow> ZeroTime | Some t \<Rightarrow> t),
          dl_Payload = kr_Value r\<rparr>)"

section \<open>Reading a console message\<close>

fun recipients_read :: "recipients_value \<Rightarrow> string list" where
  "recipients_read NoRecipients = []"
| "recipients_read (RecipientList rs) = concat (map ParseRecipients rs)"
| "recipients_read (RecipientText s) = ParseRecipients s"

lemma decode_recipients: "UnmarshalJSON [] (recipients_json v) = (None, recipients_read v)"
  by (cases v) (simp_all add: UnmarshalJSON_array UnmarshalJSON_string, simp add: UnmarshalJSON_def)

definition console_received :: "ConsoleEmail \<Rightarrow> SendEmailData" where
  "console_received e =
     \<lparr>email_ID = co_ID e,
      email_Attachments = (if co_Attachments e = [] then None else Some (map wire_to_attachment (co_Attachments e))),
      email_Body = co_Body e, email_From = co_From e, email_FromName = [],
      email_Receiver = recipients_read (co_Receiver e), email_Subject = co_Subject e,
      email_Cc = recipients_read (co_Cc e), email_Bcc = recipients_read (co_Bcc e),
      email_Callback = map_option sorted_callback (co_Callback e)\<rparr>"

lemma decode_any_member:
  assumes "find_field fs key = Some (inner_field get upd UnmarshalJSON)" "get x = []" "upd [] x = x"
  shows "decode_members fs x (omitempty_any key v) = (None, upd (recipients_read v) x)"
  using assms decode_recipients [of v] by (cases "v = NoRecipients") (simp_all add: omitempty_any_def inner_field_def)

lemma decode_console:
  assumes "callback_maps (co_Callback e)"
  shows "decode_email zero_email (console_json e) = (None, console_received e)"
proof -
  note skip_text = decode_members_then [OF decode_text_member]
    and skip_any = decode_members_then [OF decode_any_member]
  have *: "decode_members email_fields d ((''receiver'', recipients_json v) # ms) =
      decode_members email_fields (d\<lparr>email_Receiver := recipients_read v\<rparr>) ms"
    if "email_Receiver d = []" for d v ms
    using that decode_recipients [of v] by (simp add: email_field_lookup inner_field_def split: prod.split)
  have str_member: "decode_members email_fields d ((k, JStr s) # ms) = decode_members email_fields (upd s d) ms"
    if "find_field email_fields k = Some (string_field upd)" for d k s ms upd
    using that by (simp add: string_field_def split: prod.split)
  show ?thesis
    unfolding decode_email_def console_json_def decode_object console_received_def
    by (simp add: skip_text [OF email_field_lookup(1)] skip_any [OF email_field_lookup(8)] skip_any [OF email_field_lookup(9)]
        decode_members_then [OF decode_attachments_member] decode_callback_member * str_member [OF email_field_lookup(4)]
        str_member [OF email_field_lookup(7)] str_member [OF email_field_lookup(3)] zero_email_def assms
        del: decode_members.simps(2))
qed

lemma console_shape: "numberless (console_json e)" "depth (console_json e) \<le> 4" "container (console_json e)"
proof -
  obtain ms where ms: "console_json e = JObj ms" by (simp add: console_json_def)
  have texts: "depth (JArr (map JStr rs)) \<le> Suc 0" for rs by (rule depth_array) auto
  have any: "numberless (recipients_json v) \<and> depth (recipients_json v) \<le> 1" for v
  proof (cases v)
    case (RecipientList rs)
    then show ?thesis using texts [of rs] by (auto simp del: depth.simps)
  qed simp_all
  have attachments: "numberless (JArr (map wire_attachment_json as)) \<and> depth (JArr (map wire_attachment_json as)) \<le> 2" for as
  proof -
    have "depth (JArr (map wire_attachment_json as)) \<le> Suc 1" by (rule depth_array) (auto simp: wire_attachment_shape)
    then show ?thesis by (auto simp: wire_attachment_shape numeral_2_eq_2 simp del: depth.simps)
  qed
  have member: "numberless v \<and> depth v \<le> 3" if "(k, v) \<in> set ms" for k v
  proof -
    have "(\<exists>s. v = JStr s) \<or> (\<exists>r. v = recipients_json r) \<or> (\<exists>as. v = JArr (map wire_attachment_json as))
        \<or> (\<exists>c. v = callback_json c)"
      using that unfolding ms [unfolded console_json_def json.inject, symmetric] set_append list.set
      by (elim UnE insertE emptyE) (auto simp: omitempty_any_def dest!: optional_members split: if_splits)
    then consider s where "v = JStr s" | r where "v = recipients_json r" | as where "v = JArr (map wire_attachment_json as)"
      | c where "v = callback_json c" by blast
    then show ?thesis
    proof cases
      case (2 r)
      then show ?thesis using any [of r] by simp
    next
      case (3 as)
      then show ?thesis using attachments [of as] by (simp del: depth.simps numberless.simps)
    next
      case (4 c)
      then show ?thesis using callback_shape [of c] by simp
    qed simp
  qed
  then show "numberless (console_json e)" "depth (console_json e) \<le> 4"
    using depth_object [of ms 3] ms by (auto simp del: depth.simps)
qed (simp add: console_json_def)

lemma read_console_message:
  assumes "utf8_json (console_json e)" "callback_maps (co_Callback e)"
  shows "Unmarshal te decode_email zero_email (json_text (console_json e)) = Inr (console_received e)"
proof -
  have "depth (console_json e) \<le> maxNestingDepth"
    using console_shape(2) [of e] by (simp add: maxNestingDepth_def)
  then show ?thesis
    using console_shape decode_console [OF assms(2)] assms(1)
    by (simp add: Unmarshal_json_text cleaned_utf8 decode_value_def)
qed

section \<open>Facts\<close>

lemma separator_split_parts: "p \<in> set (separator_split s) \<Longrightarrow> c \<in> set p \<Longrightarrow> \<not> is_separator c"
proof (induction s rule: separator_split.induct)
  case (1 s)
  show ?case
  proof (cases "p = takeWhile (\<lambda>c. \<not> is_separator c) s")
    case True
    then show ?thesis using 1 set_takeWhileD by fastforce
  next
    case False
    then show ?thesis using 1 separator_split.simps [of s] by (auto simp: Let_def split: if_splits)
  qed
qed

lemma SplitAddresses_clean: "list_all clean_address (SplitAddresses l)"
proof -
  have "clean_address (TrimSpace p)" if "p \<in> set (separator_split l)" "TrimSpace p \<noteq> []" for p
    using that separator_split_parts [OF that(1), of "CHR '',''"] TrimSpace_subset [of p]
    by (auto simp: clean_address_def is_separator_def)
  then show ?thesis by (auto simp: SplitAddresses_def list_all_iff)
qed

lemma encoded_recipients: "recipients_read (encodeRecipients (SplitAddresses l) fmt) = SplitAddresses l"
proof -
  have clean: "list_all clean_address (SplitAddresses l)" by (rule SplitAddresses_clean)
  then show ?thesis
    using ParseRecipients_clean_list [OF clean] ParseRecipients_String [OF clean]
    by (simp add: encodeRecipients_def Recipients_String_def)
qed

lemma built_callback: "callback_maps (buildCallback form)"
  by (auto simp: callback_maps_def buildCallback_def buildTarget_def header_map_def Let_def split: if_splits)

lemma sorted_built_callback: "map_option sorted_callback (buildCallback form) = buildCallback form"
  by (auto simp: buildCallback_def buildTarget_def sorted_callback_def sorted_target_def Let_def split: if_splits)

lemma invalidBody_rejected: "\<exists>k. DecodeString invalidBody = Inl k"
proof -
  have "case DecodeString invalidBody of Inl k \<Rightarrow> True | Inr s \<Rightarrow> False" by code_simp
  then show ?thesis by (auto split: sum.splits)
qed

definition console_contents :: "console_file list \<Rightarrow> attachmentContent list" where
  "console_contents files =
     map (\<lambda>f. \<lparr>content_Name = file_Name f, content_Type = contentType (file_Type f), content_Content = file_Content f\<rparr>) files"

lemma built_attachments:
  assumes "email_Attachments d = (if encodeFiles files = [] then None
    else Some (map wire_to_attachment (encodeFiles files)))"
  shows "decodeAttachments d = console_contents files"
proof -
  have "decode_each (map wire_to_attachment (encodeFiles fs)) = console_contents fs" for fs
    by (induction fs) (simp_all add: decodeAttachment_alt wire_to_attachment_def Base64_Decode_def encodeFiles_def
        console_contents_def)
  then show ?thesis using assms by (auto simp: decodeAttachments_def encodeFiles_def console_contents_def)
qed

section \<open>Properties\<close>

text \<open>C40: The console speaks the language of the service. Whatever the form, in either notation of the
  recipients, the message built from it, when its texts are valid UTF-8 (JSON would replace other bytes), is read by
  the service, and carries the addresses that were typed, the document (or, in the exercise of a failure, a body
  the service rejects as not base64), the files and the callbacks; the service accepts the email as complete.\<close>

theorem console_email_received:
  assumes "Build form newID w = (Inr e, w')" "utf8_json (console_json e)"
  shows "\<exists>d. Unmarshal te decode_email zero_email (json_text (console_json e)) = Inr d
    \<and> email_Receiver d = SplitAddresses (fm_To form) \<and> email_Cc d = SplitAddresses (fm_Cc form)
    \<and> email_Bcc d = SplitAddresses (fm_Bcc form)
    \<and> email_From d = TrimSpace (fm_From form) \<and> email_Subject d = TrimSpace (fm_Subject form) \<and> email_ID d = co_ID e
    \<and> decodeAttachments d = console_contents (fm_Files form) \<and> email_Callback d = buildCallback form
    \<and> (if fm_InvalidBody form then \<exists>k. DecodeString (email_Body d) = Inl k
       else DecodeString (email_Body d) = Inr (fm_HTML form) \<and> validateEmail (d\<lparr>email_Body := fm_HTML form\<rparr>) = None)"
proof -
  have valid: "console_validate form = None" using assms(1) by (auto simp: Build_def split: option.splits)
  have e: "co_From e = TrimSpace (fm_From form)" "co_Subject e = TrimSpace (fm_Subject form)" "co_Body e = encodeBody form"
    "co_Receiver e = encodeRecipients (SplitAddresses (fm_To form)) (fm_Format form)"
    "co_Cc e = encodeRecipients (SplitAddresses (fm_Cc form)) (fm_Format form)"
    "co_Bcc e = encodeRecipients (SplitAddresses (fm_Bcc form)) (fm_Format form)"
    "co_Attachments e = encodeFiles (fm_Files form)" "co_Callback e = buildCallback form"
    using assms(1) valid by (auto simp: Build_def Let_def split: if_splits prod.splits)
  let ?d = "console_received e"
  have read: "Unmarshal te decode_email zero_email (json_text (console_json e)) = Inr ?d"
    by (rule read_console_message [OF assms(2)]) (simp add: e built_callback)
  have fields: "email_Receiver ?d = SplitAddresses (fm_To form)" "email_Cc ?d = SplitAddresses (fm_Cc form)"
    "email_Bcc ?d = SplitAddresses (fm_Bcc form)" "email_From ?d = TrimSpace (fm_From form)"
    "email_Subject ?d = TrimSpace (fm_Subject form)" "email_ID ?d = co_ID e" "email_Callback ?d = buildCallback form"
    "email_Body ?d = encodeBody form"
    by (simp_all add: console_received_def e encoded_recipients sorted_built_callback)
  have files: "decodeAttachments ?d = console_contents (fm_Files form)"
    by (rule built_attachments) (simp add: console_received_def e)
  have body: "if fm_InvalidBody form then \<exists>k. DecodeString (email_Body ?d) = Inl k
      else DecodeString (email_Body ?d) = Inr (fm_HTML form) \<and> validateEmail (?d\<lparr>email_Body := fm_HTML form\<rparr>) = None"
    using valid fields(1,4,5,8) invalidBody_rejected
    by (auto simp: encodeBody_def validateEmail_None console_validate_def split: if_splits)
  show ?thesis using read fields files body by (intro exI [of _ ?d]) simp
qed

text \<open>What the console shows of a dead letter is what the service recorded: the record that the Kafka
  source produces for an outcome it gives up on is read back with the attempt, the error code, the (bounded)
  cause, the time, the id and the message.\<close>

lemma dead_letter_shown:
  assumes "kafka_copy ts r attempt out t = Some c" "out_Action out = ActionDeadLetter" "int64_range attempt"
  shows "deadLetterFromRecord parse c =
    \<lparr>dl_Source = ''kafka'', dl_MessageID = kr_Key r, dl_Attempt = attempt,
     dl_ErrorCode = code_text (event_ErrorCode (out_Event out)),
     dl_Cause = Headers.truncate (event_Cause (out_Event out)) maxCauseHeaderChars,
     dl_FailedAt = (case parse (RFC3339 t) of None \<Rightarrow> ZeroTime | Some t' \<Rightarrow> t'), dl_Payload = kr_Value r\<rparr>"
proof -
  have "Atoi_value (Itoa attempt) = attempt"
    using Atoi_Itoa [OF assms(3)] by (auto simp: Atoi_def Atoi_value_def Let_def int64_range_def split: if_splits)
  then show ?thesis
    using assms(1,2)
    by (auto simp: kafka_copy_def copyRecord_def deadLetterFromRecord_def header_value_def header_defs Let_def)
qed

section \<open>Witnesses\<close>

definition some_form :: console_form where
  "some_form =
     \<lparr>fm_Channel = ''rabbitmq'', fm_ID = ''7'', fm_From = ''a@x.io'', fm_To = ''b@x.io; c@x.io'', fm_Cc = [], fm_Bcc = [],
      fm_Subject = ''Hi'', fm_HTML = ''<p>'', fm_Format = ''string'', fm_Files = [], fm_InvalidBody = False,
      fm_SuccessCallbackEnabled = False, fm_SuccessCallbackURL = [], fm_FailureCallbackEnabled = False,
      fm_FailureCallbackURL = [], fm_CallbackAuthorization = []\<rparr>"

theorem console_email_received_witness:
  "\<exists>e d. Build some_form (\<lambda>w. (''new'', w)) () = (Inr e, ()) \<and> email_Receiver d = SplitAddresses ''b@x.io; c@x.io''
     \<and> Unmarshal (\<lambda>s. s) decode_email zero_email (json_text (console_json e)) = Inr d"
proof -
  have "console_validate some_form = None" "TrimSpace (fm_ID some_form) = ''7''" by code_simp+
  then obtain e where e: "Build some_form (\<lambda>w. (''new'', w)) () = (Inr e, ())" by (simp add: Build_def)
  have "case fst (Build some_form (\<lambda>w. (''new'', w)) ()) of Inl err \<Rightarrow> False | Inr e \<Rightarrow> utf8_json (console_json e)"
    by code_simp
  then have "utf8_json (console_json e)" using e by simp
  from console_email_received [OF e this, of "\<lambda>s. s"] e show ?thesis by (auto simp: some_form_def)
qed

lemma dead_letter_shown_example:
  "\<exists>c. kafka_copy (newKafkaTopics ''mail'') (record_at 1 ''k1'') 3 (retry_outcome\<lparr>out_Action := ActionDeadLetter\<rparr>) 0 = Some c
     \<and> dl_Attempt (deadLetterFromRecord (\<lambda>s. None) c) = 3"
proof -
  obtain c where c: "kafka_copy (newKafkaTopics ''mail'') (record_at 1 ''k1'') 3
      (retry_outcome\<lparr>out_Action := ActionDeadLetter\<rparr>) 0 = Some c"
    by (simp add: kafka_copy_def)
  from dead_letter_shown [OF c] show ?thesis using c by (simp add: int64_range_def)
qed

end
