(* ===== verification/ConsoleMonitor.thy ===== *)
theory ConsoleMonitor
  imports Console ClientHttp
begin

text \<open>
  \<open>.dev/console/internal/monitor\<close>: the clients with which the development console watches and drives the
  local stack: one JSON call over HTTP (\<open>http.go\<close>) with the RabbitMQ management API, the mail server, the
  mock API, the callback log and the readiness check on top of it, and the inspector of the Kafka topics.
  A client that only holds its base address is that address; its five seconds' time-out is an answer of the
  environment.
\<close>

section \<open>One JSON call (http.go)\<close>

record monitor_request =
  mr_Method :: string
  mr_URL :: string
  mr_Body :: "json option"
  mr_User :: string
  mr_Pass :: string

text \<open>\<open>json.NewDecoder(r).Decode\<close> and \<open>json.Unmarshal\<close> with the value that is left behind: after an error of
  type it is what could be decoded.\<close>

definition decode_into :: "(string \<Rightarrow> string) \<Rightarrow> 'a decoder \<Rightarrow> 'a \<Rightarrow> string \<Rightarrow> json \<Rightarrow> goerr option \<times> 'a" where
  "decode_into te dec x doc v = (let (e, y) = dec x v in (map_option (decode_goerr te doc) e, y))"

definition Decode_into :: "(string \<Rightarrow> string) \<Rightarrow> 'a decoder \<Rightarrow> 'a \<Rightarrow> string \<Rightarrow> goerr option \<times> 'a" where
  "Decode_into te dec x doc =
     (case run_first initial doc of
        Value v \<Rightarrow> decode_into te dec x doc v
      | Malformed e \<Rightarrow> (Some (Plain e), x)
      | Incomplete none \<Rightarrow> (Some (Plain (if none then ''EOF'' else ''unexpected EOF'')), x))"

definition Unmarshal_into :: "(string \<Rightarrow> string) \<Rightarrow> 'a decoder \<Rightarrow> 'a \<Rightarrow> string \<Rightarrow> goerr option \<times> 'a" where
  "Unmarshal_into te dec x doc =
     (case parse_document doc of
        Inl e \<Rightarrow> (Some (Plain e), x)
      | Inr v \<Rightarrow> decode_into te dec x doc v)"

definition monitor_http_request :: "'a golib_scheme \<Rightarrow> monitor_request \<Rightarrow> goerr + http_request" where
  "monitor_http_request lib rq =
     (case NewRequest lib (mr_Method rq) (mr_URL rq) (case mr_Body rq of None \<Rightarrow> [] | Some v \<Rightarrow> json_text v) of
        Inl err \<Rightarrow> Inl (Wrapped ''create request: '' err)
      | Inr req \<Rightarrow>
          (let req1 = (if mr_Body rq = None then req
                       else set_headers [(''Content-Type'', ''application/json'')] req)
           in Inr (if mr_User rq = [] then req1
                   else set_headers [(''Authorization'', ''Basic '' @ EncodeToString (mr_User rq @ '':'' @ mr_Pass rq))]
                     req1)))"

text \<open>\<open>call\<close>; \<open>out\<close> is the decoder of \<open>req.Out\<close> and \<open>x\<close> the value there.\<close>

definition monitor_call ::
  "'e env \<Rightarrow> monitor_request \<Rightarrow> 'a decoder option \<Rightarrow> 'a \<Rightarrow> 'e world \<Rightarrow> (goerr option \<times> 'a) \<times> 'e world"
where
  "monitor_call E rq out x w =
     (case monitor_http_request E rq of
        Inl err \<Rightarrow> ((Some err, x), w)
      | Inr req \<Rightarrow>
          (case call_http E req w of
             (Inl err, w1) \<Rightarrow> ((Some (Wrapped (mr_Method rq @ '' '' @ mr_URL rq @ '': '') err), x), w1)
           | (Inr resp, w1) \<Rightarrow>
               if rs_status resp < 200 \<or> 300 \<le> rs_status resp then
                 ((Some (Plain (mr_Method rq @ '' '' @ mr_URL rq @ '': status '' @ Itoa (rs_status resp))), x), w1)
               else
                 (case out of
                    None \<Rightarrow> ((None, x), w1)
                  | Some dec \<Rightarrow>
                      (case Decode_into (lib_type_error E) dec x (rs_body resp) of
                         (Some err, y) \<Rightarrow> ((Some (Wrapped (''decode '' @ mr_URL rq @ '': '') err), y), w1)
                       | (None, y) \<Rightarrow> ((None, y), w1)))))"

definition getJSON ::
  "'e env \<Rightarrow> string \<Rightarrow> 'a decoder \<Rightarrow> 'a \<Rightarrow> 'e world \<Rightarrow> (goerr option \<times> 'a) \<times> 'e world"
where
  "getJSON E url dec x w =
     monitor_call E \<lparr>mr_Method = ''GET'', mr_URL = url, mr_Body = None, mr_User = [], mr_Pass = []\<rparr> (Some dec) x w"

definition monitor_send :: "'e env \<Rightarrow> string \<Rightarrow> string \<Rightarrow> 'e world \<Rightarrow> goerr option \<times> 'e world" where
  "monitor_send E method url w =
     (let ((err, _), w1) = monitor_call E \<lparr>mr_Method = method, mr_URL = url, mr_Body = None, mr_User = [], mr_Pass = []\<rparr>
            (None :: unit decoder option) () w
      in (err, w1))"

section \<open>Readiness and callbacks (health.go, callbacks.go)\<close>

definition Health_Ready :: "'e env \<Rightarrow> string \<Rightarrow> 'e world \<Rightarrow> bool \<times> 'e world" where
  "Health_Ready E url w = (let (err, w1) = monitor_send E ''GET'' url w in (err = None, w1))"

text \<open>The event has the members of the client library's.\<close>

record CallbackEvent =
  cev_ReceivedAt :: int
  cev_Path :: string
  cev_Authorization :: string
  cev_Status :: int
  cev_Body :: ClientEvent

definition zero_callback_event :: CallbackEvent where
  "zero_callback_event =
     \<lparr>cev_ReceivedAt = ZeroTime, cev_Path = [], cev_Authorization = [], cev_Status = 0, cev_Body = zero_event\<rparr>"

definition callback_event_fields :: "(string \<Rightarrow> int option) \<Rightarrow> (string \<times> CallbackEvent decoder) list" where
  "callback_event_fields parse =
     [(''receivedAt'', time_field parse (\<lambda>t e. e\<lparr>cev_ReceivedAt := t\<rparr>)),
      (''path'', string_field (\<lambda>s e. e\<lparr>cev_Path := s\<rparr>)),
      (''authorization'', string_field (\<lambda>s e. e\<lparr>cev_Authorization := s\<rparr>)),
      (''status'', int_field (\<lambda>n e. e\<lparr>cev_Status := n\<rparr>)),
      (''body'', inner_field cev_Body (\<lambda>b e. e\<lparr>cev_Body := b\<rparr>) (decode_struct (event_fields parse)))]"

definition Callbacks_List :: "'e env \<Rightarrow> string \<Rightarrow> 'e world \<Rightarrow> (CallbackEvent list \<times> goerr option) \<times> 'e world" where
  "Callbacks_List E baseURL w =
     (case getJSON E (baseURL @ ''/events'')
             (decode_slice zero_callback_event (decode_struct (callback_event_fields (lib_parse_time E)))) [] w of
        ((Some err, _), w1) \<Rightarrow> (([], Some err), w1)
      | ((None, events), w1) \<Rightarrow> ((events, None), w1))"

definition Callbacks_Clear :: "'e env \<Rightarrow> string \<Rightarrow> 'e world \<Rightarrow> goerr option \<times> 'e world" where
  "Callbacks_Clear E baseURL w = monitor_send E ''DELETE'' (baseURL @ ''/events'') w"

section \<open>The mail server (mailpit.go, chaos.go)\<close>

definition inboxLimit :: int where "inboxLimit = 20"

record Address =
  ad_Name :: string
  ad_Address :: string

record InboxMessage =
  im_ID :: string
  im_Created :: int
  im_Subject :: string
  im_From :: Address
  im_To :: "Address list"
  im_Cc :: "Address list"
  im_Bcc :: "Address list"
  im_Attachments :: int
  im_Snippet :: string

definition zero_address :: Address where
  "zero_address = \<lparr>ad_Name = [], ad_Address = []\<rparr>"

definition address_fields :: "(string \<times> Address decoder) list" where
  "address_fields =
     [(''Name'', string_field (\<lambda>s a. a\<lparr>ad_Name := s\<rparr>)), (''Address'', string_field (\<lambda>s a. a\<lparr>ad_Address := s\<rparr>))]"

definition zero_inbox_message :: InboxMessage where
  "zero_inbox_message =
     \<lparr>im_ID = [], im_Created = ZeroTime, im_Subject = [], im_From = zero_address, im_To = [], im_Cc = [], im_Bcc = [],
      im_Attachments = 0, im_Snippet = []\<rparr>"

definition inbox_fields :: "(string \<Rightarrow> int option) \<Rightarrow> (string \<times> InboxMessage decoder) list" where
  "inbox_fields parse =
     (let addresses = decode_slice zero_address (decode_struct address_fields)
      in [(''ID'', string_field (\<lambda>s m. m\<lparr>im_ID := s\<rparr>)),
          (''Created'', time_field parse (\<lambda>t m. m\<lparr>im_Created := t\<rparr>)),
          (''Subject'', string_field (\<lambda>s m. m\<lparr>im_Subject := s\<rparr>)),
          (''From'', inner_field im_From (\<lambda>a m. m\<lparr>im_From := a\<rparr>) (decode_struct address_fields)),
          (''To'', inner_field im_To (\<lambda>as m. m\<lparr>im_To := as\<rparr>) addresses),
          (''Cc'', inner_field im_Cc (\<lambda>as m. m\<lparr>im_Cc := as\<rparr>) addresses),
          (''Bcc'', inner_field im_Bcc (\<lambda>as m. m\<lparr>im_Bcc := as\<rparr>) addresses),
          (''Attachments'', int_field (\<lambda>n m. m\<lparr>im_Attachments := n\<rparr>)),
          (''Snippet'', string_field (\<lambda>s m. m\<lparr>im_Snippet := s\<rparr>))])"

definition Mailpit_List :: "'e env \<Rightarrow> string \<Rightarrow> 'e world \<Rightarrow> (InboxMessage list \<times> goerr option) \<times> 'e world" where
  "Mailpit_List E baseURL w =
     (case getJSON E (baseURL @ ''/api/v1/messages?limit='' @ Itoa inboxLimit)
             (decode_struct [(''messages'', decode_slice zero_inbox_message (decode_struct (inbox_fields (lib_parse_time E))))])
             [] w of
        ((Some err, _), w1) \<Rightarrow> (([], Some err), w1)
      | ((None, messages), w1) \<Rightarrow> ((messages, None), w1))"

definition Mailpit_Clear :: "'e env \<Rightarrow> string \<Rightarrow> 'e world \<Rightarrow> goerr option \<times> 'e world" where
  "Mailpit_Clear E baseURL w = monitor_send E ''DELETE'' (baseURL @ ''/api/v1/messages'') w"

record ChaosTrigger =
  ct_ErrorCode :: int
  ct_Probability :: int

record ChaosTriggers =
  ch_Sender :: ChaosTrigger
  ch_Recipient :: ChaosTrigger
  ch_Authentication :: ChaosTrigger

definition zero_triggers :: ChaosTriggers where
  "zero_triggers =
     (let z = \<lparr>ct_ErrorCode = 0, ct_Probability = 0\<rparr> in \<lparr>ch_Sender = z, ch_Recipient = z, ch_Authentication = z\<rparr>)"

definition trigger_fields :: "(string \<times> ChaosTrigger decoder) list" where
  "trigger_fields =
     [(''ErrorCode'', int_field (\<lambda>n t. t\<lparr>ct_ErrorCode := n\<rparr>)),
      (''Probability'', int_field (\<lambda>n t. t\<lparr>ct_Probability := n\<rparr>))]"

definition chaos_fields :: "(string \<times> ChaosTriggers decoder) list" where
  "chaos_fields =
     [(''Sender'', inner_field ch_Sender (\<lambda>t c. c\<lparr>ch_Sender := t\<rparr>) (decode_struct trigger_fields)),
      (''Recipient'', inner_field ch_Recipient (\<lambda>t c. c\<lparr>ch_Recipient := t\<rparr>) (decode_struct trigger_fields)),
      (''Authentication'', inner_field ch_Authentication (\<lambda>t c. c\<lparr>ch_Authentication := t\<rparr>)
         (decode_struct trigger_fields))]"

definition trigger_json :: "ChaosTrigger \<Rightarrow> json" where
  "trigger_json t =
     JObj [(''ErrorCode'', JNum (Itoa (ct_ErrorCode t))), (''Probability'', JNum (Itoa (ct_Probability t)))]"

definition chaos_json :: "ChaosTriggers \<Rightarrow> json" where
  "chaos_json c =
     JObj [(''Sender'', trigger_json (ch_Sender c)), (''Recipient'', trigger_json (ch_Recipient c)),
       (''Authentication'', trigger_json (ch_Authentication c))]"

definition Mailpit_Chaos :: "'e env \<Rightarrow> string \<Rightarrow> 'e world \<Rightarrow> (ChaosTriggers \<times> goerr option) \<times> 'e world" where
  "Mailpit_Chaos E baseURL w =
     (let ((err, triggers), w1) = getJSON E (baseURL @ ''/api/v1/chaos'') (decode_struct chaos_fields) zero_triggers w
      in ((triggers, err), w1))"

definition Mailpit_SetChaos ::
  "'e env \<Rightarrow> string \<Rightarrow> ChaosTriggers \<Rightarrow> 'e world \<Rightarrow> (ChaosTriggers \<times> goerr option) \<times> 'e world"
where
  "Mailpit_SetChaos E baseURL triggers w =
     (let ((err, updated), w1) =
            monitor_call E
              \<lparr>mr_Method = ''PUT'', mr_URL = baseURL @ ''/api/v1/chaos'', mr_Body = Some (chaos_json triggers), mr_User = [],
               mr_Pass = []\<rparr> (Some (decode_struct chaos_fields)) zero_triggers w
      in ((updated, err), w1))"

section \<open>The mock email API (mockapi.go)\<close>

record MockBehavior =
  mb_FailNext :: int
  mb_Status :: int
  mb_Name :: string
  mb_Message :: string

record MockEmail =
  me_ID :: string
  me_ReceivedAt :: int
  me_From :: string
  me_To :: "string list"
  me_Cc :: "string list"
  me_Bcc :: "string list"
  me_Subject :: string
  me_Attachments :: int

text \<open>The behaviour is embedded, so its members are those of the state.\<close>

record MockState = MockBehavior +
  ms_Accepted :: int
  ms_Rejected :: int
  ms_Emails :: "MockEmail list"

definition zero_mock_email :: MockEmail where
  "zero_mock_email =
     \<lparr>me_ID = [], me_ReceivedAt = ZeroTime, me_From = [], me_To = [], me_Cc = [], me_Bcc = [], me_Subject = [],
      me_Attachments = 0\<rparr>"

definition zero_mock_state :: MockState where
  "zero_mock_state =
     \<lparr>mb_FailNext = 0, mb_Status = 0, mb_Name = [], mb_Message = [], ms_Accepted = 0, ms_Rejected = 0, ms_Emails = []\<rparr>"

definition mock_email_fields :: "(string \<Rightarrow> int option) \<Rightarrow> (string \<times> MockEmail decoder) list" where
  "mock_email_fields parse =
     (let strings = decode_slice [] (string_field (\<lambda>s _. s))
      in [(''id'', string_field (\<lambda>s m. m\<lparr>me_ID := s\<rparr>)),
          (''receivedAt'', time_field parse (\<lambda>t m. m\<lparr>me_ReceivedAt := t\<rparr>)),
          (''from'', string_field (\<lambda>s m. m\<lparr>me_From := s\<rparr>)),
          (''to'', inner_field me_To (\<lambda>x m. m\<lparr>me_To := x\<rparr>) strings),
          (''cc'', inner_field me_Cc (\<lambda>x m. m\<lparr>me_Cc := x\<rparr>) strings),
          (''bcc'', inner_field me_Bcc (\<lambda>x m. m\<lparr>me_Bcc := x\<rparr>) strings),
          (''subject'', string_field (\<lambda>s m. m\<lparr>me_Subject := s\<rparr>)),
          (''attachments'', int_field (\<lambda>n m. m\<lparr>me_Attachments := n\<rparr>))])"

definition mock_state_fields :: "(string \<Rightarrow> int option) \<Rightarrow> (string \<times> MockState decoder) list" where
  "mock_state_fields parse =
     [(''failNext'', int_field (\<lambda>n m. m\<lparr>mb_FailNext := n\<rparr>)),
      (''status'', int_field (\<lambda>n m. m\<lparr>mb_Status := n\<rparr>)),
      (''name'', string_field (\<lambda>s m. m\<lparr>mb_Name := s\<rparr>)),
      (''message'', string_field (\<lambda>s m. m\<lparr>mb_Message := s\<rparr>)),
      (''accepted'', int_field (\<lambda>n m. m\<lparr>ms_Accepted := n\<rparr>)),
      (''rejected'', int_field (\<lambda>n m. m\<lparr>ms_Rejected := n\<rparr>)),
      (''emails'', inner_field ms_Emails (\<lambda>x m. m\<lparr>ms_Emails := x\<rparr>)
         (decode_slice zero_mock_email (decode_struct (mock_email_fields parse))))]"

definition behavior_json :: "MockBehavior \<Rightarrow> json" where
  "behavior_json b =
     JObj [(''failNext'', JNum (Itoa (mb_FailNext b))), (''status'', JNum (Itoa (mb_Status b))),
       (''name'', JStr (mb_Name b)), (''message'', JStr (mb_Message b))]"

definition MockAPI_State :: "'e env \<Rightarrow> string \<Rightarrow> 'e world \<Rightarrow> (MockState \<times> goerr option) \<times> 'e world" where
  "MockAPI_State E baseURL w =
     (let ((err, state), w1) =
            getJSON E (baseURL @ ''/state'') (decode_struct (mock_state_fields (lib_parse_time E))) zero_mock_state w
      in ((state, err), w1))"

definition MockAPI_Configure ::
  "'e env \<Rightarrow> string \<Rightarrow> MockBehavior \<Rightarrow> 'e world \<Rightarrow> (MockState \<times> goerr option) \<times> 'e world"
where
  "MockAPI_Configure E baseURL behavior w =
     (let ((err, state), w1) =
            monitor_call E
              \<lparr>mr_Method = ''PUT'', mr_URL = baseURL @ ''/state'', mr_Body = Some (behavior_json behavior), mr_User = [],
               mr_Pass = []\<rparr> (Some (decode_struct (mock_state_fields (lib_parse_time E)))) zero_mock_state w
      in ((state, err), w1))"

definition MockAPI_Reset :: "'e env \<Rightarrow> string \<Rightarrow> 'e world \<Rightarrow> goerr option \<times> 'e world" where
  "MockAPI_Reset E baseURL w = monitor_send E ''DELETE'' (baseURL @ ''/state'') w"

section \<open>The RabbitMQ management API (rabbitmq.go)\<close>

definition deadLetterPeekLimit :: int where "deadLetterPeekLimit = 10"

record QueueStats =
  st_Messages :: int
  st_Consumers :: int
  st_Retrying :: int
  st_DeadLettered :: int

definition zero_stats :: QueueStats where
  "zero_stats = \<lparr>st_Messages = 0, st_Consumers = 0, st_Retrying = 0, st_DeadLettered = 0\<rparr>"

record QueueInfo =
  qi_Name :: string
  qi_Messages :: int
  qi_Consumers :: int

definition queue_info_fields :: "(string \<times> QueueInfo decoder) list" where
  "queue_info_fields =
     [(''name'', string_field (\<lambda>s q. q\<lparr>qi_Name := s\<rparr>)), (''messages'', int_field (\<lambda>n q. q\<lparr>qi_Messages := n\<rparr>)),
      (''consumers'', int_field (\<lambda>n q. q\<lparr>qi_Consumers := n\<rparr>))]"

record rabbit_monitor =
  rm_baseURL :: string
  rm_user :: string
  rm_pass :: string
  rm_queue :: string

text \<open>The loop of \<open>Stats\<close> over the queues.\<close>

fun add_queues :: "string \<Rightarrow> QueueStats \<Rightarrow> QueueInfo list \<Rightarrow> QueueStats" where
  "add_queues queue stats [] = stats"
| "add_queues queue stats (q # qs) =
     add_queues queue
       (if qi_Name q = queue then stats\<lparr>st_Messages := qi_Messages q, st_Consumers := qi_Consumers q\<rparr>
        else if qi_Name q = queue @ ''.dlq'' then stats\<lparr>st_DeadLettered := qi_Messages q\<rparr>
        else if prefix (queue @ ''.retry.'') (qi_Name q)
        then stats\<lparr>st_Retrying := wrap64 (st_Retrying stats + qi_Messages q)\<rparr>
        else stats) qs"

definition rabbit_Stats :: "'e env \<Rightarrow> rabbit_monitor \<Rightarrow> 'e world \<Rightarrow> (QueueStats \<times> goerr option) \<times> 'e world" where
  "rabbit_Stats E r w =
     (case monitor_call E
             \<lparr>mr_Method = ''GET'', mr_URL = rm_baseURL r @ ''/api/queues/%2F?columns=name,messages,consumers'', mr_Body = None,
              mr_User = rm_user r, mr_Pass = rm_pass r\<rparr>
             (Some (decode_slice \<lparr>qi_Name = [], qi_Messages = 0, qi_Consumers = 0\<rparr> (decode_struct queue_info_fields))) [] w of
        ((Some err, _), w1) \<Rightarrow> ((zero_stats, Some err), w1)
      | ((None, queues), w1) \<Rightarrow> ((add_queues (rm_queue r) zero_stats queues, None), w1))"

definition queueURL :: "rabbit_monitor \<Rightarrow> string" where
  "queueURL r = rm_baseURL r @ ''/api/queues/%2F/'' @ PathEscape (rm_queue r @ ''.dlq'')"

text \<open>A message of the management API. Its headers are a \<open>map[string]any\<close>, kept as JSON: \<open>float\<close> reads a
  number as a \<open>float64\<close> and truncates it to an integer (None: the number does not fit, an error of type).\<close>

record peeked_message =
  pk_Payload :: string
  pk_MessageID :: string
  pk_Headers :: "(string \<times> json) list"

fun any_value :: "(string \<Rightarrow> int option) \<Rightarrow> json \<Rightarrow> bool" where
  "any_value float (JNum s) \<longleftrightarrow> float s \<noteq> None"
| "any_value float (JArr vs) \<longleftrightarrow> (\<forall>v \<in> set vs. any_value float v)"
| "any_value float (JObj ms) \<longleftrightarrow> (\<forall>m \<in> set ms. any_value float (snd m))"
| "any_value float _ \<longleftrightarrow> True"

definition any_map_decoder :: "(string \<Rightarrow> int option) \<Rightarrow> (string \<times> json) list decoder" where
  "any_map_decoder float x v =
     (case v of
        JNull \<Rightarrow> (None, [])
      | JObj ms \<Rightarrow> ((if list_all (\<lambda>m. any_value float (snd m)) ms then None else Some WrongType), x @ ms)
      | _ \<Rightarrow> (Some WrongType, x))"

definition peeked_fields :: "(string \<Rightarrow> int option) \<Rightarrow> (string \<times> peeked_message decoder) list" where
  "peeked_fields float =
     [(''payload'', string_field (\<lambda>s m. m\<lparr>pk_Payload := s\<rparr>)),
      (''properties'', decode_struct
         [(''message_id'', string_field (\<lambda>s m. m\<lparr>pk_MessageID := s\<rparr>)),
          (''headers'', inner_field pk_Headers (\<lambda>h m. m\<lparr>pk_Headers := h\<rparr>) (any_map_decoder float))])]"

definition stringHeader :: "(string \<times> json) list \<Rightarrow> string \<Rightarrow> string" where
  "stringHeader headers key = (case map_of (rev headers) key of Some (JStr s) \<Rightarrow> s | _ \<Rightarrow> [])"

definition intHeader :: "(string \<Rightarrow> int option) \<Rightarrow> (string \<times> json) list \<Rightarrow> string \<Rightarrow> int" where
  "intHeader float headers key =
     (case map_of (rev headers) key of
        Some (JNum s) \<Rightarrow> (case float s of Some n \<Rightarrow> n | None \<Rightarrow> 0)
      | _ \<Rightarrow> 0)"

definition peeked_letter ::
  "(string \<Rightarrow> int option) \<Rightarrow> (string \<Rightarrow> int option) \<Rightarrow> peeked_message \<Rightarrow> DeadLetter"
where
  "peeked_letter parse float m =
     (let headers = pk_Headers m
      in \<lparr>dl_Source = ''rabbitmq'', dl_MessageID = pk_MessageID m, dl_Attempt = intHeader float headers ''x-attempt'',
          dl_ErrorCode = stringHeader headers ''x-error-code'', dl_Cause = stringHeader headers ''x-error-cause'',
          dl_FailedAt = (case parse (stringHeader headers ''x-failed-at'') of None \<Rightarrow> ZeroTime | Some t \<Rightarrow> t),
          dl_Payload = pk_Payload m\<rparr>)"

definition rabbit_PeekDeadLetters ::
  "'e env \<Rightarrow> (string \<Rightarrow> int option) \<Rightarrow> rabbit_monitor \<Rightarrow> 'e world \<Rightarrow> (DeadLetter list \<times> goerr option) \<times> 'e world"
where
  "rabbit_PeekDeadLetters E float r w =
     (case monitor_call E
             \<lparr>mr_Method = ''POST'', mr_URL = queueURL r @ ''/get'',
              mr_Body = Some (JObj [(''ackmode'', JStr ''ack_requeue_true''), (''count'', JNum (Itoa deadLetterPeekLimit)),
                (''encoding'', JStr ''auto'')]),
              mr_User = rm_user r, mr_Pass = rm_pass r\<rparr>
             (Some (decode_slice \<lparr>pk_Payload = [], pk_MessageID = [], pk_Headers = []\<rparr> (decode_struct (peeked_fields float))))
             [] w of
        ((Some err, _), w1) \<Rightarrow> (([], Some err), w1)
      | ((None, messages), w1) \<Rightarrow> ((map (peeked_letter (lib_parse_time E) float) messages, None), w1))"

definition rabbit_PurgeDeadLetters :: "'e env \<Rightarrow> rabbit_monitor \<Rightarrow> 'e world \<Rightarrow> goerr option \<times> 'e world" where
  "rabbit_PurgeDeadLetters E r w =
     (let ((err, _), w1) =
            monitor_call E
              \<lparr>mr_Method = ''DELETE'', mr_URL = queueURL r @ ''/contents'', mr_Body = None, mr_User = rm_user r,
               mr_Pass = rm_pass r\<rparr> (None :: unit decoder option) () w
      in (err, w1))"

section \<open>The Kafka topics (kafka.go)\<close>

text \<open>The admin client of \<open>franz-go\<close> is a parameter: what it lists for a topic, the offset that a group has
  committed for a partition (None: none), the number of members of a group; \<open>kadm_unknown_group\<close> is
  \<open>errors.Is(_, kerr.GroupIDNotFound)\<close>.\<close>

record ListedOffset =
  lo_Topic :: string
  lo_Partition :: int
  lo_Offset :: int
  lo_Err :: "goerr option"

record 'e kadm =
  kadm_ListStartOffsets :: "string \<Rightarrow> 'e \<Rightarrow> (goerr + ListedOffset list) \<times> 'e"
  kadm_ListEndOffsets :: "string \<Rightarrow> 'e \<Rightarrow> (goerr + ListedOffset list) \<times> 'e"
  kadm_FetchOffsets :: "string \<Rightarrow> 'e \<Rightarrow> ((string \<times> int \<Rightarrow> int option) \<times> goerr option) \<times> 'e"
  kadm_DescribeGroup :: "string \<Rightarrow> 'e \<Rightarrow> (goerr + nat) \<times> 'e"
  kadm_DeleteRecords :: "(string \<times> int \<times> int) list \<Rightarrow> 'e \<Rightarrow> goerr option \<times> 'e"
  kadm_unknown_group :: "goerr \<Rightarrow> bool"

definition on_hidden :: "('e \<Rightarrow> 'a \<times> 'e) \<Rightarrow> 'e world \<Rightarrow> 'a \<times> 'e world" where
  "on_hidden f w = (let (x, e) = f (hidden w) in (x, w\<lparr>hidden := e\<rparr>))"

record kafka_monitor =
  km_brokers :: "string list"
  km_topic :: string
  km_group :: string

definition NewKafka ::
  "'e env \<Rightarrow> string list \<Rightarrow> string \<Rightarrow> string \<Rightarrow> 'e world \<Rightarrow> (goerr + kafka_monitor) \<times> 'e world"
where
  "NewKafka E brokers topic grp w =
     (case call_kafka E (KafkaNewClient [SeedBrokers brokers]) w of
        (Some err, w1) \<Rightarrow> (Inl (Wrapped ''create kafka client: '' err), w1)
      | (None, w1) \<Rightarrow> (Inr \<lparr>km_brokers = brokers, km_topic = topic, km_group = grp\<rparr>, w1))"

definition deadLetterTopic :: "kafka_monitor \<Rightarrow> string" where
  "deadLetterTopic k = km_topic k @ ''.dlq''"

definition offsets ::
  "'e kadm \<Rightarrow> string \<Rightarrow> 'e world \<Rightarrow> (goerr + ListedOffset list \<times> ListedOffset list) \<times> 'e world"
where
  "offsets A topic w =
     (case on_hidden (kadm_ListStartOffsets A topic) w of
        (Inl err, w1) \<Rightarrow> (Inl (Wrapped (''kafka start offsets of '' @ topic @ '': '') err), w1)
      | (Inr starts, w1) \<Rightarrow>
          (case on_hidden (kadm_ListEndOffsets A topic) w1 of
             (Inl err, w2) \<Rightarrow> (Inl (Wrapped (''kafka end offsets of '' @ topic @ '': '') err), w2)
           | (Inr ends, w2) \<Rightarrow>
               (case first_some (map lo_Err ends) of
                  Some err \<Rightarrow> (Inl (Wrapped (''kafka offsets of '' @ topic @ '': '') err), w2)
                | None \<Rightarrow> (Inr (starts, ends), w2))))"

text \<open>\<open>starts[topic][partition].Offset\<close>, zero where there is no entry.\<close>

definition start_of :: "ListedOffset list \<Rightarrow> ListedOffset \<Rightarrow> int" where
  "start_of starts end =
     (case map_of (map (\<lambda>s. ((lo_Topic s, lo_Partition s), lo_Offset s)) starts) (lo_Topic end, lo_Partition end) of
        None \<Rightarrow> 0
      | Some n \<Rightarrow> n)"

definition pending_from :: "(string \<times> int \<Rightarrow> int option) \<Rightarrow> ListedOffset list \<Rightarrow> ListedOffset \<Rightarrow> int" where
  "pending_from commits starts end =
     (let from = start_of starts end
      in case commits (lo_Topic end, lo_Partition end) of
           Some at \<Rightarrow> if 0 \<le> at then max from at else from
         | None \<Rightarrow> from)"

fun pending_total :: "(string \<times> int \<Rightarrow> int option) \<Rightarrow> ListedOffset list \<Rightarrow> int \<Rightarrow> ListedOffset list \<Rightarrow> int" where
  "pending_total commits starts acc [] = acc"
| "pending_total commits starts acc (end # ends) =
     pending_total commits starts
       (wrap64 (acc + max (wrap64 (lo_Offset end - pending_from commits starts end)) 0)) ends"

definition pending :: "'e kadm \<Rightarrow> string \<Rightarrow> string \<Rightarrow> 'e world \<Rightarrow> (int \<times> goerr option) \<times> 'e world" where
  "pending A grp topic w =
     (case offsets A topic w of
        (Inl err, w1) \<Rightarrow> ((0, Some err), w1)
      | (Inr (starts, ends), w1) \<Rightarrow>
          (case on_hidden (kadm_FetchOffsets A grp) w1 of
             ((commits, Some err), w2) \<Rightarrow>
               if kadm_unknown_group A err then ((pending_total commits starts 0 ends, None), w2)
               else ((0, Some (Wrapped (''kafka committed offsets of '' @ grp @ '': '') err)), w2)
           | ((commits, None), w2) \<Rightarrow> ((pending_total commits starts 0 ends, None), w2)))"

fun count_total :: "ListedOffset list \<Rightarrow> int \<Rightarrow> ListedOffset list \<Rightarrow> int" where
  "count_total starts acc [] = acc"
| "count_total starts acc (end # ends) =
     count_total starts (wrap64 (acc + wrap64 (lo_Offset end - start_of starts end))) ends"

definition recordCount :: "'e kadm \<Rightarrow> string \<Rightarrow> 'e world \<Rightarrow> (int \<times> goerr option) \<times> 'e world" where
  "recordCount A topic w =
     (case offsets A topic w of
        (Inl err, w1) \<Rightarrow> ((0, Some err), w1)
      | (Inr (starts, ends), w1) \<Rightarrow> ((count_total starts 0 ends, None), w1))"

definition kafka_Stats :: "'e kadm \<Rightarrow> kafka_monitor \<Rightarrow> 'e world \<Rightarrow> (QueueStats \<times> goerr option) \<times> 'e world" where
  "kafka_Stats A k w =
     (case pending A (km_group k) (km_topic k) w of
        ((_, Some err), w1) \<Rightarrow> ((zero_stats, Some err), w1)
      | ((waiting, None), w1) \<Rightarrow>
          (case pending A (km_group k @ ''-retry'') (km_topic k @ ''.retry'') w1 of
             ((_, Some err), w2) \<Rightarrow> ((zero_stats, Some err), w2)
           | ((retrying, None), w2) \<Rightarrow>
               (case recordCount A (deadLetterTopic k) w2 of
                  ((_, Some err), w3) \<Rightarrow> ((zero_stats, Some err), w3)
                | ((deadLettered, None), w3) \<Rightarrow>
                    (case on_hidden (kadm_DescribeGroup A (km_group k)) w3 of
                       (Inl err, w4) \<Rightarrow>
                         ((zero_stats, Some (Wrapped (''describe kafka group '' @ km_group k @ '': '') err)), w4)
                     | (Inr members, w4) \<Rightarrow>
                         ((\<lparr>st_Messages = waiting, st_Consumers = int members, st_Retrying = retrying,
                            st_DeadLettered = deadLettered\<rparr>, None), w4)))))"

text \<open>The partitions to read with their first offset, and the number of records to expect.\<close>

fun peek_plan :: "ListedOffset list \<Rightarrow> (int \<times> int) list \<Rightarrow> int \<Rightarrow> ListedOffset list \<Rightarrow> (int \<times> int) list \<times> int" where
  "peek_plan starts partitions expected [] = (partitions, expected)"
| "peek_plan starts partitions expected (end # ends) =
     (let start = max (wrap64 (lo_Offset end - deadLetterPeekLimit)) (start_of starts end)
      in if start < lo_Offset end
         then peek_plan starts (AList.update (lo_Partition end) start partitions)
                (wrap64 (expected + wrap64 (lo_Offset end - start))) ends
         else peek_plan starts partitions expected ends)"

text \<open>The loop of \<open>read\<close> with \<open>n\<close> polls to spend: None when they are used up. \<open>parse\<close> is \<open>time.Parse\<close>.\<close>

fun read_letters ::
  "nat \<Rightarrow> 'e env \<Rightarrow> string \<Rightarrow> int \<Rightarrow> DeadLetter list \<Rightarrow> 'e world \<Rightarrow> (DeadLetter list \<times> 'e world) option"
where
  "read_letters 0 E topic expected letters w = None"
| "read_letters (Suc n) E topic expected letters w =
     (if int (length letters) < expected then
        (case call_ctx_err E w of
           (Some _, w1) \<Rightarrow> Some (letters, w1)
         | (None, w1) \<Rightarrow>
             (let (fetched, w2) = call_kafka_poll E topic w1
              in read_letters n E topic expected
                   (letters @ map (deadLetterFromRecord (lib_parse_time E)) (fe_Records fetched)) w2))
      else Some (letters, w))"

definition kafka_read ::
  "nat \<Rightarrow> 'e env \<Rightarrow> kafka_monitor \<Rightarrow> (int \<times> int) list \<Rightarrow> int \<Rightarrow> 'e world \<Rightarrow>
   ((DeadLetter list \<times> goerr option) \<times> 'e world) option"
where
  "kafka_read n E k partitions expected w =
     (case call_kafka E (KafkaNewClient [SeedBrokers (km_brokers k), ConsumePartitions (deadLetterTopic k) partitions]) w of
        (Some err, w1) \<Rightarrow> Some (([], Some (Wrapped ''create kafka reader: '' err)), w1)
      | (None, w1) \<Rightarrow>
          map_option (\<lambda>(letters, w2). ((letters, None), snd (call_kafka E KafkaCloseClient w2)))
            (read_letters n E (deadLetterTopic k) expected [] w1))"

definition kafka_PeekDeadLetters ::
  "nat \<Rightarrow> 'e env \<Rightarrow> 'e kadm \<Rightarrow> kafka_monitor \<Rightarrow> 'e world \<Rightarrow> ((DeadLetter list \<times> goerr option) \<times> 'e world) option"
where
  "kafka_PeekDeadLetters n E A k w =
     (case offsets A (deadLetterTopic k) w of
        (Inl err, w1) \<Rightarrow> Some (([], Some err), w1)
      | (Inr (starts, ends), w1) \<Rightarrow>
          (let (partitions, expected) = peek_plan starts [] 0 ends
           in if expected = 0 then Some (([], None), w1) else kafka_read n E k partitions expected w1))"

definition kafka_PurgeDeadLetters :: "'e kadm \<Rightarrow> kafka_monitor \<Rightarrow> 'e world \<Rightarrow> goerr option \<times> 'e world" where
  "kafka_PurgeDeadLetters A k w =
     (case offsets A (deadLetterTopic k) w of
        (Inl err, w1) \<Rightarrow> (Some err, w1)
      | (Inr (_, ends), w1) \<Rightarrow>
          (case on_hidden (kadm_DeleteRecords A (map (\<lambda>e. (lo_Topic e, lo_Partition e, lo_Offset e)) ends)) w1 of
             (Some err, w2) \<Rightarrow> (Some (Wrapped ''purge kafka dead letters: '' err), w2)
           | (None, w2) \<Rightarrow> (None, w2)))"

section \<open>Facts\<close>

lemma Decode_first_into:
  "Decode_first te dec x doc = (case Decode_into te dec x doc of (None, y) \<Rightarrow> Inr y | (Some err, _) \<Rightarrow> Inl err)"
  by (auto simp: Decode_first_def Decode_into_def decode_into_def decode_value_def split: first_value.splits prod.splits option.splits)

lemma Unmarshal_from_into:
  "Unmarshal te dec x doc = (case Unmarshal_into te dec x doc of (None, y) \<Rightarrow> Inr y | (Some err, _) \<Rightarrow> Inl err)"
  by (auto simp: Unmarshal_def Unmarshal_into_def decode_into_def decode_value_def split: sum.splits prod.splits option.splits)

text \<open>A call is at most one HTTP request, and reports success only for a response of class 2xx.\<close>

lemma monitor_call_once:
  assumes "monitor_call E rq out x w = ((err, y), w')"
  shows "(w' = w \<and> err \<noteq> None) \<or> (\<exists>req answer. trace w' = trace w @ [HttpCall req answer]
    \<and> rq_method req = mr_Method rq \<and> rq_url req = mr_URL rq
    \<and> (err = None \<longrightarrow> (\<exists>resp. answer = Inr resp \<and> 200 \<le> rs_status resp \<and> rs_status resp < 300)))"
proof (cases "monitor_http_request E rq")
  case (Inl e)
  then show ?thesis using assms by (auto simp: monitor_call_def)
next
  case (Inr req)
  then have req: "rq_method req = mr_Method rq" "rq_url req = mr_URL rq"
    by (auto simp: monitor_http_request_def NewRequest_def set_headers_def Let_def split: sum.splits option.splits if_splits)
  obtain answer w1 where c: "call_http E req w = (answer, w1)" by fastforce
  have "w' = w1" "err = None \<longrightarrow> (\<exists>resp. answer = Inr resp \<and> 200 \<le> rs_status resp \<and> rs_status resp < 300)"
    using assms Inr c
    by (auto simp: monitor_call_def split: sum.splits if_splits option.splits prod.splits)
  then show ?thesis using call_trace(1) [OF c] req by blast
qed

text \<open>What the lag of a group is: the records of each partition from the first one kept, or from the
  committed offset where that is later, up to the end.\<close>

definition uncommitted :: "(string \<times> int \<Rightarrow> int option) \<Rightarrow> ListedOffset list \<Rightarrow> ListedOffset \<Rightarrow> int set" where
  "uncommitted commits starts end =
     {n. start_of starts end \<le> n \<and> n < lo_Offset end
       \<and> (case commits (lo_Topic end, lo_Partition end) of Some at \<Rightarrow> at \<le> n | None \<Rightarrow> True)}"

lemma pending_from_card:
  assumes "0 \<le> start_of starts end"
  shows "int (card (uncommitted commits starts end)) = max (lo_Offset end - pending_from commits starts end) 0"
proof -
  have "uncommitted commits starts end = {pending_from commits starts end..<lo_Offset end}"
    using assms by (auto simp: uncommitted_def pending_from_def Let_def max_def split: option.splits if_splits)
  then show ?thesis by simp
qed

text \<open>Offsets are non-negative 64-bit numbers.\<close>

definition offsets_ok :: "(string \<times> int \<Rightarrow> int option) \<Rightarrow> ListedOffset list \<Rightarrow> ListedOffset \<Rightarrow> bool" where
  "offsets_ok commits starts end \<longleftrightarrow>
     0 \<le> start_of starts end \<and> start_of starts end < 2 ^ 63 \<and> 0 \<le> lo_Offset end \<and> lo_Offset end < 2 ^ 63
     \<and> (case commits (lo_Topic end, lo_Partition end) of Some at \<Rightarrow> at < 2 ^ 63 | None \<Rightarrow> True)"

lemma pending_step:
  assumes "offsets_ok commits starts end"
  shows "max (wrap64 (lo_Offset end - pending_from commits starts end)) 0 = int (card (uncommitted commits starts end))"
proof -
  have "0 \<le> pending_from commits starts end" "pending_from commits starts end < 2 ^ 63"
    using assms by (auto simp: offsets_ok_def pending_from_def Let_def split: option.splits)
  then have "int64_range (lo_Offset end - pending_from commits starts end)"
    using assms by (simp add: int64_range_def offsets_ok_def)
  then show ?thesis using assms by (simp add: pending_from_card offsets_ok_def)
qed

lemma pending_total_counts:
  assumes "list_all (offsets_ok commits starts) ends" "0 \<le> acc"
    and "acc + (\<Sum>e\<leftarrow>ends. int (card (uncommitted commits starts e))) < 2 ^ 63"
  shows "pending_total commits starts acc ends = acc + (\<Sum>e\<leftarrow>ends. int (card (uncommitted commits starts e)))"
  using assms
proof (induction ends arbitrary: acc)
  case (Cons e ends)
  let ?n = "int (card (uncommitted commits starts e))"
  have "0 \<le> (\<Sum>e\<leftarrow>ends. int (card (uncommitted commits starts e)))" by (rule sum_list_nonneg) auto
  then have "int64_range (acc + ?n)" using Cons.prems(2,3) by (simp add: int64_range_def)
  then have "wrap64 (acc + max (wrap64 (lo_Offset e - pending_from commits starts e)) 0) = acc + ?n"
    using Cons.prems(1) by (simp add: pending_step)
  then show ?case using Cons by simp
qed simp

lemma updated_member: "(k, v) \<in> set (AList.update a b xs) \<Longrightarrow> (k, v) = (a, b) \<or> (k, v) \<in> set xs"
  by (induction xs) (auto split: if_splits)

text \<open>The dead letters that are asked for: of each partition the last ten at most, and none below its start.\<close>

lemma peek_plan_bounds:
  assumes "(p, start) \<in> set (fst (peek_plan starts partitions expected ends))"
    and "list_all (\<lambda>e. 0 \<le> lo_Offset e \<and> lo_Offset e < 2 ^ 63) ends"
  shows "(p, start) \<in> set partitions
    \<or> (\<exists>e \<in> set ends. lo_Partition e = p \<and> start_of starts e \<le> start \<and> lo_Offset e - deadLetterPeekLimit \<le> start
        \<and> start < lo_Offset e)"
  using assms
proof (induction ends arbitrary: partitions expected)
  case (Cons e ends)
  let ?start = "max (wrap64 (lo_Offset e - deadLetterPeekLimit)) (start_of starts e)"
  have "int64_range (lo_Offset e - deadLetterPeekLimit)"
    using Cons.prems(2) by (simp add: int64_range_def deadLetterPeekLimit_def)
  then have start: "start_of starts e \<le> ?start" "lo_Offset e - deadLetterPeekLimit \<le> ?start" by simp_all
  show ?case
  proof (cases "?start < lo_Offset e")
    case True
    then have "(p, start) \<in> set (AList.update (lo_Partition e) ?start partitions)
        \<or> (\<exists>e \<in> set ends. lo_Partition e = p \<and> start_of starts e \<le> start \<and> lo_Offset e - deadLetterPeekLimit \<le> start
          \<and> start < lo_Offset e)"
      using Cons.IH Cons.prems by (simp add: Let_def)
    then show ?thesis using start True by (auto dest: updated_member)
  next
    case False
    then show ?thesis using Cons.IH [of partitions expected] Cons.prems by (auto simp: Let_def)
  qed
qed simp

text \<open>The reader stops with all the letters it expects unless its context ends; while each poll brings a
  record it needs no more polls than the letters it expects.\<close>

lemma read_letters_complete:
  "read_letters n E topic expected letters w = Some (ls, w') \<Longrightarrow>
   expected \<le> int (length ls) \<or> (\<exists>v. fst (call_ctx_err E v) \<noteq> None)"
proof (induction n arbitrary: letters w)
  case (Suc n)
  obtain c w1 where c: "call_ctx_err E w = (c, w1)" by fastforce
  show ?case
  proof (cases "int (length letters) < expected \<and> c = None")
    case True
    then show ?thesis using Suc c by (auto simp: Let_def split: prod.splits)
  next
    case False
    then show ?thesis using Suc.prems c by (auto split: if_splits option.splits) (metis fst_conv option.distinct(1))+
  qed
qed simp

lemma read_letters_returns:
  assumes "\<forall>v. fe_Records (fst (call_kafka_poll E topic v)) \<noteq> []" "max 0 (expected - int (length letters)) < int n"
  shows "read_letters n E topic expected letters w \<noteq> None"
  using assms(2)
proof (induction n arbitrary: letters w)
  case (Suc n)
  obtain c w1 where c: "call_ctx_err E w = (c, w1)" by fastforce
  obtain f w2 where f: "call_kafka_poll E topic w1 = (f, w2)" by fastforce
  have "fe_Records f \<noteq> []" using assms(1) f by (metis fst_conv)
  then have "1 \<le> int (length (fe_Records f))" by (cases "fe_Records f") auto
  then have "int (length letters) < expected \<Longrightarrow>
      max 0 (expected - int (length (letters @ map (deadLetterFromRecord (lib_parse_time E)) (fe_Records f)))) < int n"
    using Suc.prems by simp
  then show ?case using Suc.IH c f by (auto split: option.split)
qed (simp)

end
