(* ===== verification/GoIndent.thy ===== *)
theory GoIndent
  imports GoJson
begin

text \<open>
  \<open>json.MarshalIndent\<close> with an empty prefix and two spaces of indentation, and the proof that white space
  makes no difference to a reader: the indented text of a value is read back as its compact text is.
\<close>

definition new_line :: "nat \<Rightarrow> string" where
  "new_line n = CHR 0x0A # concat (replicate n ''  '')"

text \<open>Empty containers stay on their line. A number is written as it is, as everywhere.\<close>

fun indent_text :: "nat \<Rightarrow> json \<Rightarrow> string" where
  "indent_text n (JArr vs) =
     (if vs = [] then ''[]''
      else CHR ''['' # Join (map (\<lambda>v. new_line (Suc n) @ indent_text (Suc n) v) vs) '','' @ new_line n @ '']'')"
| "indent_text n (JObj ms) =
     (if ms = [] then ''{}''
      else CHR ''{'' # Join (map (\<lambda>(k, v). new_line (Suc n) @ CHR 0x22 # escape k @ [CHR 0x22] @ '': ''
          @ indent_text (Suc n) v) ms) '','' @ new_line n @ ''}'')"
| "indent_text n v = json_text v"

definition MarshalIndent :: "json \<Rightarrow> string" where
  "MarshalIndent v = indent_text 0 v"

section \<open>White space\<close>

fun skips_space :: "state \<Rightarrow> bool" where
  "skips_space BeginValue = True"
| "skips_space BeginValueOrEmpty = True"
| "skips_space BeginString = True"
| "skips_space BeginStringOrEmpty = True"
| "skips_space _ = False"

lemma spaces_new_line: "list_all json_space (new_line n)"
  by (auto simp: new_line_def json_space_def list_all_iff)

lemma run_spaces:
  "list_all json_space ws \<Longrightarrow> skips_space st \<Longrightarrow> run (M st stk []) (ws @ t) = run (M st stk []) t"
proof (induction ws)
  case (Cons c ws)
  then show ?case by (cases st) (simp_all add: begin_value_def begin_string_def)
qed simp

lemma run_spaces_end:
  "list_all json_space ws \<Longrightarrow> run (M EndValue (FArr vs # stk) []) (ws @ t) = run (M EndValue (FArr vs # stk) []) t"
  "list_all json_space ws \<Longrightarrow> run (M EndValue (FObj ms # stk) []) (ws @ t) = run (M EndValue (FObj ms # stk) []) t"
  by (induction ws) simp_all

lemma run_new_line:
  "skips_space st \<Longrightarrow> run (M st stk []) (new_line n @ t) = run (M st stk []) t"
  by (rule run_spaces [OF spaces_new_line])

lemma not_space: "\<not> json_space (CHR '']'')" "\<not> json_space (CHR ''}'')" "\<not> json_space (CHR '','')" "\<not> json_space (CHR 0x22)"
    "\<not> json_space (CHR '':'')" "\<not> json_space (CHR ''['')" "\<not> json_space (CHR ''{'')"
  by (simp_all add: json_space_def)

section \<open>Containers\<close>

text \<open>Elements and members printed by any function \<open>txt\<close> whose text is read back.\<close>

lemma run_printed_elements:
  assumes "\<And>v t acc. v \<in> set vs \<Longrightarrow>
      run (M BeginValue (FArr acc # stk) []) (txt v @ t) = run (complete (cleaned v) (FArr acc # stk)) t"
    and "vs \<noteq> []" "list_all json_space ws"
  shows "run (M BeginValue (FArr acc # stk) []) (Join (map txt vs) '','' @ ws @ CHR '']'' # t)
    = run (complete (JArr (rev acc @ map cleaned vs)) stk) t"
  using assms
proof (induction vs arbitrary: acc)
  case (Cons v vs)
  show ?case
  proof (cases vs)
    case Nil
    then show ?thesis using Cons.prems by (simp add: run_spaces_end not_space)
  next
    case (Cons u us)
    have "run (M BeginValue (FArr (cleaned v # acc) # stk) []) (Join (map txt vs) '','' @ ws @ CHR '']'' # t)
      = run (complete (JArr (rev (cleaned v # acc) @ map cleaned vs)) stk) t"
      using Cons.IH [of "cleaned v # acc"] Cons.prems Cons by simp
    then show ?thesis using Cons.prems(1) Cons by (simp add: not_space)
  qed
qed simp

lemma run_printed_members:
  assumes "\<And>k v t acc. (k, v) \<in> set ms \<Longrightarrow>
      run (M BeginString (FKey acc # stk) []) (txt (k, v) @ t) =
      run (complete (cleaned v) (FVal acc (concat (runes k)) # stk)) t"
    and "ms \<noteq> []" "list_all json_space ws"
  shows "run (M BeginString (FKey acc # stk) []) (Join (map txt ms) '','' @ ws @ CHR ''}'' # t)
    = run (complete (JObj (rev acc @ map (\<lambda>(k, v). (concat (runes k), cleaned v)) ms)) stk) t"
  using assms
proof (induction ms arbitrary: acc)
  case (Cons m ms)
  obtain k v where m: "m = (k, v)" by fastforce
  have member: "run (M BeginString (FKey acc # stk) []) (txt m @ t')
      = run (M EndValue (FObj ((concat (runes k), cleaned v) # acc) # stk) []) t'" for t'
    using Cons.prems(1) [of k v acc t'] m by simp
  show ?case
  proof (cases ms)
    case Nil
    then show ?thesis using member m Cons.prems(3) by (simp add: run_spaces_end not_space)
  next
    case (Cons n ns)
    have "run (M BeginString (FKey ((concat (runes k), cleaned v) # acc) # stk) []) (Join (map txt ms) '','' @ ws @ CHR ''}'' # t)
      = run (complete (JObj (rev ((concat (runes k), cleaned v) # acc)
          @ map (\<lambda>(k, v). (concat (runes k), cleaned v)) ms)) stk) t"
      using Cons.IH [of "(concat (runes k), cleaned v) # acc"] Cons.prems Cons by simp
    then show ?thesis using member m Cons by (simp add: not_space)
  qed
qed simp

section \<open>Reading back\<close>

lemma indent_text_first:
  "numberless v \<Longrightarrow> \<exists>c cs. indent_text n v = c # cs \<and> \<not> json_space c \<and> c \<noteq> CHR '']''"
  using json_text_first [of v] by (cases v) (auto simp: not_space)

lemma join_first: "xs \<noteq> [] \<Longrightarrow> \<exists>rest. Join xs sep = hd xs @ rest"
  by (cases xs; cases "tl xs") auto

lemma run_member:
  assumes "run (M BeginValue (FVal acc (concat (runes k)) # stk) []) (txt @ t) = r"
  shows "run (M BeginString (FKey acc # stk) []) (new_line n @ CHR 0x22 # escape k @ CHR 0x22 # CHR '':'' # CHR '' '' # txt @ t) = r"
proof -
  have "run (M BeginValue (FVal acc (concat (runes k)) # stk) []) (CHR '' '' # txt @ t) = r"
    using assms by (simp add: begin_value_def json_space_def)
  then show ?thesis by (simp add: run_new_line begin_string_def run_string not_space)
qed

lemma run_indented:
  "numberless v \<Longrightarrow> length stk + depth v \<le> maxNestingDepth \<Longrightarrow>
   run (M BeginValue stk []) (indent_text n v @ t) = run (complete (cleaned v) stk) t"
proof (induction v arbitrary: n stk t)
  case (JArr vs)
  show ?case
  proof (cases "vs = []")
    case True
    then show ?thesis using run_value [OF JArr.prems, of t] by simp
  next
    case False
    let ?txt = "\<lambda>v. new_line (Suc n) @ indent_text (Suc n) v"
    obtain c cs where c: "indent_text (Suc n) (hd vs) = c # cs" "\<not> json_space c" "c \<noteq> CHR '']''"
      using indent_text_first [of "hd vs" "Suc n"] JArr.prems(1) False by auto
    then obtain rest where rest: "Join (map ?txt vs) '','' @ new_line n @ CHR '']'' # t = new_line (Suc n) @ c # rest"
      using join_first [of "map ?txt vs" "'',''"] False by (auto simp: hd_map)
    have element: "run (M BeginValue (FArr acc # stk) []) (?txt v @ t') = run (complete (cleaned v) (FArr acc # stk)) t'"
      if v: "v \<in> set vs" for v acc t'
      using JArr.IH [OF v, of "FArr acc # stk"] JArr.prems v depth_element [OF v] by (simp add: run_new_line)
    have "run (M BeginValueOrEmpty (FArr [] # stk) []) (new_line (Suc n) @ c # rest) =
        run (M BeginValue (FArr [] # stk) []) (new_line (Suc n) @ c # rest)"
      using c(2,3) by (simp add: run_new_line)
    also have "\<dots> = run (complete (JArr (map cleaned vs)) stk) t"
      using run_printed_elements [of vs stk ?txt "new_line n" "[]" t] element False spaces_new_line rest by simp
    finally show ?thesis
      using JArr.prems(2) False rest by (simp add: begin_value_def not_space open_frame_def)
  qed
next
  case (JObj ms)
  show ?case
  proof (cases "ms = []")
    case True
    then show ?thesis using run_value [OF JObj.prems, of t] by simp
  next
    case False
    let ?txt = "\<lambda>(k, v). new_line (Suc n) @ CHR 0x22 # escape k @ [CHR 0x22] @ '': '' @ indent_text (Suc n) v"
    obtain rest where rest: "Join (map ?txt ms) '','' @ new_line n @ CHR ''}'' # t = new_line (Suc n) @ CHR 0x22 # rest"
      using join_first [of "map ?txt ms" "'',''"] False by (cases "hd ms") (auto simp: hd_map)
    have member: "run (M BeginString (FKey acc # stk) []) (?txt (k, v) @ t') = run (complete (cleaned v) (FVal acc (concat (runes k)) # stk)) t'"
      if v: "(k, v) \<in> set ms" for k v acc t'
    proof -
      have "run (M BeginValue (FVal acc (concat (runes k)) # stk) []) (indent_text (Suc n) v @ t') =
          run (complete (cleaned v) (FVal acc (concat (runes k)) # stk)) t'"
        using JObj.IH [OF v, of v "FVal acc (concat (runes k)) # stk"] JObj.prems v depth_member [OF v] by auto
      from run_member [OF this, of "Suc n"] show ?thesis by simp
    qed
    have "run (M BeginStringOrEmpty (FKey [] # stk) []) (new_line (Suc n) @ CHR 0x22 # rest) =
        run (M BeginString (FKey [] # stk) []) (new_line (Suc n) @ CHR 0x22 # rest)"
      by (simp add: run_new_line not_space)
    also have "\<dots> = run (complete (JObj (map (\<lambda>(k, v). (concat (runes k), cleaned v)) ms)) stk) t"
      using run_printed_members [of ms stk ?txt "new_line n" "[]" t] member False spaces_new_line rest by simp
    finally show ?thesis
      using JObj.prems(2) False rest by (simp add: begin_value_def not_space open_frame_def)
  qed
qed (simp_all only: indent_text.simps run_value)

lemma parse_indented:
  assumes "numberless v" "depth v \<le> maxNestingDepth"
  shows "parse_document (MarshalIndent v) = Inr (cleaned v)"
  using run_indented [of v "[]" 0 "[]"] assms
  by (simp add: parse_document_def initial_def finish_def end_top_def json_space_def MarshalIndent_def)

end
