(* ===== verification/ConsoleWeb.thy ===== *)
theory ConsoleWeb
  imports ConsoleService GoHttp GoIndent
begin

text \<open>
  The pages of the development console (\<open>.dev/console/internal/web\<close>): what each handler does and shows, the
  routes, the preview of a sent message, and the functions the templates call. The templates are a parameter
  that renders a page, a response is a \<^typ>\<open>server_response\<close>, and a request has the method, the path and the
  form that the handlers look at.
\<close>

section \<open>Use cases that pass on a call (service/console.go)\<close>

definition Console_Inbox :: "'w console_deps \<Rightarrow> 'w \<Rightarrow> (InboxMessage list \<times> goerr option) \<times> 'w" where
  "Console_Inbox deps = dp_Inbox_List deps"

definition Console_ClearInbox :: "'w console_deps \<Rightarrow> 'w \<Rightarrow> goerr option \<times> 'w" where
  "Console_ClearInbox deps = dp_Inbox_Clear deps"

definition Console_Callbacks :: "'w console_deps \<Rightarrow> 'w \<Rightarrow> (CallbackEvent list \<times> goerr option) \<times> 'w" where
  "Console_Callbacks deps = dp_Callbacks_List deps"

definition Console_ClearCallbacks :: "'w console_deps \<Rightarrow> 'w \<Rightarrow> goerr option \<times> 'w" where
  "Console_ClearCallbacks deps = dp_Callbacks_Clear deps"

section \<open>Preview (preview.go)\<close>

definition previewMaxChars :: nat where "previewMaxChars = 80"

text \<open>The ellipsis is one character of three bytes.\<close>

definition shorten :: "string \<Rightarrow> string" where
  "shorten s =
     (if length s \<le> previewMaxChars then s
      else take previewMaxChars s @ [CHR 0xE2, CHR 0x80, CHR 0xA6] @ '' ('' @ Itoa (int (length s)) @ '' chars)'')"

definition shortened :: "ConsoleEmail \<Rightarrow> ConsoleEmail" where
  "shortened email =
     email\<lparr>co_Body := shorten (co_Body email),
       co_Attachments := map (\<lambda>a. a\<lparr>wa_Data := shorten (wa_Data a)\<rparr>) (co_Attachments email)\<rparr>"

definition previewJSON :: "ConsoleEmail \<Rightarrow> string" where
  "previewJSON email = MarshalIndent (console_json (shortened email))"

text \<open>\<open>show_time\<close> writes a time in the zone in which it was read.\<close>

definition console_event_json :: "(int \<Rightarrow> string) \<Rightarrow> ClientEvent \<Rightarrow> json" where
  "console_event_json show_time ev =
     JObj ([(''id'', JStr (ce_ID ev)), (''subject'', JStr (ce_Subject ev)), (''status'', JStr (ce_Status ev))]
       @ omitempty ''errorCode'' (ce_ErrorCode ev) @ omitempty ''cause'' (ce_Cause ev)
       @ [(''occurredAt'', JStr (show_time (ce_OccurredAt ev)))])"

definition responseJSON :: "(int \<Rightarrow> string) \<Rightarrow> api_response option \<Rightarrow> string" where
  "responseJSON show_time response =
     (case response of
        None \<Rightarrow> []
      | Some r \<Rightarrow> if ar_Raw r \<noteq> [] then ar_Raw r else MarshalIndent (console_event_json show_time (ar_Event r)))"

section \<open>Pages\<close>

record web_settings =
  st_MailerEnv :: string
  st_Queue :: string
  st_MailpitPublicURL :: string
  st_CallbackSuccessURL :: string
  st_CallbackFailureURL :: string

record pageData =
  pd_Settings :: web_settings
  pd_DefaultFrom :: string
  pd_SampleHTML :: string

record resultData =
  rd_Result :: SendResult
  rd_Payload :: string
  rd_Response :: string
  rd_Error :: string

record statusData =
  sd_Status :: console_status
  sd_MailerEnv :: string

record inboxData =
  id_Messages :: "InboxMessage list"
  id_MailpitPublicURL :: string
  id_Error :: string

record callbacksData =
  cd_Events :: "CallbackEvent list"
  cd_Error :: string

record deadLettersData =
  dd_Letters :: "DeadLetter list"
  dd_Error :: string

record chaosData =
  xd_View :: ChaosView
  xd_Presets :: "mockPreset list"
  xd_EnvelopeOptions :: "(int \<times> string) list"
  xd_AuthOptions :: "(int \<times> string) list"
  xd_Error :: string

text \<open>A template with its data.\<close>

datatype page =
    IndexPage pageData
  | ResultPage resultData
  | StatusPage statusData
  | InboxPage inboxData
  | CallbacksPage callbacksData
  | DeadLettersPage deadLettersData
  | ChaosPage chaosData

record 'w web_server =
  ws_console :: "'w console_deps"
  ws_settings :: web_settings
  ws_templates :: "page \<Rightarrow> goerr + string"
  ws_sampleHTML :: string

text \<open>\<open>web_NewServer\<close>, given what parsing the embedded templates and reading the sample result in.\<close>

definition web_NewServer ::
  "goerr + (page \<Rightarrow> goerr + string) \<Rightarrow> goerr + string \<Rightarrow> 'w console_deps \<Rightarrow> web_settings \<Rightarrow> goerr + 'w web_server"
where
  "web_NewServer templates sample console settings =
     (case templates of
        Inl err \<Rightarrow> Inl (Wrapped ''parse templates: '' err)
      | Inr render_page \<Rightarrow>
          (case sample of
             Inl err \<Rightarrow> Inl (Wrapped ''read sample email: '' err)
           | Inr html \<Rightarrow>
               Inr \<lparr>ws_console = console, ws_settings = settings, ws_templates = render_page, ws_sampleHTML = html\<rparr>))"

text \<open>The page is rendered before anything is written.\<close>

definition render :: "'w web_server \<Rightarrow> page \<Rightarrow> int \<Rightarrow> server_response" where
  "render s page status =
     (case ws_templates s page of
        Inl err \<Rightarrow> http_Error [] (''template error: '' @ Error_text err) 500
      | Inr body \<Rightarrow>
          \<lparr>sr_Status = status, sr_Header = [(''Content-Type'', ''text/html; charset=utf-8'')], sr_Body = body\<rparr>)"

section \<open>Handlers\<close>

record web_request =
  wr_Method :: string
  wr_Path :: string
  wr_Multipart :: "goerr option"
  wr_Form :: "string \<Rightarrow> string"
  wr_Uploads :: "upload list"

definition web_index :: "'w web_server \<Rightarrow> 'w \<Rightarrow> server_response \<times> 'w" where
  "web_index s w =
     (render s (IndexPage \<lparr>pd_Settings = ws_settings s, pd_DefaultFrom = defaultFrom (st_MailerEnv (ws_settings s)),
        pd_SampleHTML = ws_sampleHTML s\<rparr>) 200, w)"

text \<open>The zero value of the result, and the page of a form that was sent or failed.\<close>

definition zero_result :: SendResult where
  "zero_result =
     \<lparr>sres_Email =
        \<lparr>co_ID = [], co_From = [], co_Receiver = NoRecipients, co_Cc = NoRecipients, co_Bcc = NoRecipients,
         co_Subject = [], co_Body = [], co_Attachments = [], co_Callback = None\<rparr>,
      sres_Channel = [], sres_Response = None\<rparr>"

definition result_page :: "(int \<Rightarrow> string) \<Rightarrow> string + SendResult \<Rightarrow> page" where
  "result_page show_time answer =
     ResultPage
       (case answer of
          Inl err \<Rightarrow> \<lparr>rd_Result = zero_result, rd_Payload = [], rd_Response = [], rd_Error = err\<rparr>
        | Inr result \<Rightarrow>
            \<lparr>rd_Result = result, rd_Payload = previewJSON (sres_Email result),
             rd_Response = responseJSON show_time (sres_Response result), rd_Error = []\<rparr>)"

definition handle_send ::
  "'a golib_scheme \<Rightarrow> (int \<Rightarrow> string) \<Rightarrow> 'w web_server \<Rightarrow> web_request \<Rightarrow> 'w \<Rightarrow> server_response \<times> 'w"
where
  "handle_send lib show_time s r w =
     (let ((status, answer), w1) = web_send lib (ws_console s) (wr_Multipart r) (wr_Form r) (wr_Uploads r) w
      in (render s (result_page show_time answer) status, w1))"

definition handle_status :: "'w web_server \<Rightarrow> 'w \<Rightarrow> server_response \<times> 'w" where
  "handle_status s w =
     (let (st, w1) = Console_Status (ws_console s) w
      in (render s (StatusPage \<lparr>sd_Status = st, sd_MailerEnv = st_MailerEnv (ws_settings s)\<rparr>) 200, w1))"

definition renderInbox :: "'w web_server \<Rightarrow> goerr option \<Rightarrow> 'w \<Rightarrow> server_response \<times> 'w" where
  "renderInbox s actionErr w =
     (let ((messages, err), w1) = Console_Inbox (ws_console s) w
      in (render s (InboxPage \<lparr>id_Messages = messages, id_MailpitPublicURL = st_MailpitPublicURL (ws_settings s),
            id_Error = firstError [actionErr, err]\<rparr>) 200, w1))"

definition handle_inbox :: "'w web_server \<Rightarrow> 'w \<Rightarrow> server_response \<times> 'w" where
  "handle_inbox s w = renderInbox s None w"

definition handle_clearInbox :: "'w web_server \<Rightarrow> 'w \<Rightarrow> server_response \<times> 'w" where
  "handle_clearInbox s w = (let (err, w1) = Console_ClearInbox (ws_console s) w in renderInbox s err w1)"

definition renderCallbacks :: "'w web_server \<Rightarrow> goerr option \<Rightarrow> 'w \<Rightarrow> server_response \<times> 'w" where
  "renderCallbacks s actionErr w =
     (let ((events, err), w1) = Console_Callbacks (ws_console s) w
      in (render s (CallbacksPage \<lparr>cd_Events = events, cd_Error = firstError [actionErr, err]\<rparr>) 200, w1))"

definition handle_callbacks :: "'w web_server \<Rightarrow> 'w \<Rightarrow> server_response \<times> 'w" where
  "handle_callbacks s w = renderCallbacks s None w"

definition handle_clearCallbacks :: "'w web_server \<Rightarrow> 'w \<Rightarrow> server_response \<times> 'w" where
  "handle_clearCallbacks s w = (let (err, w1) = Console_ClearCallbacks (ws_console s) w in renderCallbacks s err w1)"

text \<open>\<^const>\<open>None\<close>: the dead letters are still being read.\<close>

definition show_letters :: "'w web_server \<Rightarrow> goerr option \<Rightarrow> 'w \<Rightarrow> (server_response \<times> 'w) option" where
  "show_letters s actionErr w =
     map_option (\<lambda>((letters, err), w1). (render s (DeadLettersPage \<lparr>dd_Letters = letters, dd_Error = err\<rparr>) 200, w1))
       (renderDeadLetters (ws_console s) actionErr w)"

definition handle_deadLetters :: "'w web_server \<Rightarrow> 'w \<Rightarrow> (server_response \<times> 'w) option" where
  "handle_deadLetters s w = show_letters s None w"

definition handle_purgeDeadLetters :: "'w web_server \<Rightarrow> 'w \<Rightarrow> (server_response \<times> 'w) option" where
  "handle_purgeDeadLetters s w = (let (err, w1) = Console_PurgeDeadLetters (ws_console s) w in show_letters s err w1)"

definition renderChaos :: "'w web_server \<Rightarrow> goerr option \<Rightarrow> 'w \<Rightarrow> server_response \<times> 'w" where
  "renderChaos s actionErr w =
     (let (view, w1) = Console_Chaos (ws_console s) w
      in (render s (ChaosPage \<lparr>xd_View = view, xd_Presets = mockPresets, xd_EnvelopeOptions = envelopeOptions,
            xd_AuthOptions = authOptions, xd_Error = firstError [actionErr]\<rparr>) 200, w1))"

definition handle_chaos :: "'w web_server \<Rightarrow> 'w \<Rightarrow> server_response \<times> 'w" where
  "handle_chaos s w = renderChaos s None w"

definition handle_setSMTPChaos :: "'w web_server \<Rightarrow> web_request \<Rightarrow> 'w \<Rightarrow> server_response \<times> 'w" where
  "handle_setSMTPChaos s r w = (let (err, w1) = web_setSMTPChaos (ws_console s) (wr_Form r) w in renderChaos s err w1)"

definition handle_configureMockAPI :: "'w web_server \<Rightarrow> web_request \<Rightarrow> 'w \<Rightarrow> server_response \<times> 'w" where
  "handle_configureMockAPI s r w =
     (let (err, w1) = web_configureMockAPI (ws_console s) (wr_Form r) w in renderChaos s err w1)"

definition handle_resetChaos :: "'w web_server \<Rightarrow> 'w \<Rightarrow> server_response \<times> 'w" where
  "handle_resetChaos s w = (let (err, w1) = ResetChaos (ws_console s) w in renderChaos s err w1)"

section \<open>Routes\<close>

text \<open>\<open>static\<close> is the file server of the embedded assets; \<open>http.StripPrefix\<close> takes the prefix off the path and off
  its escaped form, and answers 404 when one of them does not have it.\<close>

definition StripPrefix :: "string \<Rightarrow> (string \<Rightarrow> server_response) \<Rightarrow> string \<Rightarrow> server_response" where
  "StripPrefix start h path =
     (if prefix start path \<and> prefix start (pathUnescape path) then h (drop (length start) (pathUnescape path))
      else http_Error [] ''404 page not found'' 404)"

definition Routes ::
  "'a golib_scheme \<Rightarrow> (int \<Rightarrow> string) \<Rightarrow> (string \<Rightarrow> server_response) \<Rightarrow> 'w web_server
    \<Rightarrow> (web_request \<Rightarrow> 'w \<Rightarrow> (server_response \<times> 'w) option) route list"
where
  "Routes lib show_time static s =
     [(Some ''GET'', OnePath ''/'', \<lambda>r w. Some (web_index s w)),
      (Some ''POST'', OnePath ''/send'', \<lambda>r w. Some (handle_send lib show_time s r w)),
      (Some ''GET'', OnePath ''/partials/status'', \<lambda>r w. Some (handle_status s w)),
      (Some ''GET'', OnePath ''/partials/inbox'', \<lambda>r w. Some (handle_inbox s w)),
      (Some ''POST'', OnePath ''/partials/inbox/clear'', \<lambda>r w. Some (handle_clearInbox s w)),
      (Some ''GET'', OnePath ''/partials/callbacks'', \<lambda>r w. Some (handle_callbacks s w)),
      (Some ''POST'', OnePath ''/partials/callbacks/clear'', \<lambda>r w. Some (handle_clearCallbacks s w)),
      (Some ''GET'', OnePath ''/partials/dlq'', \<lambda>r w. handle_deadLetters s w),
      (Some ''POST'', OnePath ''/partials/dlq/purge'', \<lambda>r w. handle_purgeDeadLetters s w),
      (Some ''GET'', OnePath ''/partials/chaos'', \<lambda>r w. Some (handle_chaos s w)),
      (Some ''POST'', OnePath ''/partials/chaos/smtp'', \<lambda>r w. Some (handle_setSMTPChaos s r w)),
      (Some ''POST'', OnePath ''/partials/chaos/api'', \<lambda>r w. Some (handle_configureMockAPI s r w)),
      (Some ''POST'', OnePath ''/partials/chaos/reset'', \<lambda>r w. Some (handle_resetChaos s w)),
      (Some ''GET'', Below ''/static/'', \<lambda>r w. Some (StripPrefix ''/static/'' static (wr_Path r), w))]"

text \<open>\<^const>\<open>None\<close>: the answer waits for dead letters.\<close>

definition web_answer ::
  "int \<Rightarrow> (web_request \<Rightarrow> 'w \<Rightarrow> (server_response \<times> 'w) option) route list \<Rightarrow> web_request \<Rightarrow> 'w
    \<Rightarrow> (server_response \<times> 'w) option"
where
  "web_answer code routes r w =
     (case ServeMux code routes (wr_Method r) (wr_Path r) of
        Inl resp \<Rightarrow> Some (resp, w)
      | Inr h \<Rightarrow> h r w)"

section \<open>Functions of the templates\<close>

text \<open>\<open>offset\<close> is the local zone, in nanoseconds east of UTC.\<close>

definition template_clock :: "int \<Rightarrow> int \<Rightarrow> string" where
  "template_clock offset t =
     (let r = ((t + offset) div Second) mod 86400
      in pad 2 (r div 3600) @ '':'' @ pad 2 (r div 60 mod 60) @ '':'' @ pad 2 (r mod 60))"

definition template_join :: "string list \<Rightarrow> string" where
  "template_join values = Join values '', ''"

definition template_addresses :: "Address list \<Rightarrow> string" where
  "template_addresses l = Join (map ad_Address l) '', ''"

text \<open>\<open>dict\<close> takes keys and values in turn: a key that is no string is the empty key, and a last key without
  a value is dropped.\<close>

datatype 'a template_arg = TextArg string | ValueArg 'a

fun template_dict :: "'a template_arg list \<Rightarrow> (string \<times> 'a template_arg) list" where
  "template_dict (k # v # rest) =
     (let m = template_dict rest; key = (case k of TextArg s \<Rightarrow> s | ValueArg _ \<Rightarrow> [])
      in if key \<in> fst ` set m then m else (key, v) # m)"
| "template_dict _ = []"

section \<open>Facts\<close>

text \<open>Looking changes nothing: the collaborators that publish, delete, purge or configure are only called for
  a POST. For any other request they can be replaced at will.\<close>

definition with_actions :: "'w console_deps \<Rightarrow> 'w console_deps \<Rightarrow> 'w console_deps" where
  "with_actions other deps =
     deps\<lparr>dp_Publisher := dp_Publisher other, dp_KafkaPublisher := dp_KafkaPublisher other, dp_API := dp_API other,
       dp_KafkaQueues := (dp_KafkaQueues deps)\<lparr>qm_PurgeDeadLetters := qm_PurgeDeadLetters (dp_KafkaQueues other)\<rparr>,
       dp_Queues := (dp_Queues deps)\<lparr>qm_PurgeDeadLetters := qm_PurgeDeadLetters (dp_Queues other)\<rparr>,
       dp_Inbox_Clear := dp_Inbox_Clear other, dp_SetChaos := dp_SetChaos other, dp_Configure := dp_Configure other,
       dp_Reset := dp_Reset other, dp_Callbacks_Clear := dp_Callbacks_Clear other, dp_NewID := dp_NewID other\<rparr>"

lemma with_actions_reads:
  "dp_Ready (with_actions other d) = dp_Ready d" "dp_Chaos (with_actions other d) = dp_Chaos d"
  "dp_State (with_actions other d) = dp_State d" "dp_Inbox_List (with_actions other d) = dp_Inbox_List d"
  "dp_Callbacks_List (with_actions other d) = dp_Callbacks_List d"
  "qm_Stats (dp_Queues (with_actions other d)) = qm_Stats (dp_Queues d)"
  "qm_Stats (dp_KafkaQueues (with_actions other d)) = qm_Stats (dp_KafkaQueues d)"
  "qm_PeekDeadLetters (dp_Queues (with_actions other d)) = qm_PeekDeadLetters (dp_Queues d)"
  "qm_PeekDeadLetters (dp_KafkaQueues (with_actions other d)) = qm_PeekDeadLetters (dp_KafkaQueues d)"
  by (simp_all add: with_actions_def)

lemma looking_is_safe:
  assumes "wr_Method r \<noteq> ''POST''"
  shows "web_answer code (Routes lib show_time static (s\<lparr>ws_console := with_actions other (ws_console s)\<rparr>)) r w
    = web_answer code (Routes lib show_time static s) r w"
proof -
  let ?s = "s\<lparr>ws_console := with_actions other (ws_console s)\<rparr>"
  have page: "render ?s = render s" by (simp add: render_def fun_eq_iff)
  have reads: "Console_Status (with_actions other d) = Console_Status d" "Console_Inbox (with_actions other d) = Console_Inbox d"
    "Console_Callbacks (with_actions other d) = Console_Callbacks d" "Console_Chaos (with_actions other d) = Console_Chaos d"
    for d
    by (simp_all add: fun_eq_iff with_actions_reads Console_Status_def Console_Inbox_def Console_Callbacks_def Console_Chaos_def)
  have letters: "Console_DeadLetters (with_actions other d) = Console_DeadLetters d" for d
    by (intro ext) (simp add: with_actions_reads Console_DeadLetters_def split: option.split prod.split)
  have "web_index ?s = web_index s" "handle_status ?s = handle_status s" "handle_inbox ?s = handle_inbox s"
    "handle_callbacks ?s = handle_callbacks s" "handle_deadLetters ?s = handle_deadLetters s" "handle_chaos ?s = handle_chaos s"
    by (simp_all add: fun_eq_iff page reads letters web_index_def handle_status_def handle_inbox_def renderInbox_def
        handle_callbacks_def renderCallbacks_def handle_deadLetters_def show_letters_def renderDeadLetters_def
        handle_chaos_def renderChaos_def)
  then have "list_all2 (same_for (wr_Method r)) (Routes lib show_time static ?s) (Routes lib show_time static s)"
    using assms by (simp add: Routes_def same_for_def)
  then show ?thesis by (simp add: web_answer_def ServeMux_same)
qed

text \<open>The preview of a sent message is a message: the service would read it as the message sent, with the
  long texts cut.\<close>

lemma preview_read_back:
  assumes "utf8_json (console_json (shortened e))" "callback_maps (co_Callback e)"
  shows "Unmarshal te decode_email zero_email (previewJSON e) = Inr (console_received (shortened e))"
proof -
  have shape: "depth (console_json (shortened e)) \<le> maxNestingDepth"
    using console_shape(2) [of "shortened e"] by (simp add: maxNestingDepth_def)
  have "callback_maps (co_Callback (shortened e))" using assms(2) by (simp add: shortened_def)
  then show ?thesis
    using parse_indented [OF console_shape(1) shape] decode_console assms(1)
    by (simp add: Unmarshal_def previewJSON_def cleaned_utf8 decode_value_def)
qed

lemma shorten_short: "length s \<le> previewMaxChars \<Longrightarrow> shorten s = s"
  by (simp add: shorten_def)

lemma shortened_short:
  assumes "length (co_Body e) \<le> previewMaxChars" "\<forall>a \<in> set (co_Attachments e). length (wa_Data a) \<le> previewMaxChars"
  shows "shortened e = e"
  using assms by (simp add: shortened_def shorten_short map_idI)

end
