(* ===== verification/Spec2Isabelle.thy ===== *)
theory Spec2Isabelle
  imports Kafka Senders HttpSource ClientTransport RabbitSource Runner KafkaCustody KafkaSteps Lifetime Journey ConsoleService ConsoleWeb
begin

text \<open>
  Verification of gomailer, a Go service that takes email requests from a RabbitMQ queue, a Kafka topic
  or HTTP, delivers them through SMTP or the API of a provider, retries temporary failures, keeps what
  it gives up on as dead letters, and reports outcomes to callbacks; and of its client library.

  \<^bold>\<open>The program and its parts.\<close> \<open>cmd/server/main.go\<close> builds a service (\<open>application/bean/mailer.go\<close>) and
  the sources of requests (\<open>bean/sources.go\<close>) from environment variables (\<open>application/config\<close>) and runs
  the sources and a health server until a signal or a failure (\<open>application/runner\<close>). A source decodes a
  request (\<open>core/model\<close>, \<open>adapter/consumer\<close>, \<open>adapter/httpapi\<close>) and hands it to the service (\<open>core/mailer\<close>),
  which calls one sender (\<open>infrastructure/mailer\<close>) and at most one callback (\<open>infrastructure/callback\<close>) and
  answers with an outcome: done, retry after a wait, or dead letter. The source applies the outcome to its
  broker (\<open>infrastructure/messaging\<close>) or writes it as an HTTP answer. Applications reach the service through
  \<open>client\<close>. All paths are below \<open>src/internal\<close> unless they start with \<open>client\<close>, \<open>cmd\<close> or \<open>.dev\<close>.

  \<^bold>\<open>How the code is modelled.\<close> A Go struct is a record with the fields' names, prefixed where two structs
  share one; a struct with tags is a record with a table of its JSON members; an interface with several
  implementations is a datatype or a function parameter. A Go string is a list of bytes (characters below
  256), a \<open>time.Duration\<close> and a \<open>time.Time\<close> are integers of nanoseconds, and arithmetic that can leave 64 bits
  is wrapped by \<open>wrap64\<close>. An error is a value of \<open>goerr\<close> (theory \<open>Errors\<close>), which keeps the chain that
  \<open>errors.Is\<close> and \<open>errors.As\<close> search; a function that may fail returns \<open>goerr + 'a\<close>, one that only reports
  returns \<open>goerr option\<close>. What the program calls outside itself is the record \<open>'e env\<close> of theory \<open>World\<close>: the
  HTTP client, SMTP sessions, the two brokers, sleeping, the context, the clock, random bytes, and a few
  library functions that only parse or render text. A \<open>'e world\<close> is the unknown state of all that, with the
  trace of the calls made and their results; stateful code takes a world and returns the next, so order and
  number of effects are statements about the trace. Log output is left out.

  \<^bold>\<open>Theories.\<close>
  \<^item> \<open>Prelude\<close>, \<open>GoStrings\<close>, \<open>GoText\<close>, \<open>Base64\<close>, \<open>GoJson\<close>: 64-bit arithmetic, the functions of \<open>strings\<close>,
    \<open>strconv\<close>, \<open>time\<close> formats, UTF-8, \<open>encoding/base64\<close> and the scanner, decoder and encoder of
    \<open>encoding/json\<close> that the program uses, with their round trips.
  \<^item> \<open>Model\<close>, \<open>Errors\<close>, \<open>Message\<close>: \<open>core/model\<close> and \<open>core/mailer/errors.go\<close>: error codes, requests,
    recipients, callbacks, events, ids; decoding of a request and encoding of an event.
  \<^item> \<open>World\<close>: the environment and its trace. \<open>Config\<close>: \<open>application/config\<close> and \<open>rabbitmq_config.go\<close>.
  \<^item> \<open>Retry\<close>, \<open>Service\<close>: \<open>core/mailer\<close>: the retry policy, its delays and the service. The locale \<open>deliverer\<close> is
    what sources rely on; the abstract specification \<open>decide\<close> is refined by \<open>Deliver\<close>.
  \<^item> \<open>Consumer\<close>: \<open>adapter/consumer\<close>; the locale \<open>handler\<close> is the contract of a message handler, and any
    \<open>deliverer\<close> gives one.
  \<^item> \<open>Headers\<close>, \<open>RabbitTopology\<close>, \<open>RabbitMQ\<close>, \<open>RabbitSource\<close>: the RabbitMQ source: queues, dispatch of a
    delivery, connection and consume loop, reconnection and \<open>Run\<close>. \<open>Kafka\<close>: the Kafka source: client options,
    topics, dispatch of a record, batches, rounds, both loops. The locale \<open>queue_transport\<close> bounds the
    attempts of a message for both.
  \<^item> \<open>Ledger\<close>, \<open>Custody\<close>, \<open>KafkaCustody\<close>: the two queue sources as seen from their messages. A run is audited
    against a ledger with one entry for each message: its calls, and whether it was concluded, moved or given
    back. The locale \<open>audit\<close> is what the two accounts share; the locale \<open>quiet_handler\<close> (a handler that calls
    nothing but its transport) is what they ask of a service, and every service the program builds is one.
    \<open>KafkaSteps\<close> cuts the rounds of the two Kafka loops into steps (poll, wait, one record, commit) that interleave
    freely, shows that the rounds are runs of these steps, and keeps the account over every run of them.
  \<^item> \<open>Circulation\<close>, \<open>Lifetime\<close>, \<open>Journey\<close>: one message through its deliveries. The locale \<open>circulation\<close> is the
    contract of a broker and its source under which a message comes to an end, \<open>counted_circulation\<close> the one where
    the refusals are read off the trace. \<open>life\<close> (RabbitMQ) and \<open>record_life\<close> (Kafka) keep it, with the
    broker's redelivery as a parameter; \<open>Journey\<close> follows an email from a client sender to its end.
  \<^item> \<open>Content\<close>, \<open>HttpApi\<close>, \<open>Resend\<close>, \<open>ZeptoMail\<close>, \<open>Zoho\<close>, \<open>Smtp\<close>, \<open>Senders\<close>: \<open>core/decoder\<close>,
    \<open>infrastructure/mailer\<close> and \<open>bean/mailer.go\<close>. The locale \<open>sender_contract\<close> is what every sender keeps;
    each is an interpretation. \<open>Notifier\<close>: \<open>infrastructure/callback\<close>.
  \<^item> \<open>GoHttp\<close>, \<open>HttpSource\<close>: the multiplexer of \<open>net/http\<close> with its answers to paths that are not clean, and \<open>adapter/httpapi\<close> from the route and the bearer
    token to the response.
  \<^item> \<open>Runner\<close>: \<open>bean/sources.go\<close>, the listener of \<open>httpapi/server.go\<close>, \<open>infrastructure/health\<close>,
    \<open>application/runner\<close> as a step relation over the goroutines (the locale \<open>stoppable\<close> is what it expects of
    a task), and the setup of \<open>main\<close>.
  \<^item> \<open>Client\<close>, \<open>ClientHttp\<close>, \<open>ClientQueues\<close>, \<open>ClientTransport\<close>: \<open>client\<close>, \<open>client/rabbitmq\<close>, \<open>client/kafka\<close>,
    \<open>client/transport\<close>; the locale \<open>queue_sender\<close> is the contract of the two queue senders.
  \<^item> \<open>Console\<close>, \<open>ConsoleMonitor\<close>, \<open>ConsoleService\<close>, \<open>GoIndent\<close>, \<open>ConsoleWeb\<close>: the development console
    \<open>.dev/console\<close>: the message it builds from a form and its publishers; the clients with which it watches the
    brokers and drives the mock services; its use cases, failure scenarios and wiring; its pages with their
    routes, data and preview.

  \<^bold>\<open>What the theorems show.\<close> The decision of the service refines its documented table, no callback is called
  before a retry, a sent email is never sent again because of its callback, and an invalid body or an
  incomplete email is final (\<open>Service\<close>, \<open>Senders\<close>). A delivery or record is settled exactly once and only
  acknowledged when its copy is safe, its copy carries the next attempt, and the attempts of a message are counted
  up to \<open>MaxAttempts\<close> over either broker, where a message delivered again repeats its attempt (\<open>RabbitMQ\<close>, \<open>Kafka\<close>). Over a whole run no message is lost: each is
  concluded by calls of its own, given back to the broker, or replaced by a copy that the broker confirmed
  (\<open>Custody\<close>); what the Kafka source commits is concluded or copied (\<open>KafkaCustody\<close>), and so however its loops
  interleave within their rounds (\<open>KafkaSteps\<close>); each message comes to rest
  after its attempts and the refusals of the broker are used up (\<open>Lifetime\<close>); and so an email that a queue client
  reports as sent ends as sent, as a failure its callback took, or as a dead letter (\<open>Journey\<close>). The sources never panic, end only with their
  context, reconnect within their bounds, and the program stops as a whole and reports exactly what failed
  (\<open>RabbitSource\<close>, \<open>Runner\<close>). Each sender reports success only for an accepted email and classifies every
  failure (\<open>Smtp\<close>, \<open>Resend\<close>, \<open>ZeptoMail\<close>, \<open>Zoho\<close>); the HTTP source answers only authorized requests and
  delivers each once. From end to end, what an application builds with the client is what the service
  delivers, and what the client reports is what happened (\<open>Client\<close>, \<open>ClientHttp\<close>, \<open>ClientQueues\<close>). The
  development console, which builds its messages on its own, agrees with the service: on the messages it sends,
  on the dead letters it shows, on the lag it counts, and on the error codes its failure scenarios announce
  (\<open>Console\<close>, \<open>ConsoleMonitor\<close>, \<open>ConsoleService\<close>).
  Some theorems show where the code does not do what it means to: a Kafka record whose copy cannot be
  produced is skipped (\<open>unresolved_record_skipped\<close>), an accepted email with an unreadable answer is sent again
  (\<open>accepted_email_retried\<close>), a partition count is truncated to zero (\<open>kafka_partitions_truncated\<close>), a
  lost channel leaks its connection (\<open>dropped_channel_keeps_connection\<close>), an address with a comma in its display name
  passes the client's check and is split by the server (\<open>quoted_comma_split\<close>), and an SMTP greeting of 421 is not
  reported as the README says (\<open>smtp_failed_session\<close>).

  \<^bold>\<open>Bounds.\<close> Loops over data are structural or have a measure. The loops that may run for ever are
  \<open>connect_loop\<close> and \<open>kafka_connect\<close>, which take the number of attempts and give \<open>None\<close> when it is used up
  (\<open>connect_returns\<close>: one more than the index of the attempt that succeeds is enough), and the consume loops,
  which take the events they receive, round by round or as a schedule, and are still waiting when these are
  used up, and the console's peek at dead letters (\<open>read_letters\<close>), which takes the number of polls
  (\<open>read_letters_returns\<close>); \<open>life\<close> and \<open>record_life\<close> take the number of deliveries, and \<open>message_comes_to_rest\<close> and
  \<open>kafka_request_comes_to_rest\<close> say how many are enough; the theorems hold for every number and schedule. Facts about delays assume a cap of at most
  \<open>2 ^ 62\<close> ns on the retry wait (146 years), which keeps the doubling within 64 bits; every accepted
  configuration below that cap qualifies.

  \<^bold>\<open>Parameters and hypotheses.\<close> Nothing is assumed of the environment but, where a theorem names it, what the
  documentation of the library says: \<open>context_laws\<close> (reading \<open>ctx.Err()\<close> changes nothing, and it is not nil once
  \<open>Done\<close> is closed), that a broker redelivers an expired copy with its body, id and headers (\<open>redelivers\<close>), and a record as it was
  produced (\<open>kafka_redelivers\<close>), that the requests of a client reach the server at its URL and its answers come back
  (\<open>reaches\<close>), and that \<open>time.Time\<close> reads back what it wrote. Each such theorem has a witness with a
  concrete environment. The status with which \<open>ServeMux\<close> redirects a path that is not clean depends on the release of
  Go and is an argument (\<open>code\<close>) of the answers of the servers. Where JSON carries texts from one part to another the
  theorems ask that they are valid UTF-8 (\<open>utf8_json\<close>), as Go replaces other bytes, and that a map of headers names no
  header twice (\<open>callback_maps\<close>).

  \<^bold>\<open>Not modelled.\<close> The bodies of libraries (\<open>net/http\<close>, \<open>net/smtp\<close>, \<open>amqp091-go\<close>, \<open>franz-go\<close>): their calls are
  the environment. Logging, time-outs as such (they are answers of the environment), and interleavings
  within the handling of one Kafka record with its copy, which is one step. Of the development console the HTML templates and the static files, which
  are assets (the templates are a parameter that renders the data of a page); the mock services beside it are
  Python scripts and not part of the program.
\<close>

end
